(* ===== verification/Prelude.thy ===== *)
theory Prelude
  imports Main "HOL-Library.Word"
begin

text \<open>
  Shared vocabulary of the development: the C integer types as machine words, the ways
  a C operation can fail to return as a datatype, the result type that threads such
  failures through the model, the splitting of a 16-bit word into its two bytes, and the
  collections of rewrite rules that the component theories fill.
\<close>

unbundle bit_operations_syntax

type_synonym u8 = "8 word"
type_synonym u16 = "16 word"
type_synonym u32 = "32 word"

section \<open>Failures and results\<close>

text \<open>
  \<open>Bus_Hang a\<close>: the caller blocks for ever on a bus cycle at bus address \<open>a\<close>, because no
  device on the bus answers it. \<open>Null_Deref\<close>: a null pointer is dereferenced.
  \<open>Out_Of_Bounds i\<close>: an array is indexed at \<open>i\<close>, outside its bounds. \<open>Stack_Exhausted\<close>:
  calls nest deeper than the stack allows. The last three are undefined behaviour in C; the
  model stops there.
\<close>

datatype fault = Bus_Hang u32 | Null_Deref | Out_Of_Bounds int | Stack_Exhausted

type_synonym 'a res = "fault + 'a"

definition rbind :: "'a res \<Rightarrow> ('a \<Rightarrow> 'b res) \<Rightarrow> 'b res" where
  "rbind r f = (case r of Inl e \<Rightarrow> Inl e | Inr x \<Rightarrow> f x)"

named_theorems res_simps \<open>equations of the result monad\<close>
named_theorems word_facts \<open>facts on the bit patterns the code uses\<close>
named_theorems frame \<open>which fields an operation leaves alone\<close>
named_theorems wf_intros \<open>operations keep the well-formedness invariant\<close>

lemma rbind_Inl [simp, res_simps]: "rbind (Inl e) f = Inl e"
  by (simp add: rbind_def)

lemma rbind_Inr [simp, res_simps]: "rbind (Inr x) f = f x"
  by (simp add: rbind_def)

lemma rbind_eq_Inr: "rbind r f = Inr y \<longleftrightarrow> (\<exists>x. r = Inr x \<and> f x = Inr y)"
  by (cases r) auto

lemma rbind_eq_Inl: "rbind r f = Inl e \<longleftrightarrow> r = Inl e \<or> (\<exists>x. r = Inr x \<and> f x = Inl e)"
  by (cases r) auto

lemma rbind_assoc: "rbind (rbind r f) g = rbind r (\<lambda>x. rbind (f x) g)"
  by (cases r) auto

lemma rbind_cong: "r = r' \<Longrightarrow> (\<And>x. r' = Inr x \<Longrightarrow> f x = g x) \<Longrightarrow> rbind r f = rbind r' g"
  by (cases r') auto

text \<open>
  A postcondition of a result: \<open>res_all E P r\<close> says that a returned value satisfies \<open>P\<close>
  and that a failure satisfies \<open>E\<close>.
\<close>

definition res_all :: "(fault \<Rightarrow> bool) \<Rightarrow> ('a \<Rightarrow> bool) \<Rightarrow> 'a res \<Rightarrow> bool" where
  "res_all E P r = (case r of Inl e \<Rightarrow> E e | Inr x \<Rightarrow> P x)"

lemma res_all_simps [simp, res_simps]:
  "res_all E P (Inl e) = E e"
  "res_all E P (Inr x) = P x"
  by (simp_all add: res_all_def)

lemma res_all_rbind:
  assumes "res_all E P r" and "\<And>x. P x \<Longrightarrow> res_all E Q (f x)"
  shows "res_all E Q (rbind r f)"
  using assms by (cases r) auto

lemma res_all_rbind2:
  assumes "res_all E (\<lambda>(d, m). P d m) r" and "\<And>d m. P d m \<Longrightarrow> res_all E Q (f (d, m))"
  shows "res_all E Q (rbind r f)"
  using assms by (cases r) auto

lemma res_all_rbind_iff:
  "res_all E Q (rbind r f) \<longleftrightarrow> res_all E (\<lambda>x. res_all E Q (f x)) r"
  by (cases r) auto

lemma res_all_mono:
  assumes "res_all E P r" and "\<And>e. E e \<Longrightarrow> E' e" and "\<And>x. P x \<Longrightarrow> Q x"
  shows "res_all E' Q r"
  using assms by (cases r) auto

lemma res_all_conj:
  "res_all E (\<lambda>x. P x \<and> Q x) r \<longleftrightarrow> res_all E P r \<and> res_all E Q r"
  by (cases r) auto

lemma res_all_Inr: "res_all E P r \<Longrightarrow> r = Inr x \<Longrightarrow> P x"
  by simp

lemma res_all_Inl: "res_all E P r \<Longrightarrow> r = Inl e \<Longrightarrow> E e"
  by simp

text \<open>Two results agree: the same failure, or returned values related by \<open>R\<close>.\<close>

definition res_rel :: "('a \<Rightarrow> 'b \<Rightarrow> bool) \<Rightarrow> 'a res \<Rightarrow> 'b res \<Rightarrow> bool" where
  "res_rel R r s = rel_sum (=) R r s"

lemma res_rel_simps [simp, res_simps]:
  "res_rel R (Inl e) (Inl e') = (e = e')"
  "res_rel R (Inr x) (Inr y) = R x y"
  "res_rel R (Inl e) (Inr y) = False"
  "res_rel R (Inr x) (Inl e') = False"
  by (simp_all add: res_rel_def)

lemma res_rel_rbind:
  assumes "res_rel R r s" and "\<And>x y. R x y \<Longrightarrow> res_rel S (f x) (g y)"
  shows "res_rel S (rbind r f) (rbind s g)"
  using assms by (cases r; cases s) auto

section \<open>Bytes and words\<close>

text \<open>
  \<open>w & 0377\<close> and \<open>(w & 0177400) >> 8\<close>, stored in a byte; \<open>lo | (hi << 8)\<close> of two bytes.
\<close>

definition lo_byte :: "u16 \<Rightarrow> u8" where
  "lo_byte w = ucast (w AND 0xFF)"

definition hi_byte :: "u16 \<Rightarrow> u8" where
  "hi_byte w = ucast (drop_bit 8 (w AND 0xFF00))"

definition le_word :: "u8 \<Rightarrow> u8 \<Rightarrow> u16" where
  "le_word lo hi = ucast lo OR push_bit 8 (ucast hi)"

text \<open>The two bytes of a word in the order in which a file holds them.\<close>

definition word_bytes :: "u16 \<Rightarrow> u8 list" where
  "word_bytes w = [lo_byte w, hi_byte w]"

text \<open>The masks of the code as \<^const>\<open>mask\<close>s, the form that \<open>bit_simps\<close> works on.\<close>

lemma mask_0xFF [word_facts]: "(0xFF :: 'a::len word) = mask 8"
  by (simp add: mask_eq_exp_minus_1)

lemma mask_0xFF00 [word_facts]: "(0xFF00 :: 'a::len word) = push_bit 8 (mask 8)"
  by (simp add: mask_eq_exp_minus_1 push_bit_eq_mult)

lemma le_word_bytes [simp]: "le_word (lo_byte w) (hi_byte w) = w"
  unfolding le_word_def lo_byte_def hi_byte_def word_facts
  by (rule bit_word_eqI) (auto simp: bit_simps dest: bit_imp_le_length)

lemma lo_byte_le_word [simp]: "lo_byte (le_word l h) = l"
  unfolding le_word_def lo_byte_def word_facts
  by (rule bit_word_eqI) (auto simp: bit_simps dest: bit_imp_le_length)

lemma hi_byte_le_word [simp]: "hi_byte (le_word l h) = h"
  unfolding le_word_def hi_byte_def word_facts
  by (rule bit_word_eqI) (auto simp: bit_simps dest: bit_imp_le_length)

lemma le_word_inject [simp]: "le_word l h = le_word l' h' \<longleftrightarrow> l = l' \<and> h = h'"
  by (metis hi_byte_le_word lo_byte_le_word)

lemma low_byte_of_word: "ucast (w AND 0xFF :: u16) = lo_byte w"
  by (simp add: lo_byte_def)

lemma le_word_and_0xFF [simp]: "le_word l h AND 0xFF = ucast l"
  unfolding le_word_def word_facts
  by (rule bit_word_eqI) (auto simp: bit_simps dest: bit_imp_le_length)

section \<open>Instruction words\<close>

text \<open>The operand fields of an instruction word.\<close>

definition src_reg :: "u16 \<Rightarrow> u16" where "src_reg w = drop_bit 6 (w AND 0x1C0)"
definition src_mode :: "u16 \<Rightarrow> u16" where "src_mode w = drop_bit 9 (w AND 0xE00)"
definition dest_reg :: "u16 \<Rightarrow> u16" where "dest_reg w = w AND 0x7"
definition dest_mode :: "u16 \<Rightarrow> u16" where "dest_mode w = drop_bit 3 (w AND 0x38)"

section \<open>Unsigned values\<close>

lemma uint_int_unat: "uint a = int (unat a)"
  by simp

lemma uint_less_nat: "uint a < int n \<longleftrightarrow> unat a < n"
  by (simp only: uint_int_unat of_nat_less_iff)

lemma nat_uint_Suc: "nat (uint a + 1) = unat a + 1"
  by (simp add: nat_add_distrib)

lemma unat_ucast_u16: "unat a \<le> 65535 \<Longrightarrow> unat (ucast (a :: u32) :: u16) = unat a"
  by (simp add: unsigned_ucast_eq take_bit_nat_eq_self)

lemma unat_Suc_u32: "unat (a :: u32) \<le> 65535 \<Longrightarrow> unat (a + 1) = unat a + 1"
  by (simp add: unat_word_ariths)

lemma ucast_u8_u16_inverse [simp]: "ucast (ucast (b :: u8) :: u16) = b"
  by (rule bit_word_eqI) (simp add: bit_simps)

lemma ucast_u16_u32_inverse [simp]: "ucast (ucast (w :: u16) :: u32) = w"
  by (rule bit_word_eqI) (simp add: bit_simps)

lemma sint_u32_pos: 
  assumes "unat (w :: u32) < 2147483648"
  shows "sint w = int (unat w)"
proof -
  have "signed_take_bit 31 (uint w) = uint w"
  proof (rule signed_take_bit_int_eq_self)
    show "- (2 ^ 31) \<le> uint w" by (rule order.trans [of _ 0]) simp_all
    show "uint w < 2 ^ 31" using assms uint_less_nat [of w 2147483648] by simp
  qed
  then show ?thesis by (simp add: sint_uint)
qed

lemma sint_u32_neg:
  assumes "2147483648 \<le> unat (w :: u32)"
  shows "sint w < 0"
proof -
  have "unat w < 2 ^ 32" using unsigned_less [of w] by simp
  with assms have "unat w div 2 ^ 31 = 1" by (simp add: div_nat_eqI)
  then have "bit (unat w) 31" by (simp add: bit_iff_odd)
  then have "bit (uint w) 31" by (simp add: bit_unsigned_iff)
  then show ?thesis by (simp add: sint_uint signed_take_bit_negative_iff)
qed
lemma unat_u16_less: "unat (w :: u16) < 65536"
proof -
  have "unat w < 2 ^ 16" using unsigned_less [of w] by simp
  then show ?thesis by simp
qed

lemma unat_half: "unat (drop_bit 1 (w :: u16)) = unat w div 2"
proof -
  have "unat w < 2 ^ 16" using unsigned_less [of w] by simp
  then have "take_bit 16 (unat w) = unat w" by (rule take_bit_nat_eq_self)
  then show ?thesis by (simp only: unsigned_drop_bit_eq) (simp add: drop_bit_eq_div)
qed

end
