(* ===== verification/Bus_Iface.thy ===== *)
theory Bus_Iface
  imports Prelude
begin

text \<open>
  The interface a bus master uses (\<open>src/src/libunibus/device_bus_mgr.h\<close>, the master
  functions), as a record of operations on a bus state of any type, and its contract as a
  locale. The CPU is modelled over the record, so that the same instructions run on the
  flat memory of theory \<open>Mem\<close> and on the message-passing bus of theory \<open>Unibus\<close>.
\<close>

section \<open>The master functions of the bus\<close>

text \<open>
  Each function blocks until the bus cycle is complete; a cycle that is never answered is
  the failure \<^const>\<open>Bus_Hang\<close>.
\<close>

record 'b bus_ops =
  read_data_in :: "u32 \<Rightarrow> 'b \<Rightarrow> (u16 \<times> 'b) res"
  write_data_out :: "u32 \<Rightarrow> u16 \<Rightarrow> 'b \<Rightarrow> 'b res"
  write_data_out_b :: "u32 \<Rightarrow> u8 \<Rightarrow> 'b \<Rightarrow> 'b res"

section \<open>The contract: a byte-addressed little-endian memory\<close>

text \<open>
  \<open>cell b i\<close> is the byte at bus address \<open>i\<close> in bus state \<open>b\<close>; words and bytes below \<open>lim\<close>
  can be read and written; a cycle above \<open>top\<close> is never answered.
\<close>

locale bus_memory =
  fixes B :: "'b bus_ops"
    and inv :: "'b \<Rightarrow> bool"
    and cell :: "'b \<Rightarrow> nat \<Rightarrow> u8"
    and lim :: nat
    and top :: nat
  assumes read_ok: "inv b \<Longrightarrow> unat a + 1 < lim \<Longrightarrow>
      \<exists>b'. read_data_in B a b = Inr (le_word (cell b (unat a)) (cell b (unat a + 1)), b')
           \<and> inv b' \<and> cell b' = cell b"
    and write_ok: "inv b \<Longrightarrow> unat a + 1 < lim \<Longrightarrow>
      \<exists>b'. write_data_out B a w b = Inr b' \<and> inv b'
           \<and> cell b' = (cell b)(unat a := lo_byte w, unat a + 1 := hi_byte w)"
    and writeb_ok: "inv b \<Longrightarrow> unat a < lim \<Longrightarrow>
      \<exists>b'. write_data_out_b B a v b = Inr b' \<and> inv b' \<and> cell b' = (cell b)(unat a := v)"
    and read_hang: "inv b \<Longrightarrow> top < unat a \<Longrightarrow> read_data_in B a b = Inl (Bus_Hang a)"
    and write_hang: "inv b \<Longrightarrow> top < unat a \<Longrightarrow> write_data_out B a w b = Inl (Bus_Hang a)"
    and writeb_hang: "inv b \<Longrightarrow> top < unat a \<Longrightarrow> write_data_out_b B a v b = Inl (Bus_Hang a)"
begin

text \<open>A word that was written is read back.\<close>

lemma write_then_read:
  assumes "inv b" and "unat a + 1 < lim" and "write_data_out B a w b = Inr b'"
  shows "\<exists>b''. read_data_in B a b' = Inr (w, b'')"
  using assms write_ok [of b a w] read_ok [of b' a] by auto

text \<open>A byte that was written is the low byte of the word read at the same address.\<close>

lemma writeb_then_read:
  assumes "inv b" and "unat a + 1 < lim" and "write_data_out_b B a v b = Inr b'"
  shows "\<exists>h b''. read_data_in B a b' = Inr (le_word v h, b'')"
  using assms writeb_ok [of b a v] read_ok [of b' a] by auto

text \<open>A write to disjoint cells does not change what is read.\<close>

lemma write_read_disjoint:
  assumes "inv b" and "unat a + 1 < lim" and "unat c + 1 < lim"
    and "write_data_out B a w b = Inr b'"
    and "unat a + 1 < unat c \<or> unat c + 1 < unat a"
  shows "map_sum id fst (read_data_in B c b') = map_sum id fst (read_data_in B c b)"
  using assms write_ok [of b a w] read_ok [of b' c] read_ok [of b c] by auto

end

end
