(* ===== verification/Cpu_State.thy ===== *)
theory Cpu_State
  imports Bus_Iface
begin

text \<open>
  The state of the CPU of \<open>src/src/cpu/cpu.c\<close>, its opcodes and their decoding, the
  register file and its bus addresses, and the two ways data enters and leaves the CPU:
  \<open>fetch_data\<close> and \<open>store_data\<close>. The code's octal constants are written in hexadecimal.
\<close>

section \<open>Processor status\<close>

abbreviation (input) CARRYFLAG :: u16 where "CARRYFLAG \<equiv> 0x1"
abbreviation (input) OVERFLOWFLAG :: u16 where "OVERFLOWFLAG \<equiv> 0x2"
abbreviation (input) ZEROFLAG :: u16 where "ZEROFLAG \<equiv> 0x4"
abbreviation (input) NEGATIVEFLAG :: u16 where "NEGATIVEFLAG \<equiv> 0x8"

section \<open>Opcodes\<close>

datatype (plugins only: code size) opcode =
  BR_op | BNE_op | BEQ_op | BGE_op | BLT_op | BGT_op | BLE_op | BPL_op | BMI_op |
  BHI_op | BLOS_op | BVC_op | BVS_op | BCC_op | BCS_op | MUL_op | DIV_op | ASH_op |
  ASHC_op | XOR_op | JSR_op | RTS_op | MOV_op | MOVB_op | CMP_op | CMPB_op | BIT_op |
  BITB_op | BIC_op | BICB_op | BIS_op | BISB_op | ADD_op | SUB_op | JMP_op | SWAB_op |
  CLR_op | CLRB_op | COM_op | COMB_op | INC_op | INCB_op | DEC_op | DECB_op | NEG_op |
  NEGB_op | ADC_op | ADCB_op | SBC_op | SBCB_op | TST_op | TSTB_op | ROR_op | RORB_op |
  ROL_op | ROLB_op | ASR_op | ASRB_op | ASL_op | ASLB_op | MTPS_op | MFPI_op | MFPD_op |
  MTPI_op | MTPD_op | SXT_op | MFPS_op

primrec op_value :: "opcode \<Rightarrow> u16" where
  "op_value BR_op = 0x0100"
| "op_value BNE_op = 0x0200"
| "op_value BEQ_op = 0x0300"
| "op_value BGE_op = 0x0400"
| "op_value BLT_op = 0x0500"
| "op_value BGT_op = 0x0600"
| "op_value BLE_op = 0x0700"
| "op_value BPL_op = 0x8000"
| "op_value BMI_op = 0x8100"
| "op_value BHI_op = 0x8200"
| "op_value BLOS_op = 0x8300"
| "op_value BVC_op = 0x8400"
| "op_value BVS_op = 0x8500"
| "op_value BCC_op = 0x8600"
| "op_value BCS_op = 0x8700"
| "op_value MUL_op = 0x7000"
| "op_value DIV_op = 0x7200"
| "op_value ASH_op = 0x7400"
| "op_value ASHC_op = 0x7600"
| "op_value XOR_op = 0x7800"
| "op_value JSR_op = 0x0800"
| "op_value RTS_op = 0x0080"
| "op_value MOV_op = 0x1000"
| "op_value MOVB_op = 0x9000"
| "op_value CMP_op = 0x2000"
| "op_value CMPB_op = 0xA000"
| "op_value BIT_op = 0x3000"
| "op_value BITB_op = 0xB000"
| "op_value BIC_op = 0x4000"
| "op_value BICB_op = 0xC000"
| "op_value BIS_op = 0x5000"
| "op_value BISB_op = 0xD000"
| "op_value ADD_op = 0x6000"
| "op_value SUB_op = 0xE000"
| "op_value JMP_op = 0x0040"
| "op_value SWAB_op = 0x00C0"
| "op_value CLR_op = 0x0A00"
| "op_value CLRB_op = 0x8A00"
| "op_value COM_op = 0x0A40"
| "op_value COMB_op = 0x8A40"
| "op_value INC_op = 0x0A80"
| "op_value INCB_op = 0x8A80"
| "op_value DEC_op = 0x0AC0"
| "op_value DECB_op = 0x8AC0"
| "op_value NEG_op = 0x0B00"
| "op_value NEGB_op = 0x8B00"
| "op_value ADC_op = 0x0B40"
| "op_value ADCB_op = 0x8B40"
| "op_value SBC_op = 0x0B80"
| "op_value SBCB_op = 0x8B80"
| "op_value TST_op = 0x0BC0"
| "op_value TSTB_op = 0x8BC0"
| "op_value ROR_op = 0x0C00"
| "op_value RORB_op = 0x8C00"
| "op_value ROL_op = 0x0C40"
| "op_value ROLB_op = 0x8C40"
| "op_value ASR_op = 0x0C80"
| "op_value ASRB_op = 0x8C80"
| "op_value ASL_op = 0x0CC0"
| "op_value ASLB_op = 0x8CC0"
| "op_value MTPS_op = 0x8D00"
| "op_value MFPI_op = 0x0D40"
| "op_value MFPD_op = 0x8D40"
| "op_value MTPI_op = 0x0D80"
| "op_value MTPD_op = 0x8D80"
| "op_value SXT_op = 0x0DC0"
| "op_value MFPS_op = 0x8DC0"

text \<open>The cases of the four nested switches of \<open>exec_instruction\<close>, in their order.\<close>

definition branch_ops :: "opcode list" where
  "branch_ops =
     [BR_op, BNE_op, BEQ_op, BGE_op, BLT_op, BGT_op, BLE_op, BPL_op, BMI_op, BHI_op,
      BLOS_op, BVC_op, BVS_op, BCC_op, BCS_op]"

definition register_ops :: "opcode list" where
  "register_ops = [MUL_op, DIV_op, ASH_op, ASHC_op, XOR_op, JSR_op]"

definition double_ops :: "opcode list" where
  "double_ops =
     [MOV_op, MOVB_op, CMP_op, CMPB_op, BIT_op, BITB_op, BIC_op, BICB_op, BIS_op,
      BISB_op, ADD_op, SUB_op]"

definition single_ops :: "opcode list" where
  "single_ops =
     [JMP_op, SWAB_op, CLR_op, CLRB_op, COM_op, COMB_op, INC_op, INCB_op, DEC_op,
      DECB_op, NEG_op, NEGB_op, ADC_op, ADCB_op, SBC_op, SBCB_op, TST_op, TSTB_op,
      ROR_op, RORB_op, ROL_op, ROLB_op, ASR_op, ASRB_op, ASL_op, ASLB_op, MTPS_op,
      MFPI_op, MFPD_op, MTPI_op, MTPD_op, SXT_op, MFPS_op, RTS_op]"

text \<open>\<open>switch (v)\<close> over a list of cases; \<open>None\<close> is the default branch.\<close>

definition switch :: "u16 \<Rightarrow> opcode list \<Rightarrow> opcode option" where
  "switch v cs = find (\<lambda>c. op_value c = v) cs"

definition decode :: "u16 \<Rightarrow> opcode option" where
  "decode w =
     (case switch (w AND 0xFF00) branch_ops of
        Some c \<Rightarrow> Some c
      | None \<Rightarrow>
     (case switch (w AND 0xFE00) register_ops of
        Some c \<Rightarrow> Some c
      | None \<Rightarrow>
     (case switch (w AND 0xF000) double_ops of
        Some c \<Rightarrow> Some c
      | None \<Rightarrow> switch (w AND 0xFFC0) single_ops)))"

section \<open>The machine\<close>

record cpu =
  r0 :: u16
  r1 :: u16
  r2 :: u16
  r3 :: u16
  r4 :: u16
  r5 :: u16
  sp :: u16
  pc :: u16
  psw :: u16
  alu :: u16
  ir :: u16
  src_address :: u32
  dest_address :: u32
  halted :: u8

text \<open>The globals \<open>CPU_STATE\<close> and \<open>BUS_REF\<close> together: the CPU with the bus it is attached to.\<close>

record 'b machine = cpu +
  BUS_REF :: 'b

definition init_cpu :: "'b \<Rightarrow> 'b machine" where
  "init_cpu b =
     \<lparr>r0 = 0, r1 = 0, r2 = 0, r3 = 0, r4 = 0, r5 = 0, sp = 0, pc = 0, psw = 0, alu = 0, ir = 0,
      src_address = 0, dest_address = 0, halted = 0, BUS_REF = b\<rparr>"

section \<open>Registers\<close>

text \<open>A pointer to a register of the CPU; the null pointer is \<open>None\<close> of \<open>reg_ptr option\<close>.\<close>

datatype reg_ptr = P_R0 | P_R1 | P_R2 | P_R3 | P_R4 | P_R5 | P_SP | P_PC | P_PSW

fun get_reg :: "reg_ptr \<Rightarrow> 'b machine \<Rightarrow> u16" where
  "get_reg P_R0 m = r0 m"
| "get_reg P_R1 m = r1 m"
| "get_reg P_R2 m = r2 m"
| "get_reg P_R3 m = r3 m"
| "get_reg P_R4 m = r4 m"
| "get_reg P_R5 m = r5 m"
| "get_reg P_SP m = sp m"
| "get_reg P_PC m = pc m"
| "get_reg P_PSW m = psw m"

fun set_reg :: "reg_ptr \<Rightarrow> u16 \<Rightarrow> 'b machine \<Rightarrow> 'b machine" where
  "set_reg P_R0 v m = m\<lparr>r0 := v\<rparr>"
| "set_reg P_R1 v m = m\<lparr>r1 := v\<rparr>"
| "set_reg P_R2 v m = m\<lparr>r2 := v\<rparr>"
| "set_reg P_R3 v m = m\<lparr>r3 := v\<rparr>"
| "set_reg P_R4 v m = m\<lparr>r4 := v\<rparr>"
| "set_reg P_R5 v m = m\<lparr>r5 := v\<rparr>"
| "set_reg P_SP v m = m\<lparr>sp := v\<rparr>"
| "set_reg P_PC v m = m\<lparr>pc := v\<rparr>"
| "set_reg P_PSW v m = m\<lparr>psw := v\<rparr>"

text \<open>The switch on a register number that \<open>inc_register\<close> and \<open>dec_register\<close> share.\<close>

definition register_ref :: "u16 \<Rightarrow> reg_ptr option" where
  "register_ref reg =
     (if reg = 0 then Some P_R0
      else if reg = 1 then Some P_R1
      else if reg = 2 then Some P_R2
      else if reg = 3 then Some P_R3
      else if reg = 4 then Some P_R4
      else if reg = 5 then Some P_R5
      else if reg = 6 then Some P_SP
      else if reg = 7 then Some P_PC
      else if reg = 8 then Some P_PSW
      else None)"

definition inc_register :: "u16 \<Rightarrow> bool \<Rightarrow> 'b machine \<Rightarrow> 'b machine" where
  "inc_register reg is_byte_addr m =
     (case register_ref reg of
        None \<Rightarrow> m
      | Some r \<Rightarrow>
          if is_byte_addr then set_reg r (get_reg r m + 1) m
          else set_reg r (get_reg r m + 2) m)"

definition dec_register :: "u16 \<Rightarrow> bool \<Rightarrow> 'b machine \<Rightarrow> 'b machine" where
  "dec_register reg is_byte_addr m =
     (case register_ref reg of
        None \<Rightarrow> m
      | Some r \<Rightarrow>
          if is_byte_addr then set_reg r (get_reg r m - 1) m
          else set_reg r (get_reg r m - 2) m)"

definition fetch_register_contents :: "u16 \<Rightarrow> 'b machine \<Rightarrow> u16" where
  "fetch_register_contents reg m =
     (if reg = 0 then r0 m
      else if reg = 1 then r1 m
      else if reg = 2 then r2 m
      else if reg = 3 then r3 m
      else if reg = 4 then r4 m
      else if reg = 5 then r5 m
      else if reg = 6 then sp m
      else if reg = 7 then pc m
      else if reg = 8 then psw m
      else 0xFFFF)"

section \<open>Bus addresses\<close>

definition translate_bus_addr :: "u32 \<Rightarrow> u32" where
  "translate_bus_addr a = (if a AND 0xFE00 \<noteq> 0 then a OR 0x38000 else a)"

definition is_internal_bus_addr :: "u32 \<Rightarrow> bool" where
  "is_internal_bus_addr a \<longleftrightarrow>
     a = 0x3FFC0 \<or> a = 0x3FFC1 \<or> a = 0x3FFC2 \<or> a = 0x3FFC3 \<or> a = 0x3FFC4 \<or>
     a = 0x3FFC5 \<or> a = 0x3FFC6 \<or> a = 0x3FFC7 \<or> a = 0x3FFFE"

definition register_to_bus_addr :: "u16 \<Rightarrow> u32" where
  "register_to_bus_addr reg =
     (if reg = 0 then 0x3FFC0
      else if reg = 1 then 0x3FFC1
      else if reg = 2 then 0x3FFC2
      else if reg = 3 then 0x3FFC3
      else if reg = 4 then 0x3FFC4
      else if reg = 5 then 0x3FFC5
      else if reg = 6 then 0x3FFC6
      else if reg = 7 then 0x3FFC7
      else if reg = 8 then 0x3FFFE
      else 0xFFFFFFFF)"

definition bus_addr_to_register :: "u32 \<Rightarrow> reg_ptr option" where
  "bus_addr_to_register a =
     (if a = 0x3FFC0 then Some P_R0
      else if a = 0x3FFC1 then Some P_R1
      else if a = 0x3FFC2 then Some P_R2
      else if a = 0x3FFC3 then Some P_R3
      else if a = 0x3FFC4 then Some P_R4
      else if a = 0x3FFC5 then Some P_R5
      else if a = 0x3FFC6 then Some P_SP
      else if a = 0x3FFC7 then Some P_PC
      else if a = 0x3FFFE then Some P_PSW
      else None)"

section \<open>Data transfers\<close>

definition fetch_data_register :: "u32 \<Rightarrow> 'b machine \<Rightarrow> u16 res" where
  "fetch_data_register a m =
     (case bus_addr_to_register a of None \<Rightarrow> Inl Null_Deref | Some r \<Rightarrow> Inr (get_reg r m))"

definition store_data_register :: "u32 \<Rightarrow> u16 \<Rightarrow> 'b machine \<Rightarrow> 'b machine res" where
  "store_data_register a d m =
     (case bus_addr_to_register a of None \<Rightarrow> Inl Null_Deref | Some r \<Rightarrow> Inr (set_reg r d m))"

definition fetch_data :: "'b bus_ops \<Rightarrow> u32 \<Rightarrow> 'b machine \<Rightarrow> (u16 \<times> 'b machine) res" where
  "fetch_data B a m =
     (if is_internal_bus_addr a then rbind (fetch_data_register a m) (\<lambda>d. Inr (d, m))
      else rbind (read_data_in B (translate_bus_addr a) (BUS_REF m)) (\<lambda>(d, b).
           Inr (d, m\<lparr>BUS_REF := b\<rparr>)))"

definition store_data :: "'b bus_ops \<Rightarrow> u32 \<Rightarrow> u16 \<Rightarrow> 'b machine \<Rightarrow> 'b machine res" where
  "store_data B a d m =
     (if is_internal_bus_addr a then store_data_register a d m
      else rbind (write_data_out B (translate_bus_addr a) d (BUS_REF m)) (\<lambda>b.
           Inr (m\<lparr>BUS_REF := b\<rparr>)))"

definition store_data_b :: "'b bus_ops \<Rightarrow> u32 \<Rightarrow> u8 \<Rightarrow> 'b machine \<Rightarrow> 'b machine res" where
  "store_data_b B a d m =
     (if is_internal_bus_addr a then store_data_register a (ucast d) m
      else rbind (write_data_out_b B (translate_bus_addr a) d (BUS_REF m)) (\<lambda>b.
           Inr (m\<lparr>BUS_REF := b\<rparr>)))"

section \<open>Flags\<close>

definition set_zero_flag :: "u16 \<Rightarrow> 'b machine \<Rightarrow> 'b machine" where
  "set_zero_flag v m =
     (if v = 0 then m\<lparr>psw := psw m OR ZEROFLAG\<rparr>
      else m\<lparr>psw := (if psw m AND ZEROFLAG \<noteq> 0 then psw m XOR ZEROFLAG else psw m)\<rparr>)"

definition set_negative_flag_b :: "u8 \<Rightarrow> 'b machine \<Rightarrow> 'b machine" where
  "set_negative_flag_b v m =
     (if v AND 0x80 \<noteq> 0 then m\<lparr>psw := psw m OR NEGATIVEFLAG\<rparr>
      else m\<lparr>psw := (if psw m AND NEGATIVEFLAG \<noteq> 0 then psw m XOR NEGATIVEFLAG else psw m)\<rparr>)"

definition set_negative_flag_w :: "u16 \<Rightarrow> 'b machine \<Rightarrow> 'b machine" where
  "set_negative_flag_w v m =
     (if v AND 0x8000 \<noteq> 0 then m\<lparr>psw := psw m OR NEGATIVEFLAG\<rparr>
      else m\<lparr>psw := (if psw m AND NEGATIVEFLAG \<noteq> 0 then psw m XOR NEGATIVEFLAG else psw m)\<rparr>)"

definition get_branch_offset :: "'b machine \<Rightarrow> 8 word" where
  "get_branch_offset m = ucast (ir m AND 0xFF)"

end
