(* ===== verification/Cpu_Addr.thy ===== *)
theory Cpu_Addr
  imports Cpu_State
begin

text \<open>
  The addressing modes of \<open>src/src/cpu/cpu.c\<close>. The C functions write an address through a
  pointer \<open>loc\<close> into the CPU state; in the modes they have no case for they leave it as it
  was. The definitions take the old contents of \<open>*loc\<close> and return the new ones.
\<close>

section \<open>Program counter, stack pointer, general registers\<close>

definition setup_pc_addressing ::
  "'b bus_ops \<Rightarrow> u16 \<Rightarrow> u16 \<Rightarrow> u32 \<Rightarrow> 'b machine \<Rightarrow> (u32 \<times> 'b machine) res" where
  "setup_pc_addressing B mode reg loc m =
     (if mode = 0 then Inr (register_to_bus_addr reg, m)
      else if mode = 2 then
        Inr (ucast (pc m), m\<lparr>pc := pc m + 2\<rparr>)
      else if mode = 3 then
        rbind (fetch_data B (ucast (pc m)) m) (\<lambda>(a, m).
        Inr (ucast a, m\<lparr>pc := pc m + 2\<rparr>))
      else if mode = 6 then
        rbind (fetch_data B (ucast (pc m)) m) (\<lambda>(relative, m).
        let m = m\<lparr>pc := pc m + 2\<rparr> in
        Inr (ucast (pc m) + ucast relative, m))
      else Inr (loc, m))"

definition setup_sp_addressing ::
  "'b bus_ops \<Rightarrow> u16 \<Rightarrow> u16 \<Rightarrow> u32 \<Rightarrow> 'b machine \<Rightarrow> (u32 \<times> 'b machine) res" where
  "setup_sp_addressing B mode reg loc m =
     (if mode = 0 then Inr (register_to_bus_addr reg, m)
      else if mode = 1 then Inr (ucast (sp m), m)
      else if mode = 2 then Inr (ucast (sp m), m\<lparr>sp := sp m + 2\<rparr>)
      else if mode = 3 then
        rbind (fetch_data B (ucast (sp m)) m) (\<lambda>(a, m).
        Inr (ucast a, m\<lparr>sp := sp m + 2\<rparr>))
      else if mode = 4 then
        (let m = m\<lparr>sp := sp m - 2\<rparr> in Inr (ucast (sp m), m))
      else if mode = 6 then
        rbind (fetch_data B (ucast (pc m)) m) (\<lambda>(index, m).
        let m = m\<lparr>pc := pc m + 2\<rparr> in
        Inr (ucast (sp m) + ucast index, m))
      else if mode = 7 then
        rbind (fetch_data B (ucast (pc m)) m) (\<lambda>(index, m).
        let m = m\<lparr>pc := pc m + 2\<rparr> in
        rbind (fetch_data B (ucast index + ucast (sp m)) m) (\<lambda>(a, m).
        Inr (ucast a, m)))
      else Inr (loc, m))"

definition setup_general_addressing ::
  "'b bus_ops \<Rightarrow> u16 \<Rightarrow> u16 \<Rightarrow> u32 \<Rightarrow> 'b machine \<Rightarrow> (u32 \<times> 'b machine) res" where
  "setup_general_addressing B mode reg loc m =
     (if mode = 0 then Inr (register_to_bus_addr reg, m)
      else if mode = 1 then Inr (ucast (fetch_register_contents reg m), m)
      else if mode = 2 then
        Inr (ucast (fetch_register_contents reg m), inc_register reg False m)
      else if mode = 3 then
        (let deferred = fetch_register_contents reg m in
         rbind (fetch_data B (ucast deferred) m) (\<lambda>(index, m).
         let m = inc_register reg False m in
         rbind (fetch_data B (ucast index) m) (\<lambda>(a, m).
         Inr (ucast a, m))))
      else if mode = 4 then
        Inr (ucast (fetch_register_contents reg m), dec_register reg False m)
      else if mode = 5 then
        (let deferred = fetch_register_contents reg m in
         rbind (fetch_data B (ucast deferred) m) (\<lambda>(index, m).
         rbind (fetch_data B (ucast index) m) (\<lambda>(a, m).
         rbind (store_data B (ucast deferred) (index - 2) m) (\<lambda>m.
         Inr (ucast a, m)))))
      else if mode = 6 then
        rbind (fetch_data B (ucast (pc m)) m) (\<lambda>(index, m).
        let m = m\<lparr>pc := pc m + 2\<rparr>; deferred = fetch_register_contents reg m in
        rbind (fetch_data B (ucast index + ucast deferred) m) (\<lambda>(a, m).
        Inr (ucast a, m)))
      else if mode = 7 then
        rbind (fetch_data B (ucast (pc m)) m) (\<lambda>(index, m).
        let m = m\<lparr>pc := pc m + 2\<rparr>; deferred = fetch_register_contents reg m in
        rbind (fetch_data B (ucast deferred) m) (\<lambda>(deferred, m).
        rbind (fetch_data B (ucast deferred + ucast index) m) (\<lambda>(a, m).
        Inr (ucast a, m))))
      else Inr (loc, m))"

definition setup_general_byte_addressing ::
  "'b bus_ops \<Rightarrow> u16 \<Rightarrow> u16 \<Rightarrow> u32 \<Rightarrow> 'b machine \<Rightarrow> (u32 \<times> 'b machine) res" where
  "setup_general_byte_addressing B mode reg loc m =
     (if mode = 0 then Inr (register_to_bus_addr reg, m)
      else if mode = 1 then Inr (ucast (fetch_register_contents reg m), m)
      else if mode = 2 then
        Inr (ucast (fetch_register_contents reg m), inc_register reg True m)
      else if mode = 3 then
        (let deferred = fetch_register_contents reg m in
         rbind (fetch_data B (ucast deferred) m) (\<lambda>(index, m).
         let m = inc_register reg True m in
         rbind (fetch_data B (ucast index) m) (\<lambda>(a, m).
         Inr (ucast a, m))))
      else if mode = 4 then
        Inr (ucast (fetch_register_contents reg m), dec_register reg True m)
      else if mode = 5 then
        (let deferred = fetch_register_contents reg m in
         rbind (fetch_data B (ucast deferred) m) (\<lambda>(index, m).
         rbind (fetch_data B (ucast index) m) (\<lambda>(a, m).
         rbind (store_data B (ucast deferred) (index - 1) m) (\<lambda>m.
         Inr (ucast a, m)))))
      else if mode = 6 then
        rbind (fetch_data B (ucast (pc m)) m) (\<lambda>(index, m).
        let m = m\<lparr>pc := pc m + 2\<rparr>; deferred = fetch_register_contents reg m in
        rbind (fetch_data B (ucast index + ucast deferred) m) (\<lambda>(a, m).
        Inr (ucast a, m)))
      else if mode = 7 then
        rbind (fetch_data B (ucast (pc m)) m) (\<lambda>(index, m).
        let m = m\<lparr>pc := pc m + 2\<rparr>; deferred = fetch_register_contents reg m in
        rbind (fetch_data B (ucast deferred) m) (\<lambda>(deferred, m).
        rbind (fetch_data B (ucast deferred + ucast index) m) (\<lambda>(a, m).
        Inr (ucast a, m))))
      else Inr (loc, m))"

section \<open>Destination and source\<close>

definition setup_dest_addressing :: "'b bus_ops \<Rightarrow> bool \<Rightarrow> 'b machine \<Rightarrow> 'b machine res" where
  "setup_dest_addressing B use_byte_addr m =
     (let reg = ir m AND 0x7;
          mode = drop_bit 3 (ir m AND 0x38);
          loc = dest_address m
      in rbind
           (if reg = 7 then setup_pc_addressing B mode reg loc m
            else if reg = 6 then setup_sp_addressing B mode reg loc m
            else if use_byte_addr then setup_general_byte_addressing B mode reg loc m
            else setup_general_addressing B mode reg loc m)
           (\<lambda>(a, m). Inr (m\<lparr>dest_address := a\<rparr>)))"

definition setup_src_addressing :: "'b bus_ops \<Rightarrow> bool \<Rightarrow> 'b machine \<Rightarrow> 'b machine res" where
  "setup_src_addressing B use_byte_addr m =
     (let reg = drop_bit 6 (ir m AND 0x1C0);
          mode = drop_bit 9 (ir m AND 0xE00);
          loc = src_address m
      in rbind
           (if reg = 7 then setup_pc_addressing B mode reg loc m
            else if reg = 6 then setup_sp_addressing B mode reg loc m
            else if use_byte_addr then setup_general_byte_addressing B mode reg loc m
            else setup_general_addressing B mode reg loc m)
           (\<lambda>(a, m). Inr (m\<lparr>src_address := a\<rparr>)))"

end
