(* ===== verification/Cpu_Instr.thy ===== *)
theory Cpu_Instr
  imports Cpu_Addr
begin

text \<open>
  The instructions of \<open>src/src/cpu/cpu.c\<close>, one definition per C function and in the order of
  the file, the dispatch of \<open>exec_instruction\<close> and the fetch-execute loop. A name that
  clashes with a constant of HOL has the suffix \<open>_instr\<close>. An assignment to a 16-bit field of
  an expression that C computes in \<open>int\<close> keeps its low 16 bits, which is the arithmetic of
  16-bit words.
\<close>

section \<open>Instructions\<close>

definition NOP :: "'b machine \<Rightarrow> 'b machine" where
  "NOP m = m"

definition ADCB :: "'b bus_ops \<Rightarrow> 'b machine \<Rightarrow> 'b machine res" where
  "ADCB B m =
     rbind (setup_dest_addressing B True m) (\<lambda>m.
     rbind (fetch_data B (dest_address m) m) (\<lambda>(d, m).
     let m = m\<lparr>alu := d AND 0xFF\<rparr> in
     let m = m\<lparr>alu := alu m + (psw m AND CARRYFLAG)\<rparr> in
     rbind (store_data_b B (dest_address m) (ucast (alu m)) m) (\<lambda>m.
     let m = set_zero_flag (alu m) m in
     let m = set_negative_flag_b (ucast (alu m)) m in
     Inr m)))"

definition ADC :: "'b bus_ops \<Rightarrow> 'b machine \<Rightarrow> 'b machine res" where
  "ADC B m =
     rbind (setup_dest_addressing B False m) (\<lambda>m.
     rbind (fetch_data B (dest_address m) m) (\<lambda>(d, m).
     let m = m\<lparr>alu := d\<rparr> in
     let m = m\<lparr>alu := alu m + (psw m AND CARRYFLAG)\<rparr> in
     rbind (store_data B (dest_address m) (alu m) m) (\<lambda>m.
     let m = set_zero_flag (alu m) m in
     let m = set_negative_flag_w (alu m) m in
     Inr m)))"

definition ADD :: "'b bus_ops \<Rightarrow> 'b machine \<Rightarrow> 'b machine res" where
  "ADD B m =
     rbind (setup_src_addressing B False m) (\<lambda>m.
     rbind (setup_dest_addressing B False m) (\<lambda>m.
     rbind (fetch_data B (src_address m) m) (\<lambda>(d, m).
     let m = m\<lparr>alu := d\<rparr> in
     rbind (fetch_data B (dest_address m) m) (\<lambda>(d, m).
     let m = m\<lparr>alu := alu m + d\<rparr> in
     rbind (store_data B (dest_address m) (alu m) m) (\<lambda>m.
     let m = set_negative_flag_w (alu m) m in
     let m = set_zero_flag (alu m) m in
     Inr m)))))"

definition ASHC :: "'b machine \<Rightarrow> 'b machine" where
  "ASHC m = NOP m"

definition ASH :: "'b machine \<Rightarrow> 'b machine" where
  "ASH m = NOP m"

definition ASLB :: "'b bus_ops \<Rightarrow> 'b machine \<Rightarrow> 'b machine res" where
  "ASLB B m =
     rbind (setup_dest_addressing B True m) (\<lambda>m.
     rbind (fetch_data B (dest_address m) m) (\<lambda>(d, m).
     let m = m\<lparr>alu := d AND 0xFF\<rparr> in
     let m = m\<lparr>alu := push_bit 1 (alu m)\<rparr> in
     rbind (store_data B (dest_address m) (alu m) m) (\<lambda>m.
     let m = set_zero_flag (alu m) m in
     let m = set_negative_flag_b (ucast (alu m)) m in
     Inr m)))"

definition ASL :: "'b bus_ops \<Rightarrow> 'b machine \<Rightarrow> 'b machine res" where
  "ASL B m =
     rbind (setup_dest_addressing B False m) (\<lambda>m.
     rbind (fetch_data B (dest_address m) m) (\<lambda>(d, m).
     let m = m\<lparr>alu := d\<rparr> in
     let m = m\<lparr>alu := push_bit 1 (alu m)\<rparr> in
     rbind (store_data B (dest_address m) (alu m) m) (\<lambda>m.
     let m = set_zero_flag (alu m) m in
     let m = set_negative_flag_w (alu m) m in
     Inr m)))"

definition ASRB :: "'b bus_ops \<Rightarrow> 'b machine \<Rightarrow> 'b machine res" where
  "ASRB B m =
     rbind (setup_dest_addressing B True m) (\<lambda>m.
     rbind (fetch_data B (dest_address m) m) (\<lambda>(d, m).
     let m = m\<lparr>alu := d AND 0xFF\<rparr> in
     let m = m\<lparr>alu := drop_bit 1 (alu m)\<rparr> in
     rbind (store_data_b B (dest_address m) (ucast (alu m)) m) (\<lambda>m.
     let m = set_zero_flag (alu m) m in
     let m = set_negative_flag_b (ucast (alu m)) m in
     Inr m)))"

definition ASR :: "'b bus_ops \<Rightarrow> 'b machine \<Rightarrow> 'b machine res" where
  "ASR B m =
     rbind (setup_dest_addressing B False m) (\<lambda>m.
     rbind (fetch_data B (dest_address m) m) (\<lambda>(d, m).
     let m = m\<lparr>alu := d\<rparr> in
     let m = m\<lparr>alu := drop_bit 1 (alu m)\<rparr> in
     rbind (store_data B (dest_address m) (alu m) m) (\<lambda>m.
     let m = set_zero_flag (alu m) m in
     let m = set_negative_flag_w (alu m) m in
     Inr m)))"

definition BCC :: "'b machine \<Rightarrow> 'b machine" where
  "BCC m =
     (let offset = get_branch_offset m in
      let m = m\<lparr>alu := psw m AND CARRYFLAG\<rparr> in
      if alu m = 0 then m\<lparr>pc := pc m + 2 * scast offset\<rparr> else m)"

definition BCS :: "'b machine \<Rightarrow> 'b machine" where
  "BCS m =
     (let offset = get_branch_offset m in
      let m = m\<lparr>alu := psw m AND CARRYFLAG\<rparr> in
      if alu m \<noteq> 0 then m\<lparr>pc := pc m + 2 * scast offset\<rparr> else m)"

definition BEQ :: "'b machine \<Rightarrow> 'b machine" where
  "BEQ m =
     (let offset = get_branch_offset m in
      let m = m\<lparr>alu := psw m AND ZEROFLAG\<rparr> in
      if alu m = ZEROFLAG then m\<lparr>pc := pc m + 2 * scast offset\<rparr> else m)"

definition BGE :: "'b machine \<Rightarrow> 'b machine" where
  "BGE m =
     (let offset = get_branch_offset m in
      let m = m\<lparr>alu := drop_bit 3 (psw m AND NEGATIVEFLAG)\<rparr> in
      let m = m\<lparr>alu := alu m XOR drop_bit 1 (psw m AND OVERFLOWFLAG)\<rparr> in
      if alu m = 0 then m\<lparr>pc := pc m + 2 * scast offset\<rparr> else m)"

definition BGT :: "'b machine \<Rightarrow> 'b machine" where
  "BGT m =
     (let offset = get_branch_offset m in
      let m = m\<lparr>alu := drop_bit 2 (psw m AND ZEROFLAG)\<rparr> in
      let m = m\<lparr>alu := alu m OR (drop_bit 3 (psw m AND NEGATIVEFLAG) XOR drop_bit 1 (psw m AND OVERFLOWFLAG))\<rparr> in
      if alu m = 0 then m\<lparr>pc := pc m + 2 * scast offset\<rparr> else m)"

definition BHI :: "'b machine \<Rightarrow> 'b machine" where
  "BHI m =
     (let offset = get_branch_offset m in
      let m = m\<lparr>alu := psw m AND CARRYFLAG\<rparr> in
      let m = m\<lparr>alu := alu m OR drop_bit 2 (psw m AND ZEROFLAG)\<rparr> in
      if alu m = 0 then m\<lparr>pc := pc m + 2 * scast offset\<rparr> else m)"

definition BICB :: "'b bus_ops \<Rightarrow> 'b machine \<Rightarrow> 'b machine res" where
  "BICB B m =
     rbind (setup_src_addressing B True m) (\<lambda>m.
     rbind (setup_dest_addressing B True m) (\<lambda>m.
     rbind (fetch_data B (dest_address m) m) (\<lambda>(d, m).
     let m = m\<lparr>alu := d AND 0xFF\<rparr> in
     rbind (fetch_data B (src_address m) m) (\<lambda>(d, m).
     let m = m\<lparr>alu := alu m AND NOT (d AND 0xFF)\<rparr> in
     rbind (store_data_b B (dest_address m) (ucast (alu m)) m) (\<lambda>m.
     let m = set_negative_flag_b (ucast (alu m)) m in
     let m = set_zero_flag (alu m) m in
     Inr m)))))"

definition BIC :: "'b bus_ops \<Rightarrow> 'b machine \<Rightarrow> 'b machine res" where
  "BIC B m =
     rbind (setup_src_addressing B False m) (\<lambda>m.
     rbind (setup_dest_addressing B False m) (\<lambda>m.
     rbind (fetch_data B (dest_address m) m) (\<lambda>(d, m).
     let m = m\<lparr>alu := d\<rparr> in
     rbind (fetch_data B (src_address m) m) (\<lambda>(d, m).
     let m = m\<lparr>alu := alu m AND NOT d\<rparr> in
     rbind (store_data B (dest_address m) (alu m) m) (\<lambda>m.
     let m = set_negative_flag_w (alu m) m in
     let m = set_zero_flag (alu m) m in
     Inr m)))))"

definition BISB :: "'b bus_ops \<Rightarrow> 'b machine \<Rightarrow> 'b machine res" where
  "BISB B m =
     rbind (setup_src_addressing B True m) (\<lambda>m.
     rbind (setup_dest_addressing B True m) (\<lambda>m.
     rbind (fetch_data B (dest_address m) m) (\<lambda>(d, m).
     let m = m\<lparr>alu := d AND 0xFF\<rparr> in
     rbind (fetch_data B (src_address m) m) (\<lambda>(d, m).
     let m = m\<lparr>alu := alu m OR (d AND 0xFF)\<rparr> in
     rbind (store_data_b B (dest_address m) (ucast (alu m)) m) (\<lambda>m.
     let m = set_negative_flag_b (ucast (alu m)) m in
     let m = set_zero_flag (alu m) m in
     Inr m)))))"

definition BIS :: "'b bus_ops \<Rightarrow> 'b machine \<Rightarrow> 'b machine res" where
  "BIS B m =
     rbind (setup_src_addressing B False m) (\<lambda>m.
     rbind (setup_dest_addressing B False m) (\<lambda>m.
     rbind (fetch_data B (dest_address m) m) (\<lambda>(d, m).
     let m = m\<lparr>alu := d\<rparr> in
     rbind (fetch_data B (src_address m) m) (\<lambda>(d, m).
     let m = m\<lparr>alu := alu m OR d\<rparr> in
     rbind (store_data B (dest_address m) (alu m) m) (\<lambda>m.
     let m = set_negative_flag_w (alu m) m in
     let m = set_zero_flag (alu m) m in
     Inr m)))))"

definition BITB :: "'b bus_ops \<Rightarrow> 'b machine \<Rightarrow> 'b machine res" where
  "BITB B m =
     rbind (setup_src_addressing B True m) (\<lambda>m.
     rbind (setup_dest_addressing B True m) (\<lambda>m.
     rbind (fetch_data B (src_address m) m) (\<lambda>(d, m).
     let m = m\<lparr>alu := d AND 0xFF\<rparr> in
     rbind (fetch_data B (dest_address m) m) (\<lambda>(d, m).
     let m = m\<lparr>alu := alu m AND (d AND 0xFF)\<rparr> in
     let m = set_negative_flag_b (ucast (alu m)) m in
     let m = set_zero_flag (alu m) m in
     Inr m))))"

definition BIT :: "'b bus_ops \<Rightarrow> 'b machine \<Rightarrow> 'b machine res" where
  "BIT B m =
     rbind (setup_src_addressing B False m) (\<lambda>m.
     rbind (setup_dest_addressing B False m) (\<lambda>m.
     rbind (fetch_data B (src_address m) m) (\<lambda>(d, m).
     let m = m\<lparr>alu := d\<rparr> in
     rbind (fetch_data B (dest_address m) m) (\<lambda>(d, m).
     let m = m\<lparr>alu := alu m AND d\<rparr> in
     let m = set_zero_flag (alu m) m in
     let m = set_negative_flag_w (alu m) m in
     Inr m))))"

definition BLE :: "'b machine \<Rightarrow> 'b machine" where
  "BLE m =
     (let offset = get_branch_offset m in
      let m = m\<lparr>alu := drop_bit 2 (psw m AND ZEROFLAG)\<rparr> in
      let m = m\<lparr>alu := alu m OR (drop_bit 3 (psw m AND NEGATIVEFLAG) XOR drop_bit 1 (psw m AND OVERFLOWFLAG))\<rparr> in
      if alu m \<noteq> 0 then m\<lparr>pc := pc m + 2 * scast offset\<rparr> else m)"

definition BLOS :: "'b machine \<Rightarrow> 'b machine" where
  "BLOS m =
     (let offset = get_branch_offset m in
      let m = m\<lparr>alu := psw m AND CARRYFLAG\<rparr> in
      let m = m\<lparr>alu := alu m OR drop_bit 2 (psw m AND ZEROFLAG)\<rparr> in
      if alu m \<noteq> 0 then m\<lparr>pc := pc m + 2 * scast offset\<rparr> else m)"

definition BLT :: "'b machine \<Rightarrow> 'b machine" where
  "BLT m =
     (let offset = get_branch_offset m in
      let m = m\<lparr>alu := drop_bit 3 (psw m AND NEGATIVEFLAG)\<rparr> in
      let m = m\<lparr>alu := alu m XOR drop_bit 1 (psw m AND OVERFLOWFLAG)\<rparr> in
      if alu m \<noteq> 0 then m\<lparr>pc := pc m + 2 * scast offset\<rparr> else m)"

definition BMI :: "'b machine \<Rightarrow> 'b machine" where
  "BMI m =
     (let offset = get_branch_offset m in
      let m = m\<lparr>alu := psw m AND NEGATIVEFLAG\<rparr> in
      if alu m \<noteq> 0 then m\<lparr>pc := pc m + 2 * scast offset\<rparr> else m)"

definition BNE :: "'b machine \<Rightarrow> 'b machine" where
  "BNE m =
     (let offset = get_branch_offset m in
      let m = m\<lparr>alu := psw m AND ZEROFLAG\<rparr> in
      if alu m = 0 then m\<lparr>pc := pc m + 2 * scast offset\<rparr> else m)"

definition BPL :: "'b machine \<Rightarrow> 'b machine" where
  "BPL m =
     (let offset = get_branch_offset m in
      let m = m\<lparr>alu := psw m AND NEGATIVEFLAG\<rparr> in
      if alu m = 0 then m\<lparr>pc := pc m + 2 * scast offset\<rparr> else m)"

definition BR :: "'b machine \<Rightarrow> 'b machine" where
  "BR m = m\<lparr>pc := pc m + 2 * scast (get_branch_offset m)\<rparr>"

definition BVC :: "'b machine \<Rightarrow> 'b machine" where
  "BVC m =
     (let offset = get_branch_offset m in
      let m = m\<lparr>alu := psw m AND OVERFLOWFLAG\<rparr> in
      if alu m = 0 then m\<lparr>pc := pc m + 2 * scast offset\<rparr> else m)"

definition BVS :: "'b machine \<Rightarrow> 'b machine" where
  "BVS m =
     (let offset = get_branch_offset m in
      let m = m\<lparr>alu := psw m AND OVERFLOWFLAG\<rparr> in
      if alu m \<noteq> 0 then m\<lparr>pc := pc m + 2 * scast offset\<rparr> else m)"

definition CLRB :: "'b bus_ops \<Rightarrow> 'b machine \<Rightarrow> 'b machine res" where
  "CLRB B m =
     rbind (setup_dest_addressing B True m) (\<lambda>m.
     let m = m\<lparr>alu := 0\<rparr> in
     rbind (store_data_b B (dest_address m) (ucast (alu m)) m) (\<lambda>m.
     let m = set_negative_flag_b (ucast (alu m)) m in
     let m = set_zero_flag (alu m) m in
     Inr m))"

definition CLR :: "'b bus_ops \<Rightarrow> 'b machine \<Rightarrow> 'b machine res" where
  "CLR B m =
     rbind (setup_dest_addressing B False m) (\<lambda>m.
     let m = m\<lparr>alu := 0\<rparr> in
     rbind (store_data B (dest_address m) (alu m) m) (\<lambda>m.
     let m = set_negative_flag_w (alu m) m in
     let m = set_zero_flag (alu m) m in
     Inr m))"

definition CMPB :: "'b bus_ops \<Rightarrow> 'b machine \<Rightarrow> 'b machine res" where
  "CMPB B m =
     rbind (setup_src_addressing B True m) (\<lambda>m.
     rbind (setup_dest_addressing B True m) (\<lambda>m.
     rbind (fetch_data B (dest_address m) m) (\<lambda>(d, m).
     let m = m\<lparr>alu := d AND 0xFF\<rparr> in
     rbind (fetch_data B (src_address m) m) (\<lambda>(d, m).
     let m = m\<lparr>alu := alu m - (d AND 0xFF)\<rparr> in
     let m = set_zero_flag (alu m) m in
     let m = set_negative_flag_b (ucast (alu m)) m in
     Inr m))))"

definition CMP :: "'b bus_ops \<Rightarrow> 'b machine \<Rightarrow> 'b machine res" where
  "CMP B m =
     rbind (setup_src_addressing B False m) (\<lambda>m.
     rbind (setup_dest_addressing B False m) (\<lambda>m.
     rbind (fetch_data B (dest_address m) m) (\<lambda>(d, m).
     let m = m\<lparr>alu := d\<rparr> in
     rbind (fetch_data B (src_address m) m) (\<lambda>(d, m).
     let m = m\<lparr>alu := alu m - d\<rparr> in
     let m = set_zero_flag (alu m) m in
     let m = set_negative_flag_w (alu m) m in
     Inr m))))"

definition COMB :: "'b bus_ops \<Rightarrow> 'b machine \<Rightarrow> 'b machine res" where
  "COMB B m =
     rbind (setup_dest_addressing B False m) (\<lambda>m.
     rbind (fetch_data B (dest_address m) m) (\<lambda>(d, m).
     let m = m\<lparr>alu := NOT (d AND 0xFF)\<rparr> in
     rbind (store_data_b B (dest_address m) (ucast (alu m)) m) (\<lambda>m.
     let m = set_negative_flag_b (ucast (alu m)) m in
     let m = set_zero_flag (alu m) m in
     Inr m)))"

definition COM :: "'b bus_ops \<Rightarrow> 'b machine \<Rightarrow> 'b machine res" where
  "COM B m =
     rbind (setup_dest_addressing B False m) (\<lambda>m.
     rbind (fetch_data B (dest_address m) m) (\<lambda>(d, m).
     let m = m\<lparr>alu := NOT d\<rparr> in
     rbind (store_data B (dest_address m) (alu m) m) (\<lambda>m.
     let m = set_negative_flag_w (alu m) m in
     let m = set_zero_flag (alu m) m in
     Inr m)))"

definition DECB :: "'b bus_ops \<Rightarrow> 'b machine \<Rightarrow> 'b machine res" where
  "DECB B m =
     rbind (setup_dest_addressing B True m) (\<lambda>m.
     rbind (fetch_data B (dest_address m) m) (\<lambda>(d, m).
     let m = m\<lparr>alu := d AND 0xFF\<rparr> in
     let m = m\<lparr>alu := alu m - 1\<rparr> in
     rbind (store_data_b B (dest_address m) (ucast (alu m)) m) (\<lambda>m.
     let m = set_zero_flag (alu m) m in
     let m = set_negative_flag_b (ucast (alu m)) m in
     Inr m)))"

definition DEC :: "'b bus_ops \<Rightarrow> 'b machine \<Rightarrow> 'b machine res" where
  "DEC B m =
     rbind (setup_dest_addressing B False m) (\<lambda>m.
     rbind (fetch_data B (dest_address m) m) (\<lambda>(d, m).
     let m = m\<lparr>alu := d\<rparr> in
     let m = m\<lparr>alu := alu m - 1\<rparr> in
     rbind (store_data B (dest_address m) (alu m) m) (\<lambda>m.
     let m = set_zero_flag (alu m) m in
     let m = set_negative_flag_w (alu m) m in
     Inr m)))"

definition DIV :: "'b machine \<Rightarrow> 'b machine" where
  "DIV m = NOP m"

definition HALT :: "'b machine \<Rightarrow> 'b machine" where
  "HALT m = m\<lparr>halted := 1\<rparr>"

definition INCB :: "'b bus_ops \<Rightarrow> 'b machine \<Rightarrow> 'b machine res" where
  "INCB B m =
     rbind (setup_dest_addressing B True m) (\<lambda>m.
     rbind (fetch_data B (dest_address m) m) (\<lambda>(d, m).
     let m = m\<lparr>alu := d AND 0xFF\<rparr> in
     let m = m\<lparr>alu := alu m + 1\<rparr> in
     rbind (store_data_b B (dest_address m) (ucast (alu m)) m) (\<lambda>m.
     let m = set_zero_flag (alu m) m in
     let m = set_negative_flag_b (ucast (alu m)) m in
     Inr m)))"

definition INC :: "'b bus_ops \<Rightarrow> 'b machine \<Rightarrow> 'b machine res" where
  "INC B m =
     rbind (setup_dest_addressing B False m) (\<lambda>m.
     rbind (fetch_data B (dest_address m) m) (\<lambda>(d, m).
     let m = m\<lparr>alu := d\<rparr> in
     let m = m\<lparr>alu := alu m + 1\<rparr> in
     rbind (store_data B (dest_address m) (alu m) m) (\<lambda>m.
     let m = set_zero_flag (alu m) m in
     let m = set_negative_flag_w (alu m) m in
     Inr m)))"

definition JMP :: "'b bus_ops \<Rightarrow> 'b machine \<Rightarrow> 'b machine res" where
  "JMP B m =
     rbind (setup_dest_addressing B False m) (\<lambda>m.
     rbind (fetch_data B (dest_address m) m) (\<lambda>(d, m).
     Inr (m\<lparr>pc := d\<rparr>)))"

definition JSR :: "'b bus_ops \<Rightarrow> 'b machine \<Rightarrow> 'b machine res" where
  "JSR B m =
     (let reg = drop_bit 6 (ir m AND 0x1C0) in
     rbind (setup_dest_addressing B False m) (\<lambda>m.
     let tmp = ucast (dest_address m) :: u16; reg_contents = fetch_register_contents reg m in
     rbind (store_data B (ucast (sp m)) reg_contents m) (\<lambda>m.
     let m = dec_register (sp m) False m in
     rbind (store_data_register (register_to_bus_addr reg) (pc m) m) (\<lambda>m.
     Inr (m\<lparr>pc := tmp\<rparr>)))))"

definition MFPD :: "'b machine \<Rightarrow> 'b machine" where
  "MFPD m = NOP m"

definition MFPI :: "'b machine \<Rightarrow> 'b machine" where
  "MFPI m = NOP m"

definition MFPS :: "'b bus_ops \<Rightarrow> 'b machine \<Rightarrow> 'b machine res" where
  "MFPS B m =
     rbind (setup_dest_addressing B False m) (\<lambda>m.
     let m = m\<lparr>alu := psw m\<rparr> in
     rbind (store_data B (dest_address m) (alu m) m) (\<lambda>m.
     Inr m))"

definition MOVB :: "'b bus_ops \<Rightarrow> 'b machine \<Rightarrow> 'b machine res" where
  "MOVB B m =
     rbind (setup_src_addressing B True m) (\<lambda>m.
     rbind (setup_dest_addressing B True m) (\<lambda>m.
     rbind (fetch_data B (src_address m) m) (\<lambda>(d, m).
     let m = m\<lparr>alu := d AND 0xFF\<rparr> in
     rbind (store_data_b B (dest_address m) (ucast (alu m)) m) (\<lambda>m.
     let m = set_zero_flag (alu m) m in
     let m = set_negative_flag_b (ucast (alu m)) m in
     Inr m))))"

definition MOV :: "'b bus_ops \<Rightarrow> 'b machine \<Rightarrow> 'b machine res" where
  "MOV B m =
     rbind (setup_src_addressing B False m) (\<lambda>m.
     rbind (setup_dest_addressing B False m) (\<lambda>m.
     rbind (fetch_data B (src_address m) m) (\<lambda>(d, m).
     let m = m\<lparr>alu := d\<rparr> in
     rbind (store_data B (dest_address m) (alu m) m) (\<lambda>m.
     let m = set_zero_flag (alu m) m in
     let m = set_negative_flag_w (alu m) m in
     Inr m))))"

definition MTPD :: "'b machine \<Rightarrow> 'b machine" where
  "MTPD m = NOP m"

definition MTPI :: "'b machine \<Rightarrow> 'b machine" where
  "MTPI m = NOP m"

definition MTPS :: "'b bus_ops \<Rightarrow> 'b machine \<Rightarrow> 'b machine res" where
  "MTPS B m =
     rbind (setup_dest_addressing B False m) (\<lambda>m.
     rbind (fetch_data B (dest_address m) m) (\<lambda>(d, m).
     let m = m\<lparr>alu := d\<rparr> in
     Inr (m\<lparr>psw := alu m\<rparr>)))"

definition MUL :: "'b machine \<Rightarrow> 'b machine" where
  "MUL m = NOP m"

definition NEGB :: "'b bus_ops \<Rightarrow> 'b machine \<Rightarrow> 'b machine res" where
  "NEGB B m =
     rbind (setup_dest_addressing B True m) (\<lambda>m.
     rbind (fetch_data B (dest_address m) m) (\<lambda>(d, m).
     let m = m\<lparr>alu := d AND 0xFF\<rparr> in
     let m = m\<lparr>alu := (NOT (alu m) + 1) AND 0xFF\<rparr> in
     rbind (store_data_b B (dest_address m) (ucast (alu m)) m) (\<lambda>m.
     let m = set_zero_flag (alu m) m in
     let m = set_negative_flag_b (ucast (alu m)) m in
     Inr m)))"

definition NEG :: "'b bus_ops \<Rightarrow> 'b machine \<Rightarrow> 'b machine res" where
  "NEG B m =
     rbind (setup_dest_addressing B False m) (\<lambda>m.
     rbind (fetch_data B (dest_address m) m) (\<lambda>(d, m).
     let m = m\<lparr>alu := d\<rparr> in
     let m = m\<lparr>alu := NOT (alu m) + 1\<rparr> in
     rbind (store_data B (dest_address m) (alu m) m) (\<lambda>m.
     let m = set_zero_flag (alu m) m in
     let m = set_negative_flag_w (alu m) m in
     Inr m)))"

definition ROLB :: "'b bus_ops \<Rightarrow> 'b machine \<Rightarrow> 'b machine res" where
  "ROLB B m =
     rbind (setup_dest_addressing B True m) (\<lambda>m.
     rbind (fetch_data B (dest_address m) m) (\<lambda>(d, m).
     let m = m\<lparr>alu := d AND 0xFF\<rparr> in
     let m = m\<lparr>alu := push_bit 7 (alu m) OR drop_bit 1 (alu m)\<rparr> in
     rbind (store_data_b B (dest_address m) (ucast (alu m)) m) (\<lambda>m.
     let m = set_zero_flag (alu m) m in
     let m = set_negative_flag_b (ucast (alu m)) m in
     Inr m)))"

definition ROL :: "'b bus_ops \<Rightarrow> 'b machine \<Rightarrow> 'b machine res" where
  "ROL B m =
     rbind (setup_dest_addressing B False m) (\<lambda>m.
     rbind (fetch_data B (dest_address m) m) (\<lambda>(d, m).
     let m = m\<lparr>alu := d\<rparr> in
     let m = m\<lparr>alu := push_bit 15 (alu m) OR drop_bit 1 (alu m)\<rparr> in
     rbind (store_data B (dest_address m) (alu m) m) (\<lambda>m.
     let m = set_zero_flag (alu m) m in
     let m = set_negative_flag_w (alu m) m in
     Inr m)))"

definition RORB :: "'b bus_ops \<Rightarrow> 'b machine \<Rightarrow> 'b machine res" where
  "RORB B m =
     rbind (setup_dest_addressing B True m) (\<lambda>m.
     rbind (fetch_data B (dest_address m) m) (\<lambda>(d, m).
     let m = m\<lparr>alu := d AND 0xFF\<rparr> in
     let m = m\<lparr>alu := push_bit 1 (alu m) OR drop_bit 7 (alu m)\<rparr> in
     rbind (store_data_b B (dest_address m) (ucast (alu m)) m) (\<lambda>m.
     let m = set_zero_flag (alu m) m in
     let m = set_negative_flag_b (ucast (alu m)) m in
     Inr m)))"

definition ROR :: "'b bus_ops \<Rightarrow> 'b machine \<Rightarrow> 'b machine res" where
  "ROR B m =
     rbind (setup_dest_addressing B False m) (\<lambda>m.
     rbind (fetch_data B (dest_address m) m) (\<lambda>(d, m).
     let m = m\<lparr>alu := d\<rparr> in
     let m = m\<lparr>alu := push_bit 1 (alu m) OR drop_bit 15 (alu m)\<rparr> in
     rbind (store_data B (dest_address m) (alu m) m) (\<lambda>m.
     let m = set_zero_flag (alu m) m in
     let m = set_negative_flag_w (alu m) m in
     Inr m)))"

definition RTS :: "'b bus_ops \<Rightarrow> 'b machine \<Rightarrow> 'b machine res" where
  "RTS B m =
     (let reg = ir m AND 0x7; reg_contents = fetch_register_contents reg m in
     let m = m\<lparr>pc := reg_contents\<rparr> in
     let m = inc_register (sp m) False m in
     rbind (fetch_data B (ucast (sp m)) m) (\<lambda>(top_stack, m).
     store_data_register (register_to_bus_addr reg) top_stack m))"

definition SBCB :: "'b bus_ops \<Rightarrow> 'b machine \<Rightarrow> 'b machine res" where
  "SBCB B m =
     rbind (setup_dest_addressing B True m) (\<lambda>m.
     rbind (fetch_data B (dest_address m) m) (\<lambda>(d, m).
     let m = m\<lparr>alu := d AND 0xFF\<rparr> in
     let m = m\<lparr>alu := alu m - (psw m AND CARRYFLAG)\<rparr> in
     rbind (store_data_b B (dest_address m) (ucast (alu m)) m) (\<lambda>m.
     let m = set_zero_flag (alu m) m in
     let m = set_negative_flag_b (ucast (alu m)) m in
     Inr m)))"

definition SBC :: "'b bus_ops \<Rightarrow> 'b machine \<Rightarrow> 'b machine res" where
  "SBC B m =
     rbind (setup_dest_addressing B False m) (\<lambda>m.
     rbind (fetch_data B (dest_address m) m) (\<lambda>(d, m).
     let m = m\<lparr>alu := d\<rparr> in
     let m = m\<lparr>alu := alu m - (psw m AND CARRYFLAG)\<rparr> in
     rbind (store_data B (dest_address m) (alu m) m) (\<lambda>m.
     let m = set_zero_flag (alu m) m in
     let m = set_negative_flag_w (alu m) m in
     Inr m)))"

definition SUB :: "'b bus_ops \<Rightarrow> 'b machine \<Rightarrow> 'b machine res" where
  "SUB B m =
     rbind (setup_src_addressing B False m) (\<lambda>m.
     rbind (setup_dest_addressing B False m) (\<lambda>m.
     rbind (fetch_data B (src_address m) m) (\<lambda>(d, m).
     let m = m\<lparr>alu := d\<rparr> in
     rbind (fetch_data B (dest_address m) m) (\<lambda>(d, m).
     let m = m\<lparr>alu := alu m - d\<rparr> in
     rbind (store_data B (dest_address m) (alu m) m) (\<lambda>m.
     let m = set_negative_flag_w (alu m) m in
     let m = set_zero_flag (alu m) m in
     Inr m)))))"

definition SWAB :: "'b bus_ops \<Rightarrow> 'b machine \<Rightarrow> 'b machine res" where
  "SWAB B m =
     rbind (setup_dest_addressing B False m) (\<lambda>m.
     rbind (fetch_data B (dest_address m) m) (\<lambda>(d, m).
     let m = m\<lparr>alu := d\<rparr> in
     let m = m\<lparr>alu := drop_bit 8 (alu m AND 0xFF00) OR push_bit 8 (alu m AND 0xFF)\<rparr> in
     rbind (store_data B (dest_address m) (alu m) m) (\<lambda>m.
     let m = set_negative_flag_w (alu m) m in
     let m = set_zero_flag (alu m) m in
     Inr m)))"

definition SXT :: "'b machine \<Rightarrow> 'b machine" where
  "SXT m = NOP m"

definition TSTB :: "'b bus_ops \<Rightarrow> 'b machine \<Rightarrow> 'b machine res" where
  "TSTB B m =
     rbind (setup_dest_addressing B True m) (\<lambda>m.
     rbind (fetch_data B (dest_address m) m) (\<lambda>(d, m).
     let m = m\<lparr>alu := d AND 0xFF\<rparr> in
     let m = set_zero_flag (alu m) m in
     let m = set_negative_flag_b (ucast (alu m)) m in
     Inr m))"

definition TST :: "'b bus_ops \<Rightarrow> 'b machine \<Rightarrow> 'b machine res" where
  "TST B m =
     rbind (setup_dest_addressing B False m) (\<lambda>m.
     rbind (fetch_data B (dest_address m) m) (\<lambda>(d, m).
     let m = m\<lparr>alu := d\<rparr> in
     let m = set_zero_flag (alu m) m in
     let m = set_negative_flag_w (alu m) m in
     Inr m))"

definition XOR_instr :: "'b machine \<Rightarrow> 'b machine" where
  "XOR_instr m = NOP m"

section \<open>Dispatch and execution\<close>

text \<open>The call of each case of the nested switches.\<close>

primrec exec_op :: "'b bus_ops \<Rightarrow> opcode \<Rightarrow> 'b machine \<Rightarrow> 'b machine res" where
  "exec_op B BR_op m = Inr (BR m)"
| "exec_op B BNE_op m = Inr (BNE m)"
| "exec_op B BEQ_op m = Inr (BEQ m)"
| "exec_op B BGE_op m = Inr (BGE m)"
| "exec_op B BLT_op m = Inr (BLT m)"
| "exec_op B BGT_op m = Inr (BGT m)"
| "exec_op B BLE_op m = Inr (BLE m)"
| "exec_op B BPL_op m = Inr (BPL m)"
| "exec_op B BMI_op m = Inr (BMI m)"
| "exec_op B BHI_op m = Inr (BHI m)"
| "exec_op B BLOS_op m = Inr (BLOS m)"
| "exec_op B BVC_op m = Inr (BVC m)"
| "exec_op B BVS_op m = Inr (BVS m)"
| "exec_op B BCC_op m = Inr (BCC m)"
| "exec_op B BCS_op m = Inr (BCS m)"
| "exec_op B MUL_op m = Inr (MUL m)"
| "exec_op B DIV_op m = Inr (DIV m)"
| "exec_op B ASH_op m = Inr (ASH m)"
| "exec_op B ASHC_op m = Inr (ASHC m)"
| "exec_op B XOR_op m = Inr (XOR_instr m)"
| "exec_op B JSR_op m = JSR B m"
| "exec_op B RTS_op m = RTS B m"
| "exec_op B MOV_op m = MOV B m"
| "exec_op B MOVB_op m = MOVB B m"
| "exec_op B CMP_op m = CMP B m"
| "exec_op B CMPB_op m = CMPB B m"
| "exec_op B BIT_op m = BIT B m"
| "exec_op B BITB_op m = BITB B m"
| "exec_op B BIC_op m = BIC B m"
| "exec_op B BICB_op m = BICB B m"
| "exec_op B BIS_op m = BIS B m"
| "exec_op B BISB_op m = BISB B m"
| "exec_op B ADD_op m = ADD B m"
| "exec_op B SUB_op m = SUB B m"
| "exec_op B JMP_op m = JMP B m"
| "exec_op B SWAB_op m = SWAB B m"
| "exec_op B CLR_op m = CLR B m"
| "exec_op B CLRB_op m = CLRB B m"
| "exec_op B COM_op m = COM B m"
| "exec_op B COMB_op m = COMB B m"
| "exec_op B INC_op m = INC B m"
| "exec_op B INCB_op m = INCB B m"
| "exec_op B DEC_op m = DEC B m"
| "exec_op B DECB_op m = DECB B m"
| "exec_op B NEG_op m = NEG B m"
| "exec_op B NEGB_op m = NEGB B m"
| "exec_op B ADC_op m = ADC B m"
| "exec_op B ADCB_op m = ADCB B m"
| "exec_op B SBC_op m = SBC B m"
| "exec_op B SBCB_op m = SBCB B m"
| "exec_op B TST_op m = TST B m"
| "exec_op B TSTB_op m = TSTB B m"
| "exec_op B ROR_op m = ROR B m"
| "exec_op B RORB_op m = RORB B m"
| "exec_op B ROL_op m = ROL B m"
| "exec_op B ROLB_op m = ROLB B m"
| "exec_op B ASR_op m = ASR B m"
| "exec_op B ASRB_op m = ASRB B m"
| "exec_op B ASL_op m = ASL B m"
| "exec_op B ASLB_op m = ASLB B m"
| "exec_op B MTPS_op m = MTPS B m"
| "exec_op B MFPI_op m = Inr (MFPI m)"
| "exec_op B MFPD_op m = Inr (MFPD m)"
| "exec_op B MTPI_op m = Inr (MTPI m)"
| "exec_op B MTPD_op m = Inr (MTPD m)"
| "exec_op B SXT_op m = Inr (SXT m)"
| "exec_op B MFPS_op m = MFPS B m"

definition exec_instruction :: "'b bus_ops \<Rightarrow> 'b machine \<Rightarrow> 'b machine res" where
  "exec_instruction B m =
     (case decode (ir m) of Some c \<Rightarrow> exec_op B c m | None \<Rightarrow> Inr (HALT m))"

text \<open>One round of the loop of \<open>execute\<close>.\<close>

definition cpu_cycle :: "'b bus_ops \<Rightarrow> 'b machine \<Rightarrow> 'b machine res" where
  "cpu_cycle B m =
     rbind (fetch_data B (ucast (pc m)) m) (\<lambda>(d, m).
     let m = m\<lparr>ir := d\<rparr> in
     let m = m\<lparr>pc := pc m + 2\<rparr> in
     exec_instruction B m)"

text \<open>The loop: \<open>None\<close> when it never ends.\<close>

partial_function (option) execute :: "'b bus_ops \<Rightarrow> 'b machine \<Rightarrow> ('b machine res) option" where
  "execute B m =
     (if halted m \<noteq> 0 then Some (Inr m)
      else (case cpu_cycle B m of
              Inl e \<Rightarrow> Some (Inl e)
            | Inr m' \<Rightarrow> execute B m'))"

end
