(* ===== verification/Cpu_Safety.thy ===== *)
theory Cpu_Safety
  imports Cpu_Instr
begin

text \<open>
  Safety of the CPU over any bus that meets the contract \<open>bus_memory\<close>: from a well-formed
  state every instruction returns to a well-formed state or waits for ever on the bus. It
  never dereferences a null register pointer and never drives the memory device out of the
  bounds of its store. The same induction over the instructions shows which parts of the
  processor status an instruction can change.
\<close>

section \<open>Which addresses reach the memory\<close>

lemma bit_above_16: "unat (a :: u32) < 65536 \<Longrightarrow> 16 \<le> n \<Longrightarrow> \<not> bit a n"
proof
  assume a: "unat a < 65536" "16 \<le> n" "bit a n"
  then have "bit (unat a) n" by (simp add: bit_unsigned_iff)
  moreover have "unat a < 2 ^ n"
    using a power_increasing [of 16 n "2 :: nat"] by simp
  ultimately show False by (simp add: bit_iff_odd)
qed

lemma mask_0xFE00: "(0xFE00 :: u32) = push_bit 9 (mask 7)"
  by (simp add: mask_eq_exp_minus_1 push_bit_eq_mult)

text \<open>Without any of the bits 9 to 15 an address is below 512 or above 65535.\<close>

lemma low_or_high:
  assumes "(a :: u32) AND 0xFE00 = 0"
  shows "unat a < 512 \<or> 65535 < unat a"
proof (cases "unat a < 65536")
  case True
  have "a = take_bit 9 a"
  proof (rule bit_word_eqI)
    fix n
    have "bit (a AND push_bit 9 (mask 7)) n = bit (0 :: u32) n"
      using assms by (simp add: mask_0xFE00)
    then have "\<not> bit a n" if "9 \<le> n"
      using that bit_above_16 [OF True, of n] by (cases "n < 16") (auto simp: bit_simps)
    then show "bit a n = bit (take_bit 9 a) n"
      by (cases "9 \<le> n") (auto simp: bit_simps)
  qed
  then have "unat a = take_bit 9 (unat a)"
    by (metis unsigned_take_bit_eq)
  moreover have "take_bit 9 (unat a) < 2 ^ 9" by (rule take_bit_nat_less_exp)
  ultimately show ?thesis by simp
qed simp

lemma translate_low: "a AND 0xFE00 = 0 \<Longrightarrow> translate_bus_addr a = a"
  by (simp add: translate_bus_addr_def)

lemma translate_high:
  assumes "a AND 0xFE00 \<noteq> 0"
  shows "0x38000 \<le> unat (translate_bus_addr a)"
proof -
  have "(0x38000 :: u32) \<le> a OR 0x38000"
    using le_word_or2 [of "0x38000" a] by (simp add: or.commute)
  then have "unat (0x38000 :: u32) \<le> unat (a OR 0x38000)"
    by (simp add: word_le_nat_alt)
  with assms show ?thesis by (simp add: translate_bus_addr_def)
qed

lemma translate_cases:
  "unat (translate_bus_addr a) < 512 \<or> 65535 < unat (translate_bus_addr a)"
  using low_or_high [of a] translate_high [of a] translate_low [of a]
  by (cases "a AND 0xFE00 = 0") auto

section \<open>The well-formedness invariant\<close>

text \<open>
  An operand address is the bus address of one of the registers R0 to PC, or the sum of at
  most two 16-bit values. In particular it is never the address of the processor status.
\<close>

definition addr_ok :: "u32 \<Rightarrow> bool" where
  "addr_ok a \<longleftrightarrow> a \<le> 0x1FFFE \<or> (0x3FFC0 \<le> a \<and> a \<le> 0x3FFC7)"

definition cpu_wf :: "'b machine \<Rightarrow> bool" where
  "cpu_wf m \<longleftrightarrow> addr_ok (src_address m) \<and> addr_ok (dest_address m)"

lemma u16_le: "unat (ucast (w :: u16) :: u32) \<le> 65535"
proof -
  have "unat w < 2 ^ 16" using unsigned_less [of w] by simp
  then show ?thesis by (simp add: unsigned_ucast_eq take_bit_nat_eq_self)
qed

lemma addr_ok_u16 [simp]: "addr_ok (ucast (w :: u16))"
  using u16_le [of w] by (simp add: addr_ok_def word_le_nat_alt)

lemma addr_ok_sum [simp]: "addr_ok (ucast (v :: u16) + ucast (w :: u16))"
proof -
  have "unat (ucast v + ucast w :: u32) \<le> unat (ucast v :: u32) + unat (ucast w :: u32)"
    by (simp add: unat_word_ariths)
  with u16_le [of v] u16_le [of w] have "unat (ucast v + ucast w :: u32) \<le> 131070"
    by linarith
  then show ?thesis by (simp add: addr_ok_def word_le_nat_alt)
qed

definition reg_num :: "u16 \<Rightarrow> bool" where
  "reg_num w \<longleftrightarrow> w \<in> {0, 1, 2, 3, 4, 5, 6, 7}"

lemma reg_num_numeral [simp]:
  "reg_num 0" "reg_num 1" "reg_num 2" "reg_num 3" "reg_num 4" "reg_num 5" "reg_num 6" "reg_num 7"
  by (simp_all add: reg_num_def)

lemma reg_num_if_less:
  assumes "unat (w :: u16) < 8"
  shows "reg_num w"
proof -
  have "w = word_of_nat (unat w)" by simp
  with assms obtain n where n: "w = word_of_nat n" "n < 8" by blast
  then have "n \<in> {0, 1, 2, 3, 4, 5, 6, 7}" by auto
  with n(1) show ?thesis by (auto simp: reg_num_def)
qed

lemma dest_reg_num: "reg_num (w AND 0x7)"
  using word_and_le1 [of w 7] by (intro reg_num_if_less) (simp add: word_le_nat_alt)

lemma src_reg_num: "reg_num (drop_bit 6 (w AND 0x1C0))"
proof (rule reg_num_if_less)
  have "unat (w AND 0x1C0) \<le> 0x1C0"
    using word_and_le1 [of w "0x1C0"] by (simp add: word_le_nat_alt)
  then show "unat (drop_bit 6 (w AND 0x1C0)) < 8"
    by (simp only: unsigned_drop_bit_eq) (simp add: drop_bit_eq_div take_bit_nat_eq_self)
qed

lemma addr_ok_register: "reg_num reg \<Longrightarrow> addr_ok (register_to_bus_addr reg)"
  by (auto simp: reg_num_def addr_ok_def register_to_bus_addr_def)

section \<open>What an instruction keeps\<close>

text \<open>
  \<open>keeps q m0 m\<close>: the instruction register and the halt flag are those of \<open>m0\<close>, and, if \<open>q\<close>
  holds, so is the processor status but for the flags N and Z.
\<close>

definition keeps :: "bool \<Rightarrow> 'b machine \<Rightarrow> 'b machine \<Rightarrow> bool" where
  "keeps q m0 m \<longleftrightarrow> ir m = ir m0 \<and> halted m = halted m0 \<and>
     (q \<longrightarrow> psw m AND 0xFFF3 = psw m0 AND 0xFFF3)"

definition is_hang :: "fault \<Rightarrow> bool" where
  "is_hang e \<longleftrightarrow> (\<exists>a. e = Bus_Hang a)"

definition good :: "('b \<Rightarrow> bool) \<Rightarrow> bool \<Rightarrow> 'b machine \<Rightarrow> 'b machine \<Rightarrow> bool" where
  "good I q m0 m \<longleftrightarrow> I (BUS_REF m) \<and> cpu_wf m \<and> keeps q m0 m"

lemma is_hang_Bus_Hang [simp]: "is_hang (Bus_Hang a)"
  by (simp add: is_hang_def)

lemma good_refl: "I (BUS_REF m) \<Longrightarrow> cpu_wf m \<Longrightarrow> good I q m m"
  by (simp add: good_def keeps_def)

lemma good_addr: "good I q m0 m \<Longrightarrow> addr_ok (dest_address m)" "good I q m0 m \<Longrightarrow> addr_ok (src_address m)"
  by (simp_all add: good_def cpu_wf_def)

lemma good_update [simp]:
  "good I q m0 (m\<lparr>alu := v\<rparr>) = good I q m0 m"
  "good I q m0 (m\<lparr>pc := v\<rparr>) = good I q m0 m"
  "good I q m0 (m\<lparr>sp := v\<rparr>) = good I q m0 m"
  "good I False m0 (m\<lparr>psw := v\<rparr>) = good I False m0 m"
  by (simp_all add: good_def cpu_wf_def keeps_def)

lemma good_address: 
  "good I q m0 m \<Longrightarrow> addr_ok a \<Longrightarrow> good I q m0 (m\<lparr>dest_address := a\<rparr>)"
  "good I q m0 m \<Longrightarrow> addr_ok a \<Longrightarrow> good I q m0 (m\<lparr>src_address := a\<rparr>)"
  by (simp_all add: good_def cpu_wf_def keeps_def)

lemma good_set_reg: "r \<noteq> P_PSW \<or> \<not> q \<Longrightarrow> good I q m0 (set_reg r v m) = good I q m0 m"
  by (cases r) (auto simp: good_def cpu_wf_def keeps_def)

lemma register_ref_not_psw: "reg \<noteq> 8 \<Longrightarrow> register_ref reg \<noteq> Some P_PSW"
  by (simp add: register_ref_def)

lemma good_inc_register:
  "reg \<noteq> 8 \<or> \<not> q \<Longrightarrow> good I q m0 (inc_register reg b m) = good I q m0 m"
  using register_ref_not_psw [of reg]
  by (auto simp: inc_register_def good_set_reg split: option.split)

lemma good_dec_register:
  "reg \<noteq> 8 \<or> \<not> q \<Longrightarrow> good I q m0 (dec_register reg b m) = good I q m0 m"
  using register_ref_not_psw [of reg]
  by (auto simp: dec_register_def good_set_reg split: option.split)

text \<open>Setting or clearing a flag inside the mask \<open>0xC\<close> leaves the rest of the status alone.\<close>

lemma and_or_outside: "(b :: u16) AND c = 0 \<Longrightarrow> (a OR b) AND c = a AND c"
  by (simp add: bit.conj_disj_distrib2)

lemma and_xor_outside: "(b :: u16) AND c = 0 \<Longrightarrow> (a XOR b) AND c = a AND c"
  by (simp add: bit.conj_xor_distrib2)

lemma good_flags [simp]:
  "good I q m0 (set_zero_flag v m) = good I q m0 m"
  "good I q m0 (set_negative_flag_b c m) = good I q m0 m"
  "good I q m0 (set_negative_flag_w v m) = good I q m0 m"
  by (simp_all add: set_zero_flag_def set_negative_flag_b_def set_negative_flag_w_def
        good_def cpu_wf_def keeps_def and_or_outside and_xor_outside)

text \<open>The three judgements on results: of a machine, of a value with it, of an address with it.\<close>

definition ok :: "('b \<Rightarrow> bool) \<Rightarrow> bool \<Rightarrow> 'b machine \<Rightarrow> 'b machine res \<Rightarrow> bool" where
  "ok I q m0 r = res_all is_hang (good I q m0) r"

definition okv :: "('b \<Rightarrow> bool) \<Rightarrow> bool \<Rightarrow> 'b machine \<Rightarrow> (u16 \<times> 'b machine) res \<Rightarrow> bool" where
  "okv I q m0 r = res_all is_hang (\<lambda>(d, m). good I q m0 m) r"

definition oka :: "('b \<Rightarrow> bool) \<Rightarrow> bool \<Rightarrow> 'b machine \<Rightarrow> (u32 \<times> 'b machine) res \<Rightarrow> bool" where
  "oka I q m0 r = res_all is_hang (\<lambda>(a, m). addr_ok a \<and> good I q m0 m) r"

lemma ok_Inr [simp]: "ok I q m0 (Inr m) = good I q m0 m"
  by (simp add: ok_def)

lemma oka_Inr [simp]: "oka I q m0 (Inr (a, m)) = (addr_ok a \<and> good I q m0 m)"
  by (simp add: oka_def)

lemma ok_rbind:
  "ok I q m0 r \<Longrightarrow> (\<And>m. good I q m0 m \<Longrightarrow> ok I q m0 (f m)) \<Longrightarrow> ok I q m0 (rbind r f)"
  unfolding ok_def by (rule res_all_rbind)

lemma okv_rbind:
  "okv I q m0 r \<Longrightarrow> (\<And>d m. good I q m0 m \<Longrightarrow> ok I q m0 (f (d, m))) \<Longrightarrow> ok I q m0 (rbind r f)"
  unfolding ok_def okv_def by (erule res_all_rbind) auto

lemma oka_rbind:
  "oka I q m0 r \<Longrightarrow> (\<And>a m. addr_ok a \<Longrightarrow> good I q m0 m \<Longrightarrow> ok I q m0 (f (a, m))) \<Longrightarrow>
   ok I q m0 (rbind r f)"
  unfolding ok_def oka_def by (erule res_all_rbind) auto

lemma oka_okv_rbind:
  "okv I q m0 r \<Longrightarrow> (\<And>d m. good I q m0 m \<Longrightarrow> oka I q m0 (f (d, m))) \<Longrightarrow> oka I q m0 (rbind r f)"
  unfolding oka_def okv_def by (erule res_all_rbind) auto

lemma oka_ok_rbind:
  "ok I q m0 r \<Longrightarrow> (\<And>m. good I q m0 m \<Longrightarrow> oka I q m0 (f m)) \<Longrightarrow> oka I q m0 (rbind r f)"
  unfolding oka_def ok_def by (erule res_all_rbind) auto

lemma internal_register: "is_internal_bus_addr a \<longleftrightarrow> (\<exists>r. bus_addr_to_register a = Some r)"
  by (simp add: is_internal_bus_addr_def bus_addr_to_register_def)

lemma addr_ok_not_psw: "addr_ok a \<Longrightarrow> bus_addr_to_register a \<noteq> Some P_PSW"
  by (auto simp: addr_ok_def bus_addr_to_register_def)

lemma register_bus_addr:
  "reg_num reg \<Longrightarrow> \<exists>r. bus_addr_to_register (register_to_bus_addr reg) = Some r \<and> r \<noteq> P_PSW"
  by (auto simp: reg_num_def register_to_bus_addr_def bus_addr_to_register_def)

lemma ok_store_register:
  assumes "good I q m0 m" and "reg_num reg"
  shows "ok I q m0 (store_data_register (register_to_bus_addr reg) d m)"
  using assms register_bus_addr [OF assms(2)]
  by (auto simp: store_data_register_def good_set_reg)

lemmas branch_defs =
  BCC_def BCS_def BEQ_def BGE_def BGT_def BHI_def BLE_def BLOS_def BLT_def BMI_def BNE_def
  BPL_def BR_def BVC_def BVS_def

lemmas nop_defs =
  ASHC_def ASH_def DIV_def MFPD_def MFPI_def MTPD_def MTPI_def MUL_def NOP_def SXT_def
  XOR_instr_def

lemmas operand_defs =
  ADCB_def ADC_def ADD_def ASLB_def ASL_def ASRB_def ASR_def BICB_def BIC_def BISB_def BIS_def
  BITB_def BIT_def CLRB_def CLR_def CMPB_def CMP_def COMB_def COM_def DECB_def DEC_def
  INCB_def INC_def JMP_def JSR_def MFPS_def MOVB_def MOV_def MTPS_def NEGB_def NEG_def
  ROLB_def ROL_def RORB_def ROR_def RTS_def SBCB_def SBC_def SUB_def SWAB_def TSTB_def TST_def

section \<open>The CPU on a bus\<close>

text \<open>
  The part of the contract the CPU needs beyond \<open>bus_memory\<close>: the first 514 bytes are
  memory, and no address of more than 16 bits is answered.
\<close>

locale cpu_bus = bus_memory +
  assumes lim_low: "514 \<le> lim" and top_16: "top \<le> 65535"
begin

lemma fetch_okv: "good inv q m0 m \<Longrightarrow> okv inv q m0 (fetch_data B a m)"
  unfolding okv_def fetch_data_def
  using translate_cases [of a] lim_low top_16
    read_ok [of "BUS_REF m" "translate_bus_addr a"] read_hang [of "BUS_REF m" "translate_bus_addr a"]
  by (auto simp: internal_register fetch_data_register_def good_def cpu_wf_def keeps_def)

lemma store_ok: "good inv q m0 m \<Longrightarrow> addr_ok a \<Longrightarrow> ok inv q m0 (store_data B a d m)"
  unfolding ok_def store_data_def
  using translate_cases [of a] lim_low top_16 addr_ok_not_psw [of a]
    write_ok [of "BUS_REF m" "translate_bus_addr a" d] write_hang [of "BUS_REF m" "translate_bus_addr a" d]
  by (auto simp: internal_register store_data_register_def good_set_reg)
    (auto simp: good_def cpu_wf_def keeps_def)

lemma storeb_ok: "good inv q m0 m \<Longrightarrow> addr_ok a \<Longrightarrow> ok inv q m0 (store_data_b B a d m)"
  unfolding ok_def store_data_b_def
  using translate_cases [of a] lim_low top_16 addr_ok_not_psw [of a]
    writeb_ok [of "BUS_REF m" "translate_bus_addr a" d] writeb_hang [of "BUS_REF m" "translate_bus_addr a" d]
  by (auto simp: internal_register store_data_register_def good_set_reg)
    (auto simp: good_def cpu_wf_def keeps_def)

lemma pc_addr_oka:
  "good inv q m0 m \<Longrightarrow> addr_ok loc \<Longrightarrow> oka inv q m0 (setup_pc_addressing B mode 7 loc m)"
  by (auto simp: setup_pc_addressing_def Let_def addr_ok_register
       intro!: oka_okv_rbind fetch_okv)

lemma sp_addr_oka:
  "good inv q m0 m \<Longrightarrow> addr_ok loc \<Longrightarrow> oka inv q m0 (setup_sp_addressing B mode 6 loc m)"
  by (auto simp: setup_sp_addressing_def Let_def addr_ok_register
       intro!: oka_okv_rbind fetch_okv)

lemma general_addr_oka:
  assumes "good inv q m0 m" and "addr_ok loc" and "reg_num reg"
  shows "oka inv q m0 (setup_general_addressing B mode reg loc m)"
proof -
  have "reg \<noteq> 8" using assms(3) by (auto simp: reg_num_def)
  moreover have "addr_ok (register_to_bus_addr reg)" using assms(3) by (rule addr_ok_register)
  ultimately show ?thesis using assms(1,2)
    by (auto simp: setup_general_addressing_def Let_def good_inc_register good_dec_register
         intro!: oka_okv_rbind oka_ok_rbind fetch_okv store_ok)
qed

lemma general_byte_addr_oka:
  assumes "good inv q m0 m" and "addr_ok loc" and "reg_num reg"
  shows "oka inv q m0 (setup_general_byte_addressing B mode reg loc m)"
proof -
  have "reg \<noteq> 8" using assms(3) by (auto simp: reg_num_def)
  moreover have "addr_ok (register_to_bus_addr reg)" using assms(3) by (rule addr_ok_register)
  ultimately show ?thesis using assms(1,2)
    by (auto simp: setup_general_byte_addressing_def Let_def good_inc_register good_dec_register
         intro!: oka_okv_rbind oka_ok_rbind fetch_okv store_ok)
qed

lemma dest_ok:
  assumes "good inv q m0 m"
  shows "ok inv q m0 (setup_dest_addressing B b m)"
  using assms dest_reg_num [of "ir m"] good_addr(1) [OF assms]
  by (auto simp: setup_dest_addressing_def Let_def good_address
       intro!: oka_rbind pc_addr_oka sp_addr_oka general_addr_oka general_byte_addr_oka)

lemma src_ok:
  assumes "good inv q m0 m"
  shows "ok inv q m0 (setup_src_addressing B b m)"
  using assms src_reg_num [of "ir m"] good_addr(2) [OF assms]
  by (auto simp: setup_src_addressing_def Let_def good_address
       intro!: oka_rbind pc_addr_oka sp_addr_oka general_addr_oka general_byte_addr_oka)

lemmas ok_intros = ok_rbind okv_rbind fetch_okv store_ok storeb_ok dest_ok src_ok ok_store_register

lemma JSR_ok: "good inv False m0 m \<Longrightarrow> ok inv False m0 (JSR B m)"
  using dest_reg_num [of "drop_bit 6 (ir m)"]
  by (auto simp: JSR_def Let_def good_dec_register intro!: ok_intros)

lemma RTS_ok: "good inv False m0 m \<Longrightarrow> ok inv False m0 (RTS B m)"
  using dest_reg_num [of "ir m"]
  by (auto simp: RTS_def Let_def good_inc_register intro!: ok_intros)

lemma MTPS_ok: "good inv False m0 m \<Longrightarrow> ok inv False m0 (MTPS B m)"
  by (auto simp: MTPS_def Let_def intro!: ok_intros)

lemma exec_op_ok:
  assumes "good inv q m0 m" and "q \<Longrightarrow> c \<noteq> JSR_op \<and> c \<noteq> RTS_op \<and> c \<noteq> MTPS_op"
  shows "ok inv q m0 (exec_op B c m)"
proof (cases "c = JSR_op \<or> c = RTS_op \<or> c = MTPS_op")
  case True
  with assms(2) have q: "q = False" by auto
  from True assms(1) show ?thesis unfolding q by (auto intro: JSR_ok RTS_ok MTPS_ok)
next
  case False
  with assms(1) show ?thesis
    by (cases c) (auto simp: operand_defs branch_defs nop_defs Let_def intro!: ok_intros good_addr)
qed

text \<open>One instruction, whatever the instruction register holds.\<close>

lemma exec_instruction_safe:
  assumes "inv (BUS_REF m)" and "cpu_wf m"
  shows "res_all is_hang (\<lambda>m'. inv (BUS_REF m') \<and> cpu_wf m' \<and> ir m' = ir m) (exec_instruction B m)"
proof (cases "decode (ir m)")
  case None
  with assms show ?thesis by (simp add: exec_instruction_def HALT_def cpu_wf_def)
next
  case (Some c)
  have "ok inv False m (exec_op B c m)"
    using assms by (intro exec_op_ok good_refl) auto
  then show ?thesis
    using Some unfolding ok_def exec_instruction_def
    by (auto simp: good_def keeps_def elim: res_all_mono)
qed

lemma cpu_cycle_safe:
  assumes "inv (BUS_REF m)" and "cpu_wf m"
  shows "res_all is_hang (\<lambda>m'. inv (BUS_REF m') \<and> cpu_wf m') (cpu_cycle B m)"
  unfolding cpu_cycle_def
proof (rule res_all_rbind2)
  show "res_all is_hang (\<lambda>(d, m'). good inv False m m') (fetch_data B (ucast (pc m)) m)"
    using fetch_okv [OF good_refl [where q = False]] assms by (simp add: okv_def)
next
  fix d m'
  assume "good inv False m m'"
  then have "inv (BUS_REF m')" and "cpu_wf m'" by (auto simp: good_def)
  then show "res_all is_hang (\<lambda>m'. inv (BUS_REF m') \<and> cpu_wf m')
      (case (d, m') of (d, m) \<Rightarrow> let m = m\<lparr>ir := d\<rparr>; m = m\<lparr>pc := pc m + 2\<rparr> in exec_instruction B m)"
    using exec_instruction_safe [of "m'\<lparr>ir := d, pc := pc m' + 2\<rparr>"]
    by (auto simp: cpu_wf_def elim!: res_all_mono)
qed

text \<open>The processor status outside N and Z changes only in three instructions.\<close>

lemma exec_instruction_psw:
  assumes "inv (BUS_REF m)" and "cpu_wf m" and "exec_instruction B m = Inr m'"
    and "decode (ir m) \<notin> {Some JSR_op, Some RTS_op, Some MTPS_op}"
  shows "psw m' AND 0xFFF3 = psw m AND 0xFFF3"
proof (cases "decode (ir m)")
  case None
  with assms(3) show ?thesis by (auto simp: exec_instruction_def HALT_def)
next
  case (Some c)
  have "ok inv True m (exec_op B c m)"
    using assms(1,2,4) Some by (intro exec_op_ok good_refl) auto
  then show ?thesis
    using Some assms(3) by (simp add: exec_instruction_def good_def keeps_def)
qed

end

end
