(* ===== verification/Cpu_Decode.thy ===== *)
theory Cpu_Decode
  imports Cpu_Safety
begin

text \<open>
  The decoding of instructions and the conditional branches. The four nested switches of
  \<open>exec_instruction\<close> test masked values in turn; the first part shows that their order
  does not matter: every opcode has one mask, and a word decodes to an opcode exactly when
  it matches under that mask. The second part gives the branches their meaning in terms of
  the four condition flags.
\<close>

section \<open>Decoding\<close>

text \<open>The mask under which each opcode is tested.\<close>

definition op_mask :: "opcode \<Rightarrow> u16" where
  "op_mask c =
     (if c \<in> set branch_ops then 0xFF00
      else if c \<in> set register_ops then 0xFE00
      else if c \<in> set double_ops then 0xF000
      else 0xFFC0)"

lemmas op_lists = branch_ops_def register_ops_def double_ops_def single_ops_def

lemma op_mask_lists:
  "c \<in> set branch_ops \<Longrightarrow> op_mask c = 0xFF00"
  "c \<in> set register_ops \<Longrightarrow> op_mask c = 0xFE00"
  "c \<in> set double_ops \<Longrightarrow> op_mask c = 0xF000"
  "c \<in> set single_ops \<Longrightarrow> op_mask c = 0xFFC0"
  by (auto simp: op_mask_def op_lists)

lemma op_cover:
  "c \<in> set branch_ops \<or> c \<in> set register_ops \<or> c \<in> set double_ops \<or> c \<in> set single_ops"
  by (cases c) (simp_all add: op_lists)

text \<open>No value can match two opcodes of different switches.\<close>

lemma no_overlap:
  "\<forall>c \<in> set branch_ops. \<forall>c' \<in> set register_ops. op_value c AND 0xFE00 \<noteq> op_value c'"
  "\<forall>c \<in> set branch_ops. \<forall>c' \<in> set double_ops. op_value c AND 0xF000 \<noteq> op_value c'"
  "\<forall>c \<in> set branch_ops. \<forall>c' \<in> set single_ops. op_value c \<noteq> op_value c' AND 0xFF00"
  "\<forall>c \<in> set register_ops. \<forall>c' \<in> set double_ops. op_value c AND 0xF000 \<noteq> op_value c'"
  "\<forall>c \<in> set register_ops. \<forall>c' \<in> set single_ops. op_value c \<noteq> op_value c' AND 0xFE00"
  "\<forall>c \<in> set double_ops. \<forall>c' \<in> set single_ops. op_value c \<noteq> op_value c' AND 0xF000"
  by (simp_all add: op_lists)

lemma op_values_distinct:
  "distinct (map op_value branch_ops)" "distinct (map op_value register_ops)"
  "distinct (map op_value double_ops)" "distinct (map op_value single_ops)"
  by (simp_all add: op_lists)

lemma switch_Some: "switch v cs = Some c \<Longrightarrow> c \<in> set cs \<and> op_value c = v"
  by (auto simp: switch_def find_Some_iff)

lemma switch_None: "switch v cs = None \<longleftrightarrow> (\<forall>c \<in> set cs. op_value c \<noteq> v)"
  by (auto simp: switch_def find_None_iff)

lemma switch_hit:
  assumes "distinct (map op_value cs)" and "c \<in> set cs"
  shows "switch (op_value c) cs = Some c"
proof (cases "switch (op_value c) cs")
  case None
  with assms(2) show ?thesis by (auto simp: switch_None)
next
  case (Some c')
  with assms show ?thesis by (auto dest!: switch_Some simp: distinct_map inj_on_def)
qed

lemma decode_sound:
  assumes "decode w = Some c"
  shows "w AND op_mask c = op_value c"
  using assms
  by (auto simp: decode_def op_mask_lists split: option.splits dest!: switch_Some)

lemma switch_miss:
  "\<forall>c' \<in> set cs. op_value c' AND k \<noteq> v \<Longrightarrow> (w AND l) AND k = v \<Longrightarrow> switch (w AND l) cs = None"
  "\<forall>c' \<in> set cs. op_value c' \<noteq> v \<Longrightarrow> w AND l = v \<Longrightarrow> switch (w AND l) cs = None"
  by (auto simp: switch_None)

lemma decode_complete:
  assumes w: "w AND op_mask c = op_value c"
  shows "decode w = Some c"
proof -
  consider "c \<in> set branch_ops" | "c \<in> set register_ops" | "c \<in> set double_ops" | "c \<in> set single_ops"
    using op_cover by blast
  then show ?thesis
  proof cases
    case 1
    with w show ?thesis
      using switch_hit [OF op_values_distinct(1)] by (simp add: decode_def op_mask_lists)
  next
    case 2
    with w have v: "w AND 0xFE00 = op_value c" by (simp add: op_mask_lists)
    have "switch (w AND 0xFF00) branch_ops = None"
      using 2 v no_overlap(1) by (intro switch_miss(1) [of _ "0xFE00" "op_value c"]) (auto simp: and.assoc)
    then show ?thesis
      using 2 v switch_hit [OF op_values_distinct(2)] by (simp add: decode_def)
  next
    case 3
    with w have v: "w AND 0xF000 = op_value c" by (simp add: op_mask_lists)
    have "switch (w AND 0xFF00) branch_ops = None" "switch (w AND 0xFE00) register_ops = None"
      using 3 v no_overlap(2,4)
      by (intro switch_miss(1) [of _ "0xF000" "op_value c"]; auto simp: and.assoc)+
    then show ?thesis
      using 3 v switch_hit [OF op_values_distinct(3)] by (simp add: decode_def)
  next
    case 4
    with w have v: "w AND 0xFFC0 = op_value c" by (simp add: op_mask_lists)
    then have "w AND 0xFF00 = op_value c AND 0xFF00" "w AND 0xFE00 = op_value c AND 0xFE00"
      "w AND 0xF000 = op_value c AND 0xF000"
      by (auto simp: and.assoc simp flip: v)
    then have "switch (w AND 0xFF00) branch_ops = None" "switch (w AND 0xFE00) register_ops = None"
      "switch (w AND 0xF000) double_ops = None"
      using 4 no_overlap(3,5,6) by (auto intro!: switch_miss(2))
    then show ?thesis
      using 4 v switch_hit [OF op_values_distinct(4)] by (simp add: decode_def)
  qed
qed

section \<open>Branches\<close>

text \<open>The condition codes of the processor status and the condition of each branch.\<close>

definition C_flag :: "'b machine \<Rightarrow> bool" where "C_flag m = bit (psw m) 0"
definition V_flag :: "'b machine \<Rightarrow> bool" where "V_flag m = bit (psw m) 1"
definition Z_flag :: "'b machine \<Rightarrow> bool" where "Z_flag m = bit (psw m) 2"
definition N_flag :: "'b machine \<Rightarrow> bool" where "N_flag m = bit (psw m) 3"

lemmas flag_defs = C_flag_def V_flag_def Z_flag_def N_flag_def

fun branch_taken :: "opcode \<Rightarrow> 'b machine \<Rightarrow> bool" where
  "branch_taken BR_op m = True"
| "branch_taken BNE_op m = (\<not> Z_flag m)"
| "branch_taken BEQ_op m = Z_flag m"
| "branch_taken BGE_op m = (N_flag m = V_flag m)"
| "branch_taken BLT_op m = (N_flag m \<noteq> V_flag m)"
| "branch_taken BGT_op m = (\<not> Z_flag m \<and> N_flag m = V_flag m)"
| "branch_taken BLE_op m = (Z_flag m \<or> N_flag m \<noteq> V_flag m)"
| "branch_taken BPL_op m = (\<not> N_flag m)"
| "branch_taken BMI_op m = N_flag m"
| "branch_taken BHI_op m = (\<not> C_flag m \<and> \<not> Z_flag m)"
| "branch_taken BLOS_op m = (C_flag m \<or> Z_flag m)"
| "branch_taken BVC_op m = (\<not> V_flag m)"
| "branch_taken BVS_op m = V_flag m"
| "branch_taken BCC_op m = (\<not> C_flag m)"
| "branch_taken BCS_op m = C_flag m"
| "branch_taken _ m = False"

lemma and_single_bit: "(w :: 'a::len word) AND push_bit n 1 = (if bit w n then push_bit n 1 else 0)"
  by (rule bit_word_eqI) (auto simp: bit_simps)

lemma and_flag:
  "(w :: u16) AND 0x1 = (if bit w 0 then 0x1 else 0)"
  "(w :: u16) AND 0x2 = (if bit w 1 then 0x2 else 0)"
  "(w :: u16) AND 0x4 = (if bit w 2 then 0x4 else 0)"
  "(w :: u16) AND 0x8 = (if bit w 3 then 0x8 else 0)"
  using and_single_bit [of w 0] and_single_bit [of w 1] and_single_bit [of w 2]
    and_single_bit [of w 3]
  by simp_all

lemma branch_step:
  assumes "c \<in> set branch_ops"
  shows "\<exists>m'. exec_op B c m = Inr m' \<and> m'\<lparr>alu := alu m, pc := pc m\<rparr> = m \<and>
    pc m' = (if branch_taken c m then pc m + 2 * scast (get_branch_offset m) else pc m)"
  using assms unfolding branch_ops_def
  by simp (elim disjE; simp add: branch_defs Let_def flag_defs and_flag get_branch_offset_def)

end
