(* ===== verification/Cpu_Semantics.thy ===== *)
theory Cpu_Semantics
  imports Cpu_Decode
begin

text \<open>
  What the operand instructions compute. Reference functions give the result of each
  instruction on its operand values, in arithmetic terms; the instructions in register
  mode are shown to compute them, and the flags N and Z to describe the result. Word
  instructions set Z and N from the 16-bit result; byte instructions compute in 16 bits
  too and clear the high byte of a register they store to.
\<close>

section \<open>Flags\<close>

lemma and_sign_bit:
  "(v :: u16) AND 0x8000 \<noteq> 0 \<longleftrightarrow> bit v 15"
  "(c :: u8) AND 0x80 \<noteq> 0 \<longleftrightarrow> bit c 7"
  using and_single_bit [of v 15] and_single_bit [of c 7] by auto

lemma bit_flag_mask:
  "bit (0x4 :: u16) n \<longleftrightarrow> n = 2" "bit (0x8 :: u16) n \<longleftrightarrow> n = 3"
  using bit_push_bit_iff [of 2 "1 :: u16" n] bit_push_bit_iff [of 3 "1 :: u16" n]
  by (auto simp: bit_simps)

lemma zero_flag_sets [simp]:
  "Z_flag (set_zero_flag v m) \<longleftrightarrow> v = 0"
  "N_flag (set_zero_flag v m) \<longleftrightarrow> N_flag m"
  by (auto simp: flag_defs set_zero_flag_def and_flag bit_or_iff bit_xor_iff bit_flag_mask)

lemma negative_flag_w_sets [simp]:
  "N_flag (set_negative_flag_w v m) \<longleftrightarrow> bit v 15"
  "Z_flag (set_negative_flag_w v m) \<longleftrightarrow> Z_flag m"
  by (auto simp: flag_defs set_negative_flag_w_def and_flag and_sign_bit bit_or_iff bit_xor_iff
        bit_flag_mask)

lemma negative_flag_b_sets [simp]:
  "N_flag (set_negative_flag_b c m) \<longleftrightarrow> bit c 7"
  "Z_flag (set_negative_flag_b c m) \<longleftrightarrow> Z_flag m"
  by (auto simp: flag_defs set_negative_flag_b_def and_flag and_sign_bit bit_or_iff bit_xor_iff
        bit_flag_mask)

text \<open>Setting flags touches the status word only.\<close>

lemma flags_frame [simp, frame]:
  "alu (set_zero_flag v m) = alu m" "alu (set_negative_flag_w v m) = alu m"
  "alu (set_negative_flag_b c m) = alu m"
  "BUS_REF (set_zero_flag v m) = BUS_REF m" "BUS_REF (set_negative_flag_w v m) = BUS_REF m"
  "BUS_REF (set_negative_flag_b c m) = BUS_REF m"
  by (simp_all add: set_zero_flag_def set_negative_flag_w_def set_negative_flag_b_def)

lemma contents_flags [simp, frame]:
  assumes "reg_num r"
  shows "fetch_register_contents r (set_zero_flag v m) = fetch_register_contents r m"
    and "fetch_register_contents r (set_negative_flag_w v m) = fetch_register_contents r m"
    and "fetch_register_contents r (set_negative_flag_b c m) = fetch_register_contents r m"
  using assms
  by (auto simp: reg_num_def fetch_register_contents_def set_zero_flag_def set_negative_flag_w_def
       set_negative_flag_b_def)

section \<open>Register operands\<close>

lemma src_reg_num_field [simp]: "reg_num (src_reg w)"
  unfolding src_reg_def by (rule src_reg_num)

lemma dest_reg_num_field [simp]: "reg_num (dest_reg w)"
  unfolding dest_reg_def by (rule dest_reg_num)

definition write_register :: "u16 \<Rightarrow> u16 \<Rightarrow> 'b machine \<Rightarrow> 'b machine" where
  "write_register reg v m = (case register_ref reg of None \<Rightarrow> m | Some r \<Rightarrow> set_reg r v m)"

lemma mode_0:
  "setup_pc_addressing B 0 reg loc m = Inr (register_to_bus_addr reg, m)"
  "setup_sp_addressing B 0 reg loc m = Inr (register_to_bus_addr reg, m)"
  "setup_general_addressing B 0 reg loc m = Inr (register_to_bus_addr reg, m)"
  "setup_general_byte_addressing B 0 reg loc m = Inr (register_to_bus_addr reg, m)"
  by (simp_all add: setup_pc_addressing_def setup_sp_addressing_def setup_general_addressing_def
        setup_general_byte_addressing_def)

lemma src_register_mode:
  assumes "src_mode (ir m) = 0"
  shows "setup_src_addressing B b m = Inr (m\<lparr>src_address := register_to_bus_addr (src_reg (ir m))\<rparr>)"
  using assms unfolding setup_src_addressing_def src_mode_def src_reg_def Let_def
  by (simp only: mode_0 if_cancel rbind_Inr split_conv)

lemma dest_register_mode:
  assumes "dest_mode (ir m) = 0"
  shows "setup_dest_addressing B b m = Inr (m\<lparr>dest_address := register_to_bus_addr (dest_reg (ir m))\<rparr>)"
  using assms unfolding setup_dest_addressing_def dest_mode_def dest_reg_def Let_def
  by (simp only: mode_0 if_cancel rbind_Inr split_conv)

lemma fetch_register:
  "reg_num reg \<Longrightarrow>
   fetch_data B (register_to_bus_addr reg) m = Inr (fetch_register_contents reg m, m)"
  unfolding reg_num_def by (elim insertE emptyE) (simp_all add: fetch_data_def register_to_bus_addr_def is_internal_bus_addr_def
       fetch_data_register_def bus_addr_to_register_def fetch_register_contents_def)

lemma store_register:
  "reg_num reg \<Longrightarrow> store_data B (register_to_bus_addr reg) v m = Inr (write_register reg v m)"
  unfolding reg_num_def by (elim insertE emptyE) (simp_all add: store_data_def register_to_bus_addr_def is_internal_bus_addr_def
       store_data_register_def bus_addr_to_register_def write_register_def register_ref_def)

lemma store_register_b:
  "reg_num reg \<Longrightarrow>
   store_data_b B (register_to_bus_addr reg) v m = Inr (write_register reg (ucast v) m)"
  unfolding reg_num_def by (elim insertE emptyE) (simp_all add: store_data_b_def register_to_bus_addr_def is_internal_bus_addr_def
       store_data_register_def bus_addr_to_register_def write_register_def register_ref_def)

lemma contents_write_register:
  "reg_num r \<Longrightarrow> reg_num reg \<Longrightarrow> fetch_register_contents r (write_register reg v m) =
     (if r = reg then v else fetch_register_contents r m)"
  unfolding reg_num_def by (elim insertE emptyE) (simp_all add: write_register_def register_ref_def fetch_register_contents_def)

lemma write_register_frame [simp, frame]:
  "alu (write_register reg v m) = alu m" "BUS_REF (write_register reg v m) = BUS_REF m"
  by (auto simp: write_register_def register_ref_def)

lemma contents_frame [simp, frame]:
  "fetch_register_contents r (m\<lparr>alu := v\<rparr>) = fetch_register_contents r m"
  "fetch_register_contents r (m\<lparr>src_address := a\<rparr>) = fetch_register_contents r m"
  "fetch_register_contents r (m\<lparr>dest_address := a\<rparr>) = fetch_register_contents r m"
  by (simp_all add: fetch_register_contents_def)

section \<open>Double-operand instructions\<close>

definition word_double_ops :: "opcode list" where
  "word_double_ops = [MOV_op, CMP_op, BIT_op, BIC_op, BIS_op, ADD_op, SUB_op]"

text \<open>The result of a word instruction on source \<open>s\<close> and destination \<open>d\<close>.\<close>

definition alu2 :: "opcode \<Rightarrow> u16 \<Rightarrow> u16 \<Rightarrow> u16" where
  "alu2 c s d =
     (if c = MOV_op then s
      else if c = CMP_op then d - s
      else if c = BIT_op then s AND d
      else if c = BIC_op then d AND NOT s
      else if c = BIS_op then d OR s
      else if c = ADD_op then s + d
      else s - d)"

definition writes_dest :: "opcode \<Rightarrow> bool" where
  "writes_dest c \<longleftrightarrow> c \<noteq> CMP_op \<and> c \<noteq> BIT_op \<and> c \<noteq> TST_op"

lemma double_register:
  assumes "c \<in> set word_double_ops" and "src_mode (ir m) = 0" and "dest_mode (ir m) = 0"
    and "v = alu2 c (fetch_register_contents (src_reg (ir m)) m)
                    (fetch_register_contents (dest_reg (ir m)) m)"
  shows "\<exists>m'. exec_op B c m = Inr m' \<and> alu m' = v \<and> BUS_REF m' = BUS_REF m \<and>
    Z_flag m' = (v = 0) \<and> N_flag m' = bit v 15 \<and>
    (\<forall>r. reg_num r \<longrightarrow> fetch_register_contents r m' =
       (if r = dest_reg (ir m) \<and> writes_dest c then v else fetch_register_contents r m))"
  using assms(1) unfolding word_double_ops_def list.set insert_iff empty_iff
  by (elim disjE)
    (use assms(2-4) in \<open>auto simp: MOV_def CMP_def BIT_def BIC_def BIS_def ADD_def SUB_def Let_def
       src_register_mode dest_register_mode fetch_register store_register contents_write_register
       alu2_def writes_dest_def\<close>)

section \<open>Single-operand instructions\<close>

definition word_single_ops :: "opcode list" where
  "word_single_ops =
     [SWAB_op, CLR_op, COM_op, INC_op, DEC_op, NEG_op, ADC_op, SBC_op, TST_op, ROR_op, ROL_op,
      ASR_op, ASL_op]"

text \<open>
  The result of a word instruction on destination \<open>d\<close> with carry \<open>cy\<close>. The code's \<open>ROL\<close>
  rotates to the right and its \<open>ROR\<close> to the left, in both cases without the carry; its \<open>ASR\<close>
  divides the unsigned value.
\<close>

definition alu1 :: "opcode \<Rightarrow> bool \<Rightarrow> u16 \<Rightarrow> u16" where
  "alu1 c cy d =
     (if c = SWAB_op then le_word (hi_byte d) (lo_byte d)
      else if c = CLR_op then 0
      else if c = COM_op then - d - 1
      else if c = INC_op then d + 1
      else if c = DEC_op then d - 1
      else if c = NEG_op then - d
      else if c = ADC_op then d + of_bool cy
      else if c = SBC_op then d - of_bool cy
      else if c = ROR_op then word_rotl 1 d
      else if c = ROL_op then word_rotr 1 d
      else if c = ASR_op then d div 2
      else if c = ASL_op then 2 * d
      else d)"

lemma rotate_right: "push_bit 15 d OR drop_bit 1 d = word_rotr 1 (d :: u16)"
proof (rule bit_word_eqI)
  fix n
  assume n: "n < LENGTH(16)"
  show "bit (push_bit 15 d OR drop_bit 1 d) n = bit (word_rotr 1 d) n"
  proof (cases "n = 15")
    case True
    then show ?thesis by (simp add: bit_simps) (use bit_imp_le_length [of d 16] in auto)
  next
    case False
    with n have "n < 15" by simp
    then show ?thesis by (simp add: bit_simps)
  qed
qed

lemma rotate_left: "push_bit 1 d OR drop_bit 15 d = word_rotl 1 (d :: u16)"
proof (rule bit_word_eqI)
  fix n
  assume n: "n < LENGTH(16)"
  have high: "\<not> bit d (15 + Suc k)" for k
    using bit_imp_le_length [of d "15 + Suc k"] by auto
  have low: "bit (push_bit 1 d) n \<longleftrightarrow> n \<noteq> 0 \<and> bit d (n - 1)"
    using n by (simp only: bit_push_bit_iff) auto
  show "bit (push_bit 1 d OR drop_bit 15 d) n = bit (word_rotl 1 d) n"
  proof (cases n)
    case 0
    then show ?thesis using low by (simp only: bit_or_iff bit_drop_bit_eq) (simp add: bit_simps)
  next
    case (Suc k)
    then have "(n + 15) mod 16 = k" using n by simp
    then show ?thesis
      using Suc low high [of k] n by (simp only: bit_or_iff bit_drop_bit_eq) (simp add: bit_simps)
  qed
qed

lemma swap_bytes:
  "drop_bit 8 (d AND 0xFF00) OR push_bit 8 (d AND 0xFF) = le_word (hi_byte d) (lo_byte d)"
  unfolding le_word_def hi_byte_def lo_byte_def word_facts
  by (rule bit_word_eqI) (auto simp: bit_simps)

lemma carry_bit: "w AND (0x1 :: u16) = of_bool (bit w 0)"
  by (simp add: and_flag)

lemma negate: "NOT d + 1 = - (d :: u16)"
  by (simp add: not_eq_complement)

lemma halve: "drop_bit 1 (d :: u16) = d div 2"
  by (simp add: drop_bit_eq_div)

text \<open>The instructions with their bit expressions replaced by the arithmetic ones.\<close>

lemmas single_alt =
  SWAB_def [unfolded swap_bytes] ROR_def [unfolded rotate_left] ROL_def [unfolded rotate_right]
  NEG_def [unfolded negate] COM_def [unfolded not_eq_complement] ASR_def [unfolded halve]
  ADC_def [unfolded carry_bit] SBC_def [unfolded carry_bit]
  CLR_def INC_def DEC_def TST_def ASL_def

lemma single_register:
  assumes "c \<in> set word_single_ops" and "dest_mode (ir m) = 0"
    and "v = alu1 c (C_flag m) (fetch_register_contents (dest_reg (ir m)) m)"
  shows "\<exists>m'. exec_op B c m = Inr m' \<and> alu m' = v \<and> BUS_REF m' = BUS_REF m \<and>
    Z_flag m' = (v = 0) \<and> N_flag m' = bit v 15 \<and>
    (\<forall>r. reg_num r \<longrightarrow> fetch_register_contents r m' =
       (if r = dest_reg (ir m) \<and> writes_dest c then v else fetch_register_contents r m))"
  using assms(1) unfolding word_single_ops_def list.set insert_iff empty_iff
  by (elim disjE)
    (use assms(2,3) in \<open>auto simp: single_alt Let_def dest_register_mode fetch_register
       store_register contents_write_register alu1_def writes_dest_def C_flag_def mult.commute\<close>)

section \<open>Byte arithmetic\<close>

lemma ucast_word_of_int: "(ucast (word_of_int k :: u16) :: u8) = word_of_int k"
  by (simp add: unsigned_of_int word_of_int_eq_iff)

lemma ucast_u8_int: "(ucast (x :: u16) :: u8) = word_of_int (uint x)"
  by (metis ucast_word_of_int word_of_int_uint)

lemma lo_byte_ring:
  fixes x y :: u16
  shows "(ucast (x + y) :: u8) = ucast x + ucast y"
    and "(ucast (x - y) :: u8) = ucast x - ucast y"
    and "(ucast (NOT x) :: u8) = NOT (ucast x)"
    and "(ucast (x AND y) :: u8) = ucast x AND ucast y"
    and "(ucast (x OR y) :: u8) = ucast x OR ucast y"
proof -
  have "(ucast (x + y) :: u8) = word_of_int (uint x + uint y)"
    by (simp flip: ucast_word_of_int)
  then show "(ucast (x + y) :: u8) = ucast x + ucast y"
    by (simp only: ucast_u8_int of_int_add)
  have "(ucast (x - y) :: u8) = word_of_int (uint x - uint y)"
    by (simp flip: ucast_word_of_int)
  then show "(ucast (x - y) :: u8) = ucast x - ucast y"
    by (simp only: ucast_u8_int of_int_diff)
  show "(ucast (NOT x) :: u8) = NOT (ucast x)" "(ucast (x AND y) :: u8) = ucast x AND ucast y"
    "(ucast (x OR y) :: u8) = ucast x OR ucast y"
    by (rule bit_word_eqI; simp add: bit_simps)+
qed

lemma low8: "(w :: u16) AND 0xFF = ucast (lo_byte w)"
  unfolding lo_byte_def word_facts
  by (rule bit_word_eqI) (auto simp: bit_simps dest: bit_imp_le_length)
lemma ucast_0_iff: "(ucast (b::u8) :: u16) = 0 \<longleftrightarrow> b = 0"
  by (metis ucast_u8_u16_inverse unsigned_0)
lemma ucast_inj: "(ucast (b::u8) :: u16) = ucast c \<longleftrightarrow> b = c"
  by (metis ucast_u8_u16_inverse)
lemma rotate_right_b: "(ucast (push_bit 7 (ucast (b::u8)) OR drop_bit 1 (ucast b) :: u16) :: u8) = word_rotr 1 b"
proof (rule bit_word_eqI)
  fix n assume n: "n < LENGTH(8)"
  show "bit (ucast (push_bit 7 (ucast b) OR drop_bit 1 (ucast b) :: u16) :: u8) n = bit (word_rotr 1 b) n"
  proof (cases "n = 7")
    case True then show ?thesis by (simp add: bit_simps) (use bit_imp_le_length [of b 8] in auto)
  next
    case False with n have "n < 7" by simp
    then show ?thesis by (simp add: bit_simps)
  qed
qed
lemma rotate_left_b: "(ucast (push_bit 1 (ucast (b::u8)) OR drop_bit 7 (ucast b) :: u16) :: u8) = word_rotl 1 b"
proof (rule bit_word_eqI)
  fix n assume n: "n < LENGTH(8)"
  have high: "\<not> bit b (7 + Suc k)" for k using bit_imp_le_length [of b "7 + Suc k"] by auto
  show "bit (ucast (push_bit 1 (ucast b) OR drop_bit 7 (ucast b) :: u16) :: u8) n = bit (word_rotl 1 b) n"
  proof (cases n)
    case 0
    then show ?thesis by (simp only: bit_ucast_iff bit_or_iff bit_drop_bit_eq bit_push_bit_iff) (auto simp: bit_simps)
  next
    case (Suc k)
    then have "(n + 7) mod 8 = k" using n by simp
    then show ?thesis using Suc high[of k] n
      by (simp only: bit_ucast_iff bit_or_iff bit_drop_bit_eq bit_push_bit_iff) (auto simp add: bit_simps)
  qed
qed
lemma rotate_zero_b:
  "push_bit 7 (ucast (b :: u8)) OR drop_bit 1 (ucast b) = (0 :: u16) \<longleftrightarrow> word_rotr 1 b = 0"
  "push_bit 1 (ucast (b :: u8)) OR drop_bit 7 (ucast b) = (0 :: u16) \<longleftrightarrow> word_rotl 1 b = 0"
proof -
  have "word_rotr 1 b = 0 \<longleftrightarrow> b = 0" "word_rotl 1 b = 0 \<longleftrightarrow> b = 0"
    by (metis word_rot_rl word_rotx_0) (metis word_rot_lr word_rotx_0)
  then show "push_bit 7 (ucast b) OR drop_bit 1 (ucast b) = (0 :: u16) \<longleftrightarrow> word_rotr 1 b = 0"
    "push_bit 1 (ucast b) OR drop_bit 7 (ucast b) = (0 :: u16) \<longleftrightarrow> word_rotl 1 b = 0"
    using rotate_right_b [of b] rotate_left_b [of b] by auto
qed

section \<open>Byte instructions\<close>

definition byte_double_ops :: "opcode list" where
  "byte_double_ops = [MOVB_op, CMPB_op, BITB_op, BICB_op, BISB_op]"

definition byte_single_ops :: "opcode list" where
  "byte_single_ops = [CLRB_op, DECB_op, NEGB_op, SBCB_op, TSTB_op, RORB_op, ROLB_op, ASRB_op]"

text \<open>The result of a byte instruction in 8-bit arithmetic.\<close>

definition alu2_b :: "opcode \<Rightarrow> u8 \<Rightarrow> u8 \<Rightarrow> u8" where
  "alu2_b c s d =
     (if c = MOVB_op then s
      else if c = CMPB_op then d - s
      else if c = BITB_op then s AND d
      else if c = BICB_op then d AND NOT s
      else d OR s)"

definition alu1_b :: "opcode \<Rightarrow> bool \<Rightarrow> u8 \<Rightarrow> u8" where
  "alu1_b c cy d =
     (if c = CLRB_op then 0
      else if c = DECB_op then d - 1
      else if c = NEGB_op then - d
      else if c = SBCB_op then d - of_bool cy
      else if c = RORB_op then word_rotl 1 d
      else if c = ROLB_op then word_rotr 1 d
      else if c = ASRB_op then d div 2
      else d)"

definition writes_dest_b :: "opcode \<Rightarrow> bool" where
  "writes_dest_b c \<longleftrightarrow> c \<noteq> CMPB_op \<and> c \<noteq> BITB_op \<and> c \<noteq> TSTB_op"

lemma ucast_byte_ops:
  "(ucast (a :: u8) AND ucast b :: u16) = ucast (a AND b)"
  "(ucast (a :: u8) OR ucast b :: u16) = ucast (a OR b)"
  "(ucast (a :: u8) AND NOT (ucast b) :: u16) = ucast (a AND NOT b)"
  "drop_bit 1 (ucast (a :: u8)) = (ucast (drop_bit 1 a) :: u16)"
  by (rule bit_word_eqI; auto simp: bit_simps dest: bit_imp_le_length)+

lemma diff_zero_b: "ucast (a :: u8) - ucast b = (0 :: u16) \<longleftrightarrow> a - b = 0"
  by (simp add: ucast_inj)

lemma byte_double_register:
  assumes "c \<in> set byte_double_ops" and "src_mode (ir m) = 0" and "dest_mode (ir m) = 0"
    and "v = alu2_b c (lo_byte (fetch_register_contents (src_reg (ir m)) m))
                      (lo_byte (fetch_register_contents (dest_reg (ir m)) m))"
  shows "\<exists>m'. exec_op B c m = Inr m' \<and> BUS_REF m' = BUS_REF m \<and>
    Z_flag m' = (v = 0) \<and> N_flag m' = bit v 7 \<and>
    (\<forall>r. reg_num r \<longrightarrow> fetch_register_contents r m' =
       (if r = dest_reg (ir m) \<and> writes_dest_b c then ucast v else fetch_register_contents r m))"
  using assms(1) unfolding byte_double_ops_def list.set insert_iff empty_iff
  by (elim disjE)
    (use assms(2-4) in \<open>auto simp: MOVB_def CMPB_def BITB_def BICB_def BISB_def Let_def
       src_register_mode dest_register_mode fetch_register store_register_b contents_write_register
       alu2_b_def writes_dest_b_def low8 ucast_byte_ops ucast_0_iff lo_byte_ring ucast_inj\<close>)


lemma negate_b: "lo_byte (NOT (ucast (b :: u8)) + 1) = - b"
proof -
  have "lo_byte w = ucast w" for w
    unfolding lo_byte_def word_facts
    by (rule bit_word_eqI) (auto simp: bit_simps dest: bit_imp_le_length)
  then have "lo_byte (NOT (ucast b) + 1) = NOT b + 1"
    by (simp only: lo_byte_ring ucast_u8_u16_inverse unsigned_1)
  then show ?thesis by (simp add: not_eq_complement)
qed

lemma ucast_1_iff: "(ucast (b :: u8) :: u16) = 1 \<longleftrightarrow> b = 1"
  by (metis ucast_u8_u16_inverse unsigned_1)

text \<open>The 16-bit values that the byte rotations and the byte shift leave in the ALU.\<close>

definition rotate_alu_r :: "u16 \<Rightarrow> u16" where "rotate_alu_r w = push_bit 7 w OR drop_bit 1 w"
definition rotate_alu_l :: "u16 \<Rightarrow> u16" where "rotate_alu_l w = push_bit 1 w OR drop_bit 7 w"

lemma rotate_alu:
  "(ucast (rotate_alu_r (ucast b)) :: u8) = word_rotr 1 b"
  "(ucast (rotate_alu_l (ucast b)) :: u8) = word_rotl 1 b"
  "rotate_alu_r (ucast (b :: u8)) = 0 \<longleftrightarrow> word_rotr 1 b = 0"
  "rotate_alu_l (ucast (b :: u8)) = 0 \<longleftrightarrow> word_rotl 1 b = 0"
  unfolding rotate_alu_r_def rotate_alu_l_def
  by (rule rotate_right_b rotate_left_b rotate_zero_b)+

definition halve_alu :: "u16 \<Rightarrow> u16" where "halve_alu w = drop_bit 1 w"

lemma halve_alu: "halve_alu (ucast (b :: u8)) = ucast (b div 2)"
  unfolding halve_alu_def ucast_byte_ops by (simp add: drop_bit_eq_div)

lemmas byte_single_alt =
  NEGB_def [unfolded low8] SBCB_def [unfolded low8 carry_bit]
  CLRB_def DECB_def [unfolded low8] TSTB_def [unfolded low8]
  RORB_def [unfolded low8, folded rotate_alu_l_def]
  ROLB_def [unfolded low8, folded rotate_alu_r_def]
  ASRB_def [unfolded low8, folded halve_alu_def]

lemma byte_single_register:
  assumes "c \<in> set byte_single_ops" and "dest_mode (ir m) = 0"
    and "v = alu1_b c (C_flag m) (lo_byte (fetch_register_contents (dest_reg (ir m)) m))"
  shows "\<exists>m'. exec_op B c m = Inr m' \<and> BUS_REF m' = BUS_REF m \<and>
    Z_flag m' = (v = 0) \<and> N_flag m' = bit v 7 \<and>
    (\<forall>r. reg_num r \<longrightarrow> fetch_register_contents r m' =
       (if r = dest_reg (ir m) \<and> writes_dest_b c then ucast v else fetch_register_contents r m))"
  using assms(1) unfolding byte_single_ops_def list.set insert_iff empty_iff
  by (elim disjE)
    (use assms(2,3) in \<open>auto simp: byte_single_alt Let_def
       dest_register_mode fetch_register store_register_b contents_write_register
       alu1_b_def writes_dest_b_def ucast_0_iff ucast_1_iff lo_byte_ring C_flag_def
       rotate_alu halve_alu negate_b\<close>)
end
