(* ===== verification/Load.thy ===== *)
theory Load
  imports Prelude
begin

text \<open>
  The a.out reader of \<open>src/src/libload/load.c\<close> and \<open>load.h\<close>. A file is the list of its
  bytes, together with the number of \<open>read\<close> calls that succeed before an I/O error. The
  host is little-endian, as the code assumes when it reads a 16-bit word into memory.
  The parts of the environment a call can fail on are the fields of \<open>os\<close>.
\<close>

section \<open>Data\<close>

record aout_header =
  a_midmag :: u16
  a_text :: u16
  a_data :: u16
  a_bss :: u16
  a_syms :: u16
  a_entry :: u16
  a_trsize :: u16
  a_drsize :: u16

text \<open>The pointer \<open>text\<close> of the struct is \<open>None\<close> when it is null.\<close>

record aout_object =
  header :: aout_header
  text_ptr :: "u16 list option"

record in_file =
  fbytes :: "u8 list"
  reads_left :: "nat option"

text \<open>
  \<open>junk_header\<close> is what \<open>malloc\<close> leaves in the header of the object; the file map
  has an entry for each path that \<open>open\<close> can open.
\<close>

record os =
  files :: "string \<Rightarrow> in_file option"
  malloc_ok :: bool
  calloc_ok :: bool
  close_ok :: bool
  junk_header :: aout_header

section \<open>Operations\<close>

text \<open>
  \<open>read(fd, buf, n)\<close>: the bytes that were read (fewer than \<open>n\<close> at the end of the file),
  or \<open>None\<close> for the return value \<open>-1\<close>.
\<close>

definition sys_read :: "nat \<Rightarrow> in_file \<Rightarrow> u8 list option \<times> in_file" where
  "sys_read n f =
     (if reads_left f = Some 0 then (None, f)
      else (Some (take n (fbytes f)),
            f\<lparr>fbytes := drop n (fbytes f),
              reads_left := map_option (\<lambda>k. k - 1) (reads_left f)\<rparr>))"

text \<open>The bytes that \<open>read\<close> delivers overwrite the front of a \<open>uint16_t\<close> variable.\<close>

fun put_bytes :: "u16 \<Rightarrow> u8 list \<Rightarrow> u16" where
  "put_bytes old [] = old"
| "put_bytes old [b] = le_word b (hi_byte old)"
| "put_bytes old (b0 # b1 # _) = le_word b0 b1"

text \<open>The two reading loops: one \<open>read\<close> per word, stopping at the first error.\<close>

fun read_words :: "u16 list \<Rightarrow> in_file \<Rightarrow> u16 list option \<times> in_file" where
  "read_words [] f = (Some [], f)"
| "read_words (old # olds) f =
     (case sys_read 2 f of
        (None, f') \<Rightarrow> (None, f')
      | (Some bs, f') \<Rightarrow>
          (case read_words olds f' of
             (None, f'') \<Rightarrow> (None, f'')
           | (Some ws, f'') \<Rightarrow> (Some (put_bytes old bs # ws), f'')))"

definition header_refs :: "aout_header \<Rightarrow> u16 list" where
  "header_refs h =
     [a_midmag h, a_text h, a_data h, a_bss h, a_syms h, a_entry h, a_trsize h, a_drsize h]"

fun header_of_refs :: "u16 list \<Rightarrow> aout_header" where
  "header_of_refs [w0, w1, w2, w3, w4, w5, w6, w7] =
     \<lparr>a_midmag = w0, a_text = w1, a_data = w2, a_bss = w3,
      a_syms = w4, a_entry = w5, a_trsize = w6, a_drsize = w7\<rparr>"
| "header_of_refs _ =
     \<lparr>a_midmag = 0, a_text = 0, a_data = 0, a_bss = 0,
      a_syms = 0, a_entry = 0, a_trsize = 0, a_drsize = 0\<rparr>"

definition aout_read_header :: "in_file \<Rightarrow> aout_object \<Rightarrow> (int \<times> aout_object) \<times> in_file" where
  "aout_read_header fd aout =
     (case read_words (header_refs (header aout)) fd of
        (None, fd') \<Rightarrow> ((-1, aout), fd')
      | (Some ws, fd') \<Rightarrow> ((0, aout\<lparr>header := header_of_refs ws\<rparr>), fd'))"

definition aout_read_text :: "os \<Rightarrow> in_file \<Rightarrow> aout_object \<Rightarrow> (int \<times> aout_object) \<times> in_file" where
  "aout_read_text E fd aout =
     (let n_text = unat (drop_bit 1 (a_text (header aout)))
      in if \<not> calloc_ok E then ((-1, aout\<lparr>text_ptr := None\<rparr>), fd)
         else (case read_words (replicate n_text 0) fd of
                 (None, fd') \<Rightarrow> ((-1, aout\<lparr>text_ptr := Some (replicate n_text 0)\<rparr>), fd')
               | (Some ws, fd') \<Rightarrow> ((0, aout\<lparr>text_ptr := Some ws\<rparr>), fd')))"

text \<open>\<open>None\<close> is the null pointer that every error path returns.\<close>

definition aout_read :: "os \<Rightarrow> string \<Rightarrow> aout_object option" where
  "aout_read E executable =
     (case files E executable of
        None \<Rightarrow> None
      | Some fd \<Rightarrow>
          if \<not> malloc_ok E then None
          else (case aout_read_header fd \<lparr>header = junk_header E, text_ptr = None\<rparr> of
                  ((r, aout), fd') \<Rightarrow>
                    if r \<noteq> 0 then None
                    else (case aout_read_text E fd' aout of
                            ((r', aout'), fd'') \<Rightarrow>
                              if r' \<noteq> 0 then None
                              else if \<not> close_ok E then None
                              else Some aout')))"

section \<open>The file format\<close>

text \<open>The image of an object: its header words, then its text words, low byte first.\<close>

definition aout_image :: "aout_header \<Rightarrow> u16 list \<Rightarrow> u8 list" where
  "aout_image h ws = concat (map word_bytes (header_refs h @ ws))"

text \<open>
  The words that \<open>n\<close> successive reads take from \<open>bs\<close> into variables holding \<open>olds\<close>.
\<close>

fun words_of :: "u16 list \<Rightarrow> u8 list \<Rightarrow> u16 list" where
  "words_of [] bs = []"
| "words_of (old # olds) bs = put_bytes old (take 2 bs) # words_of olds (drop 2 bs)"

section \<open>Lemmas\<close>

lemma length_words_of [simp]: "length (words_of olds bs) = length olds"
  by (induction olds arbitrary: bs) auto

lemma header_of_refs_refs [simp]: "header_of_refs (header_refs h) = h"
  by (simp add: header_refs_def)

lemma header_refs_of_refs: "length ws = 8 \<Longrightarrow> header_refs (header_of_refs ws) = ws"
  by (auto simp: header_refs_def numeral_eq_Suc length_Suc_conv)

lemma length_header_refs [simp]: "length (header_refs h) = 8"
  by (simp add: header_refs_def)

lemma put_bytes_word [simp]: "put_bytes old (take 2 (word_bytes w @ bs)) = w"
  by (simp add: word_bytes_def numeral_eq_Suc)

text \<open>With enough successful reads the loop delivers the words of the file.\<close>

lemma read_words_ok:
  assumes "\<And>k. reads_left f = Some k \<Longrightarrow> length olds \<le> k"
  shows "read_words olds f =
    (Some (words_of olds (fbytes f)),
     f\<lparr>fbytes := drop (2 * length olds) (fbytes f),
       reads_left := map_option (\<lambda>k. k - length olds) (reads_left f)\<rparr>)"
  using assms
proof (induction olds arbitrary: f)
  case Nil
  then show ?case by (cases "reads_left f") auto
next
  case (Cons old olds)
  let ?f' = "f\<lparr>fbytes := drop 2 (fbytes f), reads_left := map_option (\<lambda>k. k - 1) (reads_left f)\<rparr>"
  have "read_words olds ?f' =
    (Some (words_of olds (fbytes ?f')),
     ?f'\<lparr>fbytes := drop (2 * length olds) (fbytes ?f'),
       reads_left := map_option (\<lambda>k. k - length olds) (reads_left ?f')\<rparr>)"
    using Cons.prems by (intro Cons.IH) (cases "reads_left f"; auto)
  moreover have "reads_left f \<noteq> Some 0"
    using Cons.prems by auto
  ultimately show ?case
    by (simp add: sys_read_def option.map_comp o_def)
qed

text \<open>An I/O error before the last read makes the loop fail.\<close>

lemma read_words_error:
  assumes "reads_left f = Some k" and "k < length olds"
  shows "fst (read_words olds f) = None"
  using assms
proof (induction olds arbitrary: f k)
  case Nil
  then show ?case by simp
next
  case (Cons old olds)
  show ?case
  proof (cases k)
    case 0
    with Cons.prems show ?thesis by (simp add: sys_read_def)
  next
    case (Suc j)
    let ?f' = "f\<lparr>fbytes := drop 2 (fbytes f), reads_left := Some j\<rparr>"
    have "fst (read_words olds ?f') = None"
      using Suc Cons.prems by (intro Cons.IH [of _ j]) auto
    then show ?thesis
      using Suc Cons.prems
      by (cases "read_words olds ?f'") (simp add: sys_read_def)
  qed
qed

lemma words_of_image:
  "length olds = length ws \<Longrightarrow> words_of olds (concat (map word_bytes ws) @ bs) = ws"
proof (induction olds arbitrary: ws)
  case Nil
  then show ?case by simp
next
  case (Cons old olds)
  then obtain w ws' where ws: "ws = w # ws'" by (cases ws) auto
  have "drop 2 (word_bytes w @ concat (map word_bytes ws') @ bs) = concat (map word_bytes ws') @ bs"
    by (simp add: word_bytes_def)
  with Cons ws show ?case by (simp del: take_append drop_append)
qed

lemma length_concat_word_bytes: "length (concat (map word_bytes ws)) = 2 * length ws"
  by (induction ws) (auto simp: word_bytes_def)

text \<open>The words beyond the end of a file keep the old contents of their variables.\<close>

lemma words_of_Nil [simp]: "words_of olds [] = olds"
  by (induction olds) auto

lemma words_of_truncated:
  assumes "length ws \<le> length olds"
  shows "words_of olds (concat (map word_bytes ws)) = ws @ drop (length ws) olds"
  using assms
proof (induction ws arbitrary: olds)
  case Nil
  then show ?case by simp
next
  case (Cons w ws)
  then obtain old olds' where olds: "olds = old # olds'" by (cases olds) auto
  have "drop 2 (word_bytes w @ concat (map word_bytes ws)) = concat (map word_bytes ws)"
    by (simp add: word_bytes_def)
  with Cons olds show ?case by (simp del: take_append drop_append)
qed

text \<open>What \<open>aout_read\<close> returns when nothing in the environment fails.\<close>

lemma aout_read_ok:
  assumes "files E p = Some f" and "reads_left f = None"
    and "malloc_ok E" and "calloc_ok E" and "close_ok E"
    and "h = header_of_refs (words_of (header_refs (junk_header E)) (fbytes f))"
  shows "aout_read E p =
    Some \<lparr>header = h,
          text_ptr = Some (words_of (replicate (unat (drop_bit 1 (a_text h))) 0)
                                (drop 16 (fbytes f)))\<rparr>"
proof -
  have "read_words (header_refs (junk_header E)) f =
      (Some (words_of (header_refs (junk_header E)) (fbytes f)), f\<lparr>fbytes := drop 16 (fbytes f)\<rparr>)"
    using assms(2) by (subst read_words_ok) auto
  moreover have "read_words (replicate n 0) (f\<lparr>fbytes := drop 16 (fbytes f)\<rparr>) =
      (Some (words_of (replicate n 0) (drop 16 (fbytes f))), f\<lparr>fbytes := drop (16 + 2 * n) (fbytes f)\<rparr>)"
    for n
    using assms(2) by (subst read_words_ok) (auto simp: add.commute)
  ultimately show ?thesis
    using assms by (simp add: aout_read_def aout_read_header_def aout_read_text_def Let_def)
qed

lemma header_of_image:
  "length olds = 8 \<Longrightarrow> header_of_refs (words_of olds (aout_image h ws @ rest)) = h"
  using words_of_image [of olds "header_refs h" "concat (map word_bytes ws) @ rest"]
  by (simp add: aout_image_def)

lemma drop_header: "drop 16 (aout_image h ws @ rest) = concat (map word_bytes ws) @ rest"
  using length_concat_word_bytes [of "header_refs h"] by (simp add: aout_image_def)

lemma aout_read_header_fails:
  assumes "reads_left f = Some k" and "k < 8"
  shows "fst (fst (aout_read_header f obj)) = -1"
  using read_words_error [OF assms(1), of "header_refs (header obj)"] assms(2)
  by (auto simp: aout_read_header_def split: prod.split option.split)

lemma aout_read_header_ok:
  assumes "\<not> (\<exists>k. reads_left f = Some k \<and> k < 8)" and "obj = \<lparr>header = h, text_ptr = None\<rparr>"
  shows "aout_read_header f obj =
    ((0, obj\<lparr>header := header_of_refs (words_of (header_refs h) (fbytes f))\<rparr>),
     f\<lparr>fbytes := drop 16 (fbytes f), reads_left := map_option (\<lambda>k. k - 8) (reads_left f)\<rparr>)"
proof -
  have "read_words (header_refs h) f =
      (Some (words_of (header_refs h) (fbytes f)),
       f\<lparr>fbytes := drop 16 (fbytes f), reads_left := map_option (\<lambda>k. k - 8) (reads_left f)\<rparr>)"
    using assms(1) by (subst read_words_ok) (auto simp: not_less)
  then show ?thesis by (simp add: aout_read_header_def assms(2))
qed

lemma aout_read_None_iff:
  "aout_read E p = None \<longleftrightarrow>
    (case files E p of
       None \<Rightarrow> True
     | Some f \<Rightarrow>
         \<not> malloc_ok E \<or> \<not> calloc_ok E \<or> \<not> close_ok E \<or>
         (let h = header_of_refs (words_of (header_refs (junk_header E)) (fbytes f))
          in \<exists>k. reads_left f = Some k \<and> k < 8 + unat (a_text h) div 2))"
proof (cases "files E p")
  case None
  then show ?thesis by (simp add: aout_read_def)
next
  case (Some f)
  let ?h = "header_of_refs (words_of (header_refs (junk_header E)) (fbytes f))"
  let ?n = "unat (a_text ?h) div 2"
  let ?obj = "\<lparr>header = junk_header E, text_ptr = None\<rparr>"
  show ?thesis
  proof (cases "\<exists>k. reads_left f = Some k \<and> k < 8")
    case True
    then have "fst (fst (aout_read_header f ?obj)) = -1" using aout_read_header_fails by blast
    with Some True show ?thesis
      by (auto simp: aout_read_def Let_def split: prod.splits)
  next
    case False
    let ?f' = "f\<lparr>fbytes := drop 16 (fbytes f), reads_left := map_option (\<lambda>k. k - 8) (reads_left f)\<rparr>"
    have hd: "aout_read_header f ?obj = ((0, ?obj\<lparr>header := ?h\<rparr>), ?f')"
      using aout_read_header_ok [OF False, of ?obj] by simp
    show ?thesis
    proof (cases "\<exists>k. reads_left f = Some k \<and> k < 8 + ?n")
      case True
      with False obtain k where "reads_left ?f' = Some (k - 8)" "k - 8 < ?n" by (auto simp: not_less)
      then have "fst (read_words (replicate ?n 0) ?f') = None"
        by (intro read_words_error [of _ "k - 8"]) auto
      with Some hd True show ?thesis
        by (auto simp: aout_read_def aout_read_text_def Let_def unat_half [simplified] split: prod.splits)
    next
      case ok: False
      then have "\<exists>g. read_words (replicate ?n 0) ?f' = (Some (words_of (replicate ?n 0) (fbytes ?f')), g)"
        by (subst read_words_ok) (auto simp: not_less)
      with Some hd ok show ?thesis
        by (auto simp: aout_read_def aout_read_text_def Let_def unat_half [simplified] split: prod.splits)
    qed
  qed
qed

section \<open>Properties\<close>

text \<open>The header of an object with text only, and an environment in which nothing fails.\<close>

definition text_header :: "u16 \<Rightarrow> aout_header" where
  "text_header n = \<lparr>a_midmag = 263, a_text = n, a_data = 0, a_bss = 0, a_syms = 0, a_entry = 0,
     a_trsize = 0, a_drsize = 0\<rparr>"

definition file_os :: "u8 list \<Rightarrow> os" where
  "file_os bs = \<lparr>files = (\<lambda>_. Some \<lparr>fbytes = bs, reads_left = None\<rparr>), malloc_ok = True,
     calloc_ok = True, close_ok = True, junk_header = header_of_refs []\<rparr>"

lemma file_os_ok [simp]:
  "files (file_os bs) p = Some \<lparr>fbytes = bs, reads_left = None\<rparr>"
  "malloc_ok (file_os bs)" "calloc_ok (file_os bs)" "close_ok (file_os bs)"
  by (simp_all add: file_os_def)

lemma replicate_two: "replicate 2 x = [x, x]"
  by (simp add: numeral_2_eq_2)

lemma a_text_text_header [simp]: "a_text (text_header n) = n"
  by (simp add: text_header_def)

text \<open>
  Property C39. Reading an a.out file inverts writing it: from a file that holds the eight
  header words and then the text words the header announces, in little-endian order and
  whatever follows them, \<open>aout_read\<close> returns that header and exactly that text.
\<close>

theorem aout_read_image:
  assumes "files E p = Some f" and "reads_left f = None"
    and "malloc_ok E" and "calloc_ok E" and "close_ok E"
    and "fbytes f = aout_image h ws @ rest" and "unat (a_text h) div 2 = length ws"
  shows "aout_read E p = Some \<lparr>header = h, text_ptr = Some ws\<rparr>"
proof -
  have "h = header_of_refs (words_of (header_refs (junk_header E)) (fbytes f))"
    using assms(6) by (simp add: header_of_image)
  from aout_read_ok [OF assms(1-5) this] show ?thesis
    using assms(6,7)
    by (simp add: drop_header words_of_image unat_half [simplified] del: drop_append)
qed

theorem aout_read_image_witness:
  "aout_read (file_os (aout_image (text_header 4) [0x15C0, 7] @ [9])) ''a.out'' =
   Some \<lparr>header = text_header 4, text_ptr = Some [0x15C0, 7]\<rparr>"
  by (rule aout_read_image [where rest = "[9]"], rule file_os_ok) simp_all

text \<open>
  A file that ends before the text its header announces is not rejected: a read
  at the end of the file delivers no bytes, which is no error, so \<open>aout_read\<close> returns the
  words that are there followed by zeros.
\<close>

theorem aout_read_truncated:
  assumes "files E p = Some f" and "reads_left f = None"
    and "malloc_ok E" and "calloc_ok E" and "close_ok E"
    and "fbytes f = aout_image h ws" and "length ws < unat (a_text h) div 2"
  shows "aout_read E p = Some \<lparr>header = h,
    text_ptr = Some (ws @ replicate (unat (a_text h) div 2 - length ws) 0)\<rparr>"
proof -
  have "h = header_of_refs (words_of (header_refs (junk_header E)) (fbytes f))"
    using assms(6) header_of_image [of _ h ws "[]"] by simp
  from aout_read_ok [OF assms(1-5) this] show ?thesis
    using assms(6,7) drop_header [of h ws "[]"]
    by (simp add: words_of_truncated unat_half [simplified])
qed

theorem aout_read_truncated_witness:
  "aout_read (file_os (aout_image (text_header 6) [0x15C0])) ''a.out'' =
   Some \<lparr>header = text_header 6, text_ptr = Some [0x15C0, 0, 0]\<rparr>"
  using aout_read_truncated [OF file_os_ok(1),
    of "aout_image (text_header 6) [0x15C0]" "text_header 6" "[0x15C0]" "''a.out''"]
  by (simp add: replicate_two)

text \<open>
  Property C40. \<open>aout_read\<close> returns an object exactly when no system call fails: the file can
  be opened, both allocations and the \<open>close\<close> succeed, and no I/O error strikes any of the
  eight reads of the header or the reads of the text words the header announces. In every
  other case it returns the null pointer.
\<close>

theorem aout_read_errors:
  "aout_read E p \<noteq> None \<longleftrightarrow>
    (\<exists>f. files E p = Some f \<and> malloc_ok E \<and> calloc_ok E \<and> close_ok E \<and>
       (case reads_left f of
          None \<Rightarrow> True
        | Some k \<Rightarrow> 8 + unat (a_text (header_of_refs (words_of (header_refs (junk_header E)) (fbytes f)))) div 2 \<le> k))"
  unfolding aout_read_None_iff by (auto simp: Let_def split: option.splits)

end
