(* ===== verification/Bus_State.thy ===== *)
theory Bus_State
  imports Prelude
begin

text \<open>
  The state that the threads of one device share (\<open>src/src/libunibus/bus_state.h\<close>), and
  the operations of \<open>src/src/libunibus/device_bus_mgr.c\<close> and \<open>util.c\<close> on it. An operation
  that blocks on a condition variable is two definitions: what it does before it starts to
  wait (the request) and what it does after it was woken (the finish). The threads and
  their interleaving are modelled in theory \<open>Unibus\<close>.
\<close>

section \<open>Data\<close>

datatype data_op =
  R_IN | R_INB | R_OUT | R_OUTB
| R_BLOCK_IN | R_BLOCK_INB | R_BLOCK_OUT | R_BLOCK_OUTB
| R_DONE | R_NONE

record data_xfer_spec =
  x_op :: data_op
  x_addr :: u32
  x_value :: u16

text \<open>The mutexes and condition variables of the struct.\<close>

datatype sync_obj =
  state_mutex
| pr_ready_mutex | cond_pr_ready
| data_ready_mutex | cond_data_ready
| pr_master_mutex | cond_pr_master
| pr_rel_master_mutex | cond_pr_rel_master
| master_xfer_mutex | slave_xfer_mutex
| master_data_mutex | cond_master_data
| slave_data_mutex | cond_slave_data
| perma_slave_mutex | cond_perma_slave

text \<open>
  A \<open>char*\<close> that may be null is a \<open>string option\<close>. \<open>inited\<close> lists the synchronisation
  objects that were initialised, in order. \<open>addr_internal_to_device\<close> is a function pointer.
\<close>

record bus_state =
  is_master :: u8
  req_master :: u8
  rel_master :: u8
  shutdown :: u8
  l_sock :: "string option"
  sock :: "string option"
  r_sock :: "string option"
  master :: data_xfer_spec
  slave :: data_xfer_spec
  addr_internal_to_device :: "(u32 \<Rightarrow> bool) option"
  inited :: "sync_obj list"

section \<open>Initialisation\<close>

text \<open>
  The environment of \<open>init_bus\<close>: whether \<open>malloc\<close> succeeds and what it leaves in the
  struct, what \<open>stat\<close> and \<open>mkdir\<close> do with the socket directory, and which
  \<open>pthread_mutex_init\<close> and \<open>pthread_cond_init\<close> calls succeed.
\<close>

datatype stat_result = Stat_Ok | Stat_ENOENT | Stat_Error

record init_env =
  bus_malloc_ok :: bool
  malloc_junk :: bus_state
  stat_dir :: stat_result
  mkdir_ok :: bool
  sync_init_ok :: "sync_obj \<Rightarrow> bool"

definition setup_socket_dir :: "init_env \<Rightarrow> int" where
  "setup_socket_dir E =
     (case stat_dir E of
        Stat_Ok \<Rightarrow> 0
      | Stat_ENOENT \<Rightarrow> (if mkdir_ok E then 0 else -1)
      | Stat_Error \<Rightarrow> -1)"

text \<open>The initialisation calls, in the order of the code, stopping at the first failure.\<close>

fun init_sync :: "init_env \<Rightarrow> sync_obj list \<Rightarrow> bus_state \<Rightarrow> bus_state option" where
  "init_sync E [] bus = Some bus"
| "init_sync E (x # xs) bus =
     (if sync_init_ok E x then init_sync E xs (bus\<lparr>inited := inited bus @ [x]\<rparr>) else None)"

definition init_order :: "sync_obj list" where
  "init_order =
     [state_mutex, master_xfer_mutex, slave_xfer_mutex, perma_slave_mutex, pr_master_mutex,
      pr_ready_mutex, data_ready_mutex, cond_pr_ready, cond_data_ready, cond_pr_master,
      cond_slave_data, cond_master_data, cond_perma_slave]"

definition init_bus ::
  "init_env \<Rightarrow> string option \<Rightarrow> string option \<Rightarrow> string option \<Rightarrow> bus_state option" where
  "init_bus E l s r =
     (if \<not> bus_malloc_ok E then None
      else if setup_socket_dir E \<noteq> 0 then None
      else
        (let bus = (malloc_junk E)
               \<lparr>req_master := 0, rel_master := 0, is_master := 0,
                l_sock := l, sock := s, r_sock := r, inited := []\<rparr>
         in case init_sync E init_order bus of
              None \<Rightarrow> None
            | Some bus' \<Rightarrow>
                Some (bus'\<lparr>master := \<lparr>x_op = R_NONE, x_addr = 0, x_value = 0\<rparr>,
                           slave := \<lparr>x_op = R_NONE, x_addr = 0, x_value = 0\<rparr>\<rparr>)))"

section \<open>Bus mastership\<close>

definition req_bus_master_request :: "bus_state \<Rightarrow> bus_state" where
  "req_bus_master_request bus = (if is_master bus = 0 then bus\<lparr>req_master := 1\<rparr> else bus)"

definition release_bus_master_request :: "bus_state \<Rightarrow> bus_state" where
  "release_bus_master_request bus = (if is_master bus = 1 then bus\<lparr>rel_master := 1\<rparr> else bus)"

definition cleanup_bus :: "bus_state \<Rightarrow> bus_state" where
  "cleanup_bus bus = bus\<lparr>shutdown := 1\<rparr>"

section \<open>Master transfers\<close>

definition read_data_in_request :: "u32 \<Rightarrow> bus_state \<Rightarrow> bus_state" where
  "read_data_in_request a bus = bus\<lparr>master := (master bus)\<lparr>x_op := R_IN, x_addr := a\<rparr>\<rparr>"

text \<open>The value, whether the status is \<open>R_DONE\<close> (otherwise \<open>read failed\<close> is printed), the state.\<close>

definition read_data_in_finish :: "bus_state \<Rightarrow> u16 \<times> bool \<times> bus_state" where
  "read_data_in_finish bus =
     (x_value (master bus), x_op (master bus) = R_DONE,
      bus\<lparr>master := (master bus)\<lparr>x_op := R_NONE\<rparr>\<rparr>)"

definition write_data_out_request :: "u32 \<Rightarrow> u16 \<Rightarrow> bus_state \<Rightarrow> bus_state" where
  "write_data_out_request a d bus =
     bus\<lparr>master := (master bus)\<lparr>x_op := R_OUT, x_addr := a, x_value := d\<rparr>\<rparr>"

definition write_data_out_b_request :: "u32 \<Rightarrow> u8 \<Rightarrow> bus_state \<Rightarrow> bus_state" where
  "write_data_out_b_request a d bus =
     bus\<lparr>master := (master bus)\<lparr>x_op := R_OUTB, x_addr := a, x_value := ucast d\<rparr>\<rparr>"

text \<open>The end of both writes: the status is checked and reset.\<close>

definition write_data_out_finish :: "bus_state \<Rightarrow> bool \<times> bus_state" where
  "write_data_out_finish bus =
     (x_op (master bus) = R_DONE, bus\<lparr>master := (master bus)\<lparr>x_op := R_NONE\<rparr>\<rparr>)"

section \<open>Slave transfers\<close>

definition data_bus_check :: "bus_state \<Rightarrow> data_xfer_spec \<Rightarrow> data_xfer_spec" where
  "data_bus_check bus d_op =
     d_op\<lparr>x_op := x_op (slave bus), x_addr := x_addr (slave bus), x_value := x_value (slave bus)\<rparr>"

text \<open>The reply resets the device's own copy of the request; the signal is a step of its own.\<close>

definition data_bus_reply ::
  "bus_state \<Rightarrow> data_xfer_spec \<Rightarrow> bus_state \<times> data_xfer_spec" where
  "data_bus_reply bus d_op =
     (bus\<lparr>slave := (slave bus)
        \<lparr>x_op := R_DONE, x_addr := x_addr d_op, x_value := x_value d_op\<rparr>\<rparr>,
      d_op\<lparr>x_op := R_NONE, x_addr := 0, x_value := 0\<rparr>)"

section \<open>Lemmas\<close>

lemma data_bus_check_copies [simp]: "data_bus_check bus d = slave bus"
  by (simp add: data_bus_check_def)

lemma init_sync_some:
  "init_sync E xs bus = (if \<forall>x \<in> set xs. sync_init_ok E x
                         then Some (bus\<lparr>inited := inited bus @ xs\<rparr>) else None)"
  by (induction xs arbitrary: bus) auto

end
