(* ===== verification/Mem.thy ===== *)
theory Mem
  imports Load Bus_State Bus_Iface
begin

text \<open>
  The memory device of \<open>src/src/mem/mem.c\<close>: its state, its word and byte accesses, the
  loading of a program, the memory dump, and one round of its service loop. The array
  \<open>store\<close> is a function on indices; every access checks the bounds of the C array, so an
  access outside them is the failure \<^const>\<open>Out_Of_Bounds\<close>. The last part is the bus that
  a CPU sees when this device alone answers it, and shows that it meets the contract
  \<open>bus_memory\<close>.
\<close>

section \<open>Data\<close>

abbreviation (input) MEMBYTES :: nat where "MEMBYTES \<equiv> 65535"
abbreviation (input) MEMWORDS :: nat where "MEMWORDS \<equiv> 32767"
abbreviation (input) MEMLOW :: u32 where "MEMLOW \<equiv> 0"
abbreviation (input) MEMHIGH :: u32 where "MEMHIGH \<equiv> 65535"

record mem_dev =
  mar :: u16
  mbr :: u16
  store :: "nat \<Rightarrow> u8"

text \<open>\<open>store[i]\<close> as a value and \<open>store[i] = v\<close>.\<close>

definition store_get :: "int \<Rightarrow> mem_dev \<Rightarrow> u8 res" where
  "store_get i m = (if 0 \<le> i \<and> i < int MEMBYTES then Inr (store m (nat i)) else Inl (Out_Of_Bounds i))"

definition store_set :: "int \<Rightarrow> u8 \<Rightarrow> mem_dev \<Rightarrow> mem_dev res" where
  "store_set i v m =
     (if 0 \<le> i \<and> i < int MEMBYTES then Inr (m\<lparr>store := (store m)(nat i := v)\<rparr>)
      else Inl (Out_Of_Bounds i))"

section \<open>Operations\<close>

definition is_local_addr :: "u32 \<Rightarrow> bool" where
  "is_local_addr a \<longleftrightarrow> MEMLOW \<le> a \<and> a \<le> MEMHIGH"

definition write_word :: "u32 \<Rightarrow> u16 \<Rightarrow> mem_dev \<Rightarrow> mem_dev res" where
  "write_word a w m =
     (let m = m\<lparr>mar := ucast a, mbr := w\<rparr>
      in rbind (store_set (uint (mar m)) (lo_byte (mbr m)) m)
               (\<lambda>m. store_set (uint (mar m) + 1) (hi_byte (mbr m)) m))"

definition write_byte :: "u32 \<Rightarrow> u16 \<Rightarrow> mem_dev \<Rightarrow> mem_dev res" where
  "write_byte a w m =
     (let m = m\<lparr>mar := ucast a, mbr := w\<rparr>
      in store_set (uint (mar m)) (lo_byte (mbr m)) m)"

definition read_word :: "u32 \<Rightarrow> mem_dev \<Rightarrow> u16 res" where
  "read_word a m =
     rbind (store_get (uint a) m) (\<lambda>lo.
     rbind (store_get (uint (a + 1)) m) (\<lambda>hi.
     Inr (le_word lo hi)))"

definition perform_read :: "data_xfer_spec \<Rightarrow> mem_dev \<Rightarrow> data_xfer_spec res" where
  "perform_read d_op m = rbind (read_word (x_addr d_op) m) (\<lambda>v. Inr (d_op\<lparr>x_value := v\<rparr>))"

definition perform_write :: "data_xfer_spec \<Rightarrow> mem_dev \<Rightarrow> mem_dev res" where
  "perform_write d_op m = write_word (x_addr d_op) (x_value d_op) m"

definition perform_writeb :: "data_xfer_spec \<Rightarrow> mem_dev \<Rightarrow> mem_dev res" where
  "perform_writeb d_op m = write_byte (x_addr d_op) (x_value d_op) m"

text \<open>
  The loop of \<open>load_aout\<close>: \<open>k\<close> words are left, \<open>n\<close> is the index into the text and \<open>i\<close>
  (the \<open>m\<close> of the code) the index into the store.
\<close>

fun load_loop :: "nat \<Rightarrow> nat \<Rightarrow> int \<Rightarrow> aout_object \<Rightarrow> mem_dev \<Rightarrow> mem_dev res" where
  "load_loop 0 n i aout m = Inr m"
| "load_loop (Suc k) n i aout m =
     (case text_ptr aout of
        None \<Rightarrow> Inl Null_Deref
      | Some ws \<Rightarrow>
          if n < length ws
          then rbind (store_set i (lo_byte (ws ! n)) m) (\<lambda>m.
               rbind (store_set (i + 1) (hi_byte (ws ! n)) m) (\<lambda>m.
               load_loop k (n + 1) (i + 2) aout m))
          else Inl (Out_Of_Bounds (int n)))"

definition load_aout :: "aout_object \<Rightarrow> u32 \<Rightarrow> mem_dev \<Rightarrow> mem_dev res" where
  "load_aout aout offset m =
     load_loop (unat (drop_bit 1 (a_text (header aout)))) 0 (sint offset) aout m"

text \<open>The memory dump: the rows that are printed, each with its first address.\<close>

fun read_row :: "nat \<Rightarrow> nat list \<Rightarrow> mem_dev \<Rightarrow> u16 list res" where
  "read_row r [] m = Inr []"
| "read_row r (c # cs) m =
     rbind (read_word (of_nat (r + c)) m) (\<lambda>w.
     rbind (read_row r cs m) (\<lambda>ws.
     Inr (w # ws)))"

fun dump_rows :: "nat list \<Rightarrow> mem_dev \<Rightarrow> (nat \<times> u16 list) list res" where
  "dump_rows [] m = Inr []"
| "dump_rows (r # rs) m =
     rbind (read_row r (map (\<lambda>i. 2 * i) [0..<16]) m) (\<lambda>row.
     let all_zero = (\<forall>w \<in> set row. w = 0)
     in if all_zero \<and> r + 16 < MEMWORDS \<and> r \<noteq> 0
        then dump_rows rs m
        else rbind (dump_rows rs m) (\<lambda>out. Inr ((r, row) # out)))"

definition dump_mem :: "mem_dev \<Rightarrow> (nat \<times> u16 list) list res" where
  "dump_mem m = dump_rows (filter (\<lambda>r. r < MEMWORDS) (map (\<lambda>k. 32 * k) [0..<1024])) m"

text \<open>
  One round of \<open>execute\<close>, after the wait on \<open>cond_perma_slave\<close>: the request of the bus is
  fetched, performed and answered. The boolean says whether \<open>data_bus_reply\<close> was called.
\<close>

definition mem_service :: "bus_state \<Rightarrow> mem_dev \<Rightarrow> (bool \<times> bus_state \<times> mem_dev) res" where
  "mem_service bus m =
     (let slave_req = data_bus_check bus \<lparr>x_op = R_NONE, x_addr = 0, x_value = 0\<rparr>
      in case x_op slave_req of
           R_BLOCK_IN \<Rightarrow>
             rbind (perform_read slave_req m) (\<lambda>req. Inr (True, fst (data_bus_reply bus req), m))
         | R_BLOCK_OUT \<Rightarrow>
             rbind (perform_write slave_req m) (\<lambda>m. Inr (True, fst (data_bus_reply bus slave_req), m))
         | R_BLOCK_OUTB \<Rightarrow>
             rbind (perform_writeb slave_req m) (\<lambda>m. Inr (True, fst (data_bus_reply bus slave_req), m))
         | _ \<Rightarrow> Inr (False, bus, m))"

section \<open>The bus with the memory device alone\<close>

text \<open>
  What a master sees when the memory device answers the addresses it claims
  (\<^const>\<open>is_local_addr\<close>) and nobody answers the others.
\<close>

definition mem_bus :: "mem_dev bus_ops" where
  "mem_bus =
     \<lparr>read_data_in = (\<lambda>a m. if is_local_addr a then rbind (read_word a m) (\<lambda>w. Inr (w, m))
                            else Inl (Bus_Hang a)),
      write_data_out = (\<lambda>a w m. if is_local_addr a then write_word a w m else Inl (Bus_Hang a)),
      write_data_out_b = (\<lambda>a v m. if is_local_addr a then write_byte a (ucast v) m
                                  else Inl (Bus_Hang a))\<rparr>"

section \<open>Lemmas\<close>

lemma is_local_addr_unat: "is_local_addr a \<longleftrightarrow> unat a \<le> 65535"
  by (simp add: is_local_addr_def word_le_nat_alt)

lemma store_get_uint: "store_get (uint (a :: 'a::len word)) m =
    (if unat a < MEMBYTES then Inr (store m (unat a)) else Inl (Out_Of_Bounds (uint a)))"
  using uint_less_nat [of a MEMBYTES] by (simp add: store_get_def)

lemma store_set_uint: "store_set (uint (a :: 'a::len word)) v m =
    (if unat a < MEMBYTES then Inr (m\<lparr>store := (store m)(unat a := v)\<rparr>)
     else Inl (Out_Of_Bounds (uint a)))"
  using uint_less_nat [of a MEMBYTES] by (simp add: store_set_def)

lemma store_set_uint_Suc: "store_set (uint (a :: 'a::len word) + 1) v m =
    (if unat a + 1 < MEMBYTES then Inr (m\<lparr>store := (store m)(unat a + 1 := v)\<rparr>)
     else Inl (Out_Of_Bounds (uint a + 1)))"
  using uint_less_nat [of a "MEMBYTES - 1"] by (simp add: store_set_def nat_uint_Suc)

lemma read_word_in_bounds:
  assumes "unat a + 1 < MEMBYTES"
  shows "read_word a m = Inr (le_word (store m (unat a)) (store m (unat a + 1)))"
  using assms unat_Suc_u32 [of a] by (simp add: read_word_def store_get_uint)

lemma write_word_in_bounds:
  assumes "unat a + 1 < MEMBYTES"
  shows "write_word a w m = Inr (m\<lparr>mar := ucast a, mbr := w,
    store := (store m)(unat a := lo_byte w, unat a + 1 := hi_byte w)\<rparr>)"
  using assms unat_ucast_u16 [of a]
  by (simp add: write_word_def store_set_uint store_set_uint_Suc)

lemma write_byte_in_bounds:
  assumes "unat a < MEMBYTES"
  shows "write_byte a w m =
    Inr (m\<lparr>mar := ucast a, mbr := w, store := (store m)(unat a := lo_byte w)\<rparr>)"
  using assms unat_ucast_u16 [of a] by (simp add: write_byte_def store_set_uint)

lemma lo_byte_ucast [simp]: "lo_byte (ucast v) = v"
  unfolding lo_byte_def word_facts
  by (rule bit_word_eqI) (auto simp: bit_simps dest: bit_imp_le_length)

interpretation mem: bus_memory mem_bus "\<lambda>_. True" store MEMBYTES 65535
  by unfold_locales
    (auto simp: mem_bus_def is_local_addr_unat read_word_in_bounds write_word_in_bounds
       write_byte_in_bounds)

section \<open>Loading a program\<close>

text \<open>Byte \<open>j\<close> of a sequence of words, low byte first.\<close>

definition text_byte :: "u16 list \<Rightarrow> nat \<Rightarrow> u8" where
  "text_byte ws j = (if even j then lo_byte (ws ! (j div 2)) else hi_byte (ws ! (j div 2)))"

definition overlay :: "nat \<Rightarrow> nat \<Rightarrow> (nat \<Rightarrow> u8) \<Rightarrow> mem_dev \<Rightarrow> mem_dev" where
  "overlay i len f m = m\<lparr>store := (\<lambda>j. if i \<le> j \<and> j < i + len then f (j - i) else store m j)\<rparr>"

lemma store_set_nat: "i < MEMBYTES \<Longrightarrow> store_set (int i) v m = Inr (m\<lparr>store := (store m)(i := v)\<rparr>)"
  by (simp add: store_set_def)

lemma store_set_nat_Suc:
  "i + 1 < MEMBYTES \<Longrightarrow> store_set (int i + 1) v m = Inr (m\<lparr>store := (store m)(i + 1 := v)\<rparr>)"
  using store_set_nat [of "i + 1" v m] by (simp add: add.commute)

lemma text_byte_shift:
  "text_byte ws (2 * n) = lo_byte (ws ! n)" "text_byte ws (Suc (2 * n)) = hi_byte (ws ! n)"
  by (simp_all add: text_byte_def)

lemma overlay_empty [simp]: "overlay i 0 f m = m"
  by (rule mem_dev.equality) (auto simp: overlay_def fun_eq_iff)

lemma overlay_word:
  "overlay (i + 2) (2 * k) (\<lambda>j. text_byte ws (2 * Suc n + j))
     (m\<lparr>store := (store m)(i := lo_byte (ws ! n), i + 1 := hi_byte (ws ! n))\<rparr>) =
   overlay i (2 * Suc k) (\<lambda>j. text_byte ws (2 * n + j)) m" (is "?l = ?r")
proof -
  have "store ?l j = store ?r j" for j
  proof -
    consider "j < i" | "j = i" | "j = Suc i" | d where "j = i + 2 + d"
      by (metis One_nat_def add_2_eq_Suc' less_Suc_eq linorder_neqE_nat nat_le_iff_add not_less)
    then show ?thesis by cases (auto simp: overlay_def text_byte_shift)
  qed
  then show ?thesis by (intro mem_dev.equality ext) (auto simp: overlay_def)
qed

lemma load_loop_ok:
  assumes "text_ptr aout = Some ws" and "n + k \<le> length ws" and "i + 2 * k \<le> MEMBYTES"
  shows "load_loop k n (int i) aout m = Inr (overlay i (2 * k) (\<lambda>j. text_byte ws (2 * n + j)) m)"
  using assms(2,3)
proof (induction k arbitrary: n i m)
  case 0
  then show ?case by simp
next
  case (Suc k)
  have "load_loop k (n + 1) (int i + 2) aout m' =
      Inr (overlay (i + 2) (2 * k) (\<lambda>j. text_byte ws (2 * Suc n + j)) m')" for m'
    using Suc.IH [of "n + 1" "i + 2" m'] Suc.prems by (simp add: add.commute)
  then show ?case
    using Suc.prems assms(1) overlay_word [of i k ws n m]
    by (simp add: store_set_nat store_set_nat_Suc)
qed

text \<open>The loop stops inside the bounds of the store or it fails.\<close>

lemma load_loop_fails:
  assumes "text_ptr aout = Some ws" and "n + k \<le> length ws" and "0 < k"
    and "i < 0 \<or> int MEMBYTES < i + 2 * int k"
  shows "\<exists>e. load_loop k n i aout m = Inl (Out_Of_Bounds e)"
  using assms(2-4)
proof (induction k arbitrary: n i m)
  case 0
  then show ?case by simp
next
  case (Suc k)
  show ?case
  proof (cases "0 \<le> i \<and> i + 1 < int MEMBYTES")
    case False
    with Suc.prems assms(1) show ?thesis by (auto simp: store_set_def)
  next
    case True
    with Suc.prems have "0 < k" by (cases k) auto
    with Suc.IH [of "n + 1" "i + 2"] Suc.prems True assms(1) show ?thesis
      by (auto simp: store_set_def)
  qed
qed

section \<open>Bounds of the device\<close>

lemma read_word_bounds:
  "read_word a m =
     (if unat a + 1 < MEMBYTES then Inr (le_word (store m (unat a)) (store m (unat a + 1)))
      else if unat a = 65534 then Inl (Out_Of_Bounds 65535)
      else Inl (Out_Of_Bounds (uint a)))"
proof (cases "unat a = 65534")
  case True
  then have "a = 65534" by (simp add: word_unat_eq_iff)
  then show ?thesis by (simp add: read_word_def store_get_def)
next
  case False
  then show ?thesis
    using read_word_in_bounds [of a m] by (auto simp: read_word_def store_get_uint)
qed

section \<open>The memory dump\<close>

definition mem_word :: "mem_dev \<Rightarrow> nat \<Rightarrow> u16" where
  "mem_word m i = le_word (store m i) (store m (i + 1))"

definition dump_row :: "mem_dev \<Rightarrow> nat \<Rightarrow> u16 list" where
  "dump_row m r = map (\<lambda>i. mem_word m (r + 2 * i)) [0..<16]"

lemma read_word_nat: "i + 1 < MEMBYTES \<Longrightarrow> read_word (word_of_nat i) m = Inr (mem_word m i)"
  by (simp add: read_word_in_bounds mem_word_def unat_of_nat take_bit_nat_eq_self)

lemma read_row_ok:
  "\<forall>c \<in> set cs. r + c + 1 < MEMBYTES \<Longrightarrow> read_row r cs m = Inr (map (\<lambda>c. mem_word m (r + c)) cs)"
proof (induction cs)
  case (Cons c cs)
  then show ?case using read_word_nat [of "r + c" m] by simp
qed simp

lemma dump_rows_ok:
  "\<forall>r \<in> set rs. r < MEMWORDS \<Longrightarrow>
   dump_rows rs m = Inr (map (\<lambda>r. (r, dump_row m r))
     (filter (\<lambda>r. \<not> ((\<forall>w \<in> set (dump_row m r). w = 0) \<and> r + 16 < MEMWORDS \<and> r \<noteq> 0)) rs))"
proof (induction rs)
  case (Cons r rs)
  have "read_row r (map (\<lambda>i. 2 * i) [0..<16]) m = Inr (dump_row m r)"
    using Cons.prems by (subst read_row_ok) (auto simp: dump_row_def o_def)
  with Cons show ?case by (simp add: Let_def)
qed simp

section \<open>Serving a request\<close>

text \<open>What the device answers, in terms of the bus operations on the device alone.\<close>

lemma mem_service_in:
  assumes "x_op (slave bus) = R_BLOCK_IN" and "is_local_addr (x_addr (slave bus))"
  shows "mem_service bus m =
    rbind (read_data_in mem_bus (x_addr (slave bus)) m) (\<lambda>(w, m).
      Inr (True, bus\<lparr>slave := \<lparr>x_op = R_DONE, x_addr = x_addr (slave bus), x_value = w\<rparr>\<rparr>, m))"
  using assms
  by (cases "read_word (x_addr (slave bus)) m")
    (auto simp: mem_service_def perform_read_def mem_bus_def data_bus_reply_def)

lemma mem_service_out:
  assumes "x_op (slave bus) = R_BLOCK_OUT" and "is_local_addr (x_addr (slave bus))"
  shows "mem_service bus m =
    rbind (write_data_out mem_bus (x_addr (slave bus)) (x_value (slave bus)) m) (\<lambda>m.
      Inr (True, bus\<lparr>slave := (slave bus)\<lparr>x_op := R_DONE\<rparr>\<rparr>, m))"
  using assms
  by (simp add: mem_service_def perform_write_def mem_bus_def data_bus_reply_def Let_def)

lemma mem_service_outb:
  assumes "x_op (slave bus) = R_BLOCK_OUTB" and "is_local_addr (x_addr (slave bus))"
    and "x_value (slave bus) = ucast (v :: u8)"
  shows "mem_service bus m =
    rbind (write_data_out_b mem_bus (x_addr (slave bus)) v m) (\<lambda>m.
      Inr (True, bus\<lparr>slave := (slave bus)\<lparr>x_op := R_DONE\<rparr>\<rparr>, m))"
  using assms(1,2) assms(3) [symmetric]
  by (simp add: mem_service_def perform_writeb_def mem_bus_def data_bus_reply_def Let_def)

section \<open>Properties\<close>

text \<open>
  Loading a program puts exactly its text into the store: when the text fits
  between the load offset and the end of the store, byte \<open>j\<close> of the text is at \<open>offset + j\<close>,
  low byte of each word first, and every other cell is unchanged.
\<close>

theorem load_aout_stores_text:
  assumes "text_ptr aout = Some ws" and "k = unat (a_text (header aout)) div 2" and "k \<le> length ws"
    and "unat offset + 2 * k \<le> MEMBYTES"
  shows "load_aout aout offset m = Inr (m\<lparr>store := (\<lambda>j.
    if unat offset \<le> j \<and> j < unat offset + 2 * k then text_byte ws (j - unat offset)
    else store m j)\<rparr>)"
proof -
  have "sint offset = int (unat offset)"
    using assms(4) by (intro sint_u32_pos) simp
  moreover have "unat (drop_bit 1 (a_text (header aout))) = k"
    using assms(2) by (simp only: unat_half)
  ultimately show ?thesis
    using assms load_loop_ok [of aout ws 0 k "unat offset" m]
    by (simp add: load_aout_def overlay_def)
qed

theorem load_aout_stores_text_witness:
  "load_aout \<lparr>header = \<lparr>a_midmag = 0, a_text = 4, a_data = 0, a_bss = 0, a_syms = 0, a_entry = 0,
      a_trsize = 0, a_drsize = 0\<rparr>, text_ptr = Some [0x15C0, 0x1234]\<rparr> 2
     \<lparr>mar = 0, mbr = 0, store = (\<lambda>_. 7)\<rparr> =
   Inr (\<lparr>mar = 0, mbr = 0, store = (\<lambda>j. if 2 \<le> j \<and> j < 6 then text_byte [0x15C0, 0x1234] (j - 2)
      else 7)\<rparr>)"
  by (subst load_aout_stores_text [where ws = "[0x15C0, 0x1234]" and k = 2]) (simp_all add: fun_eq_iff)

text \<open>
  The loader does not check the size of the program: a non-empty text that does
  not fit behind the load offset, and any load offset of 2147483648 or more, runs past the
  bounds of the store.
\<close>

theorem load_aout_unchecked:
  assumes "text_ptr aout = Some ws" and "k = unat (a_text (header aout)) div 2" and "k \<le> length ws"
    and "0 < k" and "MEMBYTES < unat offset + 2 * k"
  shows "\<exists>i. load_aout aout offset m = Inl (Out_Of_Bounds i)"
proof -
  have "sint offset < 0 \<or> sint offset = int (unat offset)"
    using sint_u32_neg [of offset] sint_u32_pos [of offset] by linarith
  with assms(5) have "sint offset < 0 \<or> int MEMBYTES < sint offset + 2 * int k" by linarith
  moreover have "unat (drop_bit 1 (a_text (header aout))) = k"
    using assms(2) by (simp only: unat_half)
  ultimately show ?thesis
    using assms load_loop_fails [of aout ws 0 k "sint offset" m]
    by (auto simp: load_aout_def)
qed

theorem load_aout_unchecked_witness:
  "\<exists>i. load_aout \<lparr>header = \<lparr>a_midmag = 0, a_text = 2, a_data = 0, a_bss = 0, a_syms = 0, a_entry = 0,
      a_trsize = 0, a_drsize = 0\<rparr>, text_ptr = Some [0x15C0]\<rparr> 65534
     \<lparr>mar = 0, mbr = 0, store = (\<lambda>_. 0)\<rparr> = Inl (Out_Of_Bounds i)"
  by (rule load_aout_unchecked [where ws = "[0x15C0]" and k = 1]) simp_all

text \<open>
  The device claims one address too many: of the addresses it declares its own
  (0 to 65535), a word can be read exactly at those below 65534; at 65534 and 65535 the read
  goes past the end of the store.
\<close>

theorem local_addresses_out_of_bounds:
  "is_local_addr a \<and> (\<nexists>w. read_word a m = Inr w) \<longleftrightarrow> a = 65534 \<or> a = 65535"
proof -
  have "a = 65534 \<or> a = 65535 \<longleftrightarrow> unat a = 65534 \<or> unat a = 65535"
    by (simp add: word_unat_eq_iff)
  then show ?thesis by (auto simp: is_local_addr_unat read_word_bounds)
qed

text \<open>
  The memory dump never leaves the store, and prints each of the 1024 rows of
  16 words up to address 32767 exactly when it is the first row or has a word that is not
  zero. The upper half of the memory is never printed.
\<close>

theorem dump_mem_rows:
  "dump_mem m = Inr (map (\<lambda>r. (r, dump_row m r))
     (filter (\<lambda>r. (\<exists>w \<in> set (dump_row m r). w \<noteq> 0) \<or> r = 0)
       (map (\<lambda>k. 32 * k) [0..<1024])))"
proof -
  let ?rs = "map (\<lambda>k. 32 * k) [0..<1024] :: nat list"
  have all: "\<forall>r \<in> set ?rs. r < MEMWORDS" by auto
  then have "filter (\<lambda>r. r < MEMWORDS) ?rs = ?rs" by (subst filter_id_conv)
  moreover have "filter (\<lambda>r. \<not> ((\<forall>w \<in> set (dump_row m r). w = 0) \<and> r + 16 < MEMWORDS \<and> r \<noteq> 0)) ?rs =
      filter (\<lambda>r. (\<exists>w \<in> set (dump_row m r). w \<noteq> 0) \<or> r = 0) ?rs"
    by (rule filter_cong) auto
  ultimately show ?thesis
    using dump_rows_ok [OF all, of m] unfolding dump_mem_def by (simp only:)
qed

end
