(* ===== verification/Cpu_Run.thy ===== *)
theory Cpu_Run
  imports Cpu_Semantics Mem
begin

text \<open>
  Runs of the CPU: the loop \<open>execute\<close> as a step relation labelled with the executed
  opcodes, what \<open>execute\<close> returns in terms of the runs, and the invariants of runs on any
  bus of the contract \<open>cpu_bus\<close>. The last part attaches the CPU to the memory device.
\<close>

section \<open>Steps and runs\<close>

inductive cpu_step :: "'b bus_ops \<Rightarrow> 'b machine \<Rightarrow> opcode option \<Rightarrow> 'b machine \<Rightarrow> bool"
  for B where
  cycle: "halted m = 0 \<Longrightarrow> cpu_cycle B m = Inr m' \<Longrightarrow> cpu_step B m (decode (ir m')) m'"

inductive_cases cpu_stepE: "cpu_step B m c m'"

inductive run :: "'b bus_ops \<Rightarrow> 'b machine \<Rightarrow> opcode option list \<Rightarrow> 'b machine \<Rightarrow> bool"
  for B where
  run_Nil: "run B m [] m"
| run_Cons: "cpu_step B m c m1 \<Longrightarrow> run B m1 cs m2 \<Longrightarrow> run B m (c # cs) m2"

inductive_cases run_ConsE: "run B m (c # cs) m'"
inductive_cases run_NilE: "run B m [] m'"

lemma run_append: "run B m cs m1 \<Longrightarrow> run B m1 cs' m2 \<Longrightarrow> run B m (cs @ cs') m2"
  by (induction rule: run.induct) (auto intro: run.intros)

text \<open>A machine that cannot go on: halted, or stuck in the failure of its next cycle.\<close>

definition final :: "'b bus_ops \<Rightarrow> 'b machine \<Rightarrow> 'b machine res \<Rightarrow> bool" where
  "final B m r \<longleftrightarrow>
     (if halted m \<noteq> 0 then r = Inr m else (\<exists>e. cpu_cycle B m = Inl e \<and> r = Inl e))"

lemma execute_final: "final B m r \<Longrightarrow> execute B m = Some r"
  by (subst execute.simps) (auto simp: final_def split: if_splits)

lemma execute_step: "cpu_step B m c m' \<Longrightarrow> execute B m = execute B m'"
  by (subst execute.simps) (auto elim: cpu_stepE)

lemma execute_run: "run B m cs m' \<Longrightarrow> execute B m = execute B m'"
  by (induction rule: run.induct) (auto simp: execute_step)

lemma execute_has_run: "execute B m = Some r \<Longrightarrow> \<exists>cs m'. run B m cs m' \<and> final B m' r"
proof (rule execute.raw_induct [where P = "\<lambda>B m r. \<exists>cs m'. run B m cs m' \<and> final B m' r"])
  fix ex :: "'a bus_ops \<Rightarrow> 'a machine \<Rightarrow> ('a machine res) option" and B m r
  assume IH: "\<And>B m r. ex B m = Some r \<Longrightarrow> \<exists>cs m'. run B m cs m' \<and> final B m' r"
    and eq: "(if halted m \<noteq> 0 then Some (Inr m)
      else case cpu_cycle B m of Inl e \<Rightarrow> Some (Inl e) | Inr m' \<Rightarrow> ex B m') = Some r"
  show "\<exists>cs m'. run B m cs m' \<and> final B m' r"
  proof (cases "halted m = 0 \<and> (\<exists>m1. cpu_cycle B m = Inr m1)")
    case True
    then obtain m1 where h: "halted m = 0" and m1: "cpu_cycle B m = Inr m1" by blast
    with eq have "ex B m1 = Some r" by simp
    from IH [OF this] obtain cs m' where "run B m1 cs m'" and "final B m' r" by blast
    then show ?thesis using cpu_step.cycle [OF h m1] by (blast intro: run_Cons)
  next
    case False
    with eq have "final B m r"
      by (cases "cpu_cycle B m") (auto simp: final_def split: if_splits)
    then show ?thesis by (blast intro: run_Nil)
  qed
qed

section \<open>Invariants of runs\<close>

context cpu_bus
begin

lemma step_safe:
  assumes "cpu_step B m c m'" and "inv (BUS_REF m)" and "cpu_wf m"
  shows "inv (BUS_REF m') \<and> cpu_wf m'"
  using assms cpu_cycle_safe [of m] by (auto elim!: cpu_stepE)

lemma run_safe:
  "run B m cs m' \<Longrightarrow> inv (BUS_REF m) \<Longrightarrow> cpu_wf m \<Longrightarrow> inv (BUS_REF m') \<and> cpu_wf m'"
  by (induction rule: run.induct) (auto dest: step_safe)

lemma cycle_psw:
  assumes "cpu_cycle B m = Inr m'" and "inv (BUS_REF m)" and "cpu_wf m"
    and "decode (ir m') \<notin> {Some JSR_op, Some RTS_op, Some MTPS_op}"
  shows "psw m' AND 0xFFF3 = psw m AND 0xFFF3"
proof -
  from assms(1) obtain d m1 where f: "fetch_data B (ucast (pc m)) m = Inr (d, m1)"
    and e: "exec_instruction B (m1\<lparr>ir := d, pc := pc m1 + 2\<rparr>) = Inr m'"
    by (auto simp: cpu_cycle_def rbind_eq_Inr)
  let ?m = "m1\<lparr>ir := d, pc := pc m1 + 2\<rparr>"
  have g: "good inv True m m1"
    using fetch_okv [OF good_refl [where q = True], of m "ucast (pc m)"] assms(2,3) f
    by (simp add: okv_def)
  then have "inv (BUS_REF ?m)" and "cpu_wf ?m" by (auto simp: good_def cpu_wf_def)
  moreover from this have "ir m' = ir ?m"
    using exec_instruction_safe [of ?m] e by simp
  ultimately have "psw m' AND 0xFFF3 = psw ?m AND 0xFFF3"
    using exec_instruction_psw [OF _ _ e] assms(4) by simp
  with g show ?thesis by (simp add: good_def keeps_def)
qed

lemma run_psw:
  "run B m cs m' \<Longrightarrow> inv (BUS_REF m) \<Longrightarrow> cpu_wf m \<Longrightarrow>
   set cs \<inter> {Some JSR_op, Some RTS_op, Some MTPS_op} = {} \<Longrightarrow> psw m' AND 0xFFF3 = psw m AND 0xFFF3"
proof (induction rule: run.induct)
  case (run_Cons m c m1 cs m2)
  from run_Cons.hyps(1) have c: "cpu_cycle B m = Inr m1" "c = decode (ir m1)"
    by (auto elim: cpu_stepE)
  with run_Cons.prems have "psw m1 AND 0xFFF3 = psw m AND 0xFFF3"
    by (intro cycle_psw) auto
  moreover have "inv (BUS_REF m1)" "cpu_wf m1"
    using step_safe [OF run_Cons.hyps(1) run_Cons.prems(1,2)] by auto
  ultimately show ?case using run_Cons by auto
qed simp

lemma execute_safe:
  assumes "execute B m = Some (Inl e)" and "inv (BUS_REF m)" and "cpu_wf m"
  shows "is_hang e"
proof -
  from execute_has_run [OF assms(1)] obtain cs m1
    where r: "run B m cs m1" and f: "final B m1 (Inl e)" by blast
  from f have "cpu_cycle B m1 = Inl e" by (auto simp: final_def split: if_splits)
  with run_safe [OF r assms(2,3)] show ?thesis using cpu_cycle_safe [of m1] by simp
qed

end

section \<open>The CPU on the memory device\<close>

interpretation mem_cpu: cpu_bus mem_bus "\<lambda>_. True" store MEMBYTES 65535
  by unfold_locales auto

lemma init_cpu_wf [simp]: "cpu_wf (init_cpu b)" "cpu_wf (init_cpu b\<lparr>pc := v\<rparr>)"
  by (simp_all add: cpu_wf_def init_cpu_def addr_ok_def)

text \<open>Every address of the CPU on the memory device: what a transfer does there.\<close>

lemma unat_ucast_u32: "unat (ucast (w :: u16) :: u32) = unat w"
proof -
  have "unat w < 2 ^ 16" using unsigned_less [of w] by simp
  then show ?thesis by (simp add: unsigned_ucast_eq take_bit_nat_eq_self)
qed

lemma low_no_bits:
  assumes "unat (a :: u32) < 512"
  shows "a AND 0xFE00 = 0"
proof (rule bit_word_eqI)
  fix n
  have "\<not> bit a n" if "9 \<le> n"
  proof
    assume "bit a n"
    then have "bit (unat a) n" by (simp add: bit_unsigned_iff)
    moreover have "unat a < 2 ^ n" using assms power_increasing [OF that, of "2 :: nat"] by simp
    ultimately show False by (simp add: bit_iff_odd)
  qed
  then show "bit (a AND 0xFE00) n = bit (0 :: u32) n"
    unfolding mask_0xFE00 by (auto simp: bit_simps)
qed

lemma low_not_internal: "unat (a :: u32) < 512 \<Longrightarrow> \<not> is_internal_bus_addr a"
  by (auto simp: is_internal_bus_addr_def)

lemma fetch_low:
  "unat a < 512 \<Longrightarrow> fetch_data mem_bus a m = Inr (mem_word (BUS_REF m) (unat a), m)"
  by (simp add: fetch_data_def low_not_internal low_no_bits translate_low mem_bus_def
       is_local_addr_unat read_word_in_bounds mem_word_def)

lemma low_iff: "unat (w :: u16) < 512 \<longleftrightarrow> (ucast w :: u32) AND 0xFE00 = 0"
  using low_no_bits [of "ucast w"] low_or_high [of "ucast w"] u16_le [of w]
  by (auto simp: unat_ucast_u32)

lemma not_internal_u16: "\<not> is_internal_bus_addr (ucast (w :: u16))"
  using u16_le [of w] by (auto simp: is_internal_bus_addr_def)


lemma ucast_high:
  assumes "512 \<le> unat (w :: u16)"
  shows "translate_bus_addr (ucast w) = ucast w OR 0x38000"
    and "\<not> is_local_addr (ucast w OR 0x38000)"
  using assms low_iff [of w] translate_high [of "ucast w"]
  by (auto simp: translate_bus_addr_def is_local_addr_unat)

lemma ucast_low: "unat (w :: u16) < 512 \<Longrightarrow> translate_bus_addr (ucast w) = ucast w"
  using low_iff [of w] by (simp add: translate_low)

lemma fetch_u16:
  "fetch_data mem_bus (ucast (w :: u16)) m =
     (if unat w < 512 then Inr (mem_word (BUS_REF m) (unat w), m)
      else Inl (Bus_Hang (ucast w OR 0x38000)))"
proof (cases "unat w < 512")
  case True
  then show ?thesis
    by (simp add: fetch_data_def not_internal_u16 ucast_low mem_bus_def is_local_addr_unat
         unat_ucast_u32 read_word_in_bounds mem_word_def)
next
  case False
  then show ?thesis
    using ucast_high [of w] by (simp add: fetch_data_def not_internal_u16 mem_bus_def not_less)
qed

lemma store_u16:
  "store_data mem_bus (ucast (w :: u16)) v m =
     (if unat w < 512 then Inr (m\<lparr>BUS_REF := (BUS_REF m)\<lparr>mar := w, mbr := v,
        store := (store (BUS_REF m))(unat w := lo_byte v, unat w + 1 := hi_byte v)\<rparr>\<rparr>)
      else Inl (Bus_Hang (ucast w OR 0x38000)))"
proof (cases "unat w < 512")
  case True
  then show ?thesis
    by (simp add: store_data_def not_internal_u16 ucast_low mem_bus_def is_local_addr_unat
         unat_ucast_u32 write_word_in_bounds)
next
  case False
  then show ?thesis
    using ucast_high [of w] by (simp add: store_data_def not_internal_u16 mem_bus_def not_less)
qed


section \<open>Evaluating a cycle\<close>

text \<open>The effect of the flag operations on the status word, kept folded in evaluations.\<close>

definition zero_psw :: "u16 \<Rightarrow> u16 \<Rightarrow> u16" where
  "zero_psw v p = (if v = 0 then p OR ZEROFLAG else if p AND ZEROFLAG \<noteq> 0 then p XOR ZEROFLAG else p)"

definition negative_psw :: "bool \<Rightarrow> u16 \<Rightarrow> u16" where
  "negative_psw s p =
     (if s then p OR NEGATIVEFLAG else if p AND NEGATIVEFLAG \<noteq> 0 then p XOR NEGATIVEFLAG else p)"

lemma flags_psw:
  "set_zero_flag v m = m\<lparr>psw := zero_psw v (psw m)\<rparr>"
  "set_negative_flag_w v m = m\<lparr>psw := negative_psw (bit v 15) (psw m)\<rparr>"
  "set_negative_flag_b c m = m\<lparr>psw := negative_psw (bit c 7) (psw m)\<rparr>"
  using and_sign_bit(1) [of v] and_sign_bit(2) [of c]
  by (simp_all add: set_zero_flag_def set_negative_flag_w_def set_negative_flag_b_def zero_psw_def
        negative_psw_def)

lemma bit_flags_psw [simp]:
  "bit (zero_psw v p) 2 \<longleftrightarrow> v = 0" "bit (zero_psw v p) 3 \<longleftrightarrow> bit p 3"
  "bit (negative_psw s p) 3 \<longleftrightarrow> s" "bit (negative_psw s p) 2 \<longleftrightarrow> bit p 2"
  by (auto simp: zero_psw_def negative_psw_def and_flag bit_or_iff bit_xor_iff bit_flag_mask)

lemma fetch_internal:
  "is_internal_bus_addr a \<Longrightarrow> fetch_data B a m = rbind (fetch_data_register a m) (\<lambda>d. Inr (d, m))"
  by (simp add: fetch_data_def)

lemma store_internal:
  "is_internal_bus_addr a \<Longrightarrow> store_data B a d m = store_data_register a d m"
  "is_internal_bus_addr a \<Longrightarrow> store_data_b B a c m = store_data_register a (ucast c) m"
  by (simp_all add: store_data_def store_data_b_def)

lemmas decode_eval = decode_def switch_def op_lists

lemmas addressing_eval =
  setup_src_addressing_def setup_dest_addressing_def setup_pc_addressing_def
  setup_sp_addressing_def setup_general_addressing_def setup_general_byte_addressing_def
  register_to_bus_addr_def fetch_register_contents_def inc_register_def dec_register_def
  register_ref_def fetch_data_register_def store_data_register_def bus_addr_to_register_def
  is_internal_bus_addr_def

lemmas cycle_eval =
  cpu_cycle_def exec_instruction_def decode_eval fetch_low Let_def

lemmas operand_eval = addressing_eval fetch_internal store_internal flags_psw

text \<open>The program \<open>MOV #x, R0; MOV #y, R1; ADD R0, R1; HALT\<close>, from reset.\<close>

lemma add_program:
  assumes "mem_word b 0 = 0x15C0" and "mem_word b 2 = x" and "mem_word b 4 = 0x15C1"
    and "mem_word b 6 = y" and "mem_word b 8 = 0x6001" and "mem_word b 10 = 0"
  shows "\<exists>m. run mem_bus (init_cpu b) [Some MOV_op, Some MOV_op, Some ADD_op, None] m \<and>
    halted m = 1 \<and> r0 m = x \<and> r1 m = x + y \<and> BUS_REF m = b \<and>
    Z_flag m = (x + y = 0) \<and> N_flag m = bit (x + y) 15"
proof -
  let ?m1 = "init_cpu b\<lparr>r0 := x, pc := 4, psw := negative_psw (bit x 15) (zero_psw x 0), alu := x,
    ir := 0x15C0, src_address := 2, dest_address := 0x3FFC0\<rparr>"
  let ?m2 = "?m1\<lparr>r1 := y, pc := 8, psw := negative_psw (bit y 15) (zero_psw y (psw ?m1)), alu := y,
    ir := 0x15C1, src_address := 6, dest_address := 0x3FFC1\<rparr>"
  let ?m3 = "?m2\<lparr>r1 := x + y, pc := 10, psw := zero_psw (x + y) (negative_psw (bit (x + y) 15) (psw ?m2)),
    alu := x + y, ir := 0x6001, src_address := 0x3FFC0, dest_address := 0x3FFC1\<rparr>"
  let ?m4 = "?m3\<lparr>pc := 12, ir := 0, halted := 1\<rparr>"
  have 1: "cpu_cycle mem_bus (init_cpu b) = Inr ?m1"
    using assms(1,2) by (simp add: cycle_eval init_cpu_def) (simp add: MOV_def operand_eval fetch_low Let_def)
  have 2: "cpu_cycle mem_bus ?m1 = Inr ?m2"
    using assms(3,4) by (simp add: cycle_eval init_cpu_def) (simp add: MOV_def operand_eval fetch_low Let_def)
  have 3: "cpu_cycle mem_bus ?m2 = Inr ?m3"
    using assms(5) by (simp add: cycle_eval init_cpu_def) (simp add: ADD_def operand_eval fetch_low Let_def)
  have 4: "cpu_cycle mem_bus ?m3 = Inr ?m4"
    using assms(6) by (simp add: cycle_eval init_cpu_def) (simp add: HALT_def)
  have "cpu_step mem_bus (init_cpu b) (Some MOV_op) ?m1"
    using cpu_step.cycle [OF _ 1] by (simp add: init_cpu_def decode_eval)
  moreover have "cpu_step mem_bus ?m1 (Some MOV_op) ?m2"
    using cpu_step.cycle [OF _ 2] by (simp add: init_cpu_def decode_eval)
  moreover have "cpu_step mem_bus ?m2 (Some ADD_op) ?m3"
    using cpu_step.cycle [OF _ 3] by (simp add: init_cpu_def decode_eval)
  moreover have "cpu_step mem_bus ?m3 None ?m4"
    using cpu_step.cycle [OF _ 4] by (simp add: init_cpu_def decode_eval)
  ultimately have "run mem_bus (init_cpu b) [Some MOV_op, Some MOV_op, Some ADD_op, None] ?m4"
    by (blast intro: run.intros)
  then show ?thesis
    by (intro exI [of _ ?m4] conjI) (simp_all add: init_cpu_def flag_defs)
qed

section \<open>A memory with a program\<close>

text \<open>The memory holding a sequence of words from address 0 on.\<close>

definition program_mem :: "u16 list \<Rightarrow> mem_dev" where
  "program_mem ws = \<lparr>mar = 0, mbr = 0, store = (\<lambda>j. if j < 2 * length ws then text_byte ws j else 0)\<rparr>"

lemma program_mem_word: "i < length ws \<Longrightarrow> mem_word (program_mem ws) (2 * i) = ws ! i"
  by (simp add: mem_word_def program_mem_def text_byte_def)

lemma program_mem_halt: "length ws \<le> i \<Longrightarrow> mem_word (program_mem ws) (2 * i) = 0"
  by (simp add: mem_word_def program_mem_def le_word_def)

section \<open>Calls and returns\<close>

lemma low_not_special:
  assumes "8 < unat (w :: u16)"
  shows "register_ref w = None"
  using assms by (auto simp: register_ref_def)

lemma store_link:
  "reg_num r \<Longrightarrow> store_data_register (register_to_bus_addr r) v m = Inr (write_register r v m)"
  unfolding reg_num_def by (elim insertE emptyE) (simp_all add: register_to_bus_addr_def
    store_data_register_def bus_addr_to_register_def write_register_def register_ref_def)

text \<open>
  The call, with its operand evaluated to the state \<open>m'\<close> and the stack pointer in the
  memory: the link register is stored at the stack pointer, which does not move.
\<close>

lemma JSR_effect:
  assumes "setup_dest_addressing mem_bus False m = Inr m'" and "8 < unat (sp m')" and "unat (sp m') < 512"
    and "r = src_reg (ir m)"
  shows "exec_op mem_bus JSR_op m = Inr ((write_register r (pc m') (m'\<lparr>BUS_REF := (BUS_REF m')\<lparr>mar := sp m',
      mbr := fetch_register_contents r m', store := (store (BUS_REF m'))
        (unat (sp m') := lo_byte (fetch_register_contents r m'),
         unat (sp m') + 1 := hi_byte (fetch_register_contents r m'))\<rparr>\<rparr>))\<lparr>pc := ucast (dest_address m')\<rparr>)"
  using assms low_not_special [OF assms(2)] src_reg_num [of "ir m"]
  by (simp add: JSR_def Let_def src_reg_def store_u16 dec_register_def store_link)

lemma RTS_effect:
  assumes "8 < unat (sp m)" and "unat (sp m) < 512" and "r = dest_reg (ir m)"
  shows "exec_op mem_bus RTS_op m =
    Inr (write_register r (mem_word (BUS_REF m) (unat (sp m))) (m\<lparr>pc := fetch_register_contents r m\<rparr>))"
  using assms low_not_special [OF assms(1)] dest_reg_num [of "ir m"]
  by (simp add: RTS_def Let_def dest_reg_def fetch_u16 inc_register_def store_link)

lemma write_register_pc_sp:
  "r \<noteq> 7 \<Longrightarrow> pc (write_register r v m) = pc m"
  "r \<noteq> 6 \<Longrightarrow> sp (write_register r v m) = sp m"
  "ir (write_register r v m) = ir m"
  by (auto simp: write_register_def register_ref_def)

lemma contents_pc:
  "r \<noteq> 7 \<Longrightarrow> fetch_register_contents r (m\<lparr>pc := v\<rparr>) = fetch_register_contents r m"
  by (simp add: fetch_register_contents_def)

lemma contents_bus:
  "fetch_register_contents r (m\<lparr>BUS_REF := v\<rparr>) = fetch_register_contents r m"
  by (simp add: fetch_register_contents_def)

lemmas link_frame = write_register_pc_sp contents_pc contents_bus contents_write_register

lemma link_not_sp_pc: "r = src_reg w \<Longrightarrow> unat r < 6 \<Longrightarrow> reg_num r \<and> r \<noteq> 6 \<and> r \<noteq> 7"
  by auto

end
