(* ===== verification/Cpu_Properties.thy ===== *)
theory Cpu_Properties
  imports Cpu_Run
begin

text \<open>
  The properties of the CPU: its loop, its safety on the memory device, decoding, branches,
  the operand instructions in register mode, the memory window and subroutine calls. Each
  rests on the lemmas of the theories before.
\<close>

section \<open>Execution\<close>

text \<open>A machine just after reset that has fetched the instruction word \<open>w\<close>.\<close>

definition fetched :: "u16 \<Rightarrow> mem_dev machine" where
  "fetched w = (init_cpu (program_mem []))\<lparr>ir := w, pc := 2\<rparr>"

text \<open>
  The loop \<open>execute\<close> and the step relation agree: \<open>execute\<close> returns exactly
  when a finite run of instruction cycles leads to a state that is halted, which it then
  returns, or whose next cycle fails, and it returns that failure.
\<close>

theorem execute_iff_run:
  "execute B m = Some r \<longleftrightarrow> (\<exists>cs m'. run B m cs m' \<and> final B m' r)"
  using execute_has_run execute_run execute_final by metis

text \<open>
  Property C1. The CPU on the memory device is memory-safe for every program and every start
  address: it never follows a null register pointer and never makes the memory device index
  its store out of bounds; the only failure it can run into is a bus cycle nobody answers.
\<close>

theorem execute_memory_safe:
  "execute mem_bus (init_cpu b\<lparr>pc := v\<rparr>) \<noteq> Some (Inl Null_Deref) \<and>
   execute mem_bus (init_cpu b\<lparr>pc := v\<rparr>) \<noteq> Some (Inl (Out_Of_Bounds i)) \<and>
   execute mem_bus (init_cpu b\<lparr>pc := v\<rparr>) \<noteq> Some (Inl Stack_Exhausted)"
  using mem_cpu.execute_safe [of "init_cpu b\<lparr>pc := v\<rparr>"] by (auto simp: is_hang_def)

text \<open>
  In every state the CPU reaches from reset, the two operand addresses are bus
  addresses of the eight general registers or sums of two 16-bit values: no instruction can
  address the processor status through its operands.
\<close>

theorem reachable_addresses:
  assumes "run mem_bus (init_cpu b\<lparr>pc := v\<rparr>) cs m"
  shows "addr_ok (src_address m) \<and> addr_ok (dest_address m) \<and>
    bus_addr_to_register (src_address m) \<noteq> Some P_PSW \<and>
    bus_addr_to_register (dest_address m) \<noteq> Some P_PSW"
proof -
  have "cpu_wf m" using mem_cpu.run_safe [OF assms TrueI] by simp
  then show ?thesis using addr_ok_not_psw by (auto simp: cpu_wf_def)
qed

theorem reachable_addresses_witness:
  "addr_ok (src_address (init_cpu \<lparr>mar = 0, mbr = 0, store = (\<lambda>_. 0)\<rparr>\<lparr>pc := 0\<rparr>))"
  using reachable_addresses [OF run_Nil] by simp

text \<open>
  Property C38. Outside the instructions \<open>JSR\<close>, \<open>RTS\<close> and \<open>MTPS\<close>, no instruction ever sets the
  carry or the overflow flag, or any status bit but N and Z: a run from reset that executes
  none of the three ends with all other status bits clear.
\<close>

theorem carry_overflow_never_set:
  assumes "run mem_bus (init_cpu b\<lparr>pc := v\<rparr>) cs m"
    and "set cs \<inter> {Some JSR_op, Some RTS_op, Some MTPS_op} = {}"
  shows "psw m AND 0xFFF3 = 0 \<and> \<not> C_flag m \<and> \<not> V_flag m"
proof -
  have p: "psw m AND 0xFFF3 = 0"
    using mem_cpu.run_psw [OF assms(1) TrueI init_cpu_wf(2) assms(2)] by (simp add: init_cpu_def)
  have "bit (psw m AND 0xFFF3) 0 = bit (psw m) 0" "bit (psw m AND 0xFFF3) 1 = bit (psw m) 1"
    by (simp_all only: bit_and_iff) (simp_all add: bit_numeral_rec)
  with p show ?thesis by (simp add: C_flag_def V_flag_def)
qed

theorem carry_overflow_never_set_witness:
  "\<exists>m. run mem_bus (init_cpu (program_mem [0x15C0, 0xFFFF, 0x15C1, 1, 0x6001, 0])\<lparr>pc := 0\<rparr>)
     [Some MOV_op, Some MOV_op, Some ADD_op, None] m \<and> r1 m = 0 \<and> \<not> C_flag m"
proof -
  let ?b = "program_mem [0x15C0, 0xFFFF, 0x15C1, 1, 0x6001, 0]"
  have "init_cpu ?b\<lparr>pc := 0\<rparr> = init_cpu ?b" by (simp add: init_cpu_def)
  moreover obtain m where "run mem_bus (init_cpu ?b) [Some MOV_op, Some MOV_op, Some ADD_op, None] m"
    and "r1 m = 0xFFFF + 1"
    using add_program [of ?b "0xFFFF" 1] program_mem_word [of 0] program_mem_word [of 1]
      program_mem_word [of 2] program_mem_word [of 3] program_mem_word [of 4] program_mem_word [of 5]
    by auto
  ultimately show ?thesis
    using carry_overflow_never_set [where b = ?b and v = 0 and m = m
      and cs = "[Some MOV_op, Some MOV_op, Some ADD_op, None]"] by auto
qed

text \<open>
  Property C9. A data transfer of the CPU at a 16-bit address reaches the memory device
  exactly when the address is below 512. Any other address is moved to the I/O page by
  \<open>translate_bus_addr\<close>, where no device answers: code, data and stack beyond the first 256
  words cannot be used.
\<close>

theorem memory_window:
  "fetch_data mem_bus (ucast (w :: u16)) m =
     (if unat w < 512 then Inr (mem_word (BUS_REF m) (unat w), m)
      else Inl (Bus_Hang (ucast w OR 0x38000))) \<and>
   store_data mem_bus (ucast w) v m =
     (if unat w < 512 then Inr (m\<lparr>BUS_REF := (BUS_REF m)\<lparr>mar := w, mbr := v,
        store := (store (BUS_REF m))(unat w := lo_byte v, unat w + 1 := hi_byte v)\<rparr>\<rparr>)
      else Inl (Bus_Hang (ucast w OR 0x38000)))"
  by (simp only: fetch_u16 store_u16)

text \<open>
  Property C36. A subroutine returns to its caller, when the stack pointer is above 8 and inside
  the memory: after \<open>JSR\<close> with one of R0 to R5 as link register, if the subroutine hands back the
  link register, the stack pointer and the stacked word unchanged, \<open>RTS\<close> on the same register
  continues after the call, with the link register and the stack pointer as they were. (After
  reset the stack pointer is 0, and \<open>JSR\<close> takes such a small value for the number of a register,
  which it decrements.)
\<close>

theorem call_and_return:
  assumes "setup_dest_addressing mem_bus False m = Inr m'"
    and "8 < unat (sp m')" and "unat (sp m') < 512" and "r = src_reg (ir m)" and "unat r < 6"
    and "exec_op mem_bus JSR_op m = Inr m1"
    and "sp m2 = sp m1" and "fetch_register_contents r m2 = fetch_register_contents r m1"
    and "mem_word (BUS_REF m2) (unat (sp m1)) = mem_word (BUS_REF m1) (unat (sp m1))"
    and "dest_reg (ir m2) = r"
  shows "pc m1 = ucast (dest_address m') \<and> (\<exists>m3. exec_op mem_bus RTS_op m2 = Inr m3 \<and>
    pc m3 = pc m' \<and> sp m3 = sp m' \<and>
    fetch_register_contents r m3 = fetch_register_contents r m')"
proof -
  have r: "reg_num r" "r \<noteq> 6" "r \<noteq> 7" using link_not_sp_pc [OF assms(4,5)] by auto
  from JSR_effect [OF assms(1-4)] assms(6)
  have m1: "pc m1 = ucast (dest_address m')" "sp m1 = sp m'"
    "fetch_register_contents r m1 = pc m'"
    "mem_word (BUS_REF m1) (unat (sp m')) = fetch_register_contents r m'"
    by (auto simp: link_frame r mem_word_def)
  with RTS_effect [of m2 r] assms(2,3,7-10) show ?thesis
    by (simp add: link_frame r)
qed

text \<open>A caller at address 2 with the instruction \<open>JSR R5, (R1)\<close>, its stack at 256.\<close>

definition caller :: "mem_dev machine" where
  "caller = (fetched 0x0949)\<lparr>r1 := 0x40, r5 := 0x77, sp := 0x100\<rparr>"

lemma caller_operand: "setup_dest_addressing mem_bus False caller = Inr (caller\<lparr>dest_address := 0x40\<rparr>)"
  by (simp add: caller_def fetched_def init_cpu_def addressing_eval Let_def)

lemma caller_fields [simp]:
  "src_reg (ir caller) = 5" "sp caller = 0x100" "pc caller = 2"
  "fetch_register_contents 5 caller = 0x77"
  by (simp_all add: caller_def fetched_def init_cpu_def src_reg_def fetch_register_contents_def)

theorem call_and_return_witness:
  "\<exists>m1 m3. exec_op mem_bus JSR_op caller = Inr m1 \<and> pc m1 = 0x40 \<and>
     exec_op mem_bus RTS_op (m1\<lparr>ir := 0x0085\<rparr>) = Inr m3 \<and> pc m3 = 2 \<and> fetch_register_contents 5 m3 = 0x77"
proof -
  obtain m1 where m1: "exec_op mem_bus JSR_op caller = Inr m1"
    using JSR_effect [OF caller_operand _ _ refl] by simp
  have "fetch_register_contents 5 (m1\<lparr>ir := 0x0085\<rparr>) = fetch_register_contents 5 m1"
    by (simp add: fetch_register_contents_def)
  then show ?thesis
    using call_and_return [OF caller_operand _ _ refl _ m1, of "m1\<lparr>ir := 0x0085\<rparr>"] m1
    by (auto simp: dest_reg_def)
qed

text \<open>
  Calls do not nest: with a stack pointer above 8, \<open>JSR\<close> stores the link
  register at the stack pointer and leaves the stack pointer where it was, so the next call
  overwrites the stacked word and the outer return address is lost.
\<close>

theorem nested_call_overwrites:
  assumes "setup_dest_addressing mem_bus False m = Inr m'"
    and "8 < unat (sp m')" and "unat (sp m') < 512" and "unat (src_reg (ir m)) < 6"
    and "exec_op mem_bus JSR_op m = Inr m1"
    and "setup_dest_addressing mem_bus False (m1\<lparr>ir := w, pc := p\<rparr>) = Inr m2'" and "sp m2' = sp m1"
    and "exec_op mem_bus JSR_op (m1\<lparr>ir := w, pc := p\<rparr>) = Inr m2"
  shows "mem_word (BUS_REF m1) (unat (sp m')) = fetch_register_contents (src_reg (ir m)) m' \<and>
    mem_word (BUS_REF m2) (unat (sp m')) = fetch_register_contents (src_reg w) m2'"
proof -
  have r: "src_reg (ir m) \<noteq> 6" using link_not_sp_pc [OF refl assms(4)] by auto
  from JSR_effect [OF assms(1-3) refl] assms(5) r
  have m1: "sp m1 = sp m'" "mem_word (BUS_REF m1) (unat (sp m')) = fetch_register_contents (src_reg (ir m)) m'"
    by (auto simp: write_register_pc_sp mem_word_def)
  with JSR_effect [OF assms(6) _ _ refl] assms(2,3,7,8)
  have "mem_word (BUS_REF m2) (unat (sp m')) = fetch_register_contents (src_reg w) m2'"
    by (auto simp: mem_word_def)
  with m1 show ?thesis by simp
qed

theorem nested_call_overwrites_witness:
  "\<exists>m1 m2. exec_op mem_bus JSR_op caller = Inr m1 \<and>
     exec_op mem_bus JSR_op (m1\<lparr>ir := 0x0949, pc := 0x42\<rparr>) = Inr m2 \<and>
     mem_word (BUS_REF m1) 0x100 = 0x77 \<and> mem_word (BUS_REF m2) 0x100 = 2"
proof -
  obtain m1 where m1: "exec_op mem_bus JSR_op caller = Inr m1"
    and f: "sp m1 = 0x100" "fetch_register_contents 5 m1 = 2" "fetch_register_contents 1 m1 = 0x40"
    using JSR_effect [OF caller_operand _ _ refl]
    by (simp add: link_frame) (simp add: caller_def fetched_def fetch_register_contents_def)
  let ?m = "m1\<lparr>ir := 0x0949, pc := 0x42\<rparr>"
  have o2: "setup_dest_addressing mem_bus False ?m = Inr (?m\<lparr>dest_address := 0x40\<rparr>)"
    using f(3) by (simp add: addressing_eval Let_def)
  obtain m2 where m2: "exec_op mem_bus JSR_op ?m = Inr m2"
    using JSR_effect [OF o2 _ _ refl] f(1) by simp
  have "fetch_register_contents 5 (?m\<lparr>dest_address := 0x40\<rparr>) = 2"
    using f(2) by (simp add: fetch_register_contents_def)
  moreover have "src_reg 0x0949 = 5" by (simp add: src_reg_def)
  ultimately show ?thesis
    using nested_call_overwrites [OF caller_operand _ _ _ m1 o2 _ m2] m1 m2 f(1) by auto
qed

section \<open>Instructions\<close>

text \<open>
  Property C5. Decoding is unambiguous: a word is decoded to an opcode exactly when it
  equals the opcode's value under the opcode's mask, so at most one opcode of the
  enumeration matches any word and the order of the switches is irrelevant.
\<close>

theorem decode_iff: "decode w = Some c \<longleftrightarrow> w AND op_mask c = op_value c"
  using decode_sound decode_complete by blast

text \<open>
  Property C37. The fifteen branches: a branch is taken exactly when its condition on the
  flags N, Z, V and C holds; it then adds twice the signed 8-bit offset of the instruction
  to the program counter, otherwise it changes nothing but the ALU register.
\<close>

theorem branch_semantics:
  assumes "decode (ir m) = Some c" and "c \<in> set branch_ops"
  shows "\<exists>m'. exec_instruction B m = Inr m' \<and> m'\<lparr>alu := alu m, pc := pc m\<rparr> = m \<and>
    pc m' = (if branch_taken c m then pc m + 2 * scast (get_branch_offset m) else pc m)"
  using branch_step [OF assms(2), of B m] assms(1) by (simp only: exec_instruction_def option.case)

theorem branch_semantics_witness:
  "\<exists>m'. exec_instruction mem_bus (fetched 0x02FF) = Inr m' \<and> pc m' = 0"
  using branch_semantics [where m = "fetched 0x02FF" and c = BNE_op and B = mem_bus]
  by (auto simp: decode_eval fetched_def init_cpu_def flag_defs get_branch_offset_def)

text \<open>
  The word instructions with two register operands compute their result in
  16-bit arithmetic (addition and subtraction wrap), write it to the destination register
  alone if they write at all, set Z exactly for a zero result and N to its sign bit, and do
  not use the bus. \<open>CMP\<close> computes destination minus source and \<open>SUB\<close> source minus
  destination.
\<close>

theorem double_operand_registers:
  assumes "decode (ir m) = Some c" and "c \<in> set word_double_ops"
    and "src_mode (ir m) = 0" and "dest_mode (ir m) = 0"
    and "v = alu2 c (fetch_register_contents (src_reg (ir m)) m)
                    (fetch_register_contents (dest_reg (ir m)) m)"
  shows "\<exists>m'. exec_instruction B m = Inr m' \<and> alu m' = v \<and> BUS_REF m' = BUS_REF m \<and>
    Z_flag m' = (v = 0) \<and> N_flag m' = bit v 15 \<and>
    fetch_register_contents (dest_reg (ir m)) m' =
      (if writes_dest c then v else fetch_register_contents (dest_reg (ir m)) m) \<and>
    (\<forall>r. reg_num r \<and> r \<noteq> dest_reg (ir m) \<longrightarrow>
       fetch_register_contents r m' = fetch_register_contents r m)"
  using double_register [OF assms(2-5)] assms(1)
  by (fastforce simp: exec_instruction_def)

theorem double_operand_registers_witness:
  "\<exists>m'. exec_instruction mem_bus ((fetched 0xE001)\<lparr>r0 := 5, r1 := 7\<rparr>) = Inr m' \<and>
     fetch_register_contents 1 m' = 0xFFFE \<and> N_flag m' \<and> \<not> Z_flag m'"
  using double_operand_registers [where m = "(fetched 0xE001)\<lparr>r0 := 5, r1 := 7\<rparr>" and c = SUB_op
    and B = mem_bus]
  by (auto simp: decode_eval fetched_def init_cpu_def word_double_ops_def src_mode_def dest_mode_def
        alu2_def src_reg_def dest_reg_def fetch_register_contents_def writes_dest_def
        bit_numeral_rec)

text \<open>
  The word instructions with one register operand compute the reference
  function \<open>alu1\<close> of the operand and the carry, write it to that register alone (\<open>TST\<close>
  writes nothing), and set Z and N from it. \<open>ROL\<close> rotates right, \<open>ROR\<close> left, \<open>ASR\<close> divides
  the unsigned value by two.
\<close>

theorem single_operand_registers:
  assumes "decode (ir m) = Some c" and "c \<in> set word_single_ops" and "dest_mode (ir m) = 0"
    and "v = alu1 c (C_flag m) (fetch_register_contents (dest_reg (ir m)) m)"
  shows "\<exists>m'. exec_instruction B m = Inr m' \<and> alu m' = v \<and> BUS_REF m' = BUS_REF m \<and>
    Z_flag m' = (v = 0) \<and> N_flag m' = bit v 15 \<and>
    fetch_register_contents (dest_reg (ir m)) m' =
      (if writes_dest c then v else fetch_register_contents (dest_reg (ir m)) m) \<and>
    (\<forall>r. reg_num r \<and> r \<noteq> dest_reg (ir m) \<longrightarrow>
       fetch_register_contents r m' = fetch_register_contents r m)"
  using single_register [OF assms(2-4)] assms(1)
  by (fastforce simp: exec_instruction_def)

theorem single_operand_registers_witness:
  "\<exists>m'. exec_instruction mem_bus ((fetched 0x0C42)\<lparr>r2 := 2\<rparr>) = Inr m' \<and>
     fetch_register_contents 2 m' = word_rotr 1 2"
  using single_operand_registers [where m = "(fetched 0x0C42)\<lparr>r2 := 2\<rparr>" and c = ROL_op
    and B = mem_bus]
  by (auto simp: decode_eval fetched_def init_cpu_def word_single_ops_def dest_mode_def
        alu1_def dest_reg_def fetch_register_contents_def writes_dest_def)

text \<open>
  The byte instructions with two register operands compute in 8-bit arithmetic
  on the low bytes, set Z and N from the byte, and store the byte with the high byte of the
  destination register cleared.
\<close>

theorem byte_double_operand_registers:
  assumes "decode (ir m) = Some c" and "c \<in> set byte_double_ops"
    and "src_mode (ir m) = 0" and "dest_mode (ir m) = 0"
    and "v = alu2_b c (lo_byte (fetch_register_contents (src_reg (ir m)) m))
                      (lo_byte (fetch_register_contents (dest_reg (ir m)) m))"
  shows "\<exists>m'. exec_instruction B m = Inr m' \<and> BUS_REF m' = BUS_REF m \<and>
    Z_flag m' = (v = 0) \<and> N_flag m' = bit v 7 \<and>
    fetch_register_contents (dest_reg (ir m)) m' =
      (if writes_dest_b c then ucast v else fetch_register_contents (dest_reg (ir m)) m) \<and>
    (\<forall>r. reg_num r \<and> r \<noteq> dest_reg (ir m) \<longrightarrow>
       fetch_register_contents r m' = fetch_register_contents r m)"
  using byte_double_register [OF assms(2-5)] assms(1)
  by (fastforce simp: exec_instruction_def)

theorem byte_double_operand_registers_witness:
  "\<exists>m'. exec_instruction mem_bus ((fetched 0x9001)\<lparr>r0 := 0x1234, r1 := 0x5678\<rparr>) = Inr m' \<and>
     fetch_register_contents 1 m' = 0x34"
  using byte_double_operand_registers [where m = "(fetched 0x9001)\<lparr>r0 := 0x1234, r1 := 0x5678\<rparr>"
    and c = MOVB_op and B = mem_bus]
  by (auto simp: decode_eval fetched_def init_cpu_def byte_double_ops_def src_mode_def dest_mode_def
        alu2_b_def src_reg_def dest_reg_def fetch_register_contents_def writes_dest_b_def lo_byte_def)

text \<open>
  The byte instructions \<open>CLRB\<close>, \<open>DECB\<close>, \<open>NEGB\<close>, \<open>SBCB\<close>, \<open>TSTB\<close>, \<open>RORB\<close>, \<open>ROLB\<close> and
  \<open>ASRB\<close> on a register compute in 8-bit arithmetic on its low byte, set Z and N from the byte
  and store it with the high byte cleared.
\<close>

theorem byte_single_operand_registers:
  assumes "decode (ir m) = Some c" and "c \<in> set byte_single_ops" and "dest_mode (ir m) = 0"
    and "v = alu1_b c (C_flag m) (lo_byte (fetch_register_contents (dest_reg (ir m)) m))"
  shows "\<exists>m'. exec_instruction B m = Inr m' \<and> BUS_REF m' = BUS_REF m \<and>
    Z_flag m' = (v = 0) \<and> N_flag m' = bit v 7 \<and>
    fetch_register_contents (dest_reg (ir m)) m' =
      (if writes_dest_b c then ucast v else fetch_register_contents (dest_reg (ir m)) m) \<and>
    (\<forall>r. reg_num r \<and> r \<noteq> dest_reg (ir m) \<longrightarrow>
       fetch_register_contents r m' = fetch_register_contents r m)"
  using byte_single_register [OF assms(2-4)] assms(1)
  by (fastforce simp: exec_instruction_def)

theorem byte_single_operand_registers_witness:
  "\<exists>m'. exec_instruction mem_bus ((fetched 0x8AC3)\<lparr>r3 := 0x0105\<rparr>) = Inr m' \<and>
     fetch_register_contents 3 m' = 4 \<and> \<not> Z_flag m'"
  using byte_single_operand_registers [where m = "(fetched 0x8AC3)\<lparr>r3 := 0x0105\<rparr>"
    and c = DECB_op and B = mem_bus]
  by (auto simp: decode_eval fetched_def init_cpu_def byte_single_ops_def dest_mode_def
        alu1_b_def dest_reg_def fetch_register_contents_def writes_dest_b_def lo_byte_def)

text \<open>
  \<open>INCB\<close> and \<open>COMB\<close> of a register whose low byte is 255 leave the byte 0 in the
  register and yet clear Z, because the flag is taken from the 16-bit ALU value.
\<close>

theorem byte_zero_flag_lost:
  assumes "decode (ir m) = Some c" and "c = INCB_op \<or> c = COMB_op" and "dest_mode (ir m) = 0"
    and "lo_byte (fetch_register_contents (dest_reg (ir m)) m) = 0xFF"
  shows "\<exists>m'. exec_instruction B m = Inr m' \<and>
    fetch_register_contents (dest_reg (ir m)) m' = 0 \<and> \<not> Z_flag m'"
  using assms(2)
  by (elim disjE)
    (use assms(1,3,4) in \<open>simp_all add: exec_instruction_def INCB_def COMB_def Let_def low8
       dest_register_mode fetch_register store_register_b contents_write_register\<close>)

theorem byte_zero_flag_lost_witness:
  "\<exists>m'. exec_instruction mem_bus ((fetched 0x8A84)\<lparr>r4 := 0xFF\<rparr>) = Inr m' \<and> \<not> Z_flag m'"
  using byte_zero_flag_lost [where m = "(fetched 0x8A84)\<lparr>r4 := 0xFF\<rparr>" and c = INCB_op and B = mem_bus]
  by (auto simp: decode_eval fetched_def init_cpu_def dest_mode_def dest_reg_def
        fetch_register_contents_def lo_byte_def)

end
