(* ===== verification/Cpu_Modes.thy ===== *)
theory Cpu_Modes
  imports Cpu_Run
begin

text \<open>
  The addressing modes of \<open>src/src/cpu/cpu.c\<close> against the addressing modes of the PDP-11, and
  the operand instructions on operands of any kind: registers, and words of the memory device
  below the limit that the CPU can reach.
\<close>

section \<open>The addressing modes of the PDP-11\<close>

text \<open>
  The eight modes for a register \<open>r\<close>, the stack pointer and the program counter included: the
  register, \<open>(r)\<close>, \<open>(r)+\<close>, \<open>@(r)+\<close>, \<open>-(r)\<close>, \<open>@-(r)\<close>, \<open>x(r)\<close> and \<open>@x(r)\<close>. Addresses are 16 bits
  wide. Byte instructions step a register by one, but SP and PC always by two; the deferred
  modes step by two.
\<close>

definition ea_step :: "bool \<Rightarrow> u16 \<Rightarrow> bool" where
  "ea_step byte r \<longleftrightarrow> byte \<and> r \<noteq> 6 \<and> r \<noteq> 7"

definition pdp_ea ::
  "'b bus_ops \<Rightarrow> bool \<Rightarrow> u16 \<Rightarrow> u16 \<Rightarrow> 'b machine \<Rightarrow> (u32 \<times> 'b machine) res" where
  "pdp_ea B byte mode r m =
     (if mode = 0 then Inr (register_to_bus_addr r, m)
      else if mode = 1 then Inr (ucast (fetch_register_contents r m), m)
      else if mode = 2 then
        Inr (ucast (fetch_register_contents r m), inc_register r (ea_step byte r) m)
      else if mode = 3 then
        rbind (fetch_data B (ucast (fetch_register_contents r m)) m) (\<lambda>(a, m).
        Inr (ucast a, inc_register r False m))
      else if mode = 4 then
        (let m = dec_register r (ea_step byte r) m in Inr (ucast (fetch_register_contents r m), m))
      else if mode = 5 then
        (let m = dec_register r False m in
         rbind (fetch_data B (ucast (fetch_register_contents r m)) m) (\<lambda>(a, m).
         Inr (ucast a, m)))
      else
        rbind (fetch_data B (ucast (pc m)) m) (\<lambda>(x, m).
        let m = m\<lparr>pc := pc m + 2\<rparr>; a = x + fetch_register_contents r m in
        if mode = 6 then Inr (ucast a, m)
        else rbind (fetch_data B (ucast a) m) (\<lambda>(a, m). Inr (ucast a, m))))"

text \<open>The functions of the code, as \<open>setup_src_addressing\<close> and \<open>setup_dest_addressing\<close> choose them.\<close>

definition code_ea ::
  "'b bus_ops \<Rightarrow> bool \<Rightarrow> u16 \<Rightarrow> u16 \<Rightarrow> u32 \<Rightarrow> 'b machine \<Rightarrow> (u32 \<times> 'b machine) res" where
  "code_ea B byte mode r loc m =
     (if r = 7 then setup_pc_addressing B mode r loc m
      else if r = 6 then setup_sp_addressing B mode r loc m
      else if byte then setup_general_byte_addressing B mode r loc m
      else setup_general_addressing B mode r loc m)"

lemma setup_code_ea:
  "setup_dest_addressing B b m =
     rbind (code_ea B b (dest_mode (ir m)) (dest_reg (ir m)) (dest_address m) m) (\<lambda>(a, m). Inr (m\<lparr>dest_address := a\<rparr>))"
  "setup_src_addressing B b m =
     rbind (code_ea B b (src_mode (ir m)) (src_reg (ir m)) (src_address m) m) (\<lambda>(a, m). Inr (m\<lparr>src_address := a\<rparr>))"
  by (simp_all add: setup_dest_addressing_def setup_src_addressing_def code_ea_def src_mode_def src_reg_def
      dest_mode_def dest_reg_def)

text \<open>The modes that the code implements for a register.\<close>

definition mode_works :: "u16 \<Rightarrow> u16 \<Rightarrow> bool" where
  "mode_works r mode \<longleftrightarrow>
     mode \<in> (if r = 7 then {0, 2, 3, 6} else if r = 6 then {0, 1, 2, 3, 4, 6, 7} else {0, 1, 2})"

text \<open>The code adds an index to a register in 32 bits; the sum must not leave 16 bits.\<close>

definition no_carry :: "'b bus_ops \<Rightarrow> u16 \<Rightarrow> u16 \<Rightarrow> 'b machine \<Rightarrow> bool" where
  "no_carry B mode r m \<longleftrightarrow>
     (mode = 6 \<or> mode = 7 \<longrightarrow>
       (case fetch_data B (ucast (pc m)) m of
          Inl e \<Rightarrow> True
        | Inr (x, m) \<Rightarrow> unat x + unat (fetch_register_contents r (m\<lparr>pc := pc m + 2\<rparr>)) < 65536))"

lemma ucast_add_u32:
  "unat x + unat y < 65536 \<Longrightarrow> (ucast (x + y :: u16) :: u32) = ucast x + ucast y"
  by (rule word_unat_eq_iff [THEN iffD2]) (simp add: unat_ucast_u32 unat_word_ariths)

lemmas ea_defs = code_ea_def pdp_ea_def setup_pc_addressing_def setup_sp_addressing_def
  setup_general_addressing_def setup_general_byte_addressing_def

lemma sp_pc_simps:
  "fetch_register_contents 6 m = sp m" "fetch_register_contents 7 m = pc m"
  "inc_register 6 False m = m\<lparr>sp := sp m + 2\<rparr>" "inc_register 7 False m = m\<lparr>pc := pc m + 2\<rparr>"
  "dec_register 6 False m = m\<lparr>sp := sp m - 2\<rparr>" "dec_register 7 False m = m\<lparr>pc := pc m - 2\<rparr>"
  "\<not> ea_step byte 6" "\<not> ea_step byte 7"
  by (simp_all add: fetch_register_contents_def inc_register_def dec_register_def register_ref_def ea_step_def)

lemma mode_works_cases:
  assumes "mode_works r mode"
  obtains "mode = 0" | "mode = 1" "r \<noteq> 7" | "mode = 2" | "mode = 3" "r = 6 \<or> r = 7" | "mode = 4" "r = 6"
    | "mode = 6" "r = 6 \<or> r = 7" | "mode = 7" "r = 6"
  using assms unfolding mode_works_def
  by (cases "r = 7"; cases "r = 6") (simp_all, blast+)

lemma code_ea_sp_pc:
  "code_ea B byte mode 6 loc m = setup_sp_addressing B mode 6 loc m"
  "code_ea B byte mode 7 loc m = setup_pc_addressing B mode 7 loc m"
  by (simp_all add: code_ea_def)

lemma modes_agree_direct:
  "code_ea B byte 0 r loc m = pdp_ea B byte 0 r m"
  "r \<noteq> 7 \<Longrightarrow> code_ea B byte 1 r loc m = pdp_ea B byte 1 r m"
  "code_ea B byte 2 r loc m = pdp_ea B byte 2 r m"
proof -
  show "code_ea B byte 0 r loc m = pdp_ea B byte 0 r m"
    by (simp add: ea_defs)
  show "r \<noteq> 7 \<Longrightarrow> code_ea B byte 1 r loc m = pdp_ea B byte 1 r m"
    by (cases "r = 6") (simp_all add: ea_defs sp_pc_simps)
  show "code_ea B byte 2 r loc m = pdp_ea B byte 2 r m"
    by (cases "r = 6"; cases "r = 7") (simp_all add: ea_defs sp_pc_simps ea_step_def)
qed

lemma modes_agree_sp_pc:
  "code_ea B byte 3 6 loc m = pdp_ea B byte 3 6 m" "code_ea B byte 3 7 loc m = pdp_ea B byte 3 7 m"
  "code_ea B byte 4 6 loc m = pdp_ea B byte 4 6 m"
  by (simp_all add: code_ea_sp_pc setup_sp_addressing_def setup_pc_addressing_def pdp_ea_def sp_pc_simps Let_def)

lemma ucast_add_u32_swap:
  "unat x + unat y < 65536 \<Longrightarrow> (ucast (x + y :: u16) :: u32) = ucast y + ucast x"
  using ucast_add_u32 [of x y] by (simp only: add.commute)

lemma modes_agree_index:
  assumes "no_carry B mode r m"
  shows "mode = 6 \<Longrightarrow> r = 6 \<Longrightarrow> code_ea B byte mode r loc m = pdp_ea B byte mode r m"
    and "mode = 6 \<Longrightarrow> r = 7 \<Longrightarrow> code_ea B byte mode r loc m = pdp_ea B byte mode r m"
    and "mode = 7 \<Longrightarrow> r = 6 \<Longrightarrow> code_ea B byte mode r loc m = pdp_ea B byte mode r m"
proof -
  note defs = code_ea_sp_pc setup_sp_addressing_def setup_pc_addressing_def pdp_ea_def sp_pc_simps no_carry_def Let_def
  show "code_ea B byte mode r loc m = pdp_ea B byte mode r m" if "mode = 6" "r = 6"
    using assms that
    by (cases "fetch_data B (ucast (pc m)) m") (auto simp: defs ucast_add_u32_swap)
  show "code_ea B byte mode r loc m = pdp_ea B byte mode r m" if "mode = 6" "r = 7"
    using assms that
    by (cases "fetch_data B (ucast (pc m)) m") (auto simp: defs ucast_add_u32_swap)
  show "code_ea B byte mode r loc m = pdp_ea B byte mode r m" if "mode = 7" "r = 6"
    using assms that
    by (cases "fetch_data B (ucast (pc m)) m") (auto simp: defs ucast_add_u32)
qed

lemma modes_agree:
  assumes "mode_works r mode" and "no_carry B mode r m"
  shows "code_ea B byte mode r loc m = pdp_ea B byte mode r m"
  using assms(1)
proof (cases rule: mode_works_cases)
  case 4
  then show ?thesis using modes_agree_sp_pc by (elim disjE) simp_all
next
  case 6
  with modes_agree_index(1,2) [OF assms(2)] show ?thesis by (elim disjE) simp_all
next
  case 7
  with modes_agree_index(3) [OF assms(2)] show ?thesis by simp
qed (use modes_agree_direct modes_agree_sp_pc in \<open>simp_all\<close>)

text \<open>A state in which all the other modes go wrong: every register is 0 and the memory begins with 2, 8, 6.\<close>

definition mode_test :: "mem_dev machine" where
  "mode_test = init_cpu (program_mem [2, 8, 6])"

lemma mode_test_fields [simp]:
  "pc mode_test = 0" "sp mode_test = 0" "BUS_REF mode_test = program_mem [2, 8, 6]"
  by (simp_all add: mode_test_def init_cpu_def)

lemma mode_test_word:
  assumes "BUS_REF m = program_mem [2, 8, 6]"
  shows "fetch_data mem_bus 0 m = Inr (2, m)" "fetch_data mem_bus 2 m = Inr (8, m)" "fetch_data mem_bus 4 m = Inr (6, m)"
  using assms fetch_low [of 0 m] fetch_low [of 2 m] fetch_low [of 4 m]
    program_mem_word [of 0 "[2, 8, 6]"] program_mem_word [of 1 "[2, 8, 6]"] program_mem_word [of 2 "[2, 8, 6]"]
  by simp_all

lemma mode_test_top: "BUS_REF m = b \<Longrightarrow> \<exists>e. fetch_data mem_bus 0xFFFE m = Inl e"
  using fetch_u16 [of "0xFFFE" m] by simp

lemma mode_test_register: "reg_num r \<Longrightarrow> fetch_register_contents r mode_test = 0"
  by (auto simp: reg_num_def fetch_register_contents_def mode_test_def init_cpu_def)

lemma mode_test_no_carry:
  assumes "reg_num r"
  shows "no_carry mem_bus mode r mode_test"
proof -
  have "unat (fetch_register_contents r (mode_test\<lparr>pc := 2\<rparr>)) \<le> 2"
    using assms by (auto simp: reg_num_def fetch_register_contents_def mode_test_def init_cpu_def)
  then show ?thesis by (simp add: no_carry_def mode_test_word)
qed

lemma step_frame:
  "BUS_REF (inc_register r b m) = BUS_REF m" "BUS_REF (dec_register r b m) = BUS_REF m"
  by (auto simp: inc_register_def dec_register_def register_ref_def)

lemma dec_test:
  "reg_num r \<Longrightarrow> fetch_register_contents r (dec_register r False mode_test) = 0xFFFE"
  "reg_num r \<Longrightarrow> fetch_register_contents r (dec_register r True mode_test) = 0xFFFF"
  by (auto simp: reg_num_def fetch_register_contents_def dec_register_def register_ref_def mode_test_def init_cpu_def)

lemma pc_test:
  "reg_num r \<Longrightarrow> r \<noteq> 7 \<Longrightarrow> fetch_register_contents r (mode_test\<lparr>pc := v\<rparr>) = 0"
  by (auto simp: reg_num_def fetch_register_contents_def mode_test_def init_cpu_def)

lemma mode_test_store: "\<exists>m'. store_data mem_bus 0 v m = Inr m'"
  using store_u16 [of 0 v m] by simp

lemma code_ea_general:
  "r \<noteq> 6 \<Longrightarrow> r \<noteq> 7 \<Longrightarrow> code_ea B byte mode r loc m =
     (if byte then setup_general_byte_addressing B mode r loc m else setup_general_addressing B mode r loc m)"
  by (simp add: code_ea_def)

lemmas general_defs = setup_general_addressing_def setup_general_byte_addressing_def pdp_ea_def Let_def

lemma general_modes_fail:
  assumes "reg_num r" and "r \<noteq> 6" and "r \<noteq> 7"
  shows "code_ea mem_bus byte 3 r loc mode_test \<noteq> pdp_ea mem_bus byte 3 r mode_test"
    and "code_ea mem_bus byte 4 r loc mode_test \<noteq> pdp_ea mem_bus byte 4 r mode_test"
    and "code_ea mem_bus byte 5 r loc mode_test \<noteq> pdp_ea mem_bus byte 5 r mode_test"
    and "code_ea mem_bus byte 6 r loc mode_test \<noteq> pdp_ea mem_bus byte 6 r mode_test"
    and "code_ea mem_bus byte 7 r loc mode_test \<noteq> pdp_ea mem_bus byte 7 r mode_test"
proof -
  note evals = general_defs mode_test_word mode_test_register [OF assms(1)] pc_test [OF assms(1,3)] step_frame
    dec_test [OF assms(1)]
  note c = code_ea_general [OF assms(2,3)]
  show "code_ea mem_bus byte 3 r loc mode_test \<noteq> pdp_ea mem_bus byte 3 r mode_test"
    unfolding c by (simp add: evals)
  show "code_ea mem_bus byte 4 r loc mode_test \<noteq> pdp_ea mem_bus byte 4 r mode_test"
    unfolding c using assms(2,3) by (cases byte) (simp_all add: evals ea_step_def)
  obtain m' m'' where st: "store_data mem_bus 0 0 mode_test = Inr m'" "store_data mem_bus 0 1 mode_test = Inr m''"
    using mode_test_store by metis
  obtain e where e: "fetch_data mem_bus 0xFFFE (dec_register r False mode_test) = Inl e"
    using mode_test_top step_frame by metis
  show "code_ea mem_bus byte 5 r loc mode_test \<noteq> pdp_ea mem_bus byte 5 r mode_test"
    unfolding c by (simp add: evals st e)
  show "code_ea mem_bus byte 6 r loc mode_test \<noteq> pdp_ea mem_bus byte 6 r mode_test"
    unfolding c by (simp add: evals)
  show "code_ea mem_bus byte 7 r loc mode_test \<noteq> pdp_ea mem_bus byte 7 r mode_test"
    unfolding c by (simp add: evals)
qed

text \<open>The modes that leave the address as it was.\<close>

lemma special_modes_fail:
  "code_ea mem_bus byte 5 6 loc mode_test \<noteq> pdp_ea mem_bus byte 5 6 mode_test"
  "code_ea mem_bus byte 1 7 1 mode_test \<noteq> pdp_ea mem_bus byte 1 7 mode_test"
  "code_ea mem_bus byte 4 7 1 mode_test \<noteq> pdp_ea mem_bus byte 4 7 mode_test"
  "code_ea mem_bus byte 5 7 loc mode_test \<noteq> pdp_ea mem_bus byte 5 7 mode_test"
  "code_ea mem_bus byte 7 7 1 mode_test \<noteq> pdp_ea mem_bus byte 7 7 mode_test"
proof -
  note defs = code_ea_sp_pc setup_sp_addressing_def setup_pc_addressing_def pdp_ea_def sp_pc_simps Let_def
  obtain e where e: "fetch_data mem_bus 0xFFFE (mode_test\<lparr>sp := - 2\<rparr>) = Inl e"
    using mode_test_top [OF refl] by blast
  obtain e' where e': "fetch_data mem_bus 0xFFFE (mode_test\<lparr>pc := - 2\<rparr>) = Inl e'"
    using mode_test_top [OF refl] by blast
  show "code_ea mem_bus byte 5 6 loc mode_test \<noteq> pdp_ea mem_bus byte 5 6 mode_test"
    by (simp add: defs e)
  show "code_ea mem_bus byte 1 7 1 mode_test \<noteq> pdp_ea mem_bus byte 1 7 mode_test"
    by (simp add: defs)
  show "code_ea mem_bus byte 4 7 1 mode_test \<noteq> pdp_ea mem_bus byte 4 7 mode_test"
    by (simp add: defs)
  show "code_ea mem_bus byte 5 7 loc mode_test \<noteq> pdp_ea mem_bus byte 5 7 mode_test"
    by (simp add: defs e')
  show "code_ea mem_bus byte 7 7 1 mode_test \<noteq> pdp_ea mem_bus byte 7 7 mode_test"
    by (simp add: defs mode_test_word)
qed

lemma mode_cases:
  assumes "unat (mode :: u16) < 8"
  shows "mode \<in> {0, 1, 2, 3, 4, 5, 6, 7}"
  using assms by (simp add: word_unat_eq_iff) linarith

lemma mode_fails:
  assumes "reg_num r" and "unat mode < 8" and "\<not> mode_works r mode"
  shows "\<exists>loc. code_ea mem_bus byte mode r loc mode_test \<noteq> pdp_ea mem_bus byte mode r mode_test"
proof (cases "r = 6 \<or> r = 7")
  case True
  with mode_cases [OF assms(2)] assms(3)
  have "r = 6 \<and> mode = 5 \<or> r = 7 \<and> mode = 1 \<or> r = 7 \<and> mode = 4 \<or> r = 7 \<and> mode = 5 \<or> r = 7 \<and> mode = 7"
    by (auto simp: mode_works_def)
  then show ?thesis using special_modes_fail by blast
next
  case False
  with mode_cases [OF assms(2)] assms(3) have "mode = 3 \<or> mode = 4 \<or> mode = 5 \<or> mode = 6 \<or> mode = 7"
    by (auto simp: mode_works_def)
  then show ?thesis using general_modes_fail [OF assms(1)] False by blast
qed

text \<open>
  A state in which the indexed modes go wrong as well: the index is \<open>-2\<close>, and added in 32 bits
  to the stack pointer, which is 8, or to the program counter it leaves the 16-bit addresses.
\<close>

definition wrap_test :: "mem_dev machine" where
  "wrap_test = (init_cpu (program_mem [0xFFFE]))\<lparr>sp := 8\<rparr>"

lemma wrap_test_word:
  assumes "BUS_REF m = program_mem [0xFFFE]"
  shows "fetch_data mem_bus 0 m = Inr (0xFFFE, m)" "\<exists>v. fetch_data mem_bus 6 m = Inr (v, m)"
  using assms fetch_low [of 0 m] fetch_low [of 6 m] program_mem_word [of 0 "[0xFFFE]"] by simp_all

lemma wrap_test_high: "\<exists>e. fetch_data mem_bus 0x10006 m = Inl e"
  by (simp add: translate_bus_addr_def fetch_data_def is_internal_bus_addr_def mem_bus_def is_local_addr_unat)

lemma index_modes_wrap:
  "code_ea mem_bus byte 6 7 loc wrap_test \<noteq> pdp_ea mem_bus byte 6 7 wrap_test"
  "code_ea mem_bus byte 6 6 loc wrap_test \<noteq> pdp_ea mem_bus byte 6 6 wrap_test"
  "code_ea mem_bus byte 7 6 loc wrap_test \<noteq> pdp_ea mem_bus byte 7 6 wrap_test"
proof -
  note defs = code_ea_sp_pc setup_sp_addressing_def setup_pc_addressing_def pdp_ea_def sp_pc_simps Let_def
  have f: "pc wrap_test = 0" "sp wrap_test = 8" "BUS_REF wrap_test = program_mem [0xFFFE]"
    by (simp_all add: wrap_test_def init_cpu_def)
  show "code_ea mem_bus byte 6 7 loc wrap_test \<noteq> pdp_ea mem_bus byte 6 7 wrap_test"
    by (simp add: defs f wrap_test_word(1))
  show "code_ea mem_bus byte 6 6 loc wrap_test \<noteq> pdp_ea mem_bus byte 6 6 wrap_test"
    by (simp add: defs f wrap_test_word(1))
  obtain e where e: "fetch_data mem_bus 0x10006 (wrap_test\<lparr>pc := 2\<rparr>) = Inl e" using wrap_test_high by blast
  obtain v where v: "fetch_data mem_bus 6 (wrap_test\<lparr>pc := 2\<rparr>) = Inr (v, wrap_test\<lparr>pc := 2\<rparr>)"
    using wrap_test_word(2) [of "wrap_test\<lparr>pc := 2\<rparr>"] f(3) by auto
  show "code_ea mem_bus byte 7 6 loc wrap_test \<noteq> pdp_ea mem_bus byte 7 6 wrap_test"
    by (simp add: defs f wrap_test_word(1) e v)
qed

lemma modes_always_agree:
  assumes "reg_num r" and "unat mode < 8"
  shows "(\<forall>loc m. code_ea mem_bus byte mode r loc m = pdp_ea mem_bus byte mode r m) \<longleftrightarrow>
    mode_works r mode \<and> unat mode < 6"
proof (cases "mode_works r mode")
  case False
  then show ?thesis using mode_fails [OF assms] by blast
next
  case True
  then show ?thesis
  proof (cases rule: mode_works_cases)
    case 6
    with True index_modes_wrap(1,2) show ?thesis by (elim disjE; simp) blast+
  next
    case 7
    with True index_modes_wrap(3) show ?thesis by simp blast
  qed (use True in \<open>simp_all add: modes_agree no_carry_def\<close>)
qed

text \<open>
  Property C6. Which addressing modes of the processor are those of the PDP-11, where an index is
  added to a register without leaving 16 bits: for the program counter the modes 0, 2, 3 and 6,
  for the stack pointer all but 5, for the other registers the modes 0 to 2. In these the code
  computes the operand's address and the new registers exactly as the reference does, in word
  and byte instructions and on every such state; in each of the others there is such a state in
  which it does not. On all states, those included in which the sum of an index and a register
  needs a 17th bit (every negative index to a large enough register), only the modes without an
  index remain: 0, 2, 3 of the program counter, 0 to 4 of the stack pointer, 0 to 2 of the others.
\<close>

theorem addressing_modes_work:
  assumes "reg_num r" and "unat mode < 8"
  shows "(mode_works r mode \<longleftrightarrow>
      (\<forall>loc m. no_carry mem_bus mode r m \<longrightarrow> code_ea mem_bus byte mode r loc m = pdp_ea mem_bus byte mode r m)) \<and>
    (mode_works r mode \<and> unat mode < 6 \<longleftrightarrow>
      (\<forall>loc m. code_ea mem_bus byte mode r loc m = pdp_ea mem_bus byte mode r m))"
  using modes_agree mode_fails [OF assms] mode_test_no_carry [OF assms(1)] modes_always_agree [OF assms, of byte] by blast

theorem addressing_modes_work_witness:
  "mode_works 6 6 \<and> \<not> mode_works 1 6 \<and>
   (\<exists>loc m. no_carry mem_bus 6 1 m \<and> code_ea mem_bus False 6 1 loc m \<noteq> pdp_ea mem_bus False 6 1 m) \<and>
   (\<exists>loc m. code_ea mem_bus False 6 6 loc m \<noteq> pdp_ea mem_bus False 6 6 m)"
proof -
  have "\<not> mode_works 1 6" "mode_works 6 6" by (simp_all add: mode_works_def)
  moreover have "reg_num 1" "reg_num 6" by (simp_all add: reg_num_def)
  ultimately show ?thesis
    using addressing_modes_work [of 1 6 False] addressing_modes_work [of 6 6 False] by auto
qed

end
