(* ===== verification/Cpu_Operands.thy ===== *)
theory Cpu_Operands
  imports Cpu_Modes
begin

text \<open>
  The operand instructions of \<open>src/src/cpu/cpu.c\<close> on the memory device with operands of any kind:
  a register, or a word at a memory address below 512, which is all that the CPU can reach.
\<close>

section \<open>Operands\<close>

definition operand_ok :: "u32 \<Rightarrow> bool" where
  "operand_ok a \<longleftrightarrow> a \<in> {0x3FFC0 .. 0x3FFC7} \<or> unat a < 512"

text \<open>The value of an operand, and the state after a word is stored to it.\<close>

definition operand :: "u32 \<Rightarrow> mem_dev machine \<Rightarrow> u16" where
  "operand a m =
     (case bus_addr_to_register a of
        Some r \<Rightarrow> get_reg r m
      | None \<Rightarrow> mem_word (BUS_REF m) (unat a))"

definition put_operand :: "u32 \<Rightarrow> u16 \<Rightarrow> mem_dev machine \<Rightarrow> mem_dev machine" where
  "put_operand a v m =
     (case bus_addr_to_register a of
        Some r \<Rightarrow> set_reg r v m
      | None \<Rightarrow> m\<lparr>BUS_REF := (BUS_REF m)\<lparr>mar := ucast a, mbr := v,
          store := (store (BUS_REF m))(unat a := lo_byte v, unat a + 1 := hi_byte v)\<rparr>\<rparr>)"

text \<open>Two operands that share no byte.\<close>

definition apart :: "u32 \<Rightarrow> u32 \<Rightarrow> bool" where
  "apart a a' \<longleftrightarrow>
     (if unat a < 512 \<and> unat a' < 512 then unat a + 1 < unat a' \<or> unat a' + 1 < unat a else a \<noteq> a')"

lemma low_no_register: "unat (a :: u32) < 512 \<Longrightarrow> bus_addr_to_register a = None \<and> \<not> is_internal_bus_addr a"
  by (auto simp: bus_addr_to_register_def is_internal_bus_addr_def)

lemma register_range:
  assumes "(a :: u32) \<in> {0x3FFC0 .. 0x3FFC7}"
  shows "\<exists>r. bus_addr_to_register a = Some r \<and> r \<noteq> P_PSW \<and> is_internal_bus_addr a \<and> \<not> unat a < 512"
proof -
  have "unat a \<in> {0x3FFC0 .. 0x3FFC7}" using assms by (simp add: word_le_nat_alt)
  then have "a = 0x3FFC0 \<or> a = 0x3FFC1 \<or> a = 0x3FFC2 \<or> a = 0x3FFC3 \<or> a = 0x3FFC4 \<or> a = 0x3FFC5 \<or> a = 0x3FFC6 \<or> a = 0x3FFC7"
    by (simp add: word_unat_eq_iff) linarith
  then show ?thesis by (elim disjE) (simp_all add: bus_addr_to_register_def is_internal_bus_addr_def)
qed

lemma operand_ucast: "unat (a :: u32) < 512 \<Longrightarrow> \<exists>w :: u16. a = ucast w \<and> unat w = unat a"
proof -
  assume "unat a < 512"
  then have "unat (ucast a :: u16) = unat a" by (simp add: unsigned_ucast_eq take_bit_nat_eq_self)
  then have "a = ucast (ucast a :: u16)" by (intro word_unat_eq_iff [THEN iffD2]) (simp add: unat_ucast_u32)
  with \<open>unat (ucast a :: u16) = unat a\<close> show ?thesis by blast
qed

lemma fetch_operand:
  assumes "operand_ok a"
  shows "fetch_data mem_bus a m = Inr (operand a m, m)"
  using assms unfolding operand_ok_def
proof
  assume "a \<in> {0x3FFC0 .. 0x3FFC7}"
  then obtain r where "bus_addr_to_register a = Some r" "is_internal_bus_addr a" using register_range by blast
  then show ?thesis by (simp add: fetch_data_def fetch_data_register_def operand_def)
next
  assume "unat a < 512"
  then show ?thesis using low_no_register fetch_low by (simp add: operand_def)
qed

lemma store_operand:
  assumes "operand_ok a"
  shows "store_data mem_bus a v m = Inr (put_operand a v m)"
  using assms unfolding operand_ok_def
proof
  assume "a \<in> {0x3FFC0 .. 0x3FFC7}"
  then obtain r where "bus_addr_to_register a = Some r" "is_internal_bus_addr a" using register_range by blast
  then show ?thesis by (simp add: store_data_def store_data_register_def put_operand_def)
next
  assume a: "unat a < 512"
  from operand_ucast [OF this] obtain w :: u16 where w: "a = ucast w" "unat w = unat a" by blast
  then show ?thesis using a low_no_register [OF a] store_u16 [of w v m]
    by (simp add: put_operand_def)
qed

lemma get_set_reg: "get_reg p (Cpu_State.set_reg q v m) = (if p = q then v else get_reg p m)"
  by (cases p; cases q) simp_all

lemma operand_put_same: "operand_ok a \<Longrightarrow> operand a (put_operand a v m) = v"
  by (auto simp: operand_def put_operand_def get_set_reg mem_word_def split: option.split)

lemma bus_register_inject:
  "bus_addr_to_register a = Some r \<Longrightarrow> bus_addr_to_register a' = Some r \<Longrightarrow> a = a'"
  by (auto simp: bus_addr_to_register_def split: if_splits)

lemma operand_put_apart:
  assumes "operand_ok a" and "operand_ok a'" and "apart a a'"
  shows "operand a' (put_operand a v m) = operand a' m"
proof (cases "bus_addr_to_register a")
  case None
  then have a: "unat a < 512" using assms(1) register_range [of a] by (auto simp: operand_ok_def)
  show ?thesis
  proof (cases "bus_addr_to_register a'")
    case None': None
    then have "unat a' < 512" using assms(2) register_range [of a'] by (auto simp: operand_ok_def)
    with a None None' assms(3) show ?thesis
      by (auto simp: operand_def put_operand_def apart_def mem_word_def)
  next
    case (Some r)
    with None show ?thesis by (cases r) (simp_all add: operand_def put_operand_def)
  qed
next
  case (Some r)
  show ?thesis
  proof (cases "bus_addr_to_register a'")
    case None
    with Some show ?thesis by (cases r) (simp_all add: operand_def put_operand_def)
  next
    case (Some r')
    have "r \<noteq> r'"
    proof
      assume "r = r'"
      with Some \<open>bus_addr_to_register a = Some r\<close> have "a = a'" using bus_register_inject by blast
      with assms(3) show False by (auto simp: apart_def split: if_splits)
    qed
    with Some \<open>bus_addr_to_register a = Some r\<close> show ?thesis
      by (simp add: operand_def put_operand_def get_set_reg)
  qed
qed

text \<open>The flags and the ALU register are no operands.\<close>

lemma operand_frame:
  "operand a (m\<lparr>alu := v\<rparr>) = operand a m"
  "operand_ok a \<Longrightarrow> operand a (set_zero_flag w m) = operand a m"
  "operand_ok a \<Longrightarrow> operand a (set_negative_flag_w w m) = operand a m"
proof -
  have g: "get_reg r (m\<lparr>alu := v\<rparr>) = get_reg r m" for r by (cases r) simp_all
  show "operand a (m\<lparr>alu := v\<rparr>) = operand a m"
    by (simp add: operand_def g split: option.split)
  have p: "operand a (m\<lparr>psw := x\<rparr>) = operand a m" if "operand_ok a" for x
  proof (cases "bus_addr_to_register a")
    case None
    then show ?thesis by (simp add: operand_def)
  next
    case (Some r)
    then have "r \<noteq> P_PSW" using that register_range [of a] low_no_register [of a] by (auto simp: operand_ok_def)
    with Some show ?thesis by (cases r) (simp_all add: operand_def)
  qed
  show "operand_ok a \<Longrightarrow> operand a (set_zero_flag w m) = operand a m"
    "operand_ok a \<Longrightarrow> operand a (set_negative_flag_w w m) = operand a m"
    using p by (simp_all add: flags_psw)
qed

lemma put_operand_fields:
  "alu (put_operand a v m) = alu m" "dest_address (put_operand a v m) = dest_address m"
  "src_address (put_operand a v m) = src_address m"
proof -
  have "alu (Cpu_State.set_reg r v m) = alu m \<and> dest_address (Cpu_State.set_reg r v m) = dest_address m \<and>
      src_address (Cpu_State.set_reg r v m) = src_address m" for r by (cases r) simp_all
  then show "alu (put_operand a v m) = alu m" "dest_address (put_operand a v m) = dest_address m"
    "src_address (put_operand a v m) = src_address m"
    by (simp_all add: put_operand_def split: option.split)
qed

lemma flag_addresses:
  "dest_address (set_zero_flag v m) = dest_address m" "dest_address (set_negative_flag_w v m) = dest_address m"
  "src_address (set_zero_flag v m) = src_address m" "src_address (set_negative_flag_w v m) = src_address m"
  by (simp_all add: flags_psw)

section \<open>The word instructions\<close>

text \<open>
  What an instruction leaves: the result at the destination if it writes one, every other
  operand as it was, the flags of the result.
\<close>

definition word_result :: "opcode \<Rightarrow> u16 \<Rightarrow> mem_dev machine \<Rightarrow> mem_dev machine \<Rightarrow> bool" where
  "word_result c v m m' \<longleftrightarrow>
     alu m' = v \<and> Z_flag m' = (v = 0) \<and> N_flag m' = bit v 15 \<and>
     operand (dest_address m) m' = (if writes_dest c then v else operand (dest_address m) m) \<and>
     (\<forall>a. operand_ok a \<longrightarrow> apart (dest_address m) a \<longrightarrow> operand a m' = operand a m)"

lemmas result_simps = word_result_def operand_frame operand_put_same operand_put_apart
  put_operand_fields flag_addresses fetch_operand store_operand

lemma double_operands:
  assumes "c \<in> set word_double_ops"
    and "setup_src_addressing mem_bus False m = Inr m1" and "setup_dest_addressing mem_bus False m1 = Inr m2"
    and "operand_ok (src_address m2)" and "operand_ok (dest_address m2)"
    and "v = alu2 c (operand (src_address m2) m2) (operand (dest_address m2) m2)"
  shows "\<exists>m'. exec_op mem_bus c m = Inr m' \<and> word_result c v m2 m'"
  using assms(1) unfolding word_double_ops_def list.set insert_iff empty_iff
  by (elim disjE)
    (use assms(2-6) in \<open>simp_all add: MOV_def CMP_def BIT_def BIC_def BIS_def ADD_def SUB_def Let_def
       result_simps alu2_def writes_dest_def\<close>)

lemma single_operands:
  assumes "c \<in> set word_single_ops" and "setup_dest_addressing mem_bus False m = Inr m1"
    and "operand_ok (dest_address m1)"
    and "v = alu1 c (C_flag m1) (operand (dest_address m1) m1)"
  shows "\<exists>m'. exec_op mem_bus c m = Inr m' \<and> word_result c v m1 m'"
  using assms(1) unfolding word_single_ops_def list.set insert_iff empty_iff
  by (elim disjE)
    (use assms(2-4) in \<open>simp_all add: single_alt Let_def result_simps alu1_def writes_dest_def C_flag_def mult.commute\<close>)

text \<open>
  Property C7. The word instructions with two operands compute what they should on operands of
  any kind: once the two addresses are set up, and if they name registers or reachable words
  of the memory, the instruction completes, leaves the reference result \<open>alu2\<close> of the two
  values at the destination (if it writes at all), changes no other register and no other word
  of the memory, and sets Z exactly for a zero result and N to its sign. \<open>CMP\<close> computes
  destination minus source, \<open>SUB\<close> source minus destination.
\<close>

theorem double_operand_semantics:
  assumes "decode (ir m) = Some c" and "c \<in> set word_double_ops"
    and "setup_src_addressing mem_bus False m = Inr m1" and "setup_dest_addressing mem_bus False m1 = Inr m2"
    and "operand_ok (src_address m2)" and "operand_ok (dest_address m2)"
  shows "\<exists>m'. exec_instruction mem_bus m = Inr m' \<and>
    word_result c (alu2 c (operand (src_address m2) m2) (operand (dest_address m2) m2)) m2 m'"
  using double_operands [OF assms(2-6) refl] assms(1) by (simp add: exec_instruction_def)

text \<open>\<open>ADD (R1), R0\<close> with R1 = 4 and the word 6 there.\<close>

definition add_deferred :: "mem_dev machine" where
  "add_deferred = (init_cpu (program_mem [2, 8, 6]))\<lparr>ir := 0x6240, r0 := 5, r1 := 4\<rparr>"

lemma add_deferred_setup:
  "setup_src_addressing mem_bus False add_deferred = Inr (add_deferred\<lparr>src_address := 4\<rparr>)"
  "setup_dest_addressing mem_bus False (add_deferred\<lparr>src_address := 4\<rparr>) =
     Inr (add_deferred\<lparr>src_address := 4, dest_address := 0x3FFC0\<rparr>)"
  by (simp_all add: add_deferred_def init_cpu_def addressing_eval Let_def)

theorem double_operand_semantics_witness:
  "\<exists>m'. exec_instruction mem_bus add_deferred = Inr m' \<and> operand 0x3FFC0 m' = 11 \<and> operand 4 m' = 6"
proof -
  let ?m = "add_deferred\<lparr>src_address := 4, dest_address := 0x3FFC0\<rparr>"
  have d: "decode (ir add_deferred) = Some ADD_op" by (simp add: add_deferred_def decode_eval)
  have o: "operand 4 ?m = 6" "operand 0x3FFC0 ?m = 5"
    using program_mem_word [of 2 "[2, 8, 6]"]
    by (simp_all add: operand_def bus_addr_to_register_def add_deferred_def init_cpu_def)
  have k: "operand_ok 4" "operand_ok 0x3FFC0" "apart 0x3FFC0 4" by (simp_all add: operand_ok_def apart_def)
  from double_operand_semantics [OF d _ add_deferred_setup] k obtain m' where
    "exec_instruction mem_bus add_deferred = Inr m'"
    "word_result ADD_op (alu2 ADD_op (operand 4 ?m) (operand 0x3FFC0 ?m)) ?m m'"
    by (auto simp: word_double_ops_def)
  then show ?thesis using o k by (auto simp: word_result_def alu2_def writes_dest_def)
qed

text \<open>
  Property C8. The word instructions with one operand do the same for the reference function
  \<open>alu1\<close> of the operand and the carry: on a register or a reachable word of the memory they
  complete, leave its value there (\<open>TST\<close> writes nothing), change no other operand and set Z
  and N from it. \<open>ROL\<close> rotates right, \<open>ROR\<close> left, \<open>ASR\<close> divides the unsigned value by two.
\<close>

theorem single_operand_semantics:
  assumes "decode (ir m) = Some c" and "c \<in> set word_single_ops"
    and "setup_dest_addressing mem_bus False m = Inr m1" and "operand_ok (dest_address m1)"
  shows "\<exists>m'. exec_instruction mem_bus m = Inr m' \<and>
    word_result c (alu1 c (C_flag m1) (operand (dest_address m1) m1)) m1 m'"
  using single_operands [OF assms(2-4) refl] assms(1) by (simp add: exec_instruction_def)

text \<open>\<open>INC (R1)\<close> with R1 = 4 and the word 6 there.\<close>

theorem single_operand_semantics_witness:
  "\<exists>m'. exec_instruction mem_bus (add_deferred\<lparr>ir := 0x0A89\<rparr>) = Inr m' \<and> operand 4 m' = 7"
proof -
  let ?m = "add_deferred\<lparr>ir := 0x0A89\<rparr>"
  have d: "decode (ir ?m) = Some INC_op" by (simp add: decode_eval)
  have s: "setup_dest_addressing mem_bus False ?m = Inr (?m\<lparr>dest_address := 4\<rparr>)"
    by (simp add: add_deferred_def init_cpu_def addressing_eval Let_def)
  have o: "operand 4 (?m\<lparr>dest_address := 4\<rparr>) = 6"
    using program_mem_word [of 2 "[2, 8, 6]"]
    by (simp add: operand_def bus_addr_to_register_def add_deferred_def init_cpu_def)
  from single_operand_semantics [OF d _ s] obtain m' where
    "exec_instruction mem_bus ?m = Inr m'"
    "word_result INC_op (alu1 INC_op (C_flag (?m\<lparr>dest_address := 4\<rparr>)) (operand 4 (?m\<lparr>dest_address := 4\<rparr>)))
       (?m\<lparr>dest_address := 4\<rparr>) m'"
    by (auto simp: word_single_ops_def operand_ok_def)
  then show ?thesis using o by (auto simp: word_result_def alu1_def writes_dest_def)
qed

end
