(* ===== verification/Sockets.thy ===== *)
theory Sockets
  imports Bus_State
begin

text \<open>
  The datagram sockets that \<open>src/src/libunibus\<close> uses, as far as its code depends on them. A
  Unix socket address is the string in its \<open>sun_path\<close> (the empty string when the struct is
  all zeros). The outcome of the calls is a field of the environment; a message that is
  written is returned together with the path it goes to.
\<close>

record net_env =
  socket_fd :: int
  connect_ok :: "string \<Rightarrow> bool"
  write_ok :: "string \<Rightarrow> bool"
  close_fd_ok :: bool
  bind_ok :: "string \<Rightarrow> bool"
  state_malloc_ok :: bool

text \<open>The environment in which every call succeeds, with file descriptor 5.\<close>

definition net_up :: net_env where
  "net_up = \<lparr>socket_fd = 5, connect_ok = (\<lambda>_. True), write_ok = (\<lambda>_. True), close_fd_ok = True,
     bind_ok = (\<lambda>_. True), state_malloc_ok = True\<rparr>"

lemma net_up_simps [simp]:
  "socket_fd net_up = 5" "connect_ok net_up p" "write_ok net_up p" "close_fd_ok net_up"
  "bind_ok net_up p" "state_malloc_ok net_up"
  by (simp_all add: net_up_def)

text \<open>The size of the \<open>from\<close> field of a message and of the name buffers.\<close>

abbreviation (input) SOCK_NAME_LEN :: nat where "SOCK_NAME_LEN \<equiv> 100"

type_synonym assert_t = u8

abbreviation (input) ASSERTED :: assert_t where "ASSERTED \<equiv> 1"
abbreviation (input) NEGATED :: assert_t where "NEGATED \<equiv> 0"

end
