(* ===== verification/Data_Bus.thy ===== *)
theory Data_Bus
  imports Sockets
begin

text \<open>
  The data bus of one device: \<open>src/src/libunibus/data_bus.c\<close>. The thread \<open>data_bus_mgr\<close>
  fetches a transfer its device asks for as bus master, sends it to the neighbours, and
  serves or delivers the messages that arrive. Where a function waits on a condition
  variable it is split in the parts before and after the wait. The local variables of the C
  functions that are sent uninitialised are a parameter \<open>junk\<close>.
\<close>

section \<open>Data\<close>

datatype data_bus_msg = DBM_REQ | DBM_RESP

datatype data_bus_signal = D_DATI | D_DATIP | D_DATO | D_DATOB | D_EMPTY

record data_bus_req =
  d_from :: string
  msg_type :: data_bus_msg
  ctl :: data_bus_signal
  d_addr :: u32
  d_data :: u16
  msyn :: assert_t
  ssyn :: assert_t

record data_state =
  d_out_addr_l :: string
  d_out_addr_r :: string
  d_in_addr :: string
  d_bus_in :: int
  d_bus_out_l :: int
  d_bus_out_r :: int
  buffer :: data_xfer_spec
  req_issued :: u8
  ack_received :: u8
  is_addr_internal :: "(u32 \<Rightarrow> bool) option"

section \<open>Initialisation\<close>

definition d_socket_path :: "string \<Rightarrow> string" where
  "d_socket_path n = ''/tmp/xmachine/'' @ n @ ''_d.socket''"

definition init_data_state ::
  "net_env \<Rightarrow> data_state \<Rightarrow> string option \<Rightarrow> string \<Rightarrow> string option \<Rightarrow> data_state option" where
  "init_data_state E junk lname name rname =
     (if \<not> state_malloc_ok E then None
      else
        (let d = junk\<lparr>req_issued := 0, ack_received := 0,
                      buffer := \<lparr>x_op = R_NONE, x_addr = 0, x_value = 0\<rparr>,
                      d_out_addr_l := (case lname of None \<Rightarrow> [] | Some n \<Rightarrow> d_socket_path n),
                      d_out_addr_r := (case rname of None \<Rightarrow> [] | Some n \<Rightarrow> d_socket_path n),
                      d_in_addr := d_socket_path name,
                      d_bus_in := socket_fd E\<rparr>
         in if d_bus_in d = -1 then None
            else
              (let d = (if lname = None then d\<lparr>d_bus_out_l := -1\<rparr> else d);
                   d = (if rname = None then d\<lparr>d_bus_out_r := -1\<rparr> else d)
               in if \<not> bind_ok E (d_in_addr d) then None else Some d)))"

text \<open>A neighbour whose name starts with \<open>ba\<close>, the bus arbiter, is not on the data bus.\<close>

definition data_neighbour :: "string option \<Rightarrow> string option" where
  "data_neighbour s =
     (case s of
        None \<Rightarrow> None
      | Some n \<Rightarrow> if take 2 n = ''ba'' then None else Some (take SOCK_NAME_LEN n))"

text \<open>\<open>data_bus_mgr\<close> up to its loop; a null \<open>sock\<close> is dereferenced.\<close>

definition data_bus_start :: "net_env \<Rightarrow> data_state \<Rightarrow> bus_state \<Rightarrow> data_state option res" where
  "data_bus_start E junk bus =
     (case sock bus of
        None \<Rightarrow> Inl Null_Deref
      | Some s \<Rightarrow>
          Inr (map_option (\<lambda>d. d\<lparr>is_addr_internal := addr_internal_to_device bus\<rparr>)
            (init_data_state E junk (data_neighbour (l_sock bus)) (take SOCK_NAME_LEN s)
               (data_neighbour (r_sock bus)))))"

section \<open>Sending\<close>

definition update_from_addr :: "data_state \<Rightarrow> data_bus_req \<Rightarrow> data_bus_req" where
  "update_from_addr d req = req\<lparr>d_from := take SOCK_NAME_LEN (d_in_addr d)\<rparr>"

definition d_connect_l :: "net_env \<Rightarrow> data_state \<Rightarrow> int \<times> data_state" where
  "d_connect_l E d =
     (if d_out_addr_l d = [] then (-1, d)
      else if socket_fd E = -1 then (-1, d)
      else
        (let d = d\<lparr>d_bus_out_l := socket_fd E\<rparr>
         in if \<not> connect_ok E (d_out_addr_l d) then (-1, d) else (0, d)))"

definition d_connect_r :: "net_env \<Rightarrow> data_state \<Rightarrow> int \<times> data_state" where
  "d_connect_r E d =
     (if d_out_addr_r d = [] then (-1, d)
      else
        (let d = d\<lparr>d_bus_out_r := socket_fd E\<rparr>
         in if d_bus_out_r d = -1 then (-1, d)
            else if \<not> connect_ok E (d_out_addr_r d) then (-1, d) else (0, d)))"

definition d_close_l :: "net_env \<Rightarrow> data_state \<Rightarrow> int \<times> data_state" where
  "d_close_l E d = (if close_fd_ok E then 0 else -1, d\<lparr>d_bus_out_l := -1\<rparr>)"

definition d_close_r :: "net_env \<Rightarrow> data_state \<Rightarrow> int \<times> data_state" where
  "d_close_r E d = (if close_fd_ok E then 0 else -1, d\<lparr>d_bus_out_r := -1\<rparr>)"

text \<open>The return value, the messages that were written with their paths, the new state.\<close>

definition send_msg ::
  "net_env \<Rightarrow> data_bus_req \<Rightarrow> data_state \<Rightarrow> int \<times> (string \<times> data_bus_req) list \<times> data_state" where
  "send_msg E req d =
     (let (ret, d) = d_connect_l E d
      in if ret \<noteq> -1 \<and> \<not> write_ok E (d_out_addr_l d) then (-1, [], d)
         else
           (let (out_l, d) = (if ret \<noteq> -1 then ([(d_out_addr_l d, req)], snd (d_close_l E d)) else ([], d));
                (ret, d) = d_connect_r E d
            in if ret \<noteq> -1 \<and> \<not> write_ok E (d_out_addr_r d) then (-1, out_l, d)
               else
                 (let (out_r, d) = (if ret \<noteq> -1 then ([(d_out_addr_r d, req)], snd (d_close_r E d)) else ([], d))
                  in (0, out_l @ out_r, d))))"

section \<open>The master side\<close>

definition in_word ::
  "net_env \<Rightarrow> data_bus_req \<Rightarrow> data_state \<Rightarrow> (string \<times> data_bus_req) list \<times> data_state" where
  "in_word E junk d =
     (let req = junk\<lparr>msg_type := DBM_REQ, ctl := D_DATI, d_addr := x_addr (buffer d)\<rparr>
      in snd (send_msg E (update_from_addr d req) d))"

definition out_word ::
  "net_env \<Rightarrow> data_bus_req \<Rightarrow> data_state \<Rightarrow> (string \<times> data_bus_req) list \<times> data_state" where
  "out_word E junk d =
     (let req = junk\<lparr>msg_type := DBM_REQ, ctl := D_DATO, d_addr := x_addr (buffer d),
                     d_data := x_value (buffer d)\<rparr>
      in snd (send_msg E (update_from_addr d req) d))"

definition out_byte ::
  "net_env \<Rightarrow> data_bus_req \<Rightarrow> data_state \<Rightarrow> (string \<times> data_bus_req) list \<times> data_state" where
  "out_byte E junk d =
     (let req = junk\<lparr>msg_type := DBM_REQ, ctl := D_DATOB, d_addr := x_addr (buffer d),
                     d_data := x_value (buffer d)\<rparr>
      in snd (send_msg E (update_from_addr d req) d))"

definition process_op ::
  "net_env \<Rightarrow> data_bus_req \<Rightarrow> data_state \<Rightarrow> (string \<times> data_bus_req) list \<times> data_state" where
  "process_op E junk d =
     (let (out, d) =
        (case x_op (buffer d) of
           R_IN \<Rightarrow> (let (out, d) = in_word E junk d in (out, d\<lparr>req_issued := 1\<rparr>))
         | R_OUT \<Rightarrow> (let (out, d) = out_word E junk d in (out, d\<lparr>req_issued := 1\<rparr>))
         | R_OUTB \<Rightarrow> (let (out, d) = out_byte E junk d in (out, d\<lparr>req_issued := 1\<rparr>))
         | _ \<Rightarrow> ([], d))
      in (out, d\<lparr>buffer := (buffer d)\<lparr>x_op := R_NONE\<rparr>\<rparr>))"

text \<open>
  The critical section at the top of the loop of \<open>data_bus_mgr\<close>: the transfer the device
  asks for moves from the shared state into the buffer.
\<close>

definition poll_master :: "bus_state \<Rightarrow> data_state \<Rightarrow> bus_state \<times> data_state" where
  "poll_master bus d =
     (case x_op (master bus) of
        R_NONE \<Rightarrow> (bus, d)
      | R_DONE \<Rightarrow> (bus, d)
      | R_IN \<Rightarrow>
          (bus\<lparr>master := (master bus)\<lparr>x_op := R_NONE\<rparr>\<rparr>,
           d\<lparr>buffer := (buffer d)\<lparr>x_op := R_IN, x_addr := x_addr (master bus)\<rparr>\<rparr>)
      | R_INB \<Rightarrow>
          (bus\<lparr>master := (master bus)\<lparr>x_op := R_NONE\<rparr>\<rparr>,
           d\<lparr>buffer := (buffer d)\<lparr>x_op := R_INB, x_addr := x_addr (master bus)\<rparr>\<rparr>)
      | R_OUT \<Rightarrow>
          (bus\<lparr>master := (master bus)\<lparr>x_op := R_NONE\<rparr>\<rparr>,
           d\<lparr>buffer := (buffer d)\<lparr>x_op := R_OUT, x_addr := x_addr (master bus),
                                x_value := x_value (master bus)\<rparr>\<rparr>)
      | R_OUTB \<Rightarrow>
          (bus\<lparr>master := (master bus)\<lparr>x_op := R_NONE\<rparr>\<rparr>,
           d\<lparr>buffer := (buffer d)\<lparr>x_op := R_OUTB, x_addr := x_addr (master bus),
                                x_value := x_value (master bus)\<rparr>\<rparr>)
      | _ \<Rightarrow> (bus\<lparr>master := (master bus)\<lparr>x_op := R_NONE\<rparr>\<rparr>, d))"

text \<open>
  \<open>handle_resp\<close> before the signal; \<open>None\<close> is the early return of a response that is no
  transfer. \<open>handle_resp_end\<close> is what follows the signal.
\<close>

definition handle_resp :: "data_bus_req \<Rightarrow> bus_state \<Rightarrow> bus_state option" where
  "handle_resp event bus =
     (if ctl event = D_DATI \<or> ctl event = D_DATO \<or> ctl event = D_DATOB
      then Some (bus\<lparr>master := (master bus)\<lparr>x_value := d_data event, x_op := R_DONE\<rparr>\<rparr>)
      else None)"

definition handle_resp_end :: "data_state \<Rightarrow> data_state" where
  "handle_resp_end d = d\<lparr>req_issued := 0\<rparr>"

section \<open>The slave side\<close>

definition examine_address :: "data_bus_req \<Rightarrow> data_state \<Rightarrow> bool" where
  "examine_address event d =
     (case is_addr_internal d of None \<Rightarrow> False | Some f \<Rightarrow> f (d_addr event))"

text \<open>The three handlers before \<open>slave_wait\<close>.\<close>

definition handle_dati :: "data_bus_req \<Rightarrow> bus_state \<Rightarrow> bus_state" where
  "handle_dati event bus =
     bus\<lparr>slave := \<lparr>x_op = R_BLOCK_IN, x_addr = d_addr event, x_value = 0\<rparr>\<rparr>"

definition handle_dato :: "data_bus_req \<Rightarrow> bus_state \<Rightarrow> bus_state" where
  "handle_dato event bus =
     bus\<lparr>slave := \<lparr>x_op = R_BLOCK_OUT, x_addr = d_addr event, x_value = d_data event\<rparr>\<rparr>"

definition handle_datob :: "data_bus_req \<Rightarrow> bus_state \<Rightarrow> bus_state" where
  "handle_datob event bus =
     bus\<lparr>slave := \<lparr>x_op = R_BLOCK_OUTB, x_addr = d_addr event, x_value = d_data event\<rparr>\<rparr>"

text \<open>And after it: the response that is sent, and the shared state.\<close>

definition handle_dati_end :: "data_bus_req \<Rightarrow> bus_state \<Rightarrow> data_bus_req \<times> bus_state" where
  "handle_dati_end junk bus =
     (let resp = junk\<lparr>msg_type := DBM_RESP, ctl := D_DATI\<rparr>
      in if x_op (slave bus) = R_DONE
         then (resp\<lparr>d_data := x_value (slave bus), ssyn := ASSERTED\<rparr>,
               bus\<lparr>slave := \<lparr>x_op = R_NONE, x_addr = 0, x_value = 0\<rparr>\<rparr>)
         else (resp\<lparr>ssyn := NEGATED\<rparr>, bus))"

definition handle_dato_end :: "data_bus_req \<Rightarrow> bus_state \<Rightarrow> data_bus_req \<times> bus_state" where
  "handle_dato_end junk bus =
     (let resp = junk\<lparr>msg_type := DBM_RESP, ctl := D_DATO\<rparr>
      in if x_op (slave bus) = R_DONE
         then (resp\<lparr>d_data := 0, ssyn := ASSERTED\<rparr>,
               bus\<lparr>slave := \<lparr>x_op = R_NONE, x_addr = 0, x_value = 0\<rparr>\<rparr>)
         else (resp\<lparr>ssyn := NEGATED\<rparr>, bus))"

definition handle_datob_end :: "data_bus_req \<Rightarrow> bus_state \<Rightarrow> data_bus_req \<times> bus_state" where
  "handle_datob_end junk bus =
     (let resp = junk\<lparr>msg_type := DBM_RESP, ctl := D_DATOB\<rparr>
      in if x_op (slave bus) = R_DONE
         then (resp\<lparr>d_addr := 0, d_data := 0, ssyn := ASSERTED\<rparr>,
               bus\<lparr>slave := \<lparr>x_op = R_NONE, x_addr = 0, x_value = 0\<rparr>\<rparr>)
         else (resp\<lparr>ssyn := NEGATED\<rparr>, bus))"

text \<open>
  \<open>handle_req\<close>: \<open>None\<close> when the control lines name no transfer that is served.
\<close>

definition handle_req :: "data_bus_req \<Rightarrow> bus_state \<Rightarrow> bus_state option" where
  "handle_req event bus =
     (case ctl event of
        D_DATI \<Rightarrow> Some (handle_dati event bus)
      | D_DATIP \<Rightarrow> None
      | D_DATO \<Rightarrow> Some (handle_dato event bus)
      | D_DATOB \<Rightarrow> Some (handle_datob event bus)
      | D_EMPTY \<Rightarrow> None)"

definition handle_req_end ::
  "data_bus_signal \<Rightarrow> data_bus_req \<Rightarrow> bus_state \<Rightarrow> data_bus_req \<times> bus_state" where
  "handle_req_end c junk bus =
     (case c of
        D_DATI \<Rightarrow> handle_dati_end junk bus
      | D_DATO \<Rightarrow> handle_dato_end junk bus
      | D_DATOB \<Rightarrow> handle_datob_end junk bus
      | _ \<Rightarrow> (junk, bus))"

section \<open>The thread\<close>

text \<open>
  The places at which the thread can be interrupted or wait. \<open>At_Slave_Signal\<close> and
  \<open>At_Slave_Wait\<close> are the two halves of \<open>slave_wait\<close>; in \<open>Slave_Waiting\<close> the thread is blocked
  on \<open>cond_slave_data\<close>.
\<close>

datatype d_loc =
  At_Poll
| At_Process
| At_Check
| At_Slave_Signal data_bus_signal
| At_Slave_Wait data_bus_signal
| Slave_Waiting data_bus_signal
| At_Slave_End data_bus_signal
| At_Master_Signal
| At_Loop_End
| Stopped

text \<open>The thread with the locals \<open>is_master\<close> and \<open>shutdown\<close> of \<open>data_bus_mgr\<close>.\<close>

record d_thread =
  d_at :: d_loc
  d_is_master :: u8
  d_shutdown :: u8

text \<open>
  \<open>check_bus\<close> on the datagram that \<open>recv\<close> delivers; \<open>None\<close> when there is none.
\<close>

definition check_bus ::
  "data_bus_req option \<Rightarrow> u8 \<Rightarrow> bus_state \<Rightarrow> data_state \<Rightarrow> d_loc \<times> bus_state" where
  "check_bus ev is_m bus d =
     (case ev of
        None \<Rightarrow> (At_Loop_End, bus)
      | Some event \<Rightarrow>
          if msg_type event = DBM_REQ \<and> examine_address event d
          then (case handle_req event bus of
                  None \<Rightarrow> (At_Loop_End, bus)
                | Some bus' \<Rightarrow> (At_Slave_Signal (ctl event), bus'))
          else if msg_type event = DBM_RESP \<and> is_m \<noteq> 0 \<and> req_issued d \<noteq> 0
          then (case handle_resp event bus of
                  None \<Rightarrow> (At_Loop_End, bus)
                | Some bus' \<Rightarrow> (At_Master_Signal, bus'))
          else (At_Loop_End, bus))"

text \<open>The condition variable a step signals.\<close>

type_synonym wakeup = "sync_obj option"

text \<open>
  One step of the thread: its inbox, the shared state, its own state and itself; the result
  adds the messages written and the condition variable signalled. \<open>None\<close>: it is blocked or
  has returned.
\<close>

definition d_step ::
  "net_env \<Rightarrow> data_bus_req \<Rightarrow> data_bus_req list \<times> bus_state \<times> data_state \<times> d_thread \<Rightarrow>
   ((data_bus_req list \<times> bus_state \<times> data_state \<times> d_thread) \<times>
    (string \<times> data_bus_req) list \<times> wakeup) option" where
  "d_step E junk = (\<lambda>(inbox, bus, d, t).
     (case d_at t of
        At_Poll \<Rightarrow>
          (let t = t\<lparr>d_is_master := is_master bus, d_shutdown := shutdown bus, d_at := At_Process\<rparr>;
               (bus, d) = poll_master bus d
           in Some ((inbox, bus, d, t), [], None))
      | At_Process \<Rightarrow>
          (let (out, d) = (if d_is_master t \<noteq> 0 then process_op E junk d else ([], d))
           in Some ((inbox, bus, d, t\<lparr>d_at := At_Check\<rparr>), out, None))
      | At_Check \<Rightarrow>
          (case inbox of
             [] \<Rightarrow> Some (([], bus, d, t\<lparr>d_at := At_Loop_End\<rparr>), [], None)
           | ev # rest \<Rightarrow>
               (let (l, bus) = check_bus (Some ev) (d_is_master t) bus d
                in Some ((rest, bus, d, t\<lparr>d_at := l\<rparr>), [], None)))
      | At_Slave_Signal c \<Rightarrow>
          Some ((inbox, bus, d, t\<lparr>d_at := At_Slave_Wait c\<rparr>), [], Some cond_perma_slave)
      | At_Slave_Wait c \<Rightarrow> Some ((inbox, bus, d, t\<lparr>d_at := Slave_Waiting c\<rparr>), [], None)
      | Slave_Waiting c \<Rightarrow> None
      | At_Slave_End c \<Rightarrow>
          (let (resp, bus) = handle_req_end c junk bus;
               (ret, out, d) = send_msg E resp d
           in Some ((inbox, bus, d, t\<lparr>d_at := At_Loop_End\<rparr>), out, None))
      | At_Master_Signal \<Rightarrow>
          Some ((inbox, bus, handle_resp_end d, t\<lparr>d_at := At_Loop_End\<rparr>), [], Some cond_master_data)
      | At_Loop_End \<Rightarrow>
          Some ((inbox, bus, d, t\<lparr>d_at := (if d_shutdown t = 0 then At_Poll else Stopped)\<rparr>), [], None)
      | Stopped \<Rightarrow> None))"

text \<open>A signal wakes the thread if it is waiting on that condition variable.\<close>

definition d_wake :: "wakeup \<Rightarrow> d_thread \<Rightarrow> d_thread" where
  "d_wake w t =
     (case d_at t of
        Slave_Waiting c \<Rightarrow> if w = Some cond_slave_data then t\<lparr>d_at := At_Slave_End c\<rparr> else t
      | _ \<Rightarrow> t)"

end
