(* ===== verification/Unibus.thy ===== *)
theory Unibus
  imports Data_Bus Mem
begin

text \<open>
  The CPU process and the memory process on the bus. Each has a main thread and a data bus
  thread that share a \<^typ>\<open>bus_state\<close>; the processes exchange datagrams. The main thread
  of the CPU is in a master function of \<open>device_bus_mgr.c\<close>, the main thread of the memory in
  the loop \<open>execute\<close> of \<open>mem.c\<close>. A step is one critical section, one statement of the CPU's
  critical section on \<open>master\<close> (which the data bus thread does not respect, since it takes
  \<open>state_mutex\<close> instead of \<open>master_xfer_mutex\<close>), one signal or one start of a wait.
\<close>

section \<open>The main threads\<close>

text \<open>A transfer the CPU asks for: \<open>read_data_in\<close>, \<open>write_data_out\<close>, \<open>write_data_out_b\<close>.\<close>

datatype xfer = Rd u32 | Wr u32 u16 | Wrb u32 u8

fun xfer_addr :: "xfer \<Rightarrow> u32" where
  "xfer_addr (Rd a) = a"
| "xfer_addr (Wr a w) = a"
| "xfer_addr (Wrb a v) = a"

fun xfer_op :: "xfer \<Rightarrow> data_op" where
  "xfer_op (Rd a) = R_IN"
| "xfer_op (Wr a w) = R_OUT"
| "xfer_op (Wrb a v) = R_OUTB"

text \<open>The value a write puts into \<open>master\<close>; a read leaves it as it was.\<close>

fun xfer_value :: "xfer \<Rightarrow> u16 option" where
  "xfer_value (Rd a) = None"
| "xfer_value (Wr a w) = Some w"
| "xfer_value (Wrb a v) = Some (ucast v)"

text \<open>
  Where the CPU's main thread is: before each assignment of the request, before the wait,
  blocked on \<open>cond_master_data\<close>, woken, and returned with the value and whether the status
  was \<open>R_DONE\<close>.
\<close>

datatype m_loc =
  At_Op xfer
| At_Addr xfer
| At_Value xfer
| At_Wait xfer
| Master_Waiting xfer
| At_Finish xfer
| Returned u16 bool

definition m_step :: "m_loc \<times> bus_state \<Rightarrow> (m_loc \<times> bus_state) option" where
  "m_step = (\<lambda>(l, bus).
     (case l of
        At_Op x \<Rightarrow> Some (At_Addr x, bus\<lparr>master := (master bus)\<lparr>x_op := xfer_op x\<rparr>\<rparr>)
      | At_Addr x \<Rightarrow> Some (At_Value x, bus\<lparr>master := (master bus)\<lparr>x_addr := xfer_addr x\<rparr>\<rparr>)
      | At_Value x \<Rightarrow>
          Some (At_Wait x,
            (case xfer_value x of
               None \<Rightarrow> bus
             | Some v \<Rightarrow> bus\<lparr>master := (master bus)\<lparr>x_value := v\<rparr>\<rparr>))
      | At_Wait x \<Rightarrow> Some (Master_Waiting x, bus)
      | Master_Waiting x \<Rightarrow> None
      | At_Finish x \<Rightarrow> (let (v, ok, bus) = read_data_in_finish bus in Some (Returned v ok, bus))
      | Returned v ok \<Rightarrow> None))"

definition m_wake :: "wakeup \<Rightarrow> m_loc \<Rightarrow> m_loc" where
  "m_wake w l =
     (case l of
        Master_Waiting x \<Rightarrow> if w = Some cond_master_data then At_Finish x else l
      | _ \<Rightarrow> l)"

text \<open>
  The loop of the memory's main thread: before the wait, blocked on \<open>cond_perma_slave\<close>,
  woken, and before the signal at the end of \<open>data_bus_reply\<close>.
\<close>

datatype s_loc = Before_Wait | Perma_Waiting | At_Service | At_Reply_Signal

definition s_step :: "s_loc \<times> bus_state \<times> mem_dev \<Rightarrow> ((s_loc \<times> bus_state \<times> mem_dev) \<times> wakeup) option" where
  "s_step = (\<lambda>(l, bus, m).
     (case l of
        Before_Wait \<Rightarrow> Some ((Perma_Waiting, bus, m), None)
      | Perma_Waiting \<Rightarrow> None
      | At_Service \<Rightarrow>
          (case mem_service bus m of
             Inl e \<Rightarrow> None
           | Inr (replied, bus, m) \<Rightarrow>
               Some ((if replied then At_Reply_Signal else Before_Wait, bus, m), None))
      | At_Reply_Signal \<Rightarrow> Some ((Before_Wait, bus, m), Some cond_slave_data)))"

definition s_wake :: "wakeup \<Rightarrow> s_loc \<Rightarrow> s_loc" where
  "s_wake w l = (if l = Perma_Waiting \<and> w = Some cond_perma_slave then At_Service else l)"

section \<open>The two processes\<close>

record unibus =
  m_at :: m_loc
  cpu_sh :: bus_state
  cpu_ds :: data_state
  cpu_thr :: d_thread
  cpu_in :: "data_bus_req list"
  s_at :: s_loc
  mem_sh :: bus_state
  mem_ds :: data_state
  mem_thr :: d_thread
  mem_in :: "data_bus_req list"
  dev :: mem_dev

text \<open>Datagrams arrive at the socket they are addressed to; to any other path they are lost.\<close>

definition deliver :: "(string \<times> data_bus_req) list \<Rightarrow> unibus \<Rightarrow> unibus" where
  "deliver out u =
     u\<lparr>cpu_in := cpu_in u @ map snd (filter (\<lambda>(p, r). p = d_in_addr (cpu_ds u)) out),
       mem_in := mem_in u @ map snd (filter (\<lambda>(p, r). p = d_in_addr (mem_ds u)) out)\<rparr>"

datatype tid = CPU_Main | CPU_Data | MEM_Main | MEM_Data

definition u_step :: "net_env \<Rightarrow> data_bus_req \<Rightarrow> tid \<Rightarrow> unibus \<Rightarrow> unibus option" where
  "u_step E junk t u =
     (case t of
        CPU_Main \<Rightarrow>
          (case m_step (m_at u, cpu_sh u) of
             None \<Rightarrow> None
           | Some (l, bus) \<Rightarrow> Some (u\<lparr>m_at := l, cpu_sh := bus\<rparr>))
      | CPU_Data \<Rightarrow>
          (case d_step E junk (cpu_in u, cpu_sh u, cpu_ds u, cpu_thr u) of
             None \<Rightarrow> None
           | Some ((inbox, bus, d, th), out, w) \<Rightarrow>
               Some (deliver out (u\<lparr>cpu_in := inbox, cpu_sh := bus, cpu_ds := d, cpu_thr := th,
                                    m_at := m_wake w (m_at u)\<rparr>)))
      | MEM_Main \<Rightarrow>
          (case s_step (s_at u, mem_sh u, dev u) of
             None \<Rightarrow> None
           | Some ((l, bus, m), w) \<Rightarrow>
               Some (u\<lparr>s_at := l, mem_sh := bus, dev := m, mem_thr := d_wake w (mem_thr u)\<rparr>))
      | MEM_Data \<Rightarrow>
          (case d_step E junk (mem_in u, mem_sh u, mem_ds u, mem_thr u) of
             None \<Rightarrow> None
           | Some ((inbox, bus, d, th), out, w) \<Rightarrow>
               Some (deliver out (u\<lparr>mem_in := inbox, mem_sh := bus, mem_ds := d, mem_thr := th,
                                    s_at := s_wake w (s_at u)\<rparr>))))"

text \<open>
  The interleavings. With \<open>excl\<close> the data bus thread of the CPU reads a request only outside
  the CPU's critical section on \<open>master\<close>, as it would if both took the same mutex; without it
  the relation is that of the code.
\<close>

definition in_request :: "m_loc \<Rightarrow> bool" where
  "in_request l \<longleftrightarrow> (\<exists>x. l = At_Addr x \<or> l = At_Value x)"

inductive u_steps :: "net_env \<Rightarrow> bool \<Rightarrow> unibus \<Rightarrow> unibus \<Rightarrow> bool" for E excl where
  u_refl: "u_steps E excl u u"
| u_next: "u_steps E excl u u' \<Longrightarrow> u_step E junk t u' = Some u'' \<Longrightarrow>
    (excl \<and> t = CPU_Data \<and> d_at (cpu_thr u') = At_Poll \<Longrightarrow> \<not> in_request (m_at u')) \<Longrightarrow>
    u_steps E excl u u''"

text \<open>A fixed schedule; \<open>None\<close> when a thread of it is blocked.\<close>

fun schedule :: "net_env \<Rightarrow> data_bus_req \<Rightarrow> tid list \<Rightarrow> unibus \<Rightarrow> unibus option" where
  "schedule E junk [] u = Some u"
| "schedule E junk (t # ts) u =
     (case u_step E junk t u of None \<Rightarrow> None | Some u' \<Rightarrow> schedule E junk ts u')"

end
