(* ===== verification/Unibus_Inv.thy ===== *)
theory Unibus_Inv
  imports Unibus
begin

text \<open>
  What a bus transaction does, over all interleavings of the four threads and whatever the
  sockets do. The invariant follows the one outstanding request through the two processes:
  each side is in a phase, and the two phases fit together.
\<close>

section \<open>The configuration\<close>

text \<open>
  The CPU is bus master with the memory as its right neighbour, the memory device has the
  CPU as its left neighbour, and neither is shutting down.
\<close>

definition wired :: "unibus \<Rightarrow> bool" where
  "wired u \<longleftrightarrow>
     is_master (cpu_sh u) \<noteq> 0 \<and> shutdown (cpu_sh u) = 0 \<and>
     is_master (mem_sh u) = 0 \<and> shutdown (mem_sh u) = 0 \<and>
     d_out_addr_l (cpu_ds u) = [] \<and> d_out_addr_r (cpu_ds u) = d_in_addr (mem_ds u) \<and>
     d_out_addr_l (mem_ds u) = d_in_addr (cpu_ds u) \<and> d_out_addr_r (mem_ds u) = [] \<and>
     d_in_addr (cpu_ds u) \<noteq> [] \<and> d_in_addr (mem_ds u) \<noteq> [] \<and>
     d_in_addr (cpu_ds u) \<noteq> d_in_addr (mem_ds u) \<and>
     is_addr_internal (cpu_ds u) = None \<and> is_addr_internal (mem_ds u) = Some is_local_addr \<and>
     x_op (master (mem_sh u)) = R_NONE \<and> x_op (buffer (mem_ds u)) = R_NONE"

text \<open>A data bus thread that is somewhere in its loop and holds no message.\<close>

definition looping :: "bool \<Rightarrow> d_thread \<Rightarrow> bool" where
  "looping m t \<longleftrightarrow>
     d_at t = At_Poll \<or>
     (d_at t \<in> {At_Process, At_Check, At_Loop_End} \<and> d_shutdown t = 0 \<and> (d_is_master t \<noteq> 0) = m)"

section \<open>The transaction\<close>

fun xfer_ctl :: "xfer \<Rightarrow> data_bus_signal" where
  "xfer_ctl (Rd a) = D_DATI"
| "xfer_ctl (Wr a w) = D_DATO"
| "xfer_ctl (Wrb a v) = D_DATOB"

fun xfer_block :: "xfer \<Rightarrow> data_op" where
  "xfer_block (Rd a) = R_BLOCK_IN"
| "xfer_block (Wr a w) = R_BLOCK_OUT"
| "xfer_block (Wrb a v) = R_BLOCK_OUTB"

text \<open>The abstract effect of a transfer on the memory device: the value returned, the new state.\<close>

fun performed :: "xfer \<Rightarrow> mem_dev \<Rightarrow> u16 \<Rightarrow> mem_dev \<Rightarrow> bool" where
  "performed (Rd a) d v d' \<longleftrightarrow> is_local_addr a \<and> read_data_in mem_bus a d = Inr (v, d')"
| "performed (Wr a w) d v d' \<longleftrightarrow> is_local_addr a \<and> write_data_out mem_bus a w d = Inr d' \<and> v = 0"
| "performed (Wrb a c) d v d' \<longleftrightarrow> is_local_addr a \<and> write_data_out_b mem_bus a c d = Inr d' \<and> v = 0"

definition value_ok :: "xfer \<Rightarrow> u16 \<Rightarrow> bool" where
  "value_ok x v \<longleftrightarrow> (case xfer_value x of None \<Rightarrow> True | Some w \<Rightarrow> v = w)"

definition is_request :: "xfer \<Rightarrow> data_bus_req \<Rightarrow> bool" where
  "is_request x r \<longleftrightarrow> msg_type r = DBM_REQ \<and> ctl r = xfer_ctl x \<and> d_addr r = xfer_addr x \<and>
     value_ok x (d_data r)"

definition is_response :: "xfer \<Rightarrow> u16 \<Rightarrow> data_bus_req \<Rightarrow> bool" where
  "is_response x v r \<longleftrightarrow> msg_type r = DBM_RESP \<and> ctl r = xfer_ctl x \<and> d_data r = v"

definition is_blocked :: "xfer \<Rightarrow> data_xfer_spec \<Rightarrow> bool" where
  "is_blocked x s \<longleftrightarrow> x_op s = xfer_block x \<and> x_addr s = xfer_addr x \<and> value_ok x (x_value s) \<and>
     is_local_addr (xfer_addr x)"

text \<open>The outcome of the transaction, once the memory device has performed it.\<close>

type_synonym outcome = "(u16 \<times> mem_dev) option"

definition dev_of :: "mem_dev \<Rightarrow> outcome \<Rightarrow> mem_dev" where
  "dev_of d r = (case r of None \<Rightarrow> d | Some (v, d') \<Rightarrow> d')"

definition val_of :: "outcome \<Rightarrow> u16" where
  "val_of r = (case r of None \<Rightarrow> 0 | Some (v, d') \<Rightarrow> v)"

section \<open>Phases\<close>

datatype cpu_phase = Asking | Asked | Buffered | Pending | Replied | Delivering | Delivered | Finished

definition waiting :: "xfer \<Rightarrow> m_loc \<Rightarrow> bool" where
  "waiting x l \<longleftrightarrow> l = At_Wait x \<or> l = Master_Waiting x"

definition cpu_at :: "xfer \<Rightarrow> u16 \<Rightarrow> cpu_phase \<Rightarrow> unibus \<Rightarrow> bool" where
  "cpu_at x v p u =
     (case p of
        Asking \<Rightarrow>
          (m_at u = At_Op x \<and> x_op (master (cpu_sh u)) \<in> {R_NONE, R_DONE} \<or>
           m_at u = At_Addr x \<and> x_op (master (cpu_sh u)) = xfer_op x \<or>
           m_at u = At_Value x \<and> x_op (master (cpu_sh u)) = xfer_op x \<and>
             x_addr (master (cpu_sh u)) = xfer_addr x) \<and>
          x_op (buffer (cpu_ds u)) = R_NONE \<and> looping True (cpu_thr u) \<and> cpu_in u = []
      | Asked \<Rightarrow>
          waiting x (m_at u) \<and> x_op (master (cpu_sh u)) = xfer_op x \<and>
          x_addr (master (cpu_sh u)) = xfer_addr x \<and> value_ok x (x_value (master (cpu_sh u))) \<and>
          x_op (buffer (cpu_ds u)) = R_NONE \<and> looping True (cpu_thr u) \<and> cpu_in u = []
      | Buffered \<Rightarrow>
          waiting x (m_at u) \<and> x_op (master (cpu_sh u)) = R_NONE \<and>
          x_op (buffer (cpu_ds u)) = xfer_op x \<and> x_addr (buffer (cpu_ds u)) = xfer_addr x \<and>
          value_ok x (x_value (buffer (cpu_ds u))) \<and>
          d_at (cpu_thr u) = At_Process \<and> looping True (cpu_thr u) \<and> cpu_in u = []
      | Pending \<Rightarrow>
          waiting x (m_at u) \<and> x_op (master (cpu_sh u)) = R_NONE \<and>
          x_op (buffer (cpu_ds u)) = R_NONE \<and> looping True (cpu_thr u) \<and> cpu_in u = []
      | Replied \<Rightarrow>
          waiting x (m_at u) \<and> x_op (master (cpu_sh u)) = R_NONE \<and>
          x_op (buffer (cpu_ds u)) = R_NONE \<and> looping True (cpu_thr u) \<and>
          (\<exists>r. cpu_in u = [r] \<and> is_response x v r)
      | Delivering \<Rightarrow>
          waiting x (m_at u) \<and> x_op (master (cpu_sh u)) = R_DONE \<and> x_value (master (cpu_sh u)) = v \<and>
          x_op (buffer (cpu_ds u)) = R_NONE \<and> d_at (cpu_thr u) = At_Master_Signal \<and>
          d_shutdown (cpu_thr u) = 0 \<and> d_is_master (cpu_thr u) \<noteq> 0 \<and> cpu_in u = []
      | Delivered \<Rightarrow>
          (waiting x (m_at u) \<or> m_at u = At_Finish x) \<and> x_op (master (cpu_sh u)) = R_DONE \<and>
          x_value (master (cpu_sh u)) = v \<and>
          x_op (buffer (cpu_ds u)) = R_NONE \<and> looping True (cpu_thr u) \<and> cpu_in u = []
      | Finished \<Rightarrow>
          m_at u = Returned v True \<and> x_op (master (cpu_sh u)) = R_NONE \<and>
          x_op (buffer (cpu_ds u)) = R_NONE \<and> looping True (cpu_thr u) \<and> cpu_in u = [])"

datatype mem_phase = Quiet | Requested | Blocked | Serving | Lost_Wakeup | Served | Ending | Lost_Reply

definition idle :: "s_loc \<Rightarrow> bool" where
  "idle l \<longleftrightarrow> l = Before_Wait \<or> l = Perma_Waiting"

definition in_slave_wait :: "xfer \<Rightarrow> d_thread \<Rightarrow> bool" where
  "in_slave_wait x t \<longleftrightarrow> d_at t = At_Slave_Wait (xfer_ctl x) \<or> d_at t = Slave_Waiting (xfer_ctl x)"

definition mem_at :: "xfer \<Rightarrow> u16 \<Rightarrow> mem_phase \<Rightarrow> unibus \<Rightarrow> bool" where
  "mem_at x v p u =
     (case p of
        Quiet \<Rightarrow>
          mem_in u = [] \<and> looping False (mem_thr u) \<and> x_op (slave (mem_sh u)) = R_NONE \<and> idle (s_at u)
      | Requested \<Rightarrow>
          (\<exists>r. mem_in u = [r] \<and> is_request x r) \<and> looping False (mem_thr u) \<and>
          x_op (slave (mem_sh u)) = R_NONE \<and> idle (s_at u)
      | Blocked \<Rightarrow>
          mem_in u = [] \<and> d_at (mem_thr u) = At_Slave_Signal (xfer_ctl x) \<and>
          d_shutdown (mem_thr u) = 0 \<and> d_is_master (mem_thr u) = 0 \<and>
          is_blocked x (slave (mem_sh u)) \<and> idle (s_at u)
      | Serving \<Rightarrow>
          mem_in u = [] \<and> in_slave_wait x (mem_thr u) \<and>
          d_shutdown (mem_thr u) = 0 \<and> d_is_master (mem_thr u) = 0 \<and>
          is_blocked x (slave (mem_sh u)) \<and> s_at u = At_Service
      | Lost_Wakeup \<Rightarrow>
          mem_in u = [] \<and> in_slave_wait x (mem_thr u) \<and>
          d_shutdown (mem_thr u) = 0 \<and> d_is_master (mem_thr u) = 0 \<and>
          is_blocked x (slave (mem_sh u)) \<and> idle (s_at u)
      | Served \<Rightarrow>
          mem_in u = [] \<and> in_slave_wait x (mem_thr u) \<and>
          d_shutdown (mem_thr u) = 0 \<and> d_is_master (mem_thr u) = 0 \<and>
          x_op (slave (mem_sh u)) = R_DONE \<and> (x = Rd (xfer_addr x) \<longrightarrow> x_value (slave (mem_sh u)) = v) \<and>
          s_at u = At_Reply_Signal
      | Ending \<Rightarrow>
          mem_in u = [] \<and> d_at (mem_thr u) = At_Slave_End (xfer_ctl x) \<and>
          d_shutdown (mem_thr u) = 0 \<and> d_is_master (mem_thr u) = 0 \<and>
          x_op (slave (mem_sh u)) = R_DONE \<and> (x = Rd (xfer_addr x) \<longrightarrow> x_value (slave (mem_sh u)) = v) \<and>
          idle (s_at u)
      | Lost_Reply \<Rightarrow>
          mem_in u = [] \<and> in_slave_wait x (mem_thr u) \<and>
          d_shutdown (mem_thr u) = 0 \<and> d_is_master (mem_thr u) = 0 \<and>
          x_op (slave (mem_sh u)) = R_DONE \<and> (x = Rd (xfer_addr x) \<longrightarrow> x_value (slave (mem_sh u)) = v) \<and>
          idle (s_at u))"

text \<open>Which phases of the two sides go together, and whether the transfer was performed.\<close>

definition fits :: "cpu_phase \<Rightarrow> mem_phase \<Rightarrow> outcome \<Rightarrow> bool" where
  "fits c m r \<longleftrightarrow>
     (c \<in> {Asking, Asked, Buffered} \<and> m = Quiet \<and> r = None) \<or>
     (c = Pending \<and> m \<in> {Quiet, Requested, Blocked, Serving, Lost_Wakeup} \<and> r = None) \<or>
     (c = Pending \<and> m \<in> {Served, Ending, Lost_Reply, Quiet} \<and> r \<noteq> None) \<or>
     (c \<in> {Replied, Delivering, Delivered, Finished} \<and> m = Quiet \<and> r \<noteq> None)"

definition xinv :: "xfer \<Rightarrow> mem_dev \<Rightarrow> unibus \<Rightarrow> bool" where
  "xinv x d u \<longleftrightarrow> wired u \<and>
     (\<exists>c m r. fits c m r \<and> cpu_at x (val_of r) c u \<and> mem_at x (val_of r) m u \<and> dev u = dev_of d r \<and>
        (\<forall>v d'. r = Some (v, d') \<longrightarrow> performed x d v d'))"

section \<open>The invariant is kept\<close>

lemma send_right:
  assumes "d_out_addr_l d = []"
  shows "\<exists>ret fd out. send_msg E r d = (ret, out, d\<lparr>d_bus_out_r := fd\<rparr>) \<and> (out = [] \<or> out = [(d_out_addr_r d, r)])"
proof -
  have "\<exists>fd. d = d\<lparr>d_bus_out_r := fd\<rparr>" by (intro exI [of _ "d_bus_out_r d"]) simp
  then show ?thesis
    using assms by (auto simp: send_msg_def d_connect_l_def d_connect_r_def d_close_r_def Let_def)
qed

lemma send_left:
  assumes "d_out_addr_r d = []"
  shows "\<exists>ret fd out. send_msg E r d = (ret, out, d\<lparr>d_bus_out_l := fd\<rparr>) \<and> (out = [] \<or> out = [(d_out_addr_l d, r)])"
proof -
  have "\<exists>fd. d = d\<lparr>d_bus_out_l := fd\<rparr>" by (intro exI [of _ "d_bus_out_l d"]) simp
  then show ?thesis
    using assms by (auto simp: send_msg_def d_connect_l_def d_connect_r_def d_close_l_def Let_def)
qed

lemma xinvI:
  assumes "wired u" and "fits c m r" and "cpu_at x (val_of r) c u" and "mem_at x (val_of r) m u"
    and "dev u = dev_of d r" and "\<And>v d'. r = Some (v, d') \<Longrightarrow> performed x d v d'"
  shows "xinv x d u"
  using assms unfolding xinv_def by blast

text \<open>A step of one side that leaves the other side's fields alone.\<close>

lemma mem_at_frame:
  assumes "mem_in u' = mem_in u" "mem_thr u' = mem_thr u" "mem_sh u' = mem_sh u" "s_at u' = s_at u"
  shows "mem_at x v p u' = mem_at x v p u"
  using assms by (simp add: mem_at_def cong: mem_phase.case_cong)

lemma cpu_at_frame:
  assumes "cpu_in u' = cpu_in u" "cpu_thr u' = cpu_thr u" "cpu_sh u' = cpu_sh u" "m_at u' = m_at u"
    "cpu_ds u' = cpu_ds u"
  shows "cpu_at x v p u' = cpu_at x v p u"
  using assms by (simp add: cpu_at_def cong: cpu_phase.case_cong)

lemma wired_cpu:
  assumes "wired u" "is_master (cpu_sh u') = is_master (cpu_sh u)" "shutdown (cpu_sh u') = shutdown (cpu_sh u)"
    "cpu_ds u' = cpu_ds u" "mem_sh u' = mem_sh u" "mem_ds u' = mem_ds u"
  shows "wired u'"
  using assms by (simp add: wired_def)

lemma main_step:
  assumes "xinv x d u" and "u_step E junk CPU_Main u = Some u'"
  shows "xinv x d u'"
proof -
  from assms(1) obtain c m r where w: "wired u" and f: "fits c m r"
    and c: "cpu_at x (val_of r) c u" and m: "mem_at x (val_of r) m u" and dv: "dev u = dev_of d r"
    and p: "\<And>v d'. r = Some (v, d') \<Longrightarrow> performed x d v d'"
    unfolding xinv_def by blast
  from assms(2) obtain l bus where u': "u' = u\<lparr>m_at := l, cpu_sh := bus\<rparr>"
    and l: "m_step (m_at u, cpu_sh u) = Some (l, bus)"
    by (auto simp: u_step_def split: option.splits)
  have m': "mem_at x (val_of r) m u'" using m mem_at_frame [of u' u] by (simp add: u')
  have w': "wired u'"
    using l by (intro wired_cpu [OF w]) (auto simp: u' m_step_def read_data_in_finish_def
       split: m_loc.splits option.splits)
  consider "c = Asking" | "c = Delivered" | "waiting x (m_at u)" "c \<noteq> Delivered" "c \<noteq> Asking"
    using c l by (cases c) (auto simp: cpu_at_def m_step_def)
  then show ?thesis
  proof cases
    case 1
    then have "cpu_at x (val_of r) Asking u' \<and> fits Asking m r \<or> cpu_at x (val_of r) Asked u' \<and> fits Asked m r"
      using c l f by (auto simp: cpu_at_def waiting_def m_step_def u' value_ok_def fits_def split: option.splits)
    then show ?thesis using xinvI [OF w' _ _ m' _ p] dv by (auto simp: u')
  next
    case 2
    then have "cpu_at x (val_of r) Delivered u' \<and> fits Delivered m r \<or> cpu_at x (val_of r) Finished u' \<and> fits Finished m r"
      using c l f by (auto simp: cpu_at_def waiting_def m_step_def u' read_data_in_finish_def fits_def)
    then show ?thesis using xinvI [OF w' _ _ m' _ p] dv by (auto simp: u')
  next
    case 3
    then have l': "l = Master_Waiting x" "bus = cpu_sh u" using l by (auto simp: waiting_def m_step_def)
    have "waiting x l" by (simp add: l' waiting_def)
    then have "cpu_at x (val_of r) c u'"
      using c 3 l' by (cases c) (simp_all add: cpu_at_def u' waiting_def)
    then show ?thesis using xinvI [OF w' f _ m' _ p] dv by (simp add: u')
  qed
qed

lemma xinvE:
  assumes "xinv x d u"
  obtains c m r where "wired u" "fits c m r" "cpu_at x (val_of r) c u" "mem_at x (val_of r) m u"
    "dev u = dev_of d r" "\<And>v d'. r = Some (v, d') \<Longrightarrow> performed x d v d'"
  using assms unfolding xinv_def by blast

lemma poll_none:
  "x_op (master bus) = R_NONE \<or> x_op (master bus) = R_DONE \<Longrightarrow> poll_master bus ds = (bus, ds)"
  by (auto simp: poll_master_def)

lemma poll_request:
  assumes "x_op (master bus) = xfer_op x"
  obtains bf where "poll_master bus ds = (bus\<lparr>master := (master bus)\<lparr>x_op := R_NONE\<rparr>\<rparr>, ds\<lparr>buffer := bf\<rparr>)"
    and "x_op bf = xfer_op x" and "x_addr bf = x_addr (master bus)"
    and "value_ok x (x_value (master bus)) \<Longrightarrow> value_ok x (x_value bf)"
proof (cases x)
  case (Rd a)
  with assms show ?thesis
    by (intro that [of "(buffer ds)\<lparr>x_op := R_IN, x_addr := x_addr (master bus)\<rparr>"])
      (auto simp: poll_master_def value_ok_def)
next
  case (Wr a w)
  with assms show ?thesis
    by (intro that [of "(buffer ds)\<lparr>x_op := R_OUT, x_addr := x_addr (master bus), x_value := x_value (master bus)\<rparr>"])
      (auto simp: poll_master_def value_ok_def)
next
  case (Wrb a w)
  with assms show ?thesis
    by (intro that [of "(buffer ds)\<lparr>x_op := R_OUTB, x_addr := x_addr (master bus), x_value := x_value (master bus)\<rparr>"])
      (auto simp: poll_master_def value_ok_def)
qed

lemma process_none: "x_op (buffer ds) = R_NONE \<Longrightarrow> process_op E junk ds = ([], ds\<lparr>buffer := (buffer ds)\<lparr>x_op := R_NONE\<rparr>\<rparr>)"
  by (simp add: process_op_def)

lemma process_request:
  assumes "x_op (buffer ds) = xfer_op x" and "x_addr (buffer ds) = xfer_addr x"
    and "value_ok x (x_value (buffer ds))" and "d_out_addr_l ds = []"
  obtains out fd req where "process_op E junk ds = (out, ds\<lparr>d_bus_out_r := fd, req_issued := 1,
      buffer := (buffer ds)\<lparr>x_op := R_NONE\<rparr>\<rparr>)"
    and "out = [] \<or> out = [(d_out_addr_r ds, req)]" and "is_request x req"
proof (cases x)
  case (Rd a)
  let ?r = "update_from_addr ds (junk\<lparr>msg_type := DBM_REQ, ctl := D_DATI, d_addr := x_addr (buffer ds)\<rparr>)"
  from send_right [OF assms(4), of E ?r] obtain ret fd out where
    "send_msg E ?r ds = (ret, out, ds\<lparr>d_bus_out_r := fd\<rparr>)" "out = [] \<or> out = [(d_out_addr_r ds, ?r)]" by blast
  with Rd assms show ?thesis
    by (intro that [of out fd ?r]) (auto simp: process_op_def in_word_def Let_def is_request_def update_from_addr_def value_ok_def)
next
  case (Wr a w)
  let ?r = "update_from_addr ds (junk\<lparr>msg_type := DBM_REQ, ctl := D_DATO, d_addr := x_addr (buffer ds), d_data := x_value (buffer ds)\<rparr>)"
  from send_right [OF assms(4), of E ?r] obtain ret fd out where
    "send_msg E ?r ds = (ret, out, ds\<lparr>d_bus_out_r := fd\<rparr>)" "out = [] \<or> out = [(d_out_addr_r ds, ?r)]" by blast
  with Wr assms show ?thesis
    by (intro that [of out fd ?r]) (auto simp: process_op_def out_word_def Let_def is_request_def update_from_addr_def value_ok_def)
next
  case (Wrb a w)
  let ?r = "update_from_addr ds (junk\<lparr>msg_type := DBM_REQ, ctl := D_DATOB, d_addr := x_addr (buffer ds), d_data := x_value (buffer ds)\<rparr>)"
  from send_right [OF assms(4), of E ?r] obtain ret fd out where
    "send_msg E ?r ds = (ret, out, ds\<lparr>d_bus_out_r := fd\<rparr>)" "out = [] \<or> out = [(d_out_addr_r ds, ?r)]" by blast
  with Wrb assms show ?thesis
    by (intro that [of out fd ?r]) (auto simp: process_op_def out_byte_def Let_def is_request_def update_from_addr_def value_ok_def)
qed

lemma looping_cases:
  assumes "looping m t"
  obtains "d_at t = At_Poll" | "d_at t = At_Process" "d_shutdown t = 0" "(d_is_master t \<noteq> 0) = m"
    | "d_at t = At_Check" "d_shutdown t = 0" "(d_is_master t \<noteq> 0) = m"
    | "d_at t = At_Loop_End" "d_shutdown t = 0" "(d_is_master t \<noteq> 0) = m"
  using assms by (auto simp: looping_def)

text \<open>The data bus thread of the CPU, place by place.\<close>

lemma cpu_poll_step:
  assumes "xinv x d u" and "u_step E junk CPU_Data u = Some u'" and at: "d_at (cpu_thr u) = At_Poll"
    and g: "\<not> in_request (m_at u)"
  shows "xinv x d u'"
proof -
  from assms(1) obtain c m r where w: "wired u" and f: "fits c m r"
    and c: "cpu_at x (val_of r) c u" and m: "mem_at x (val_of r) m u" and dv: "dev u = dev_of d r"
    and p: "\<And>v d'. r = Some (v, d') \<Longrightarrow> performed x d v d'"
    by (rule xinvE) blast
  let ?t = "(cpu_thr u)\<lparr>d_is_master := is_master (cpu_sh u), d_shutdown := shutdown (cpu_sh u), d_at := At_Process\<rparr>"
  obtain bus ds where bd: "poll_master (cpu_sh u) (cpu_ds u) = (bus, ds)" by fastforce
  have u': "u' = u\<lparr>cpu_sh := bus, cpu_ds := ds, cpu_thr := ?t\<rparr>"
    using assms(2) at bd by (auto simp: u_step_def d_step_def Let_def deliver_def m_wake_def split: m_loc.splits)
  have l: "looping True ?t" using w by (simp add: looping_def wired_def)
  have m': "mem_at x (val_of r) m u'" using m mem_at_frame [of u' u] by (simp add: u')
  show ?thesis
  proof (cases "c = Asked")
    case True
    with c have op: "x_op (master (cpu_sh u)) = xfer_op x" by (simp add: cpu_at_def)
    obtain bf where bf: "bus = (cpu_sh u)\<lparr>master := (master (cpu_sh u))\<lparr>x_op := R_NONE\<rparr>\<rparr>"
      "ds = (cpu_ds u)\<lparr>buffer := bf\<rparr>" "x_op bf = xfer_op x" "x_addr bf = x_addr (master (cpu_sh u))"
      "value_ok x (x_value (master (cpu_sh u))) \<Longrightarrow> value_ok x (x_value bf)"
      using poll_request [OF op, of "cpu_ds u"] bd by auto
    have "cpu_at x (val_of r) Buffered u'"
      using c True bf l by (simp add: cpu_at_def u')
    moreover have "fits Buffered m r" using f True by (auto simp: fits_def)
    moreover have "wired u'" using w by (simp add: wired_def u' bf)
    ultimately show ?thesis using xinvI [OF _ _ _ m' _ p] dv by (simp add: u')
  next
    case False
    with c g at have "x_op (master (cpu_sh u)) = R_NONE \<or> x_op (master (cpu_sh u)) = R_DONE"
      by (cases c) (auto simp: cpu_at_def in_request_def)
    then have bus: "bus = cpu_sh u" "ds = cpu_ds u" using bd poll_none by auto
    have "cpu_at x (val_of r) c u'"
      using c False at l by (cases c) (simp_all add: cpu_at_def u' bus)
    moreover have "wired u'" using w by (simp add: wired_def u' bus)
    ultimately show ?thesis using xinvI [OF _ f _ m' _ p] dv by (simp add: u')
  qed
qed

lemma deliver_right:
  "wired u \<Longrightarrow> deliver [(d_out_addr_r (cpu_ds u), r)] u = u\<lparr>mem_in := mem_in u @ [r]\<rparr>"
  by (auto simp: deliver_def wired_def)

lemma deliver_none: "deliver [] u = u"
  by (simp add: deliver_def)

lemma m_wake_none: "m_wake None l = l"
  by (simp add: m_wake_def split: m_loc.split)

text \<open>The data bus of the CPU sends the request that it has in its buffer.\<close>

lemma cpu_send_step:
  assumes w: "wired u" and f: "fits Buffered m r" and c: "cpu_at x (val_of r) Buffered u"
    and m: "mem_at x (val_of r) m u" and dv: "dev u = dev_of d r"
    and p: "\<And>v d'. r = Some (v, d') \<Longrightarrow> performed x d v d'"
    and l: "looping True t" "d_at t = At_Check"
    and po: "process_op E junk (cpu_ds u) = (out, ds)" and u': "u' = deliver out (u\<lparr>cpu_ds := ds, cpu_thr := t\<rparr>)"
  shows "xinv x d u'"
proof -
  have dl: "d_out_addr_l (cpu_ds u) = []" using w by (simp add: wired_def)
  from c have bf: "x_op (buffer (cpu_ds u)) = xfer_op x" "x_addr (buffer (cpu_ds u)) = xfer_addr x"
    "value_ok x (x_value (buffer (cpu_ds u)))" by (auto simp: cpu_at_def)
  obtain fd req where ds: "ds = (cpu_ds u)\<lparr>d_bus_out_r := fd, req_issued := 1,
      buffer := (buffer (cpu_ds u))\<lparr>x_op := R_NONE\<rparr>\<rparr>"
    and out: "out = [] \<or> out = [(d_out_addr_r (cpu_ds u), req)]" and req: "is_request x req"
    using process_request [OF bf dl, of E junk] po by (metis prod.inject)
  let ?u = "u\<lparr>cpu_ds := ds, cpu_thr := t\<rparr>"
  have w': "wired ?u" using w by (simp add: wired_def ds)
  have m0: "m = Quiet" "r = None" using f by (auto simp: fits_def)
  have c': "cpu_at x (val_of r) Pending ?u" using c l by (simp add: cpu_at_def ds)
  show ?thesis using out
  proof
    assume "out = []"
    with u' have "u' = ?u" by (simp add: deliver_none)
    moreover have "mem_at x (val_of r) m ?u" using m mem_at_frame [of ?u u] by simp
    moreover have "fits Pending m r" using m0 by (simp add: fits_def)
    ultimately show ?thesis using xinvI [OF w' _ c' _ _ p] dv by simp
  next
    assume "out = [(d_out_addr_r (cpu_ds u), req)]"
    with u' w' have u2: "u' = ?u\<lparr>mem_in := mem_in u @ [req]\<rparr>"
      using deliver_right [OF w', of req] by (simp add: ds)
    have "mem_at x (val_of r) Requested u'" using m m0 req by (simp add: mem_at_def u2)
    moreover have "cpu_at x (val_of r) Pending u'" using c' cpu_at_frame [of u' ?u] by (simp add: u2)
    moreover have "fits Pending Requested r" using m0 by (simp add: fits_def)
    moreover have "wired u'" using w' by (simp add: wired_def u2)
    ultimately show ?thesis using xinvI [OF _ _ _ _ _ p] dv by (simp add: u2)
  qed
qed

lemma cpu_process_step:
  assumes "xinv x d u" and "u_step E junk CPU_Data u = Some u'" and at: "d_at (cpu_thr u) = At_Process"
  shows "xinv x d u'"
proof -
  from assms(1) obtain c m r where w: "wired u" and f: "fits c m r"
    and c: "cpu_at x (val_of r) c u" and m: "mem_at x (val_of r) m u" and dv: "dev u = dev_of d r"
    and p: "\<And>v d'. r = Some (v, d') \<Longrightarrow> performed x d v d'"
    by (rule xinvE) blast
  let ?t = "(cpu_thr u)\<lparr>d_at := At_Check\<rparr>"
  have l: "looping True ?t" "d_is_master (cpu_thr u) \<noteq> 0"
    using c at by (cases c; auto simp: cpu_at_def looping_def)+
  obtain out ds where po: "process_op E junk (cpu_ds u) = (out, ds)" by fastforce
  have u': "u' = deliver out (u\<lparr>cpu_ds := ds, cpu_thr := ?t\<rparr>)"
    using assms(2) at po l(2) by (auto simp: u_step_def d_step_def Let_def m_wake_none)
  show ?thesis
  proof (cases "c = Buffered")
    case True
    with f c m dv p l(1) po u' show ?thesis
      by (intro cpu_send_step [OF w, of m r x d ?t]) simp_all
  next
    case False
    with c at have "x_op (buffer (cpu_ds u)) = R_NONE" by (cases c) (auto simp: cpu_at_def)
    with po process_none have ds: "out = []" "ds = (cpu_ds u)\<lparr>buffer := (buffer (cpu_ds u))\<lparr>x_op := R_NONE\<rparr>\<rparr>"
      by auto
    have "cpu_at x (val_of r) c u'"
      using c False at l by (cases c) (simp_all add: cpu_at_def u' ds deliver_none)
    moreover have "wired u'" using w by (simp add: wired_def u' ds deliver_none)
    moreover have "mem_at x (val_of r) m u'" using m mem_at_frame [of u' u] by (simp add: u' ds deliver_none)
    ultimately show ?thesis using xinvI [OF _ f _ _ _ p] dv by (simp add: u' ds deliver_none)
  qed
qed

lemma cpu_check_step:
  assumes "xinv x d u" and "u_step E junk CPU_Data u = Some u'" and at: "d_at (cpu_thr u) = At_Check"
  shows "xinv x d u'"
proof -
  from assms(1) obtain c m r where w: "wired u" and f: "fits c m r"
    and c: "cpu_at x (val_of r) c u" and m: "mem_at x (val_of r) m u" and dv: "dev u = dev_of d r"
    and p: "\<And>v d'. r = Some (v, d') \<Longrightarrow> performed x d v d'"
    by (rule xinvE) blast
  have l: "looping True (cpu_thr u)" using c at by (cases c) (auto simp: cpu_at_def)
  then have l': "looping True ((cpu_thr u)\<lparr>d_at := At_Loop_End\<rparr>)" "d_is_master (cpu_thr u) \<noteq> 0"
    "d_shutdown (cpu_thr u) = 0" using at by (auto simp: looping_def)
  show ?thesis
  proof (cases "c = Replied")
    case False
    with c at have i: "cpu_in u = []" by (cases c) (auto simp: cpu_at_def)
    have u': "u' = u\<lparr>cpu_thr := (cpu_thr u)\<lparr>d_at := At_Loop_End\<rparr>\<rparr>"
      using assms(2) at i by (auto simp: u_step_def d_step_def deliver_none m_wake_none)
    have "cpu_at x (val_of r) c u'" using c False at l' by (cases c) (simp_all add: cpu_at_def u')
    moreover have "wired u'" using w by (simp add: wired_def u')
    moreover have "mem_at x (val_of r) m u'" using m mem_at_frame [of u' u] by (simp add: u')
    ultimately show ?thesis using xinvI [OF _ f _ _ _ p] dv by (simp add: u')
  next
    case True
    with c obtain ev where i: "cpu_in u = [ev]" and ev: "is_response x (val_of r) ev"
      by (auto simp: cpu_at_def)
    obtain k bus where cb: "check_bus (Some ev) (d_is_master (cpu_thr u)) (cpu_sh u) (cpu_ds u) = (k, bus)" by fastforce
    have u': "u' = u\<lparr>cpu_in := [], cpu_sh := bus, cpu_thr := (cpu_thr u)\<lparr>d_at := k\<rparr>\<rparr>"
      using assms(2) at i cb by (auto simp: u_step_def d_step_def deliver_none m_wake_none)
    have k: "k = At_Loop_End \<and> bus = cpu_sh u \<or>
      k = At_Master_Signal \<and> bus = (cpu_sh u)\<lparr>master := (master (cpu_sh u))\<lparr>x_value := val_of r, x_op := R_DONE\<rparr>\<rparr>"
      using cb ev by (cases x) (auto simp: check_bus_def is_response_def handle_resp_def split: if_splits)
    have fr: "fits Pending m r" "fits Delivering m r" using f True by (auto simp: fits_def)
    have m': "mem_at x (val_of r) m u'" using m mem_at_frame [of u' u] by (simp add: u')
    have w': "wired u'" using w k by (auto simp: wired_def u')
    from k show ?thesis
    proof
      assume k: "k = At_Loop_End \<and> bus = cpu_sh u"
      have "cpu_at x (val_of r) Pending u'" using c True k l' by (simp add: cpu_at_def u')
      then show ?thesis using xinvI [OF w' fr(1) _ m' _ p] dv by (simp add: u')
    next
      assume k: "k = At_Master_Signal \<and> bus = (cpu_sh u)\<lparr>master := (master (cpu_sh u))\<lparr>x_value := val_of r, x_op := R_DONE\<rparr>\<rparr>"
      have "cpu_at x (val_of r) Delivering u'" using c True k l' by (simp add: cpu_at_def u')
      then show ?thesis using xinvI [OF w' fr(2) _ m' _ p] dv by (simp add: u')
    qed
  qed
qed

lemma cpu_signal_step:
  assumes "xinv x d u" and "u_step E junk CPU_Data u = Some u'" and at: "d_at (cpu_thr u) = At_Master_Signal"
  shows "xinv x d u'"
proof -
  from assms(1) obtain c m r where w: "wired u" and f: "fits c m r"
    and c: "cpu_at x (val_of r) c u" and m: "mem_at x (val_of r) m u" and dv: "dev u = dev_of d r"
    and p: "\<And>v d'. r = Some (v, d') \<Longrightarrow> performed x d v d'"
    by (rule xinvE) blast
  have c: "cpu_at x (val_of r) Delivering u" and f: "fits Delivered m r"
    using c f at by (cases c; auto simp: cpu_at_def looping_def fits_def)+
  have u': "u' = u\<lparr>cpu_ds := (cpu_ds u)\<lparr>req_issued := 0\<rparr>, cpu_thr := (cpu_thr u)\<lparr>d_at := At_Loop_End\<rparr>,
      m_at := m_wake (Some cond_master_data) (m_at u)\<rparr>"
    using assms(2) at by (auto simp: u_step_def d_step_def deliver_none handle_resp_end_def)
  have "cpu_at x (val_of r) Delivered u'"
    using c by (auto simp: cpu_at_def u' waiting_def m_wake_def looping_def)
  moreover have "wired u'" using w by (simp add: wired_def u')
  moreover have "mem_at x (val_of r) m u'" using m mem_at_frame [of u' u] by (simp add: u')
  ultimately show ?thesis using xinvI [OF _ f _ _ _ p] dv by (simp add: u')
qed

lemma cpu_loop_step:
  assumes "xinv x d u" and "u_step E junk CPU_Data u = Some u'" and at: "d_at (cpu_thr u) = At_Loop_End"
  shows "xinv x d u'"
proof -
  from assms(1) obtain c m r where w: "wired u" and f: "fits c m r"
    and c: "cpu_at x (val_of r) c u" and m: "mem_at x (val_of r) m u" and dv: "dev u = dev_of d r"
    and p: "\<And>v d'. r = Some (v, d') \<Longrightarrow> performed x d v d'"
    by (rule xinvE) blast
  have l: "d_shutdown (cpu_thr u) = 0" using c at by (cases c) (auto simp: cpu_at_def looping_def)
  have u': "u' = u\<lparr>cpu_thr := (cpu_thr u)\<lparr>d_at := At_Poll\<rparr>\<rparr>"
    using assms(2) at l by (auto simp: u_step_def d_step_def deliver_none m_wake_none)
  have "cpu_at x (val_of r) c u'"
    using c at by (cases c) (simp_all add: cpu_at_def u' looping_def)
  moreover have "wired u'" using w by (simp add: wired_def u')
  moreover have "mem_at x (val_of r) m u'" using m mem_at_frame [of u' u] by (simp add: u')
  ultimately show ?thesis using xinvI [OF _ f _ _ _ p] dv by (simp add: u')
qed

lemma cpu_places:
  assumes "xinv x d u"
  shows "d_at (cpu_thr u) \<in> {At_Poll, At_Process, At_Check, At_Loop_End, At_Master_Signal}"
proof -
  from assms obtain c m r where "cpu_at x (val_of r) c u" by (rule xinvE) blast
  then show ?thesis by (cases c) (auto simp: cpu_at_def looping_def)
qed

lemma cpu_data_step:
  assumes "xinv x d u" and "u_step E junk CPU_Data u = Some u'"
    and "d_at (cpu_thr u) = At_Poll \<Longrightarrow> \<not> in_request (m_at u)"
  shows "xinv x d u'"
  using cpu_places [OF assms(1)] assms
  by (auto intro: cpu_poll_step cpu_process_step cpu_check_step cpu_signal_step cpu_loop_step)

text \<open>The data bus thread of the memory, place by place.\<close>

lemma s_wake_none: "s_wake None l = l"
  by (simp add: s_wake_def)

lemma mem_poll_step:
  assumes "xinv x d u" and "u_step E junk MEM_Data u = Some u'" and at: "d_at (mem_thr u) = At_Poll"
  shows "xinv x d u'"
proof -
  from assms(1) obtain c m r where w: "wired u" and f: "fits c m r"
    and c: "cpu_at x (val_of r) c u" and m: "mem_at x (val_of r) m u" and dv: "dev u = dev_of d r"
    and p: "\<And>v d'. r = Some (v, d') \<Longrightarrow> performed x d v d'"
    by (rule xinvE) blast
  let ?t = "(mem_thr u)\<lparr>d_is_master := is_master (mem_sh u), d_shutdown := shutdown (mem_sh u), d_at := At_Process\<rparr>"
  have bd: "poll_master (mem_sh u) (mem_ds u) = (mem_sh u, mem_ds u)"
    using w poll_none by (simp add: wired_def)
  have u': "u' = u\<lparr>mem_thr := ?t\<rparr>"
    using assms(2) at bd by (auto simp: u_step_def d_step_def Let_def deliver_none s_wake_none)
  have l: "looping False ?t" using w by (simp add: looping_def wired_def)
  have "mem_at x (val_of r) m u'"
    using m at l by (cases m) (simp_all add: mem_at_def u' in_slave_wait_def)
  moreover have "wired u'" using w by (simp add: wired_def u')
  moreover have "cpu_at x (val_of r) c u'" using c cpu_at_frame [of u' u] by (simp add: u')
  ultimately show ?thesis using xinvI [OF _ f _ _ _ p] dv by (simp add: u')
qed

lemma mem_process_step:
  assumes "xinv x d u" and "u_step E junk MEM_Data u = Some u'" and at: "d_at (mem_thr u) = At_Process"
  shows "xinv x d u'"
proof -
  from assms(1) obtain c m r where w: "wired u" and f: "fits c m r"
    and c: "cpu_at x (val_of r) c u" and m: "mem_at x (val_of r) m u" and dv: "dev u = dev_of d r"
    and p: "\<And>v d'. r = Some (v, d') \<Longrightarrow> performed x d v d'"
    by (rule xinvE) blast
  let ?t = "(mem_thr u)\<lparr>d_at := At_Check\<rparr>"
  have l: "looping False ?t" "d_is_master (mem_thr u) = 0"
    using m at by (cases m; auto simp: mem_at_def looping_def in_slave_wait_def)+
  have u': "u' = u\<lparr>mem_thr := ?t\<rparr>"
    using assms(2) at l(2) by (auto simp: u_step_def d_step_def Let_def deliver_none s_wake_none)
  have "mem_at x (val_of r) m u'"
    using m at l by (cases m) (simp_all add: mem_at_def u' in_slave_wait_def)
  moreover have "wired u'" using w by (simp add: wired_def u')
  moreover have "cpu_at x (val_of r) c u'" using c cpu_at_frame [of u' u] by (simp add: u')
  ultimately show ?thesis using xinvI [OF _ f _ _ _ p] dv by (simp add: u')
qed

lemma mem_loop_step:
  assumes "xinv x d u" and "u_step E junk MEM_Data u = Some u'" and at: "d_at (mem_thr u) = At_Loop_End"
  shows "xinv x d u'"
proof -
  from assms(1) obtain c m r where w: "wired u" and f: "fits c m r"
    and c: "cpu_at x (val_of r) c u" and m: "mem_at x (val_of r) m u" and dv: "dev u = dev_of d r"
    and p: "\<And>v d'. r = Some (v, d') \<Longrightarrow> performed x d v d'"
    by (rule xinvE) blast
  let ?t = "(mem_thr u)\<lparr>d_at := At_Poll\<rparr>"
  have l: "d_shutdown (mem_thr u) = 0"
    using m at by (cases m) (auto simp: mem_at_def looping_def in_slave_wait_def)
  have u': "u' = u\<lparr>mem_thr := ?t\<rparr>"
    using assms(2) at l by (auto simp: u_step_def d_step_def Let_def deliver_none s_wake_none)
  have "mem_at x (val_of r) m u'"
    using m at by (cases m) (simp_all add: mem_at_def u' in_slave_wait_def looping_def)
  moreover have "wired u'" using w by (simp add: wired_def u')
  moreover have "cpu_at x (val_of r) c u'" using c cpu_at_frame [of u' u] by (simp add: u')
  ultimately show ?thesis using xinvI [OF _ f _ _ _ p] dv by (simp add: u')
qed

lemma mem_check_step:
  assumes "xinv x d u" and "u_step E junk MEM_Data u = Some u'" and at: "d_at (mem_thr u) = At_Check"
  shows "xinv x d u'"
proof -
  from assms(1) obtain c m r where w: "wired u" and f: "fits c m r"
    and c: "cpu_at x (val_of r) c u" and m: "mem_at x (val_of r) m u" and dv: "dev u = dev_of d r"
    and p: "\<And>v d'. r = Some (v, d') \<Longrightarrow> performed x d v d'"
    by (rule xinvE) blast
  have l: "looping False ((mem_thr u)\<lparr>d_at := At_Loop_End\<rparr>)" "d_is_master (mem_thr u) = 0"
    "d_shutdown (mem_thr u) = 0"
    using m at by (cases m; auto simp: mem_at_def looping_def in_slave_wait_def)+
  show ?thesis
  proof (cases "m = Requested")
    case False
    with m at have i: "mem_in u = []" "m = Quiet" by (cases m; auto simp: mem_at_def in_slave_wait_def)+
    have u': "u' = u\<lparr>mem_thr := (mem_thr u)\<lparr>d_at := At_Loop_End\<rparr>\<rparr>"
      using assms(2) at i by (auto simp: u_step_def d_step_def deliver_none s_wake_none)
    have "mem_at x (val_of r) m u'" using m i l by (simp add: mem_at_def u')
    moreover have "wired u'" using w by (simp add: wired_def u')
    moreover have "cpu_at x (val_of r) c u'" using c cpu_at_frame [of u' u] by (simp add: u')
    ultimately show ?thesis using xinvI [OF _ f _ _ _ p] dv by (simp add: u')
  next
    case True
    with m obtain ev where i: "mem_in u = [ev]" and ev: "is_request x ev" by (auto simp: mem_at_def)
    obtain k bus where cb: "check_bus (Some ev) (d_is_master (mem_thr u)) (mem_sh u) (mem_ds u) = (k, bus)" by fastforce
    have u': "u' = u\<lparr>mem_in := [], mem_sh := bus, mem_thr := (mem_thr u)\<lparr>d_at := k\<rparr>\<rparr>"
      using assms(2) at i cb by (auto simp: u_step_def d_step_def deliver_none s_wake_none)
    have "is_addr_internal (mem_ds u) = Some is_local_addr" using w by (simp add: wired_def)
    with cb ev have k: "k = At_Loop_End \<and> bus = mem_sh u \<or>
      k = At_Slave_Signal (xfer_ctl x) \<and> is_local_addr (xfer_addr x) \<and>
        (\<exists>s. bus = (mem_sh u)\<lparr>slave := s\<rparr> \<and> is_blocked x s)"
      by (cases x) (auto simp: check_bus_def is_request_def handle_req_def examine_address_def
          handle_dati_def handle_dato_def handle_datob_def is_blocked_def value_ok_def split: if_splits)
    have fr: "fits c Quiet r" "fits c Blocked r" using f True by (auto simp: fits_def)
    have c': "cpu_at x (val_of r) c u'" using c cpu_at_frame [of u' u] by (simp add: u')
    have w': "wired u'" using w k by (auto simp: wired_def u')
    from k show ?thesis
    proof
      assume k: "k = At_Loop_End \<and> bus = mem_sh u"
      have "mem_at x (val_of r) Quiet u'" using m True k l by (simp add: mem_at_def u')
      then show ?thesis using xinvI [OF w' fr(1) c' _ _ p] dv by (simp add: u')
    next
      assume k: "k = At_Slave_Signal (xfer_ctl x) \<and> is_local_addr (xfer_addr x) \<and>
        (\<exists>s. bus = (mem_sh u)\<lparr>slave := s\<rparr> \<and> is_blocked x s)"
      have "mem_at x (val_of r) Blocked u'" using m True k l by (auto simp: mem_at_def u')
      then show ?thesis using xinvI [OF w' fr(2) c' _ _ p] dv by (simp add: u')
    qed
  qed
qed

lemma mem_slave_signal_step:
  assumes "xinv x d u" and "u_step E junk MEM_Data u = Some u'" and at: "d_at (mem_thr u) = At_Slave_Signal k"
  shows "xinv x d u'"
proof -
  from assms(1) obtain c m r where w: "wired u" and f: "fits c m r"
    and c: "cpu_at x (val_of r) c u" and m: "mem_at x (val_of r) m u" and dv: "dev u = dev_of d r"
    and p: "\<And>v d'. r = Some (v, d') \<Longrightarrow> performed x d v d'"
    by (rule xinvE) blast
  have m: "mem_at x (val_of r) Blocked u" and fr: "fits c Serving r" "fits c Lost_Wakeup r"
    using m f at by (cases m; auto simp: mem_at_def looping_def in_slave_wait_def fits_def)+
  have u': "u' = u\<lparr>mem_thr := (mem_thr u)\<lparr>d_at := At_Slave_Wait k\<rparr>, s_at := s_wake (Some cond_perma_slave) (s_at u)\<rparr>"
    using assms(2) at by (auto simp: u_step_def d_step_def deliver_none)
  have c': "cpu_at x (val_of r) c u'" using c cpu_at_frame [of u' u] by (simp add: u')
  have w': "wired u'" using w by (simp add: wired_def u')
  have "mem_at x (val_of r) Serving u' \<or> mem_at x (val_of r) Lost_Wakeup u'"
    using m at by (auto simp: mem_at_def u' in_slave_wait_def idle_def s_wake_def)
  then show ?thesis using xinvI [OF w' fr(1) c' _ _ p] xinvI [OF w' fr(2) c' _ _ p] dv by (auto simp: u')
qed

lemma mem_slave_wait_step:
  assumes "xinv x d u" and "u_step E junk MEM_Data u = Some u'" and at: "d_at (mem_thr u) = At_Slave_Wait k"
  shows "xinv x d u'"
proof -
  from assms(1) obtain c m r where w: "wired u" and f: "fits c m r"
    and c: "cpu_at x (val_of r) c u" and m: "mem_at x (val_of r) m u" and dv: "dev u = dev_of d r"
    and p: "\<And>v d'. r = Some (v, d') \<Longrightarrow> performed x d v d'"
    by (rule xinvE) blast
  have u': "u' = u\<lparr>mem_thr := (mem_thr u)\<lparr>d_at := Slave_Waiting k\<rparr>\<rparr>"
    using assms(2) at by (auto simp: u_step_def d_step_def deliver_none s_wake_none)
  have "mem_at x (val_of r) m u'"
    using m at by (cases m) (auto simp: mem_at_def u' in_slave_wait_def looping_def)
  moreover have "wired u'" using w by (simp add: wired_def u')
  moreover have "cpu_at x (val_of r) c u'" using c cpu_at_frame [of u' u] by (simp add: u')
  ultimately show ?thesis using xinvI [OF _ f _ _ _ p] dv by (simp add: u')
qed

lemma deliver_left:
  "wired u \<Longrightarrow> deliver [(d_out_addr_l (mem_ds u), r)] u = u\<lparr>cpu_in := cpu_in u @ [r]\<rparr>"
  by (auto simp: deliver_def wired_def)

lemma mem_slave_end_step:
  assumes "xinv x d u" and "u_step E junk MEM_Data u = Some u'" and at: "d_at (mem_thr u) = At_Slave_End k"
  shows "xinv x d u'"
proof -
  from assms(1) obtain c m r where w: "wired u" and f: "fits c m r"
    and c: "cpu_at x (val_of r) c u" and m: "mem_at x (val_of r) m u" and dv: "dev u = dev_of d r"
    and p: "\<And>v d'. r = Some (v, d') \<Longrightarrow> performed x d v d'"
    by (rule xinvE) blast
  have m: "mem_at x (val_of r) Ending u" and c0: "c = Pending" and r0: "r \<noteq> None"
    using m f at by (cases m; auto simp: mem_at_def looping_def in_slave_wait_def fits_def)+
  obtain resp bus where he: "handle_req_end k junk (mem_sh u) = (resp, bus)" by fastforce
  obtain v d' where rv: "r = Some (v, d')" using r0 by auto
  have k: "k = xfer_ctl x" using m at by (simp add: mem_at_def)
  have resp: "is_response x (val_of r) resp" and
    bus: "bus = (mem_sh u)\<lparr>slave := \<lparr>x_op = R_NONE, x_addr = 0, x_value = 0\<rparr>\<rparr>"
    using he m k p [OF rv] by (cases x; auto simp: handle_req_end_def handle_dati_end_def handle_dato_end_def
      handle_datob_end_def Let_def mem_at_def is_response_def rv val_of_def)+
  have "d_out_addr_r (mem_ds u) = []" using w by (simp add: wired_def)
  from send_left [OF this, of E resp] obtain ret fd out where
    sm: "send_msg E resp (mem_ds u) = (ret, out, (mem_ds u)\<lparr>d_bus_out_l := fd\<rparr>)"
    and out: "out = [] \<or> out = [(d_out_addr_l (mem_ds u), resp)]" by blast
  let ?u = "u\<lparr>mem_sh := bus, mem_ds := (mem_ds u)\<lparr>d_bus_out_l := fd\<rparr>, mem_thr := (mem_thr u)\<lparr>d_at := At_Loop_End\<rparr>\<rparr>"
  have u': "u' = deliver out ?u"
    using assms(2) at he sm by (auto simp: u_step_def d_step_def Let_def s_wake_none)
  have w': "wired ?u" using w by (simp add: wired_def bus)
  have mq: "mem_at x (val_of r) Quiet ?u" using m by (simp add: mem_at_def bus looping_def)
  have fr: "fits Pending Quiet r" "fits Replied Quiet r" using r0 by (auto simp: fits_def)
  have cp: "cpu_at x (val_of r) Pending ?u" using c c0 cpu_at_frame [of ?u u] by simp
  show ?thesis using out
  proof
    assume "out = []"
    then show ?thesis using xinvI [OF w' fr(1) cp mq _ p] dv by (simp add: u' deliver_none)
  next
    assume "out = [(d_out_addr_l (mem_ds u), resp)]"
    then have u2: "u' = ?u\<lparr>cpu_in := cpu_in u @ [resp]\<rparr>"
      using deliver_left [OF w', of resp] by (simp add: u')
    have "cpu_at x (val_of r) Replied u'" using cp resp by (simp add: cpu_at_def u2)
    moreover have "mem_at x (val_of r) Quiet u'" using mq mem_at_frame [of u' ?u] by (simp add: u2)
    moreover have "wired u'" using w' by (simp add: wired_def u2)
    ultimately show ?thesis using xinvI [OF _ fr(2) _ _ _ p] dv by (simp add: u2)
  qed
qed

lemma mem_places:
  assumes "xinv x d u" and "u_step E junk MEM_Data u = Some u'"
  shows "d_at (mem_thr u) \<in> {At_Poll, At_Process, At_Check, At_Loop_End} \<or>
    (\<exists>k. d_at (mem_thr u) \<in> {At_Slave_Signal k, At_Slave_Wait k, At_Slave_End k})"
proof -
  from assms(1) obtain c m r where "mem_at x (val_of r) m u" by (rule xinvE) blast
  then show ?thesis using assms(2)
    by (cases m) (auto simp: mem_at_def looping_def in_slave_wait_def u_step_def d_step_def)
qed

lemma mem_data_step:
  assumes "xinv x d u" and "u_step E junk MEM_Data u = Some u'"
  shows "xinv x d u'"
  using mem_places [OF assms] assms
  by (auto intro: mem_poll_step mem_process_step mem_check_step mem_loop_step mem_slave_signal_step
      mem_slave_wait_step mem_slave_end_step)

text \<open>The main thread of the memory.\<close>

lemma service_performs:
  assumes "is_blocked x (slave bus)" and "mem_service bus m = Inr (b, bus', m')"
  shows "b \<and> (\<exists>v s. performed x m v m' \<and> bus' = bus\<lparr>slave := s\<rparr> \<and> x_op s = R_DONE \<and>
    (x = Rd (xfer_addr x) \<longrightarrow> x_value s = v))"
proof (cases x)
  case (Rd a)
  then have "x_op (slave bus) = R_BLOCK_IN" "is_local_addr (x_addr (slave bus))" "x_addr (slave bus) = a"
    using assms(1) by (auto simp: is_blocked_def)
  note s = this
  from assms(2) s obtain w where "b" "read_data_in mem_bus a m = Inr (w, m')"
    and "bus' = bus\<lparr>slave := \<lparr>x_op = R_DONE, x_addr = a, x_value = w\<rparr>\<rparr>"
    unfolding mem_service_in [OF s(1,2)] by (auto simp: rbind_eq_Inr)
  with s Rd show ?thesis
    by (intro conjI exI [of _ w] exI [of _ "\<lparr>x_op = R_DONE, x_addr = a, x_value = w\<rparr>"]) auto
next
  case (Wr a w)
  then have "x_op (slave bus) = R_BLOCK_OUT" "is_local_addr (x_addr (slave bus))" "x_addr (slave bus) = a"
    "x_value (slave bus) = w"
    using assms(1) by (auto simp: is_blocked_def value_ok_def)
  note s = this
  show ?thesis
    using assms(2) s Wr unfolding mem_service_out [OF s(1,2)] by (auto simp: rbind_eq_Inr)
next
  case (Wrb a w)
  then have "x_op (slave bus) = R_BLOCK_OUTB" "is_local_addr (x_addr (slave bus))" "x_addr (slave bus) = a"
    "x_value (slave bus) = ucast w"
    using assms(1) by (auto simp: is_blocked_def value_ok_def)
  note s = this
  show ?thesis
    using assms(2) s Wrb unfolding mem_service_outb [OF s(1,2,4)] by (auto simp: rbind_eq_Inr)
qed

text \<open>The memory performs the transfer, and signals the end of it.\<close>

lemma mem_serve_step:
  assumes "xinv x d u" and "u_step E junk MEM_Main u = Some u'" and at: "s_at u = At_Service"
  shows "xinv x d u'"
proof -
  from assms(1) obtain c m r where w: "wired u" and f: "fits c m r"
    and c: "cpu_at x (val_of r) c u" and m: "mem_at x (val_of r) m u" and dv: "dev u = dev_of d r"
    and p: "\<And>v d'. r = Some (v, d') \<Longrightarrow> performed x d v d'"
    by (rule xinvE) blast
  with at have ms: "mem_at x (val_of r) Serving u" and r0: "r = None" "c = Pending"
    using m f by (cases m; auto simp: mem_at_def idle_def fits_def)+
  obtain b bus m1 where sv: "mem_service (mem_sh u) (dev u) = Inr (b, bus, m1)"
    using assms(2) at by (auto simp: u_step_def s_step_def split: sum.splits option.splits)
  have bl: "is_blocked x (slave (mem_sh u))" using ms by (simp add: mem_at_def)
  from service_performs [OF bl sv] obtain v s where b: "b" and pf: "performed x (dev u) v m1"
    and bus: "bus = (mem_sh u)\<lparr>slave := s\<rparr>" "x_op s = R_DONE" "x = Rd (xfer_addr x) \<longrightarrow> x_value s = v"
    by blast
  have u': "u' = u\<lparr>s_at := At_Reply_Signal, mem_sh := bus, dev := m1\<rparr>"
    using assms(2) at sv b by (auto simp: u_step_def s_step_def d_wake_def split: d_loc.splits)
  let ?r = "Some (v, m1)"
  have "mem_at x (val_of ?r) Served u'" using ms bus by (simp add: mem_at_def u' val_of_def)
  moreover have "cpu_at x (val_of ?r) Pending u'"
    using c r0 by (simp add: u' cpu_at_def)
  moreover have "wired u'" using w by (simp add: wired_def u' bus)
  moreover have "fits Pending Served ?r" by (simp add: fits_def)
  moreover have "performed x d v m1" using pf dv r0 by (simp add: dev_of_def)
  ultimately show ?thesis by (intro xinvI) (auto simp: u' dev_of_def)
qed

lemma mem_reply_step:
  assumes "xinv x d u" and "u_step E junk MEM_Main u = Some u'" and at: "s_at u = At_Reply_Signal"
  shows "xinv x d u'"
proof -
  from assms(1) obtain c m r where w: "wired u" and f: "fits c m r"
    and c: "cpu_at x (val_of r) c u" and m: "mem_at x (val_of r) m u" and dv: "dev u = dev_of d r"
    and p: "\<And>v d'. r = Some (v, d') \<Longrightarrow> performed x d v d'"
    by (rule xinvE) blast
  with at have ms: "mem_at x (val_of r) Served u" and fr: "fits c Ending r" "fits c Lost_Reply r"
    using m f by (cases m; auto simp: mem_at_def idle_def fits_def)+
  have u': "u' = u\<lparr>s_at := Before_Wait, mem_thr := d_wake (Some cond_slave_data) (mem_thr u)\<rparr>"
    using assms(2) at by (auto simp: u_step_def s_step_def)
  have c': "cpu_at x (val_of r) c u'" using c cpu_at_frame [of u' u] by (simp add: u')
  have w': "wired u'" using w by (simp add: wired_def u')
  have "mem_at x (val_of r) Ending u' \<or> mem_at x (val_of r) Lost_Reply u'"
    using ms by (auto simp: mem_at_def u' in_slave_wait_def idle_def d_wake_def)
  then show ?thesis using xinvI [OF w' fr(1) c' _ _ p] xinvI [OF w' fr(2) c' _ _ p] dv by (auto simp: u')
qed

lemma mem_main_step:
  assumes "xinv x d u" and "u_step E junk MEM_Main u = Some u'"
  shows "xinv x d u'"
proof (cases "s_at u")
  case Before_Wait
  from assms(1) obtain c m r where w: "wired u" and f: "fits c m r"
    and c: "cpu_at x (val_of r) c u" and m: "mem_at x (val_of r) m u" and dv: "dev u = dev_of d r"
    and p: "\<And>v d'. r = Some (v, d') \<Longrightarrow> performed x d v d'"
    by (rule xinvE) blast
  have u': "u' = u\<lparr>s_at := Perma_Waiting\<rparr>"
    using assms(2) Before_Wait by (auto simp: u_step_def s_step_def d_wake_def split: d_loc.splits)
  have "mem_at x (val_of r) m u'"
    using m Before_Wait by (cases m) (auto simp: mem_at_def u' idle_def)
  moreover have "wired u'" using w by (simp add: wired_def u')
  moreover have "cpu_at x (val_of r) c u'" using c cpu_at_frame [of u' u] by (simp add: u')
  ultimately show ?thesis using xinvI [OF _ f _ _ _ p] dv by (simp add: u')
next
  case Perma_Waiting
  with assms(2) show ?thesis by (simp add: u_step_def s_step_def)
qed (use mem_serve_step [OF assms] mem_reply_step [OF assms] in blast)+

section \<open>Runs of a transaction\<close>

text \<open>No transfer is under way; \<open>ask\<close> starts one.\<close>

definition ready :: "unibus \<Rightarrow> bool" where
  "ready u \<longleftrightarrow> wired u \<and>
     x_op (master (cpu_sh u)) \<in> {R_NONE, R_DONE} \<and> x_op (buffer (cpu_ds u)) = R_NONE \<and>
     looping True (cpu_thr u) \<and> cpu_in u = [] \<and>
     mem_in u = [] \<and> looping False (mem_thr u) \<and> x_op (slave (mem_sh u)) = R_NONE \<and> idle (s_at u)"

definition ask :: "xfer \<Rightarrow> unibus \<Rightarrow> unibus" where
  "ask x u = u\<lparr>m_at := At_Op x\<rparr>"

lemma ask_xinv: "ready u \<Longrightarrow> xinv x (dev u) (ask x u)"
  by (rule xinvI [of _ Asking Quiet None])
    (auto simp: ready_def ask_def wired_def fits_def cpu_at_def mem_at_def dev_of_def)

lemma steps_xinv:
  "u_steps E excl u u' \<Longrightarrow> excl \<Longrightarrow> xinv x d u \<Longrightarrow> xinv x d u'"
proof (induction rule: u_steps.induct)
  case (u_next u u' junk t u'')
  then show ?case
    by (cases t) (auto intro: main_step cpu_data_step mem_data_step mem_main_step)
qed simp

lemma xinv_returned:
  assumes "xinv x d u" and "m_at u = Returned v b"
  shows "b \<and> performed x d v (dev u) \<and> ready u"
proof -
  from assms(1) obtain c m r where w: "wired u" and f: "fits c m r"
    and c: "cpu_at x (val_of r) c u" and m: "mem_at x (val_of r) m u" and dv: "dev u = dev_of d r"
    and p: "\<And>v d'. r = Some (v, d') \<Longrightarrow> performed x d v d'"
    by (rule xinvE) blast
  have cf: "c = Finished" using c assms(2) by (cases c) (auto simp: cpu_at_def waiting_def)
  with f obtain v' d' where r: "r = Some (v', d')" and m0: "m = Quiet" by (auto simp: fits_def)
  have "b" "v = v'" using c cf assms(2) r by (auto simp: cpu_at_def val_of_def)
  moreover have "ready u" using w c m m0 cf by (simp add: ready_def cpu_at_def mem_at_def)
  ultimately show ?thesis using p [OF r] dv r by (simp add: dev_of_def)
qed

lemma transaction:
  assumes "ready u" and "u_steps E True (ask x u) u'" and "m_at u' = Returned v b"
  shows "b \<and> performed x (dev u) v (dev u') \<and> ready u'"
  using xinv_returned [OF steps_xinv [OF assms(2) TrueI ask_xinv [OF assms(1)]] assms(3)] .

section \<open>A lost wakeup\<close>

text \<open>
  The data bus thread of the memory waits for an answer, but the main thread has missed the
  signal and waits as well.
\<close>

definition deaf :: "xfer \<Rightarrow> unibus \<Rightarrow> bool" where
  "deaf x u \<longleftrightarrow> wired u \<and> waiting x (m_at u) \<and> x_op (master (cpu_sh u)) = R_NONE \<and>
     x_op (buffer (cpu_ds u)) = R_NONE \<and> looping True (cpu_thr u) \<and> cpu_in u = [] \<and>
     mem_in u = [] \<and> in_slave_wait x (mem_thr u) \<and> idle (s_at u)"

lemma deaf_step:
  assumes "deaf x u" and "u_step E junk t u = Some u'"
  shows "deaf x u'"
proof (cases t)
  case CPU_Main
  then show ?thesis using assms
    by (auto simp: deaf_def u_step_def m_step_def waiting_def wired_def)
next
  case CPU_Data
  have "poll_master (cpu_sh u) (cpu_ds u) = (cpu_sh u, cpu_ds u)"
    using assms(1) by (intro poll_none) (simp add: deaf_def)
  moreover have "process_op E junk (cpu_ds u) = ([], (cpu_ds u)\<lparr>buffer := (buffer (cpu_ds u))\<lparr>x_op := R_NONE\<rparr>\<rparr>)"
    using assms(1) by (intro process_none) (simp add: deaf_def)
  moreover from assms(1) have l: "looping True (cpu_thr u)" by (simp add: deaf_def)
  ultimately show ?thesis using assms CPU_Data
    by (cases rule: looping_cases [OF l])
      (auto simp: deaf_def u_step_def d_step_def Let_def deliver_none m_wake_none looping_def wired_def)
next
  case MEM_Main
  then show ?thesis using assms
    by (auto simp: deaf_def u_step_def s_step_def idle_def d_wake_def wired_def in_slave_wait_def
        split: d_loc.splits)
next
  case MEM_Data
  then show ?thesis using assms
    by (auto simp: deaf_def u_step_def d_step_def in_slave_wait_def deliver_none s_wake_none wired_def)
qed

lemma deaf_forever:
  "u_steps E excl u u' \<Longrightarrow> deaf x u \<Longrightarrow> deaf x u'"
  by (induction rule: u_steps.induct) (auto intro: deaf_step)

lemma deaf_not_returned: "deaf x u \<Longrightarrow> m_at u \<noteq> Returned v b"
  by (auto simp: deaf_def waiting_def)

end
