(* ===== verification/Unibus_Bus.thy ===== *)
theory Unibus_Bus
  imports Unibus_Inv Cpu_Safety "HOL-Library.Stream"
begin

text \<open>
  The bus that the two processes give to the CPU, under any schedule of their four threads, and
  one fair schedule: from a settled state it carries every transfer the memory can serve to its
  end and back to a settled state, so that on it the message-passing bus meets the contract of a
  memory.
\<close>

section \<open>The fair schedule\<close>

text \<open>
  \<open>ready\<close>, with every thread where it waits for work: both data bus threads at the top of
  their loops, the memory's main thread blocked on its condition variable.
\<close>

definition settled :: "unibus \<Rightarrow> bool" where
  "settled u \<longleftrightarrow> ready u \<and> d_at (cpu_thr u) = At_Poll \<and> d_at (mem_thr u) = At_Poll \<and> s_at u = Perma_Waiting"

definition round_trip :: "tid list" where
  "round_trip =
     replicate 4 CPU_Main @ replicate 4 CPU_Data @ replicate 5 MEM_Data @ replicate 3 MEM_Main @
     replicate 2 MEM_Data @ replicate 5 CPU_Data @ [CPU_Main]"

lemma schedule_append:
  "schedule E junk (ts @ ts') u = (case schedule E junk ts u of None \<Rightarrow> None | Some u' \<Rightarrow> schedule E junk ts' u')"
  by (induction ts arbitrary: u) (auto split: option.splits)

lemma request_made: assumes "settled u"
  shows "\<exists>mst. schedule net_up junk (replicate 4 CPU_Main) (ask x u) = Some (u\<lparr>m_at := Master_Waiting x, cpu_sh := (cpu_sh u)\<lparr>master := mst\<rparr>\<rparr>)
   \<and> x_op mst = xfer_op x \<and> x_addr mst = xfer_addr x \<and> value_ok x (x_value mst)"
  by (cases x) (auto simp: numeral_eq_Suc ask_def u_step_def m_step_def value_ok_def)

lemma send_right_up:
  assumes "d_out_addr_l d = []" and "d_out_addr_r d \<noteq> []"
  shows "send_msg net_up r d = (0, [(d_out_addr_r d, r)], d\<lparr>d_bus_out_r := -1\<rparr>)"
  using assms by (simp add: send_msg_def d_connect_l_def d_connect_r_def d_close_r_def Let_def)

lemma send_left_up:
  assumes "d_out_addr_r d = []" and "d_out_addr_l d \<noteq> []"
  shows "send_msg net_up r d = (0, [(d_out_addr_l d, r)], d\<lparr>d_bus_out_l := -1\<rparr>)"
  using assms by (simp add: send_msg_def d_connect_l_def d_connect_r_def d_close_l_def Let_def)

lemma process_request_up:
  assumes "x_op (buffer ds) = xfer_op x" and "x_addr (buffer ds) = xfer_addr x"
    and "value_ok x (x_value (buffer ds))" and "d_out_addr_l ds = []" and "d_out_addr_r ds \<noteq> []"
  shows "\<exists>req. process_op net_up junk ds = ([(d_out_addr_r ds, req)], ds\<lparr>d_bus_out_r := -1, req_issued := 1,
      buffer := (buffer ds)\<lparr>x_op := R_NONE\<rparr>\<rparr>) \<and> is_request x req"
  using assms by (cases x) (auto simp: process_op_def in_word_def out_word_def out_byte_def send_right_up Let_def is_request_def update_from_addr_def value_ok_def)

text \<open>The CPU waits for transfer \<open>y\<close> while request \<open>x\<close> is on its way to the memory. The two differ only
  after a race on the request.\<close>

definition asked :: "xfer \<Rightarrow> xfer \<Rightarrow> unibus \<Rightarrow> bool" where
  "asked y x u \<longleftrightarrow> wired u \<and> m_at u = Master_Waiting y \<and> cpu_in u = [] \<and> d_at (cpu_thr u) = At_Poll \<and>
     x_op (master (cpu_sh u)) = R_NONE \<and> x_op (buffer (cpu_ds u)) = R_NONE \<and> req_issued (cpu_ds u) = 1 \<and>
     (\<exists>r. mem_in u = [r] \<and> is_request x r) \<and> d_at (mem_thr u) = At_Poll \<and>
     x_op (slave (mem_sh u)) = R_NONE \<and> s_at u = Perma_Waiting"

lemma request_sent: assumes "settled u"
  shows "\<exists>u'. schedule net_up junk (replicate 4 CPU_Main @ replicate 4 CPU_Data) (ask x u) = Some u' \<and> asked x x u' \<and> dev u' = dev u"
proof -
  obtain mst where 1: "schedule net_up junk (replicate 4 CPU_Main) (ask x u) = Some (u\<lparr>m_at := Master_Waiting x, cpu_sh := (cpu_sh u)\<lparr>master := mst\<rparr>\<rparr>)"
     and m: "x_op mst = xfer_op x" "x_addr mst = xfer_addr x" "value_ok x (x_value mst)"
    using request_made [OF assms] by blast
  let ?bus = "(cpu_sh u)\<lparr>master := mst\<rparr>"
  obtain bf where bf: "poll_master ?bus (cpu_ds u) = (?bus\<lparr>master := mst\<lparr>x_op := R_NONE\<rparr>\<rparr>, (cpu_ds u)\<lparr>buffer := bf\<rparr>)"
    "x_op bf = xfer_op x" "x_addr bf = xfer_addr x" "value_ok x (x_value bf)"
    using poll_request [of ?bus x "cpu_ds u"] m by auto
  have w: "wired u" using assms by (simp add: settled_def ready_def)
  have ws: "d_out_addr_l (cpu_ds u) = []" "d_out_addr_r (cpu_ds u) = d_in_addr (mem_ds u)" "d_in_addr (mem_ds u) \<noteq> []"
    "d_in_addr (cpu_ds u) \<noteq> d_in_addr (mem_ds u)" "is_master (cpu_sh u) \<noteq> 0" "shutdown (cpu_sh u) = 0"
    using w by (auto simp: wired_def)
  obtain req where req: "process_op net_up junk ((cpu_ds u)\<lparr>buffer := bf\<rparr>) = ([(d_in_addr (mem_ds u), req)],
      (cpu_ds u)\<lparr>d_bus_out_r := -1, req_issued := 1, buffer := bf\<lparr>x_op := R_NONE\<rparr>\<rparr>)" "is_request x req"
    using process_request_up [of "(cpu_ds u)\<lparr>buffer := bf\<rparr>" x junk] bf ws by auto
  have st: "cpu_in u = []" "mem_in u = []" "d_at (cpu_thr u) = At_Poll" "d_at (mem_thr u) = At_Poll" "s_at u = Perma_Waiting"
    "x_op (slave (mem_sh u)) = R_NONE"
    using assms by (auto simp: settled_def ready_def)
  show ?thesis
    unfolding schedule_append 1
    using bf req ws st w
    apply (simp add: numeral_eq_Suc u_step_def d_step_def Let_def m_wake_none deliver_def asked_def)
    apply (simp add: wired_def)
    done
qed

lemma service_up:
  assumes "is_blocked x (slave bus)" and "performed x m v m'"
  shows "\<exists>s. mem_service bus m = Inr (True, bus\<lparr>slave := s\<rparr>, m') \<and> x_op s = R_DONE \<and> (x = Rd (xfer_addr x) \<longrightarrow> x_value s = v)"
proof (cases x)
  case (Rd a)
  then have s: "x_op (slave bus) = R_BLOCK_IN" "is_local_addr (x_addr (slave bus))" "x_addr (slave bus) = a"
    using assms(1) by (auto simp: is_blocked_def)
  show ?thesis
    using assms(2) s Rd unfolding mem_service_in [OF s(1,2)]
    by (intro exI [of _ "\<lparr>x_op = R_DONE, x_addr = a, x_value = v\<rparr>"]) auto
next
  case (Wr a w)
  then have s: "x_op (slave bus) = R_BLOCK_OUT" "is_local_addr (x_addr (slave bus))" "x_addr (slave bus) = a"
    "x_value (slave bus) = w"
    using assms(1) by (auto simp: is_blocked_def value_ok_def)
  show ?thesis
    using assms(2) s Wr unfolding mem_service_out [OF s(1,2)]
    by (intro exI [of _ "(slave bus)\<lparr>x_op := R_DONE\<rparr>"]) auto
next
  case (Wrb a w)
  then have s: "x_op (slave bus) = R_BLOCK_OUTB" "is_local_addr (x_addr (slave bus))" "x_addr (slave bus) = a"
    "x_value (slave bus) = ucast w"
    using assms(1) by (auto simp: is_blocked_def value_ok_def)
  show ?thesis
    using assms(2) s Wrb unfolding mem_service_outb [OF s(1,2,4)]
    by (intro exI [of _ "(slave bus)\<lparr>x_op := R_DONE\<rparr>"]) auto
qed

lemma check_request:
  assumes "is_request x r" and "is_addr_internal ds = Some is_local_addr" and "is_local_addr (xfer_addr x)"
  shows "\<exists>s. check_bus (Some r) k bus ds = (At_Slave_Signal (xfer_ctl x), bus\<lparr>slave := s\<rparr>) \<and> is_blocked x s"
  using assms by (cases x) (auto simp: check_bus_def is_request_def handle_req_def examine_address_def
          handle_dati_def handle_dato_def handle_datob_def is_blocked_def value_ok_def)

lemma handle_end_up:
  assumes "x_op (slave bus) = R_DONE" and "x = Rd (xfer_addr x) \<longrightarrow> x_value (slave bus) = v" and "performed x m v m'"
  shows "\<exists>resp. handle_req_end (xfer_ctl x) junk bus = (resp, bus\<lparr>slave := \<lparr>x_op = R_NONE, x_addr = 0, x_value = 0\<rparr>\<rparr>)
    \<and> is_response x v resp"
  using assms by (cases x) (auto simp: handle_req_end_def handle_dati_end_def handle_dato_end_def
      handle_datob_end_def is_response_def)

text \<open>The response is on its way to the CPU.\<close>

definition answered :: "xfer \<Rightarrow> xfer \<Rightarrow> u16 \<Rightarrow> unibus \<Rightarrow> bool" where
  "answered y x v u \<longleftrightarrow> wired u \<and> m_at u = Master_Waiting y \<and> d_at (cpu_thr u) = At_Poll \<and>
     x_op (master (cpu_sh u)) = R_NONE \<and> x_op (buffer (cpu_ds u)) = R_NONE \<and> req_issued (cpu_ds u) = 1 \<and>
     (\<exists>r. cpu_in u = [r] \<and> is_response x v r) \<and> mem_in u = [] \<and> d_at (mem_thr u) = At_Poll \<and>
     x_op (slave (mem_sh u)) = R_NONE \<and> s_at u = Perma_Waiting"

lemma request_answered:
  assumes "asked y x u" and "is_local_addr (xfer_addr x)" and "performed x (dev u) v d'"
  shows "\<exists>u'. schedule net_up junk (replicate 5 MEM_Data @ replicate 3 MEM_Main @ replicate 2 MEM_Data) u = Some u' \<and>
    answered y x v u' \<and> dev u' = d'"
proof -
  have w: "wired u" using assms by (simp add: asked_def)
  have ws: "d_out_addr_r (mem_ds u) = []" "d_out_addr_l (mem_ds u) = d_in_addr (cpu_ds u)" "d_in_addr (cpu_ds u) \<noteq> []"
    "d_in_addr (cpu_ds u) \<noteq> d_in_addr (mem_ds u)" "is_master (mem_sh u) = 0" "shutdown (mem_sh u) = 0"
    "is_addr_internal (mem_ds u) = Some is_local_addr"
    using w by (auto simp: wired_def)
  have st: "cpu_in u = []" "d_at (mem_thr u) = At_Poll" "s_at u = Perma_Waiting"
    using assms by (auto simp: asked_def)
  obtain r where r: "mem_in u = [r]" "is_request x r" using assms by (auto simp: asked_def)
  have p: "poll_master (mem_sh u) (mem_ds u) = (mem_sh u, mem_ds u)"
    using w poll_none by (simp add: wired_def)
  obtain s where s: "check_bus (Some r) 0 (mem_sh u) (mem_ds u) = (At_Slave_Signal (xfer_ctl x), (mem_sh u)\<lparr>slave := s\<rparr>)"
    "is_blocked x s" using check_request [OF r(2) ws(7) assms(2)] by blast
  obtain s' where s': "mem_service ((mem_sh u)\<lparr>slave := s\<rparr>) (dev u) = Inr (True, (mem_sh u)\<lparr>slave := s'\<rparr>, d')"
    "x_op s' = R_DONE" "x = Rd (xfer_addr x) \<longrightarrow> x_value s' = v"
    using service_up [of x "(mem_sh u)\<lparr>slave := s\<rparr>", OF _ assms(3)] s(2) by auto
  obtain resp where resp: "handle_req_end (xfer_ctl x) junk ((mem_sh u)\<lparr>slave := s'\<rparr>) =
      (resp, (mem_sh u)\<lparr>slave := \<lparr>x_op = R_NONE, x_addr = 0, x_value = 0\<rparr>\<rparr>)" "is_response x v resp"
    using handle_end_up [of "(mem_sh u)\<lparr>slave := s'\<rparr>" x v, OF _ _ assms(3)] s'(2,3) by auto
  show ?thesis
    using r p s(1) s'(1) resp ws st send_left_up [of "mem_ds u" resp] assms(1)
    apply (simp add: numeral_eq_Suc u_step_def d_step_def s_step_def Let_def s_wake_def d_wake_def deliver_def answered_def asked_def)
    apply (simp add: wired_def)
    done
qed

lemma reply_delivered:
  assumes "answered y x v u"
  shows "\<exists>u'. schedule net_up junk (replicate 5 CPU_Data @ [CPU_Main]) u = Some u' \<and>
    m_at u' = Returned v True \<and> settled u' \<and> dev u' = dev u"
proof -
  have w: "wired u" using assms by (simp add: answered_def)
  have ws: "is_master (cpu_sh u) \<noteq> 0" "shutdown (cpu_sh u) = 0" using w by (auto simp: wired_def)
  obtain r where r: "cpu_in u = [r]" "is_response x v r" using assms by (auto simp: answered_def)
  have p: "poll_master (cpu_sh u) (cpu_ds u) = (cpu_sh u, cpu_ds u)"
    using assms poll_none by (simp add: answered_def)
  have q: "process_op net_up junk (cpu_ds u) = ([], (cpu_ds u)\<lparr>buffer := (buffer (cpu_ds u))\<lparr>x_op := R_NONE\<rparr>\<rparr>)"
    using assms by (intro process_none) (simp add: answered_def)
  have c: "check_bus (Some r) (is_master (cpu_sh u)) (cpu_sh u) ((cpu_ds u)\<lparr>buffer := (buffer (cpu_ds u))\<lparr>x_op := R_NONE\<rparr>\<rparr>) =
     (At_Master_Signal, (cpu_sh u)\<lparr>master := (master (cpu_sh u))\<lparr>x_value := v, x_op := R_DONE\<rparr>\<rparr>)"
    using r(2) ws assms by (cases x) (auto simp: check_bus_def is_response_def handle_resp_def answered_def)
  show ?thesis
    using r p q c ws assms
    apply (simp add: numeral_eq_Suc u_step_def d_step_def m_step_def Let_def m_wake_def handle_resp_end_def
        read_data_in_finish_def deliver_none answered_def settled_def ready_def looping_def idle_def)
    apply (simp add: wired_def)
    done
qed

lemma round_trip_eq:
  "round_trip = (replicate 4 CPU_Main @ replicate 4 CPU_Data) @
     (replicate 5 MEM_Data @ replicate 3 MEM_Main @ replicate 2 MEM_Data) @ (replicate 5 CPU_Data @ [CPU_Main])"
  by (simp add: round_trip_def)

lemma round_trip_returns:
  assumes "settled u" and "is_local_addr (xfer_addr x)" and "performed x (dev u) v d'"
  shows "\<exists>u'. schedule net_up junk round_trip (ask x u) = Some u' \<and> m_at u' = Returned v True \<and>
    settled u' \<and> dev u' = d'"
proof -
  obtain u1 where 1: "schedule net_up junk (replicate 4 CPU_Main @ replicate 4 CPU_Data) (ask x u) = Some u1"
    "asked x x u1" "dev u1 = dev u" using request_sent [OF assms(1)] by blast
  obtain u2 where 2: "schedule net_up junk (replicate 5 MEM_Data @ replicate 3 MEM_Main @ replicate 2 MEM_Data) u1 = Some u2"
    "answered x x v u2" "dev u2 = d'" using request_answered [OF 1(2) assms(2), of v d' junk] assms(3) 1(3) by auto
  obtain u3 where 3: "schedule net_up junk (replicate 5 CPU_Data @ [CPU_Main]) u2 = Some u3"
    "m_at u3 = Returned v True" "settled u3" "dev u3 = dev u2" using reply_delivered [OF 2(2)] by blast
  from 1 2 3 show ?thesis
    unfolding round_trip_eq schedule_append [of _ _ "replicate 4 CPU_Main @ replicate 4 CPU_Data"]
      schedule_append [of _ _ "replicate 5 MEM_Data @ replicate 3 MEM_Main @ replicate 2 MEM_Data"]
    by simp
qed

section \<open>Schedules as runs\<close>

lemma u_steps_trans: "u_steps E excl u' u'' \<Longrightarrow> u_steps E excl u u' \<Longrightarrow> u_steps E excl u u''"
  by (induction rule: u_steps.induct) (auto intro: u_steps.intros)

lemma schedule_steps: "schedule E junk ts u = Some u' \<Longrightarrow> u_steps E False u u'"
proof (induction ts arbitrary: u)
  case Nil
  then show ?case by (auto intro: u_refl)
next
  case (Cons t ts)
  then obtain u1 where 1: "u_step E junk t u = Some u1" "schedule E junk ts u1 = Some u'"
    by (auto split: option.splits)
  have "u_steps E False u u1" by (rule u_next [OF u_refl 1(1)]) simp
  with Cons.IH [OF 1(2)] show ?case by (rule u_steps_trans)
qed

lemma schedule_main_steps:
  "CPU_Data \<notin> set ts \<Longrightarrow> schedule E junk ts u = Some u' \<Longrightarrow> u_steps E True u u'"
proof (induction ts arbitrary: u)
  case Nil
  then show ?case by (auto intro: u_refl)
next
  case (Cons t ts)
  then obtain u1 where 1: "u_step E junk t u = Some u1" "schedule E junk ts u1 = Some u'"
    by (auto split: option.splits)
  have "u_steps E True u u1" using Cons.prems by (intro u_next [OF u_refl 1(1)]) auto
  with Cons.IH [OF _ 1(2)] Cons.prems show ?case by (auto intro: u_steps_trans)
qed

definition past_request :: "m_loc \<Rightarrow> bool" where
  "past_request l \<longleftrightarrow> (\<forall>x. l \<noteq> At_Op x) \<and> \<not> in_request l"

lemma past_request_step:
  "u_step E junk t u = Some u' \<Longrightarrow> past_request (m_at u) \<Longrightarrow> past_request (m_at u')"
  by (cases t)
    (auto simp: u_step_def m_step_def past_request_def in_request_def deliver_def m_wake_def
      split: option.splits m_loc.splits prod.splits if_splits)

lemma schedule_late_steps:
  "past_request (m_at u) \<Longrightarrow> schedule E junk ts u = Some u' \<Longrightarrow> u_steps E True u u'"
proof (induction ts arbitrary: u)
  case Nil
  then show ?case by (auto intro: u_refl)
next
  case (Cons t ts)
  then obtain u1 where 1: "u_step E junk t u = Some u1" "schedule E junk ts u1 = Some u'"
    by (auto split: option.splits)
  have "u_steps E True u u1" using Cons.prems(1) by (intro u_next [OF u_refl 1(1)]) (auto simp: past_request_def)
  with Cons.IH [OF past_request_step [OF 1(1) Cons.prems(1)] 1(2)] show ?case by (rule u_steps_trans)
qed

lemma round_trip_steps:
  assumes "settled u" and "schedule net_up junk round_trip (ask x u) = Some u'"
  shows "u_steps net_up True (ask x u) u'"
proof -
  obtain mst where 1: "schedule net_up junk (replicate 4 CPU_Main) (ask x u) =
      Some (u\<lparr>m_at := Master_Waiting x, cpu_sh := (cpu_sh u)\<lparr>master := mst\<rparr>\<rparr>)" (is "_ = Some ?u")
    using request_made [OF assms(1), of junk x] by blast
  have "u_steps net_up True (ask x u) ?u"
    using schedule_main_steps [OF _ 1] by simp
  moreover have "u_steps net_up True ?u u'"
  proof (rule schedule_late_steps)
    show "past_request (m_at ?u)" by (simp add: past_request_def in_request_def)
    show "schedule net_up junk (replicate 4 CPU_Data @ replicate 5 MEM_Data @ replicate 3 MEM_Main @
     replicate 2 MEM_Data @ replicate 5 CPU_Data @ [CPU_Main]) ?u = Some u'"
      using assms(2) 1 unfolding round_trip_def schedule_append [of _ _ "replicate 4 CPU_Main"] by simp
  qed
  ultimately show ?thesis by (rule u_steps_trans [rotated])
qed

section \<open>The bus of the CPU\<close>

text \<open>
  What the scheduler does while the CPU waits for one transfer: the threads that make a step,
  each with what the sockets do and with the indeterminate bytes of a new datagram. A thread
  that is blocked is passed over, and so is a data bus thread of the CPU that would read a
  request which the main thread is still writing. Everything else that the four threads can do
  is a list of slots, and a run of the CPU takes one list for each of its transfers.
\<close>

type_synonym slot = "net_env \<times> data_bus_req \<times> tid"

type_synonym net_bus = "unibus \<times> slot list stream"

definition run_slot :: "slot \<Rightarrow> unibus \<Rightarrow> unibus" where
  "run_slot = (\<lambda>(E, junk, t) u.
     if t = CPU_Data \<and> d_at (cpu_thr u) = At_Poll \<and> in_request (m_at u) then u
     else (case u_step E junk t u of None \<Rightarrow> u | Some u' \<Rightarrow> u'))"

text \<open>A transfer that has not returned when its slots are used up is taken to hang.\<close>

definition transact :: "xfer \<Rightarrow> net_bus \<Rightarrow> (u16 \<times> net_bus) res" where
  "transact x = (\<lambda>(u, S).
     (let u' = fold run_slot (shd S) (ask x u)
      in case m_at u' of
           Returned v b \<Rightarrow> Inr (v, (u', stl S))
         | _ \<Rightarrow> Inl (Bus_Hang (xfer_addr x))))"

definition unibus_ops :: "net_bus bus_ops" where
  "unibus_ops =
     \<lparr>read_data_in = (\<lambda>a b. transact (Rd a) b),
      write_data_out = (\<lambda>a w b. rbind (transact (Wr a w) b) (\<lambda>(v, b'). Inr b')),
      write_data_out_b = (\<lambda>a c b. rbind (transact (Wrb a c) b) (\<lambda>(v, b'). Inr b'))\<rparr>"

lemma run_slot_steps: "u_steps E True u (run_slot (E, junk, t) u)"
  by (cases "u_step E junk t u") (auto simp: run_slot_def intro: u_refl u_next [OF u_refl])

lemma run_slot_xinv: "xinv x d u \<Longrightarrow> xinv x d (run_slot sl u)"
  using steps_xinv [OF run_slot_steps TrueI] by (cases sl) auto

lemma run_slots_xinv: "xinv x d u \<Longrightarrow> xinv x d (fold run_slot ss u)"
  by (induction ss arbitrary: u) (simp_all add: run_slot_xinv)

text \<open>Whatever the schedule: a transfer hangs, or it was performed and the next one can start.\<close>

lemma transact_cases:
  assumes "ready u"
  shows "transact x (u, S) = Inl (Bus_Hang (xfer_addr x)) \<or>
    (\<exists>v u'. transact x (u, S) = Inr (v, (u', stl S)) \<and> performed x (dev u) v (dev u') \<and> ready u')"
proof -
  let ?u = "fold run_slot (shd S) (ask x u)"
  have "xinv x (dev u) ?u" by (rule run_slots_xinv [OF ask_xinv [OF assms]])
  from xinv_returned [OF this] show ?thesis by (cases "m_at ?u") (auto simp: transact_def)
qed

lemma performed_local: "performed x d v d' \<Longrightarrow> is_local_addr (xfer_addr x)"
  by (cases x) auto

lemma transact_remote:
  "ready u \<Longrightarrow> \<not> is_local_addr (xfer_addr x) \<Longrightarrow> transact x (u, S) = Inl (Bus_Hang (xfer_addr x))"
  using transact_cases [of u x S] performed_local by blast

section \<open>The fair schedule keeps the contract of a memory\<close>

definition zero_req :: data_bus_req where
  "zero_req = \<lparr>d_from = [], msg_type = DBM_REQ, ctl = D_DATI, d_addr = 0, d_data = 0, msyn = 0, ssyn = 0\<rparr>"

definition up_slots :: "tid list \<Rightarrow> slot list" where
  "up_slots ts = map (\<lambda>t. (net_up, zero_req, t)) ts"

definition fair :: "slot list stream" where
  "fair = sconst (up_slots round_trip)"

lemma up_slots_append: "fold run_slot (up_slots (ts @ ts')) u = fold run_slot (up_slots ts') (fold run_slot (up_slots ts) u)"
  by (simp add: up_slots_def)

lemma main_slots:
  "CPU_Data \<notin> set ts \<Longrightarrow> schedule net_up zero_req ts u = Some u' \<Longrightarrow> fold run_slot (up_slots ts) u = u'"
  by (induction ts arbitrary: u) (auto simp: up_slots_def run_slot_def split: option.splits)

lemma late_slots:
  "past_request (m_at u) \<Longrightarrow> schedule net_up zero_req ts u = Some u' \<Longrightarrow> fold run_slot (up_slots ts) u = u'"
proof (induction ts arbitrary: u)
  case (Cons t ts)
  then obtain u1 where 1: "u_step net_up zero_req t u = Some u1" "schedule net_up zero_req ts u1 = Some u'"
    by (auto split: option.splits)
  have "run_slot (net_up, zero_req, t) u = u1"
    using Cons.prems(1) 1(1) by (simp add: run_slot_def past_request_def)
  with Cons.IH [OF past_request_step [OF 1(1) Cons.prems(1)] 1(2)] show ?case by (simp add: up_slots_def)
qed (simp add: up_slots_def)

lemma round_trip_slots:
  assumes "settled u" and "schedule net_up zero_req round_trip (ask x u) = Some u'"
  shows "fold run_slot (up_slots round_trip) (ask x u) = u'"
proof -
  let ?ts = "replicate 4 CPU_Data @ replicate 5 MEM_Data @ replicate 3 MEM_Main @
     replicate 2 MEM_Data @ replicate 5 CPU_Data @ [CPU_Main]"
  obtain mst where 1: "schedule net_up zero_req (replicate 4 CPU_Main) (ask x u) =
      Some (u\<lparr>m_at := Master_Waiting x, cpu_sh := (cpu_sh u)\<lparr>master := mst\<rparr>\<rparr>)" (is "_ = Some ?u")
    using request_made [OF assms(1), of zero_req x] by blast
  have "past_request (m_at ?u)" by (simp add: past_request_def in_request_def)
  moreover have "schedule net_up zero_req ?ts ?u = Some u'"
    using assms(2) 1 unfolding round_trip_def schedule_append [of _ _ "replicate 4 CPU_Main"] by simp
  ultimately have "fold run_slot (up_slots ?ts) ?u = u'" by (rule late_slots)
  with main_slots [OF _ 1] show ?thesis
    unfolding round_trip_def up_slots_append [of "replicate 4 CPU_Main"] by simp
qed

definition on_fair :: "net_bus \<Rightarrow> bool" where
  "on_fair b \<longleftrightarrow> settled (fst b) \<and> snd b = fair"

lemma settled_ready: "settled u \<Longrightarrow> ready u"
  by (simp add: settled_def)

lemma transact_fair:
  assumes "on_fair b" and "performed x (dev (fst b)) v d'"
  shows "\<exists>b'. transact x b = Inr (v, b') \<and> on_fair b' \<and> dev (fst b') = d'"
proof -
  obtain u where b: "b = (u, fair)" and u: "settled u" using assms(1) by (cases b) (auto simp: on_fair_def)
  have "performed x (dev u) v d'" using assms(2) by (simp add: b)
  from round_trip_returns [OF u performed_local [OF this] this, of zero_req] obtain u' where
    s: "schedule net_up zero_req round_trip (ask x u) = Some u'" and u': "m_at u' = Returned v True" "settled u'" "dev u' = d'"
    by blast
  have "shd fair = up_slots round_trip" "stl fair = fair" by (simp_all add: fair_def)
  with u' round_trip_slots [OF u s] show ?thesis
    by (intro exI [of _ "(u', fair)"]) (simp add: transact_def b on_fair_def)
qed

lemma transact_hang:
  "on_fair b \<Longrightarrow> \<not> is_local_addr (xfer_addr x) \<Longrightarrow> transact x b = Inl (Bus_Hang (xfer_addr x))"
  using transact_remote [of "fst b" x "snd b"] by (cases b) (simp add: on_fair_def settled_ready)

lemma unibus_memory: "bus_memory unibus_ops on_fair (\<lambda>b. store (dev (fst b))) MEMBYTES 65535"
proof
  fix b :: net_bus and a :: u32 and w :: u16 and v :: u8
  assume s: "on_fair b"
  let ?d = "dev (fst b)"
  show "\<exists>b'. read_data_in unibus_ops a b = Inr (le_word (store ?d (unat a)) (store ?d (unat a + 1)), b')
      \<and> on_fair b' \<and> store (dev (fst b')) = store ?d" if "unat a + 1 < MEMBYTES"
    using transact_fair [OF s, of "Rd a" _ ?d] that
    by (fastforce simp: unibus_ops_def mem_bus_def is_local_addr_unat read_word_in_bounds)
  show "\<exists>b'. write_data_out unibus_ops a w b = Inr b' \<and> on_fair b' \<and>
      store (dev (fst b')) = (store ?d)(unat a := lo_byte w, unat a + 1 := hi_byte w)" if "unat a + 1 < MEMBYTES"
    using transact_fair [OF s, of "Wr a w" 0] that
    by (fastforce simp: unibus_ops_def mem_bus_def is_local_addr_unat write_word_in_bounds)
  show "\<exists>b'. write_data_out_b unibus_ops a v b = Inr b' \<and> on_fair b' \<and>
      store (dev (fst b')) = (store ?d)(unat a := v)" if "unat a < MEMBYTES"
    using transact_fair [OF s, of "Wrb a v" 0] that
    by (fastforce simp: unibus_ops_def mem_bus_def is_local_addr_unat write_byte_in_bounds)
  show "read_data_in unibus_ops a b = Inl (Bus_Hang a)" if "65535 < unat a"
    using transact_hang [OF s, of "Rd a"] that by (simp add: unibus_ops_def is_local_addr_unat)
  show "write_data_out unibus_ops a w b = Inl (Bus_Hang a)" if "65535 < unat a"
    using transact_hang [OF s, of "Wr a w"] that by (simp add: unibus_ops_def is_local_addr_unat)
  show "write_data_out_b unibus_ops a v b = Inl (Bus_Hang a)" if "65535 < unat a"
    using transact_hang [OF s, of "Wrb a v"] that by (simp add: unibus_ops_def is_local_addr_unat)
qed

interpretation net: bus_memory unibus_ops on_fair "\<lambda>b. store (dev (fst b))" MEMBYTES 65535
  by (rule unibus_memory)

interpretation net_cpu: cpu_bus unibus_ops on_fair "\<lambda>b. store (dev (fst b))" MEMBYTES 65535
  by unfold_locales simp_all

section \<open>Starting the two processes\<close>

text \<open>
  The CPU process up to the start of its data bus thread: \<open>init_bus\<close> with the memory as
  right neighbour, \<open>connect_cpu_bus\<close>, which makes it bus master, and the first part of
  \<open>data_bus_mgr\<close>. The memory process likewise, with the CPU as left neighbour and its
  address check registered. \<open>None\<close> when a call fails.
\<close>

definition start_cpu :: "init_env \<Rightarrow> net_env \<Rightarrow> data_state \<Rightarrow> (bus_state \<times> data_state) option" where
  "start_cpu E N junk =
     (case init_bus E None (Some ''cpu'') (Some ''mem'') of
        None \<Rightarrow> None
      | Some bus \<Rightarrow>
          (let bus = bus\<lparr>is_master := 1\<rparr>
           in case data_bus_start N junk bus of
                Inl e \<Rightarrow> None
              | Inr d \<Rightarrow> map_option (\<lambda>d. (bus, d)) d))"

definition start_mem :: "init_env \<Rightarrow> net_env \<Rightarrow> data_state \<Rightarrow> (bus_state \<times> data_state) option" where
  "start_mem E N junk =
     (case init_bus E (Some ''cpu'') (Some ''mem'') None of
        None \<Rightarrow> None
      | Some bus \<Rightarrow>
          (let bus = bus\<lparr>addr_internal_to_device := Some is_local_addr\<rparr>
           in case data_bus_start N junk bus of
                Inl e \<Rightarrow> None
              | Inr d \<Rightarrow> map_option (\<lambda>d. (bus, d)) d))"

definition system :: "bus_state \<times> data_state \<Rightarrow> bus_state \<times> data_state \<Rightarrow> mem_dev \<Rightarrow> unibus" where
  "system c m d =
     \<lparr>m_at = Returned 0 True, cpu_sh = fst c, cpu_ds = snd c,
      cpu_thr = \<lparr>d_at = At_Poll, d_is_master = 0, d_shutdown = 0\<rparr>, cpu_in = [],
      s_at = Perma_Waiting, mem_sh = fst m, mem_ds = snd m,
      mem_thr = \<lparr>d_at = At_Poll, d_is_master = 0, d_shutdown = 0\<rparr>, mem_in = [], dev = d\<rparr>"

text \<open>
  An environment in which every call of \<open>init_bus\<close> succeeds and \<open>malloc\<close> returns zeroed
  memory.
\<close>

definition zero_bus :: bus_state where
  "zero_bus = \<lparr>is_master = 0, req_master = 0, rel_master = 0, shutdown = 0, l_sock = None, sock = None,
     r_sock = None, master = \<lparr>x_op = R_IN, x_addr = 0, x_value = 0\<rparr>,
     slave = \<lparr>x_op = R_IN, x_addr = 0, x_value = 0\<rparr>, addr_internal_to_device = None, inited = []\<rparr>"

definition env_up :: init_env where
  "env_up = \<lparr>bus_malloc_ok = True, malloc_junk = zero_bus, stat_dir = Stat_Ok, mkdir_ok = True,
     sync_init_ok = (\<lambda>_. True)\<rparr>"

definition zero_data :: data_state where
  "zero_data = \<lparr>d_out_addr_l = [], d_out_addr_r = [], d_in_addr = [], d_bus_in = 0, d_bus_out_l = 0,
     d_bus_out_r = 0, buffer = \<lparr>x_op = R_IN, x_addr = 0, x_value = 0\<rparr>, req_issued = 0, ack_received = 0,
     is_addr_internal = None\<rparr>"

definition booted :: "mem_dev \<Rightarrow> unibus" where
  "booted d = system (the (start_cpu env_up net_up zero_data)) (the (start_mem env_up net_up zero_data)) d"

lemma start_settled:
  assumes "start_cpu E N junk = Some c" and "start_mem E' N' junk' = Some m"
    and "shutdown (malloc_junk E) = 0" and "shutdown (malloc_junk E') = 0"
    and "addr_internal_to_device (malloc_junk E) = None"
  shows "settled (system c m d)"
  using assms
  by (auto simp: start_cpu_def start_mem_def init_bus_def data_bus_start_def init_data_state_def Let_def
      init_sync_some data_neighbour_def d_socket_path_def settled_def ready_def wired_def system_def looping_def idle_def
      split: if_splits)

lemma start_up: "start_cpu env_up net_up zero_data \<noteq> None" "start_mem env_up net_up zero_data \<noteq> None"
  by (simp_all add: start_cpu_def start_mem_def env_up_def init_bus_def setup_socket_dir_def init_sync_some
      data_bus_start_def init_data_state_def Let_def data_neighbour_def)

lemma booted_settled [simp]: "settled (booted d)"
proof -
  obtain c m where st: "start_cpu env_up net_up zero_data = Some c" "start_mem env_up net_up zero_data = Some m"
    using start_up by auto
  then show ?thesis
    using start_settled [OF st] by (simp add: booted_def) (simp add: env_up_def zero_bus_def)
qed

lemma booted_fields [simp]: "dev (booted d) = d" "s_at (booted d) = Perma_Waiting"
  by (simp_all add: booted_def system_def)

end
