(* ===== verification/Bus_Refine.thy ===== *)
theory Bus_Refine
  imports Cpu_Run
begin

text \<open>
  The CPU on two buses. If every cycle of one bus has on the other the same result or fails in
  one of a given set of ways, then so have every instruction, every run and the loop of the CPU
  (\<open>bus_sim\<close>, proved once). On two buses that meet the contract of the CPU with equal memory
  contents no further failure is possible (\<open>bus_pair\<close>): the CPU cannot tell them apart.
\<close>

section \<open>The same CPU on another bus\<close>

definition rebus :: "'c \<Rightarrow> 'b machine \<Rightarrow> 'c machine" where
  "rebus b m = cpu.extend (cpu.truncate m) \<lparr>BUS_REF = b\<rparr>"

lemma rebus_fields [simp]:
  "r0 (rebus b m) = r0 m" "r1 (rebus b m) = r1 m" "r2 (rebus b m) = r2 m" "r3 (rebus b m) = r3 m"
  "r4 (rebus b m) = r4 m" "r5 (rebus b m) = r5 m" "sp (rebus b m) = sp m" "pc (rebus b m) = pc m"
  "psw (rebus b m) = psw m" "alu (rebus b m) = alu m" "ir (rebus b m) = ir m"
  "src_address (rebus b m) = src_address m" "dest_address (rebus b m) = dest_address m"
  "halted (rebus b m) = halted m" "BUS_REF (rebus b m) = b"
  by (simp_all add: rebus_def cpu.defs)

lemma rebus_updates [simp]:
  "(rebus b m)\<lparr>r0 := v\<rparr> = rebus b (m\<lparr>r0 := v\<rparr>)" "(rebus b m)\<lparr>r1 := v\<rparr> = rebus b (m\<lparr>r1 := v\<rparr>)"
  "(rebus b m)\<lparr>r2 := v\<rparr> = rebus b (m\<lparr>r2 := v\<rparr>)" "(rebus b m)\<lparr>r3 := v\<rparr> = rebus b (m\<lparr>r3 := v\<rparr>)"
  "(rebus b m)\<lparr>r4 := v\<rparr> = rebus b (m\<lparr>r4 := v\<rparr>)" "(rebus b m)\<lparr>r5 := v\<rparr> = rebus b (m\<lparr>r5 := v\<rparr>)"
  "(rebus b m)\<lparr>sp := v\<rparr> = rebus b (m\<lparr>sp := v\<rparr>)" "(rebus b m)\<lparr>pc := v\<rparr> = rebus b (m\<lparr>pc := v\<rparr>)"
  "(rebus b m)\<lparr>psw := v\<rparr> = rebus b (m\<lparr>psw := v\<rparr>)" "(rebus b m)\<lparr>alu := v\<rparr> = rebus b (m\<lparr>alu := v\<rparr>)"
  "(rebus b m)\<lparr>ir := v\<rparr> = rebus b (m\<lparr>ir := v\<rparr>)"
  "(rebus b m)\<lparr>src_address := a\<rparr> = rebus b (m\<lparr>src_address := a\<rparr>)"
  "(rebus b m)\<lparr>dest_address := a\<rparr> = rebus b (m\<lparr>dest_address := a\<rparr>)"
  "(rebus b m)\<lparr>halted := h\<rparr> = rebus b (m\<lparr>halted := h\<rparr>)"
  "(rebus b m)\<lparr>BUS_REF := c\<rparr> = rebus c m"
  by (simp_all add: rebus_def cpu.defs)

lemma rebus_rebus [simp]: "rebus b (rebus c m) = rebus b m" "rebus (BUS_REF m) m = m"
  by (simp_all add: rebus_def cpu.defs)

lemma rebus_bus [simp]: "rebus b (m\<lparr>BUS_REF := c\<rparr>) = rebus b m"
  by (simp add: rebus_def cpu.defs)

lemma rebus_inject [simp]: "rebus b m = rebus c m \<longleftrightarrow> b = c"
  by (simp add: rebus_def cpu.defs)

lemma rebus_flags [simp]:
  "set_zero_flag v (rebus b m) = rebus b (set_zero_flag v m)"
  "set_negative_flag_b c (rebus b m) = rebus b (set_negative_flag_b c m)"
  "set_negative_flag_w v (rebus b m) = rebus b (set_negative_flag_w v m)"
  by (simp_all add: flags_psw)

lemma rebus_registers [simp]:
  "get_reg p (rebus b m) = get_reg p m" "set_reg p v (rebus b m) = rebus b (set_reg p v m)"
  "BUS_REF (set_reg p v m) = BUS_REF m"
  by (cases p; simp)+

lemma rebus_register_ops [simp]:
  "inc_register w f (rebus b m) = rebus b (inc_register w f m)"
  "dec_register w f (rebus b m) = rebus b (dec_register w f m)"
  "BUS_REF (inc_register w f m) = BUS_REF m" "BUS_REF (dec_register w f m) = BUS_REF m"
  "fetch_register_contents w (rebus b m) = fetch_register_contents w m"
  "get_branch_offset (rebus b m) = get_branch_offset m"
  by (auto simp: inc_register_def dec_register_def fetch_register_contents_def get_branch_offset_def
      split: option.split)

section \<open>Results that may fail in further ways\<close>

definition hang_rel :: "(fault \<Rightarrow> bool) \<Rightarrow> ('a \<Rightarrow> 'b \<Rightarrow> bool) \<Rightarrow> 'a res \<Rightarrow> 'b res \<Rightarrow> bool" where
  "hang_rel H R r s \<longleftrightarrow> (\<exists>e. s = Inl e \<and> H e) \<or> res_rel R r s"

lemma hang_rel_simps [simp]:
  "hang_rel H R r (Inl e) \<longleftrightarrow> H e \<or> r = Inl e"
  "hang_rel H R (Inr x) (Inr y) = R x y"
  "hang_rel H R (Inl e) (Inr y) = False"
  by (cases r; simp add: hang_rel_def; blast)+

lemma hang_rel_rbind:
  assumes "hang_rel H R r s" and "\<And>x y. R x y \<Longrightarrow> hang_rel H S (f x) (g y)"
  shows "hang_rel H S (rbind r f) (rbind s g)"
  using assms by (cases r; cases s) auto

section \<open>Two buses\<close>

locale bus_sim =
  fixes B :: "'b bus_ops"
    and B' :: "'c bus_ops"
    and linked :: "'b \<Rightarrow> 'c \<Rightarrow> bool"
    and H :: "fault \<Rightarrow> bool"
  assumes read_sim: "linked x y \<Longrightarrow> hang_rel H (\<lambda>(v, x') (w, y'). v = w \<and> linked x' y')
      (read_data_in B (translate_bus_addr c) x) (read_data_in B' (translate_bus_addr c) y)"
    and write_sim: "linked x y \<Longrightarrow> hang_rel H linked
      (write_data_out B (translate_bus_addr c) w x) (write_data_out B' (translate_bus_addr c) w y)"
    and writeb_sim: "linked x y \<Longrightarrow> hang_rel H linked
      (write_data_out_b B (translate_bus_addr c) k x) (write_data_out_b B' (translate_bus_addr c) k y)"
begin

definition twin :: "'b machine \<Rightarrow> 'c machine \<Rightarrow> bool" where
  "twin m m' \<longleftrightarrow> (\<exists>y. m' = rebus y m \<and> linked (BUS_REF m) y)"

definition twins :: "'b machine res \<Rightarrow> 'c machine res \<Rightarrow> bool" where
  "twins r s \<longleftrightarrow> hang_rel H twin r s"

definition twins2 :: "('v \<times> 'b machine) res \<Rightarrow> ('v \<times> 'c machine) res \<Rightarrow> bool" where
  "twins2 r s \<longleftrightarrow> hang_rel H (\<lambda>(v, m) (w, m'). v = w \<and> twin m m') r s"

lemma twinsI: "linked (BUS_REF m) y \<Longrightarrow> twins (Inr m) (Inr (rebus y m))"
  by (auto simp: twins_def twin_def)

lemma twins2I: "linked (BUS_REF m) y \<Longrightarrow> twins2 (Inr (v, m)) (Inr (v, rebus y m))"
  by (auto simp: twins2_def twin_def)

lemma twins_rbind:
  assumes "twins r s" and "\<And>m y. linked (BUS_REF m) y \<Longrightarrow> twins (f m) (g (rebus y m))"
  shows "twins (rbind r f) (rbind s g)"
  using assms unfolding twins_def by (elim hang_rel_rbind) (auto simp: twin_def)

lemma twins2_rbind:
  assumes "twins2 r s" and "\<And>v m y. linked (BUS_REF m) y \<Longrightarrow> twins (f (v, m)) (g (v, rebus y m))"
  shows "twins (rbind r f) (rbind s g)"
  using assms unfolding twins_def twins2_def by (elim hang_rel_rbind) (auto simp: twin_def)

lemma twins2_rbind2:
  assumes "twins2 r s" and "\<And>v m y. linked (BUS_REF m) y \<Longrightarrow> twins2 (f (v, m)) (g (v, rebus y m))"
  shows "twins2 (rbind r f) (rbind s g)"
  using assms unfolding twins2_def by (elim hang_rel_rbind) (auto simp: twin_def)

lemma twins_rbind2:
  assumes "twins r s" and "\<And>m y. linked (BUS_REF m) y \<Longrightarrow> twins2 (f m) (g (rebus y m))"
  shows "twins2 (rbind r f) (rbind s g)"
  using assms unfolding twins_def twins2_def by (elim hang_rel_rbind) (auto simp: twin_def)

lemma fetch_twins:
  "linked (BUS_REF m) y \<Longrightarrow> twins2 (fetch_data B ad m) (fetch_data B' ad (rebus y m))"
  unfolding twins2_def fetch_data_def
  by (auto simp: internal_register fetch_data_register_def twin_def intro!: hang_rel_rbind [OF read_sim])

lemma store_register_twins:
  "linked (BUS_REF m) y \<Longrightarrow> twins (store_data_register ad d m) (store_data_register ad d (rebus y m))"
  by (auto simp: store_data_register_def twins_def twin_def split: option.split)

lemma store_twins:
  "linked (BUS_REF m) y \<Longrightarrow> twins (store_data B ad d m) (store_data B' ad d (rebus y m))"
  using store_register_twins unfolding twins_def store_data_def
  by (auto simp: twin_def intro!: hang_rel_rbind [OF write_sim])

lemma storeb_twins:
  "linked (BUS_REF m) y \<Longrightarrow> twins (store_data_b B ad d m) (store_data_b B' ad d (rebus y m))"
  using store_register_twins unfolding twins_def store_data_b_def
  by (auto simp: twin_def intro!: hang_rel_rbind [OF writeb_sim])

lemma addressing_twins:
  assumes "linked (BUS_REF m) y"
  shows "twins2 (setup_pc_addressing B mode reg loc m) (setup_pc_addressing B' mode reg loc (rebus y m))"
    and "twins2 (setup_sp_addressing B mode reg loc m) (setup_sp_addressing B' mode reg loc (rebus y m))"
    and "twins2 (setup_general_addressing B mode reg loc m) (setup_general_addressing B' mode reg loc (rebus y m))"
    and "twins2 (setup_general_byte_addressing B mode reg loc m)
           (setup_general_byte_addressing B' mode reg loc (rebus y m))"
  using assms
  by (auto simp: setup_pc_addressing_def setup_sp_addressing_def setup_general_addressing_def
      setup_general_byte_addressing_def Let_def
      intro!: twins2I twins2_rbind2 twins_rbind2 fetch_twins store_twins)

lemma dest_twins:
  "linked (BUS_REF m) y \<Longrightarrow> twins (setup_dest_addressing B f m) (setup_dest_addressing B' f (rebus y m))"
  by (auto simp: setup_dest_addressing_def Let_def intro!: twins2_rbind addressing_twins twinsI)

lemma src_twins:
  "linked (BUS_REF m) y \<Longrightarrow> twins (setup_src_addressing B f m) (setup_src_addressing B' f (rebus y m))"
  by (auto simp: setup_src_addressing_def Let_def intro!: twins2_rbind addressing_twins twinsI)

lemmas twins_intros = twins_rbind twins2_rbind twinsI fetch_twins store_twins storeb_twins
  store_register_twins dest_twins src_twins

lemma exec_op_twins:
  assumes "linked (BUS_REF m) y"
  shows "twins (exec_op B c m) (exec_op B' c (rebus y m))"
  using assms
  by (cases c) (auto simp: operand_defs branch_defs nop_defs Let_def intro!: twins_intros)

lemma cycle_twins:
  assumes "linked (BUS_REF m) y"
  shows "twins (cpu_cycle B m) (cpu_cycle B' (rebus y m))"
  unfolding cpu_cycle_def exec_instruction_def HALT_def using assms
  by (auto simp: Let_def split: option.split intro!: twins2_rbind fetch_twins twinsI exec_op_twins)

section \<open>Runs\<close>

text \<open>A run on the first bus is one on the second, or the loop fails on the second.\<close>

lemma run_twins:
  "run B m cs m1 \<Longrightarrow> linked (BUS_REF m) y \<Longrightarrow>
   (\<exists>e. execute B' (rebus y m) = Some (Inl e) \<and> H e) \<or>
   (\<exists>y1. run B' (rebus y m) cs (rebus y1 m1) \<and> linked (BUS_REF m1) y1)"
proof (induction arbitrary: y rule: run.induct)
  case (run_Nil m)
  then show ?case by (auto intro: run.run_Nil)
next
  case (run_Cons m c m1 cs m2)
  from run_Cons.hyps(1) have h: "halted m = 0" and e: "cpu_cycle B m = Inr m1" and c: "c = decode (ir m1)"
    by (auto elim: cpu_stepE)
  show ?case
  proof (cases "cpu_cycle B' (rebus y m)")
    case (Inl f)
    then have "H f" using cycle_twins [OF run_Cons.prems] e by (simp add: twins_def)
    moreover have "execute B' (rebus y m) = Some (Inl f)" using Inl h by (intro execute_final) (simp add: final_def)
    ultimately show ?thesis by blast
  next
    case (Inr m')
    then obtain y1 where 1: "m' = rebus y1 m1" "linked (BUS_REF m1) y1"
      using cycle_twins [OF run_Cons.prems] e by (auto simp: twins_def twin_def)
    then have "cpu_step B' (rebus y m) c (rebus y1 m1)" using cpu_step.cycle [OF _ Inr] h c by simp
    with run_Cons.IH [OF 1(2)] show ?thesis by (auto simp: execute_step intro: run.run_Cons)
  qed
qed

text \<open>A run on the second bus is one on the first.\<close>

lemma run_back:
  "run B' m' cs m1' \<Longrightarrow> m' = rebus y m \<Longrightarrow> linked (BUS_REF m) y \<Longrightarrow>
   \<exists>m1 y1. run B m cs m1 \<and> m1' = rebus y1 m1 \<and> linked (BUS_REF m1) y1"
proof (induction arbitrary: m y rule: run.induct)
  case (run_Nil m')
  then show ?case by (auto intro: run.run_Nil)
next
  case (run_Cons m' c m1' cs m2')
  from run_Cons.hyps(1) have h: "halted m' = 0" and e: "cpu_cycle B' m' = Inr m1'" and c: "c = decode (ir m1')"
    by (auto elim: cpu_stepE)
  from cycle_twins [OF run_Cons.prems(2)] obtain m1 y1 where
    1: "cpu_cycle B m = Inr m1" "m1' = rebus y1 m1" "linked (BUS_REF m1) y1"
    using e unfolding run_Cons.prems(1) by (cases "cpu_cycle B m") (auto simp: twins_def twin_def)
  then have "cpu_step B m c m1" using cpu_step.cycle [OF _ 1(1)] h c run_Cons.prems(1) by simp
  with run_Cons.IH [OF 1(2,3)] show ?case by (blast intro: run.run_Cons)
qed

lemma final_twins:
  assumes "linked (BUS_REF m) y"
  shows "final B m r \<Longrightarrow> \<exists>s. final B' (rebus y m) s \<and> twins r s"
    and "final B' (rebus y m) s \<Longrightarrow> (\<exists>e. s = Inl e \<and> H e) \<or> (\<exists>r. final B m r \<and> twins r s)"
proof -
  show "\<exists>s. final B' (rebus y m) s \<and> twins r s" if f: "final B m r"
  proof (cases "halted m = 0")
    case True
    with f obtain e where "cpu_cycle B m = Inl e" "r = Inl e" by (auto simp: final_def)
    with cycle_twins [OF assms] True show ?thesis
      by (cases "cpu_cycle B' (rebus y m)") (auto simp: final_def twins_def)
  qed (use f assms in \<open>auto simp: final_def intro: twinsI\<close>)
  show "(\<exists>e. s = Inl e \<and> H e) \<or> (\<exists>r. final B m r \<and> twins r s)" if f: "final B' (rebus y m) s"
  proof (cases "halted m = 0")
    case True
    with f obtain e where "cpu_cycle B' (rebus y m) = Inl e" "s = Inl e" by (auto simp: final_def)
    with cycle_twins [OF assms] True show ?thesis by (auto simp: final_def twins_def)
  qed (use f assms in \<open>auto simp: final_def intro: twinsI\<close>)
qed

text \<open>The loops agree, unless the one on the second bus fails in one of the further ways.\<close>

lemma execute_sim:
  assumes "linked (BUS_REF m) y"
  shows "(\<exists>e. execute B' (rebus y m) = Some (Inl e) \<and> H e) \<or>
    rel_option (res_rel twin) (execute B m) (execute B' (rebus y m))"
proof (cases "execute B m")
  case (Some r)
  from execute_has_run [OF Some] obtain cs m1 where rn: "run B m cs m1" and f: "final B m1 r" by blast
  show ?thesis
  proof (cases "\<exists>e. execute B' (rebus y m) = Some (Inl e) \<and> H e")
    case False
    with run_twins [OF rn assms] obtain y1 where
      1: "run B' (rebus y m) cs (rebus y1 m1)" "linked (BUS_REF m1) y1" by blast
    from final_twins(1) [OF 1(2) f] obtain s where s: "final B' (rebus y1 m1) s" "twins r s" by blast
    have e: "execute B' (rebus y m) = Some s" using execute_run [OF 1(1)] execute_final [OF s(1)] by simp
    with False s(2) Some show ?thesis by (auto simp: twins_def hang_rel_def)
  qed simp
next
  case None
  show ?thesis
  proof (cases "execute B' (rebus y m)")
    case (Some s)
    from execute_has_run [OF Some] obtain cs m1' where rn: "run B' (rebus y m) cs m1'" and f: "final B' m1' s" by blast
    from run_back [OF rn refl assms] obtain m1 y1 where
      1: "run B m cs m1" "m1' = rebus y1 m1" "linked (BUS_REF m1) y1" by blast
    have "\<not> final B m1 r" for r using execute_run [OF 1(1)] execute_final [of B m1 r] None by auto
    with final_twins(2) [OF 1(3)] f 1(2) Some show ?thesis by auto
  qed (simp add: None)
qed

end

section \<open>Two buses with the same memory\<close>

locale bus_pair =
  a: cpu_bus B inv cell lim top + b: cpu_bus B' inv' cell' lim' top'
  for B :: "'b bus_ops" and inv cell lim top and B' :: "'c bus_ops" and inv' cell' lim' top'
begin

definition same_cells :: "'b \<Rightarrow> 'c \<Rightarrow> bool" where
  "same_cells x y \<longleftrightarrow> inv x \<and> inv' y \<and> cell x = cell' y"

end

sublocale bus_pair \<subseteq> bus_sim B B' same_cells "\<lambda>_. False"
proof
  fix x y c and w :: u16 and k :: u8
  assume l: "same_cells x y"
  note l = l [unfolded same_cells_def] and t = translate_cases [of c] a.lim_low a.top_16 b.lim_low b.top_16
  show "hang_rel (\<lambda>_. False) (\<lambda>(v, x') (w, y'). v = w \<and> same_cells x' y')
      (read_data_in B (translate_bus_addr c) x) (read_data_in B' (translate_bus_addr c) y)"
    using l t a.read_ok [of x "translate_bus_addr c"] a.read_hang [of x "translate_bus_addr c"]
      b.read_ok [of y "translate_bus_addr c"] b.read_hang [of y "translate_bus_addr c"]
    by (auto simp: same_cells_def)
  show "hang_rel (\<lambda>_. False) same_cells
      (write_data_out B (translate_bus_addr c) w x) (write_data_out B' (translate_bus_addr c) w y)"
    using l t a.write_ok [of x "translate_bus_addr c" w] a.write_hang [of x "translate_bus_addr c" w]
      b.write_ok [of y "translate_bus_addr c" w] b.write_hang [of y "translate_bus_addr c" w]
    by (auto simp: same_cells_def)
  show "hang_rel (\<lambda>_. False) same_cells
      (write_data_out_b B (translate_bus_addr c) k x) (write_data_out_b B' (translate_bus_addr c) k y)"
    using l t a.writeb_ok [of x "translate_bus_addr c" k] a.writeb_hang [of x "translate_bus_addr c" k]
      b.writeb_ok [of y "translate_bus_addr c" k] b.writeb_hang [of y "translate_bus_addr c" k]
    by (auto simp: same_cells_def)
qed

end
