(* ===== verification/Unibus_Properties.thy ===== *)
theory Unibus_Properties
  imports Unibus_Bus Bus_Refine
begin

text \<open>
  The properties of the bus: a transaction over all interleavings, its completion, the two
  races of the code, the start of the processes, and the CPU on the message-passing bus.
\<close>

section \<open>Transactions\<close>

text \<open>
  Property C3. Every interleaving of the four threads, and every failure of the sockets,
  leaves a transfer correct: if no request is read while the CPU is still writing it, then
  whenever a master function returns, its status was \<open>R_DONE\<close>, the address belongs to the
  memory, exactly this transfer was performed on the device, once, and the value returned is
  the one the device delivered; and the system is ready for the next transfer.
\<close>

theorem transaction_correct:
  assumes "ready u" and "u_steps E True (ask x u) u'" and "m_at u' = Returned v b"
  shows "b \<and> performed x (dev u) v (dev u') \<and> ready u'"
  by (rule transaction [OF assms])

text \<open>
  Property C10. A transfer the memory device can perform is completed by a schedule of the
  threads on which no wakeup is lost: from a settled state the master function returns what
  the device delivers and the system is settled again.
\<close>

theorem transaction_completes:
  assumes "settled u" and "is_local_addr (xfer_addr x)" and "performed x (dev u) v d'"
  shows "\<exists>u'. u_steps net_up True (ask x u) u' \<and> m_at u' = Returned v True \<and> settled u' \<and> dev u' = d'"
proof -
  from round_trip_returns [OF assms] obtain junk u' where
    "schedule net_up junk round_trip (ask x u) = Some u'" "m_at u' = Returned v True" "settled u'" "dev u' = d'"
    by blast
  with round_trip_steps [OF assms(1)] show ?thesis by blast
qed

lemma sample_performed:
  "performed (Rd 2) (program_mem [7, 9]) 9 (program_mem [7, 9])"
  using program_mem_word [of 1 "[7, 9]"]
  by (simp add: mem_bus_def is_local_addr_unat read_word_in_bounds mem_word_def)

lemma sample_local: "is_local_addr (xfer_addr (Rd 2))"
  by (simp add: is_local_addr_unat)

theorem transaction_completes_witness:
  "\<exists>u'. u_steps net_up True (ask (Rd 2) (booted (program_mem [7, 9]))) u' \<and> m_at u' = Returned 9 True"
  using transaction_completes [of "booted (program_mem [7, 9])" "Rd 2" 9 "program_mem [7, 9]"]
    sample_performed sample_local by auto

theorem transaction_correct_witness:
  "\<exists>u'. u_steps net_up True (ask (Rd 2) (booted (program_mem [7, 9]))) u' \<and> ready u' \<and>
     performed (Rd 2) (program_mem [7, 9]) 9 (dev u')"
proof -
  have r: "ready (booted (program_mem [7, 9]))" using booted_settled by (simp add: settled_def)
  obtain u' where s: "schedule net_up zero_req round_trip (ask (Rd 2) (booted (program_mem [7, 9]))) = Some u'"
    and m: "m_at u' = Returned 9 True"
    using round_trip_returns [of "booted (program_mem [7, 9])" "Rd 2" 9 "program_mem [7, 9]" zero_req]
      sample_performed sample_local by auto
  have "u_steps net_up True (ask (Rd 2) (booted (program_mem [7, 9]))) u'"
    by (rule round_trip_steps [OF booted_settled s])
  then show ?thesis using transaction_correct [OF r _ m] by (auto simp del: performed.simps)
qed

section \<open>Races\<close>

text \<open>The CPU's data bus thread polls between the first and the second assignment of a request.\<close>

lemma torn_request:
  assumes "settled u"
  shows "\<exists>u'. schedule net_up junk ([CPU_Main] @ replicate 4 CPU_Data @ replicate 3 CPU_Main) (ask (Rd a) u) = Some u' \<and>
    asked (Rd a) (Rd (x_addr (master (cpu_sh u)))) u' \<and> dev u' = dev u"
proof -
  let ?s = "x_addr (master (cpu_sh u))"
  let ?bus = "(cpu_sh u)\<lparr>master := (master (cpu_sh u))\<lparr>x_op := R_IN\<rparr>\<rparr>"
  obtain bf where bf: "poll_master ?bus (cpu_ds u) = (?bus\<lparr>master := (master (cpu_sh u))\<lparr>x_op := R_NONE\<rparr>\<rparr>, (cpu_ds u)\<lparr>buffer := bf\<rparr>)"
    "x_op bf = R_IN" "x_addr bf = ?s"
    using poll_request [of ?bus "Rd ?s" "cpu_ds u"] by auto
  have w: "wired u" using assms by (simp add: settled_def ready_def)
  have ws: "d_out_addr_l (cpu_ds u) = []" "d_out_addr_r (cpu_ds u) = d_in_addr (mem_ds u)" "d_in_addr (mem_ds u) \<noteq> []"
    "d_in_addr (cpu_ds u) \<noteq> d_in_addr (mem_ds u)" "is_master (cpu_sh u) \<noteq> 0" "shutdown (cpu_sh u) = 0"
    using w by (auto simp: wired_def)
  obtain req where req: "process_op net_up junk ((cpu_ds u)\<lparr>buffer := bf\<rparr>) = ([(d_in_addr (mem_ds u), req)],
      (cpu_ds u)\<lparr>d_bus_out_r := -1, req_issued := 1, buffer := bf\<lparr>x_op := R_NONE\<rparr>\<rparr>)" "is_request (Rd ?s) req"
    using process_request_up [of "(cpu_ds u)\<lparr>buffer := bf\<rparr>" "Rd ?s" junk] bf ws by (auto simp: value_ok_def)
  have st: "cpu_in u = []" "mem_in u = []" "d_at (cpu_thr u) = At_Poll" "d_at (mem_thr u) = At_Poll" "s_at u = Perma_Waiting"
    "x_op (slave (mem_sh u)) = R_NONE"
    using assms by (auto simp: settled_def ready_def)
  show ?thesis
    using bf req ws st w
    apply (simp add: numeral_eq_Suc u_step_def m_step_def d_step_def Let_def m_wake_none deliver_def asked_def ask_def)
    apply (simp add: wired_def)
    done
qed

text \<open>
  Property C33. The CPU can read a wrong address. The request is written under one mutex and
  read under another, so the data bus thread can pick it up when the operation is set and
  the address is not: then \<open>read_data_in\<close> returns, with status \<open>R_DONE\<close>, the word at the address
  of the previous transfer instead of the one asked for.
\<close>

theorem torn_request_reads_stale_address:
  assumes "settled u" and "unat (x_addr (master (cpu_sh u))) + 1 < MEMBYTES"
  shows "\<exists>u'. u_steps net_up False (ask (Rd a) u) u' \<and>
    m_at u' = Returned (mem_word (dev u) (unat (x_addr (master (cpu_sh u))))) True"
proof -
  let ?x = "Rd (x_addr (master (cpu_sh u)))"
  let ?v = "mem_word (dev u) (unat (x_addr (master (cpu_sh u))))"
  obtain junk :: data_bus_req where True by blast
  obtain u1 where 1: "schedule net_up junk ([CPU_Main] @ replicate 4 CPU_Data @ replicate 3 CPU_Main) (ask (Rd a) u) = Some u1"
    "asked (Rd a) ?x u1" "dev u1 = dev u" using torn_request [OF assms(1)] by blast
  have loc: "is_local_addr (xfer_addr ?x)" using assms(2) by (simp add: is_local_addr_unat)
  have "performed ?x (dev u1) ?v (dev u1)"
    using assms(2) loc 1(3) by (simp add: mem_bus_def read_word_in_bounds mem_word_def)
  from request_answered [OF 1(2) loc this, of junk] obtain u2 where
    2: "schedule net_up junk (replicate 5 MEM_Data @ replicate 3 MEM_Main @ replicate 2 MEM_Data) u1 = Some u2"
    "answered (Rd a) ?x ?v u2" by blast
  from reply_delivered [OF 2(2), of junk] obtain u3 where
    3: "schedule net_up junk (replicate 5 CPU_Data @ [CPU_Main]) u2 = Some u3" "m_at u3 = Returned ?v True" by blast
  have "u_steps net_up False (ask (Rd a) u) u3"
    using schedule_steps [OF 1(1)] schedule_steps [OF 2(1)] schedule_steps [OF 3(1)] u_steps_trans by metis
  with 3(2) show ?thesis by blast
qed

theorem torn_request_reads_stale_address_witness:
  "\<exists>u'. u_steps net_up False (ask (Rd 2) (booted (program_mem [7, 9]))) u' \<and> m_at u' = Returned 7 True"
proof -
  have "x_addr (master (cpu_sh (booted (program_mem [7, 9])))) = 0"
    by (simp add: booted_def system_def start_cpu_def start_mem_def env_up_def init_bus_def setup_socket_dir_def
        init_sync_some data_bus_start_def init_data_state_def Let_def data_neighbour_def)
  then show ?thesis
    using torn_request_reads_stale_address [of "booted (program_mem [7, 9])" 2] program_mem_word [of 0 "[7, 9]"]
    by auto
qed

lemma signal_unheard:
  assumes "xinv x d u" and "d_at (mem_thr u) = At_Slave_Signal k" and "s_at u \<noteq> Perma_Waiting"
    and "u_step E junk MEM_Data u = Some u'"
  shows "deaf x u'"
proof -
  from assms(1) obtain c m r where w: "wired u" and f: "fits c m r"
    and c: "cpu_at x (val_of r) c u" and m: "mem_at x (val_of r) m u" by (rule xinvE) blast
  have mb: "m = Blocked" using m assms(2) by (cases m) (auto simp: mem_at_def looping_def in_slave_wait_def)
  with f have "c = Pending" by (auto simp: fits_def)
  with c m mb w show ?thesis using assms(2-4)
    by (auto simp: cpu_at_def mem_at_def deaf_def u_step_def d_step_def s_wake_def idle_def in_slave_wait_def deliver_none
        wired_def)
qed


lemma cpu_step_s_at:
  "t \<in> {CPU_Main, CPU_Data} \<Longrightarrow>
   u_step E junk t (u\<lparr>s_at := l\<rparr>) = map_option (\<lambda>u. u\<lparr>s_at := l\<rparr>) (u_step E junk t u)"
  by (auto simp: u_step_def deliver_def split: option.split prod.split)

lemma cpu_schedule_s_at:
  "set ts \<subseteq> {CPU_Main, CPU_Data} \<Longrightarrow>
   schedule E junk ts (u\<lparr>s_at := l\<rparr>) = map_option (\<lambda>u. u\<lparr>s_at := l\<rparr>) (schedule E junk ts u)"
proof (induction ts arbitrary: u)
  case (Cons t ts)
  then show ?case
    using cpu_step_s_at [where t = t and E = E and junk = junk and u = u and l = l] by (cases "u_step E junk t u") auto
qed simp

lemma signal_given:
  assumes "asked x x u" and "is_local_addr (xfer_addr x)"
  shows "\<exists>u' u''. schedule net_up junk (replicate 3 MEM_Data) (u\<lparr>s_at := Before_Wait\<rparr>) = Some u' \<and>
    d_at (mem_thr u') = At_Slave_Signal (xfer_ctl x) \<and> s_at u' = Before_Wait \<and>
    u_step net_up junk MEM_Data u' = Some u''"
proof -
  have w: "wired u" using assms by (simp add: asked_def)
  have ws: "is_master (mem_sh u) = 0" "shutdown (mem_sh u) = 0" "is_addr_internal (mem_ds u) = Some is_local_addr"
    using w by (auto simp: wired_def)
  obtain r where r: "mem_in u = [r]" "is_request x r" using assms by (auto simp: asked_def)
  have p: "poll_master (mem_sh u) (mem_ds u) = (mem_sh u, mem_ds u)"
    using w poll_none by (simp add: wired_def)
  obtain s where s: "check_bus (Some r) 0 (mem_sh u) (mem_ds u) = (At_Slave_Signal (xfer_ctl x), (mem_sh u)\<lparr>slave := s\<rparr>)"
    "is_blocked x s" using check_request [OF r(2) ws(3) assms(2)] by blast
  show ?thesis
    using r p s ws assms(1)
    by (simp add: numeral_eq_Suc u_step_def d_step_def Let_def s_wake_def deliver_none asked_def)
qed

text \<open>
  The memory's main thread is about to wait for its first request when the request arrives.
\<close>

lemma early_signal:
  "\<exists>u1 k u2. u_steps net_up True (ask (Rd 2) ((booted d)\<lparr>s_at := Before_Wait\<rparr>)) u1 \<and>
     d_at (mem_thr u1) = At_Slave_Signal k \<and> s_at u1 = Before_Wait \<and>
     u_step net_up zero_req MEM_Data u1 = Some u2"
proof -
  let ?early = "\<lambda>u. u\<lparr>s_at := Before_Wait\<rparr>"
  obtain u1 where 1: "schedule net_up zero_req (replicate 4 CPU_Main @ replicate 4 CPU_Data) (ask (Rd 2) (booted d)) = Some u1"
    "asked (Rd 2) (Rd 2) u1" using request_sent [OF booted_settled] by blast
  obtain mst where m: "schedule net_up zero_req (replicate 4 CPU_Main) (ask (Rd 2) (booted d)) =
      Some ((booted d)\<lparr>m_at := Master_Waiting (Rd 2), cpu_sh := (cpu_sh (booted d))\<lparr>master := mst\<rparr>\<rparr>)"
    (is "_ = Some ?m")
    using request_made [OF booted_settled, of zero_req "Rd 2"] by blast
  have "schedule net_up zero_req (replicate 4 CPU_Data) ?m = Some u1"
    using 1(1) m by (simp add: schedule_append)
  then have d: "schedule net_up zero_req (replicate 4 CPU_Data) (?early ?m) = Some (?early u1)"
    using cpu_schedule_s_at [where ts = "replicate 4 CPU_Data" and E = net_up and junk = zero_req and u = ?m and l = Before_Wait] by simp
  have "schedule net_up zero_req (replicate 4 CPU_Main) (?early (ask (Rd 2) (booted d))) = Some (?early ?m)"
    using cpu_schedule_s_at [where ts = "replicate 4 CPU_Main" and E = net_up and junk = zero_req and u = "ask (Rd 2) (booted d)" and l = Before_Wait] m by simp
  moreover have "ask (Rd 2) (?early (booted d)) = ?early (ask (Rd 2) (booted d))" by (simp add: ask_def)
  ultimately have s1: "u_steps net_up True (ask (Rd 2) (?early (booted d))) (?early ?m)"
    using schedule_main_steps [of "replicate 4 CPU_Main"] by simp
  obtain u2 u3 where s2: "schedule net_up zero_req (replicate 3 MEM_Data) (?early u1) = Some u2"
    "d_at (mem_thr u2) = At_Slave_Signal (xfer_ctl (Rd 2))" "s_at u2 = Before_Wait"
    "u_step net_up zero_req MEM_Data u2 = Some u3" using signal_given [OF 1(2) sample_local] by blast
  have "schedule net_up zero_req (replicate 4 CPU_Data @ replicate 3 MEM_Data) (?early ?m) = Some u2"
    using d s2(1) by (simp only: schedule_append option.case)
  then have "u_steps net_up True (?early ?m) u2"
    by (rule schedule_late_steps [rotated]) (simp add: past_request_def in_request_def)
  with s1 s2(2-4) u_steps_trans show ?thesis by blast
qed


section \<open>Starting the processes\<close>

text \<open>
  When the CPU and the memory process start and no call fails, they are wired to
  each other and settled, ready for the first transfer, provided that \<open>malloc\<close> happens to
  return a \<open>bus_state\<close> whose \<open>shutdown\<close> and address check are zero: \<open>init_bus\<close> does not set them.
\<close>

theorem start_settles:
  assumes "start_cpu E N junk = Some c" and "start_mem E' N junk' = Some m"
    and "shutdown (malloc_junk E) = 0" and "shutdown (malloc_junk E') = 0"
    and "addr_internal_to_device (malloc_junk E) = None"
  shows "settled (system c m d)"
  by (rule start_settled [OF assms])

theorem start_settles_witness:
  "\<exists>c m. start_cpu env_up net_up zero_data = Some c \<and> start_mem env_up net_up zero_data = Some m \<and>
     settled (system c m (program_mem []))"
proof -
  obtain c m where st: "start_cpu env_up net_up zero_data = Some c" "start_mem env_up net_up zero_data = Some m"
    using start_up by auto
  have "shutdown (malloc_junk env_up) = 0" "addr_internal_to_device (malloc_junk env_up) = None"
    by (simp_all add: env_up_def zero_bus_def)
  with start_settles [OF st] st show ?thesis by blast
qed

section \<open>The CPU on the message-passing bus\<close>

text \<open>Under any schedule: the flat memory, or a transfer that hangs.\<close>

definition carries :: "mem_dev \<Rightarrow> net_bus \<Rightarrow> bool" where
  "carries d b \<longleftrightarrow> ready (fst b) \<and> dev (fst b) = d"

lemma transact_carries:
  assumes "carries d b"
  shows "transact x b = Inl (Bus_Hang (xfer_addr x)) \<or>
    (\<exists>v b'. transact x b = Inr (v, b') \<and> performed x d v (dev (fst b')) \<and> ready (fst b'))"
  using assms transact_cases [of "fst b" x "snd b"] by (cases b) (auto simp: carries_def)

interpretation any: bus_sim mem_bus unibus_ops carries is_hang
proof
  fix d b c and w :: u16 and k :: u8
  assume c: "carries d b"
  let ?a = "translate_bus_addr c"
  show "hang_rel is_hang (\<lambda>(v, x') (w, y'). v = w \<and> carries x' y') (read_data_in mem_bus ?a d) (read_data_in unibus_ops ?a b)"
    using transact_carries [OF c, of "Rd ?a"] by (auto simp: unibus_ops_def is_hang_def carries_def)
  show "hang_rel is_hang carries (write_data_out mem_bus ?a w d) (write_data_out unibus_ops ?a w b)"
    using transact_carries [OF c, of "Wr ?a w"] by (auto simp: unibus_ops_def is_hang_def carries_def)
  show "hang_rel is_hang carries (write_data_out_b mem_bus ?a k d) (write_data_out_b unibus_ops ?a k b)"
    using transact_carries [OF c, of "Wrb ?a k"] by (auto simp: unibus_ops_def is_hang_def carries_def)
qed

text \<open>On the fair schedule: the flat memory.\<close>

interpretation flat_net:
  bus_pair mem_bus "\<lambda>_. True" store MEMBYTES 65535
    unibus_ops on_fair "\<lambda>b. store (dev (fst b))" MEMBYTES 65535
  by unfold_locales

lemma rebus_init: "rebus b (init_cpu d\<lparr>pc := v\<rparr>) = init_cpu b\<lparr>pc := v\<rparr>"
  by (simp add: rebus_def init_cpu_def cpu.defs)

text \<open>
  The loop of the CPU on the bus ends as on the flat memory: it runs for ever as well, fails
  with the same fault, or returns with the same registers, flags and memory contents and with a
  bus that is ready for the next transfer.
\<close>

definition same_end :: "mem_dev machine res option \<Rightarrow> net_bus machine res option \<Rightarrow> bool" where
  "same_end f n \<longleftrightarrow>
     (case f of
        None \<Rightarrow> n = None
      | Some (Inl e) \<Rightarrow> n = Some (Inl e)
      | Some (Inr m) \<Rightarrow>
          (case n of
             Some (Inr m') \<Rightarrow> m' = rebus (BUS_REF m') m \<and> ready (fst (BUS_REF m')) \<and>
               store (dev (fst (BUS_REF m'))) = store (BUS_REF m)
           | _ \<Rightarrow> False))"

lemma same_endI:
  assumes "rel_option (res_rel R) f n"
    and "\<And>m m'. R m m' \<Longrightarrow> \<exists>b. m' = rebus b m \<and> ready (fst b) \<and> store (dev (fst b)) = store (BUS_REF m)"
  shows "same_end f n"
proof (cases f)
  case (Some r)
  with assms(1) obtain s where s: "n = Some s" "res_rel R r s" by (auto simp: option_rel_Some1)
  with Some show ?thesis
    by (cases r; cases s) (auto simp: same_end_def dest!: assms(2))
qed (use assms(1) in \<open>simp add: same_end_def\<close>)

lemma same_end_halted:
  assumes "same_end (Some (Inr m)) x"
  shows "\<exists>b. x = Some (Inr (rebus b m)) \<and> ready (fst b) \<and> store (dev (fst b)) = store (BUS_REF m)"
proof -
  from assms obtain m' where x: "x = Some (Inr m')" and m': "m' = rebus (BUS_REF m') m"
    and b: "ready (fst (BUS_REF m'))" "store (dev (fst (BUS_REF m'))) = store (BUS_REF m)"
    by (auto simp: same_end_def split: option.splits sum.splits)
  from x m' have "x = Some (Inr (rebus (BUS_REF m') m))" by simp
  with b show ?thesis by blast
qed

lemma cpu_runs_alike:
  assumes "ready u"
  shows "(\<exists>a. execute unibus_ops (init_cpu (u, S)\<lparr>pc := v\<rparr>) = Some (Inl (Bus_Hang a))) \<or>
    same_end (execute mem_bus (init_cpu (dev u)\<lparr>pc := v\<rparr>)) (execute unibus_ops (init_cpu (u, S)\<lparr>pc := v\<rparr>))"
proof -
  have "carries (BUS_REF (init_cpu (dev u)\<lparr>pc := v\<rparr>)) (u, S)" using assms by (simp add: carries_def init_cpu_def)
  moreover have "\<exists>b. m' = rebus b m \<and> ready (fst b) \<and> store (dev (fst b)) = store (BUS_REF m)" if "any.twin m m'" for m m'
    using that by (auto simp: any.twin_def carries_def)
  ultimately show ?thesis
    using any.execute_sim [of "init_cpu (dev u)\<lparr>pc := v\<rparr>" "(u, S)"] same_endI [of any.twin]
    unfolding rebus_init is_hang_def by blast
qed

lemma cpu_runs_fair:
  assumes "settled u"
  shows "same_end (execute mem_bus (init_cpu (dev u)\<lparr>pc := v\<rparr>)) (execute unibus_ops (init_cpu (u, fair)\<lparr>pc := v\<rparr>))"
proof -
  have "flat_net.same_cells (BUS_REF (init_cpu (dev u)\<lparr>pc := v\<rparr>)) (u, fair)"
    using assms by (simp add: flat_net.same_cells_def on_fair_def init_cpu_def)
  moreover have "\<exists>b. m' = rebus b m \<and> ready (fst b) \<and> store (dev (fst b)) = store (BUS_REF m)"
    if "flat_net.twin m m'" for m m'
    using that by (auto simp: flat_net.twin_def flat_net.same_cells_def on_fair_def settled_ready)
  ultimately show ?thesis
    using flat_net.execute_sim [of "init_cpu (dev u)\<lparr>pc := v\<rparr>" "(u, fair)"] same_endI [of flat_net.twin]
    unfolding rebus_init by blast
qed

text \<open>
  Property C4. The message-passing bus refines the flat memory under every schedule of the
  threads and every behaviour of the sockets (no request being read while it is written): from
  reset at any address the CPU on the two processes either hangs in a transfer or ends as the
  CPU on the memory device: with the same fault, never, or halted with the same registers, flags
  and memory contents. And from a settled state there is a schedule, the same for all
  programs, on which it does end so.
\<close>

theorem cpu_on_unibus:
  assumes "settled u"
  shows "(\<forall>S. (\<exists>a. execute unibus_ops (init_cpu (u, S)\<lparr>pc := v\<rparr>) = Some (Inl (Bus_Hang a))) \<or>
      same_end (execute mem_bus (init_cpu (dev u)\<lparr>pc := v\<rparr>)) (execute unibus_ops (init_cpu (u, S)\<lparr>pc := v\<rparr>))) \<and>
    same_end (execute mem_bus (init_cpu (dev u)\<lparr>pc := v\<rparr>)) (execute unibus_ops (init_cpu (u, fair)\<lparr>pc := v\<rparr>))"
  using cpu_runs_alike [OF settled_ready [OF assms]] cpu_runs_fair [OF assms] by blast

theorem cpu_on_unibus_witness:
  "\<exists>m. execute unibus_ops (init_cpu (booted (program_mem [0]), fair)\<lparr>pc := 0\<rparr>) = Some (Inr m) \<and> halted m = 1"
proof -
  let ?m = "init_cpu (program_mem [0])\<lparr>pc := 0\<rparr>"
  have c: "cpu_cycle mem_bus ?m = Inr (?m\<lparr>ir := 0, pc := 2, halted := 1\<rparr>)"
    using program_mem_word [of 0 "[0]"] by (simp add: cycle_eval init_cpu_def) (simp add: HALT_def)
  have "execute mem_bus ?m = Some (Inr (?m\<lparr>ir := 0, pc := 2, halted := 1\<rparr>))"
    using execute_step [OF cpu_step.cycle [OF _ c]] execute_final [of mem_bus "?m\<lparr>ir := 0, pc := 2, halted := 1\<rparr>"]
    by (simp add: final_def init_cpu_def)
  with cpu_on_unibus [OF booted_settled, where v = 0, of "program_mem [0]"]
  have "same_end (Some (Inr (?m\<lparr>ir := 0, pc := 2, halted := 1\<rparr>)))
    (execute unibus_ops (init_cpu (booted (program_mem [0]), fair)\<lparr>pc := 0\<rparr>))" by simp
  from same_end_halted [OF this] obtain b where
    "execute unibus_ops (init_cpu (booted (program_mem [0]), fair)\<lparr>pc := 0\<rparr>) =
       Some (Inr (rebus b (?m\<lparr>ir := 0, pc := 2, halted := 1\<rparr>)))" by blast
  then show ?thesis by (simp del: rebus_updates)
qed

end
