(* ===== verification/Signals.thy ===== *)
theory Signals
  imports Sockets
begin

text \<open>
  The messages of the priority bus (\<open>src/src/libunibus/signals.h\<close>), the directions of
  \<open>util.h\<close>, and the files a process has open, as far as the priority bus depends on them: it
  writes to descriptors that it reads from its state before it opens them, so a descriptor is
  a number and the table of open files says what it stands for.
\<close>

section \<open>Messages\<close>

datatype pr_signal = BR | BG | NPR | NPG | SACK | BBSY

record pr_bus_req =
  pr_from :: string
  sig :: pr_signal
  assertion :: assert_t
  level :: u32

text \<open>What \<open>recv\<close> returns: a message, nothing yet, or an error other than that.\<close>

datatype recv_result = Recv_Message pr_bus_req | Recv_Again | Recv_Error

datatype direction = D_LEFT | D_RIGHT | D_NONE

text \<open>The path of the socket on which a device, or the arbiter, receives its messages.\<close>

definition pr_socket_path :: "string \<Rightarrow> string" where
  "pr_socket_path n = ''/tmp/xmachine/'' @ n @ ''_pr.socket''"

lemma pr_socket_path_inject [simp]: "pr_socket_path m = pr_socket_path n \<longleftrightarrow> m = n"
  by (simp add: pr_socket_path_def)

section \<open>Open files\<close>

text \<open>
  What a descriptor stands for: a datagram socket that is not connected, or connected to a
  path, or some other file. \<open>bound\<close> says to which paths a socket is bound; \<open>sent\<close> are the
  messages that were delivered to a path, oldest first; \<open>nofile\<close> bounds the descriptors.
\<close>

datatype endpoint = Unconnected | Connected string | Other_File

record pr_net =
  fd_table :: "nat \<Rightarrow> endpoint option"
  nofile :: nat
  bound :: "string \<Rightarrow> bool"
  sent :: "(string \<times> pr_bus_req) list"

text \<open>
  \<open>socket\<close> returns the lowest descriptor that is not open. \<open>connect\<close> needs a bound path;
  \<open>write\<close> needs a connected socket whose path is bound, or another file that takes the bytes.
\<close>

definition os_socket :: "pr_net \<Rightarrow> int \<times> pr_net" where
  "os_socket n =
     (case filter (\<lambda>i. fd_table n i = None) [0..<nofile n] of
        [] \<Rightarrow> (-1, n)
      | i # _ \<Rightarrow> (int i, n\<lparr>fd_table := (fd_table n)(i \<mapsto> Unconnected)\<rparr>))"

definition open_file :: "pr_net \<Rightarrow> int \<Rightarrow> endpoint option" where
  "open_file n fd = (if fd < 0 then None else fd_table n (nat fd))"

definition os_connect :: "int \<Rightarrow> string \<Rightarrow> pr_net \<Rightarrow> int \<times> pr_net" where
  "os_connect fd p n =
     (case open_file n fd of
        None \<Rightarrow> (-1, n)
      | Some Other_File \<Rightarrow> (-1, n)
      | Some _ \<Rightarrow> if bound n p then (0, n\<lparr>fd_table := (fd_table n)(nat fd \<mapsto> Connected p)\<rparr>) else (-1, n))"

definition os_write :: "int \<Rightarrow> pr_bus_req \<Rightarrow> pr_net \<Rightarrow> int \<times> pr_net" where
  "os_write fd req n =
     (case open_file n fd of
        None \<Rightarrow> (-1, n)
      | Some Unconnected \<Rightarrow> (-1, n)
      | Some Other_File \<Rightarrow> (112, n)
      | Some (Connected p) \<Rightarrow> if bound n p then (112, n\<lparr>sent := sent n @ [(p, req)]\<rparr>) else (-1, n))"

definition os_sendto :: "int \<Rightarrow> string \<Rightarrow> pr_bus_req \<Rightarrow> pr_net \<Rightarrow> int \<times> pr_net" where
  "os_sendto fd p req n =
     (case open_file n fd of
        None \<Rightarrow> (-1, n)
      | Some Other_File \<Rightarrow> (-1, n)
      | Some _ \<Rightarrow> if bound n p then (112, n\<lparr>sent := sent n @ [(p, req)]\<rparr>) else (-1, n))"

definition os_close :: "int \<Rightarrow> pr_net \<Rightarrow> int \<times> pr_net" where
  "os_close fd n =
     (case open_file n fd of
        None \<Rightarrow> (-1, n)
      | Some _ \<Rightarrow> (0, n\<lparr>fd_table := (fd_table n)(nat fd := None)\<rparr>))"

lemmas os_defs = os_socket_def open_file_def os_connect_def os_write_def os_sendto_def os_close_def

text \<open>Free descriptors.\<close>

definition free_fds :: "pr_net \<Rightarrow> nat list" where
  "free_fds n = filter (\<lambda>i. fd_table n i = None) [0..<nofile n]"

lemma os_socket_free:
  "os_socket n =
     (case free_fds n of [] \<Rightarrow> (-1, n) | i # _ \<Rightarrow> (int i, n\<lparr>fd_table := (fd_table n)(i \<mapsto> Unconnected)\<rparr>))"
  by (simp add: os_socket_def free_fds_def)

lemma free_fds_Cons: "free_fds n = i # is \<Longrightarrow> fd_table n i = None \<and> i < nofile n"
proof -
  assume "free_fds n = i # is"
  then have "i \<in> set (free_fds n)" by simp
  then show ?thesis by (simp add: free_fds_def)
qed

text \<open>A message and a network for the examples.\<close>

definition pr_msg :: "string \<Rightarrow> pr_signal \<Rightarrow> assert_t \<Rightarrow> pr_bus_req" where
  "pr_msg p s b = \<lparr>pr_from = p, sig = s, assertion = b, level = 0\<rparr>"

definition net_sample :: "(string \<Rightarrow> bool) \<Rightarrow> pr_net" where
  "net_sample bd = \<lparr>fd_table = (\<lambda>i. if i < 5 then Some Other_File else None), nofile = 16, bound = bd,
                   sent = []\<rparr>"

end
