(* ===== verification/Bus_Arb.thy ===== *)
theory Bus_Arb
  imports Signals
begin

text \<open>
  The bus arbiter of the CPU process, \<open>src/src/libunibus/bus_arb.c\<close>: its state, the grants it
  asserts and negates, and one round of \<open>listen_priority\<close>. The part of the response that the
  code leaves uninitialised (\<open>level\<close>) is the parameter \<open>junk\<close>. The second half states the
  protocol of the arbiter as a machine on signals and shows that the code refines it, and
  what becomes of the grants at the address the code gives them.
\<close>

section \<open>State\<close>

record arb_state =
  priority_socket :: int
  client_socket :: int
  arb_socket :: string
  current_client :: string
  client_addr_len :: nat
  outstanding_bg :: u8
  outstanding_npg :: u8
  sack :: assert_t
  bbsy :: assert_t
  arb_shutdown :: u8

text \<open>The constant \<open>NAME\<close> of the file, and the size of a socket address and of its path.\<close>

definition arb_name :: string where "arb_name = ''cpu''"

abbreviation (input) SOCKADDR_SIZE :: nat where "SOCKADDR_SIZE \<equiv> 110"
abbreviation (input) SUN_PATH_SIZE :: nat where "SUN_PATH_SIZE \<equiv> 108"

definition init_arb :: "bool \<Rightarrow> arb_state \<Rightarrow> string \<Rightarrow> arb_state option" where
  "init_arb malloc_ok junk n_sock =
     (if \<not> malloc_ok then None
      else Some (junk\<lparr>priority_socket := -1, client_socket := -1,
                      current_client := take (SUN_PATH_SIZE - 1) n_sock,
                      client_addr_len := SOCKADDR_SIZE, sack := NEGATED, bbsy := NEGATED,
                      outstanding_bg := 0, outstanding_npg := 0, arb_shutdown := 0\<rparr>))"

text \<open>\<open>bind\<close> is the entry of the path in the table of bound paths.\<close>

definition setup_arb_socket :: "bool \<Rightarrow> arb_state \<Rightarrow> pr_net \<Rightarrow> int \<times> arb_state \<times> pr_net" where
  "setup_arb_socket can_bind a n =
     (let (fd, n) = os_socket n; a = a\<lparr>priority_socket := fd\<rparr>
      in if fd = -1 then (-1, a, n)
         else
           (let a = a\<lparr>arb_socket := pr_socket_path arb_name\<rparr>
            in if can_bind then (0, a, n\<lparr>bound := (bound n)(arb_socket a := True)\<rparr>)
               else (-1, a, n)))"

section \<open>The client\<close>

definition arb_update_from_addr :: "arb_state \<Rightarrow> pr_bus_req \<Rightarrow> pr_bus_req" where
  "arb_update_from_addr a req = req\<lparr>pr_from := take SOCK_NAME_LEN (current_client a)\<rparr>"

definition client_connect :: "arb_state \<Rightarrow> pr_net \<Rightarrow> int \<times> arb_state \<times> pr_net" where
  "client_connect a n =
     (let (fd, n) = os_socket n; a = a\<lparr>client_socket := fd\<rparr>
      in if fd = -1 then (-1, a, n)
         else (let (ret, n) = os_connect fd (current_client a) n
               in if ret = -1 then (-1, a, n) else (0, a, n)))"

definition client_close :: "arb_state \<Rightarrow> pr_net \<Rightarrow> int \<times> pr_net" where
  "client_close a n =
     (let (ret, n) = os_close (client_socket a) n in if ret = -1 then (-1, n) else (0, n))"

section \<open>Grants\<close>

definition assert_bus_grant ::
  "pr_bus_req \<Rightarrow> arb_state \<Rightarrow> pr_net \<Rightarrow> int \<times> arb_state \<times> pr_net" where
  "assert_bus_grant junk a n =
     (if sack a = ASSERTED then (-1, a, n)
      else
        (let a = a\<lparr>outstanding_bg := 1\<rparr>;
             resp = arb_update_from_addr a junk;
             (_, a, n) = client_connect a n;
             resp = resp\<lparr>sig := BG, assertion := ASSERTED\<rparr>;
             (rv, n) = os_sendto (client_socket a) (current_client a) resp n
         in if rv = -1 then (rv, a, n)
            else (rv, a, snd (client_close a n))))"

definition negate_bus_grant ::
  "pr_bus_req \<Rightarrow> arb_state \<Rightarrow> pr_net \<Rightarrow> int \<times> arb_state \<times> pr_net" where
  "negate_bus_grant junk a n =
     (let resp = arb_update_from_addr a junk;
          a = a\<lparr>outstanding_bg := 0\<rparr>;
          (_, a, n) = client_connect a n;
          resp = resp\<lparr>sig := BG, assertion := NEGATED\<rparr>;
          (rv, n) = os_sendto (client_socket a) (current_client a) resp n
      in if rv = -1 then (rv, a, n)
         else (rv, a, snd (client_close a n)))"

definition assert_np_grant ::
  "pr_bus_req \<Rightarrow> arb_state \<Rightarrow> pr_net \<Rightarrow> int \<times> arb_state \<times> pr_net" where
  "assert_np_grant junk a n =
     (if sack a = ASSERTED then (-1, a, n)
      else
        (let resp = arb_update_from_addr a junk;
             a = a\<lparr>outstanding_npg := 1\<rparr>;
             (_, a, n) = client_connect a n;
             resp = resp\<lparr>sig := NPG, assertion := ASSERTED\<rparr>;
             (ret, n) = os_sendto (client_socket a) (current_client a) resp n
         in if ret = -1 then (ret, a, n)
            else (0, a, snd (client_close a n))))"

definition negate_np_grant ::
  "pr_bus_req \<Rightarrow> arb_state \<Rightarrow> pr_net \<Rightarrow> int \<times> arb_state \<times> pr_net" where
  "negate_np_grant junk a n =
     (let a = a\<lparr>outstanding_npg := 0\<rparr>;
          resp = arb_update_from_addr a junk;
          (_, a, n) = client_connect a n;
          resp = resp\<lparr>sig := NPG, assertion := NEGATED\<rparr>;
          (ret, n) = os_sendto (client_socket a) (current_client a) resp n
      in if ret = -1 then (-1, a, n)
         else (0, a, snd (client_close a n)))"

section \<open>The loop\<close>

definition arb_handle_sack ::
  "pr_bus_req \<Rightarrow> pr_bus_req \<Rightarrow> arb_state \<Rightarrow> pr_net \<Rightarrow> int \<times> arb_state \<times> pr_net" where
  "arb_handle_sack junk req a n =
     (if sack a = NEGATED \<and> assertion req = ASSERTED
      then
        (let a = a\<lparr>sack := assertion req\<rparr>
         in if outstanding_bg a = 1 then negate_bus_grant junk a n
            else if outstanding_npg a = 1 then negate_np_grant junk a n
            else (0, a, n))
      else if sack a = ASSERTED \<and> assertion req = NEGATED
      then (0, a\<lparr>sack := assertion req\<rparr>, n)
      else (0, a, n))"

definition arb_handle_bbsy :: "pr_bus_req \<Rightarrow> arb_state \<Rightarrow> int \<times> arb_state" where
  "arb_handle_bbsy req a =
     (if bbsy a = ASSERTED \<and> assertion req = NEGATED then (0, a\<lparr>bbsy := NEGATED\<rparr>)
      else if bbsy a = NEGATED \<and> assertion req = ASSERTED then (0, a\<lparr>bbsy := ASSERTED\<rparr>)
      else (-1, a))"

text \<open>
  One round of \<open>listen_priority\<close>; the result of \<open>recv\<close> is an input. \<open>EAGAIN\<close> and
  \<open>EWOULDBLOCK\<close> are the same number on Linux, so the test that the code makes holds for every
  other error, and then the function returns: the boolean is false.
\<close>

definition arb_round ::
  "pr_bus_req \<Rightarrow> recv_result \<Rightarrow> arb_state \<Rightarrow> pr_net \<Rightarrow> bool \<times> arb_state \<times> pr_net" where
  "arb_round junk r a n =
     (case r of
        Recv_Error \<Rightarrow> (False, a, n)
      | Recv_Again \<Rightarrow> (True, a, n)
      | Recv_Message req \<Rightarrow>
          (case sig req of
             BR \<Rightarrow> (True, snd (assert_bus_grant junk a n))
           | NPR \<Rightarrow> (True, snd (assert_np_grant junk a n))
           | SACK \<Rightarrow> (True, snd (arb_handle_sack junk req a n))
           | BBSY \<Rightarrow> (True, snd (arb_handle_bbsy req a), n)
           | _ \<Rightarrow> (True, a, n)))"

text \<open>The rounds for a sequence of results of \<open>recv\<close>, up to the first error.\<close>

fun arb_run ::
  "pr_bus_req \<Rightarrow> recv_result list \<Rightarrow> arb_state \<Rightarrow> pr_net \<Rightarrow> arb_state \<times> pr_net" where
  "arb_run junk [] a n = (a, n)"
| "arb_run junk (r # rs) a n =
     (let (go, a, n) = arb_round junk r a n in if go then arb_run junk rs a n else (a, n))"

section \<open>Sending a grant\<close>

text \<open>The four grant functions send one message in the same way.\<close>

definition send_grant :: "pr_bus_req \<Rightarrow> arb_state \<Rightarrow> pr_net \<Rightarrow> bool \<times> arb_state \<times> pr_net" where
  "send_grant resp a n =
     (let (_, a, n) = client_connect a n;
          (rv, n) = os_sendto (client_socket a) (current_client a) resp n
      in if rv = -1 then (False, a, n) else (True, a, snd (client_close a n)))"

lemma grant_functions:
  "snd (assert_bus_grant junk a n) =
     (if sack a = ASSERTED then (a, n)
      else snd (send_grant ((arb_update_from_addr a junk)\<lparr>sig := BG, assertion := ASSERTED\<rparr>)
                  (a\<lparr>outstanding_bg := 1\<rparr>) n))"
  "snd (negate_bus_grant junk a n) =
     snd (send_grant ((arb_update_from_addr a junk)\<lparr>sig := BG, assertion := NEGATED\<rparr>)
            (a\<lparr>outstanding_bg := 0\<rparr>) n)"
  "snd (assert_np_grant junk a n) =
     (if sack a = ASSERTED then (a, n)
      else snd (send_grant ((arb_update_from_addr a junk)\<lparr>sig := NPG, assertion := ASSERTED\<rparr>)
                  (a\<lparr>outstanding_npg := 1\<rparr>) n))"
  "snd (negate_np_grant junk a n) =
     snd (send_grant ((arb_update_from_addr a junk)\<lparr>sig := NPG, assertion := NEGATED\<rparr>)
            (a\<lparr>outstanding_npg := 0\<rparr>) n)"
  by (simp_all add: assert_bus_grant_def negate_bus_grant_def assert_np_grant_def
        negate_np_grant_def send_grant_def arb_update_from_addr_def Let_def case_prod_unfold)

text \<open>
  To a bound client a grant is delivered and the table of files is as before; to an unbound
  one nothing is delivered, and the socket that was opened stays open.
\<close>

lemma send_grant_delivered:
  assumes "bound n (current_client a)" and "free_fds n = i # is"
  shows "send_grant resp a n =
    (True, a\<lparr>client_socket := int i\<rparr>, n\<lparr>sent := sent n @ [(current_client a, resp)]\<rparr>)"
  using assms free_fds_Cons [OF assms(2)]
  by (simp add: send_grant_def client_connect_def client_close_def os_socket_free os_defs(2-6)
        Let_def fun_upd_idem)

lemma send_grant_lost:
  assumes "\<not> bound n (current_client a)"
  shows "send_grant resp a n =
    (case free_fds n of
       [] \<Rightarrow> (False, a\<lparr>client_socket := -1\<rparr>, n)
     | i # _ \<Rightarrow> (False, a\<lparr>client_socket := int i\<rparr>, n\<lparr>fd_table := (fd_table n)(i \<mapsto> Unconnected)\<rparr>))"
  using assms free_fds_Cons [of n]
  by (auto simp: send_grant_def client_connect_def os_socket_free os_defs(2-6) Let_def
        split: list.splits)

section \<open>The protocol\<close>

text \<open>
  The arbiter as a machine on signals. A request is granted unless a grant is acknowledged; an
  acknowledgement negates the grant that is outstanding, a bus grant before a non-processor
  grant. The bus busy line is only recorded.
\<close>

record arb_spec =
  acknowledged :: bool
  busy :: bool
  bg_out :: bool
  npg_out :: bool

fun arb_spec_step :: "pr_signal \<times> bool \<Rightarrow> arb_spec \<Rightarrow> (pr_signal \<times> bool) list \<times> arb_spec" where
  "arb_spec_step (BR, _) s = (if acknowledged s then ([], s) else ([(BG, True)], s\<lparr>bg_out := True\<rparr>))"
| "arb_spec_step (NPR, _) s = (if acknowledged s then ([], s) else ([(NPG, True)], s\<lparr>npg_out := True\<rparr>))"
| "arb_spec_step (SACK, True) s =
     (if acknowledged s then ([], s)
      else if bg_out s then ([(BG, False)], s\<lparr>acknowledged := True, bg_out := False\<rparr>)
      else if npg_out s then ([(NPG, False)], s\<lparr>acknowledged := True, npg_out := False\<rparr>)
      else ([], s\<lparr>acknowledged := True\<rparr>))"
| "arb_spec_step (SACK, False) s = ([], s\<lparr>acknowledged := False\<rparr>)"
| "arb_spec_step (BBSY, b) s = ([], s\<lparr>busy := b\<rparr>)"
| "arb_spec_step _ s = ([], s)"

fun arb_spec_run :: "(pr_signal \<times> bool) list \<Rightarrow> arb_spec \<Rightarrow> (pr_signal \<times> bool) list \<times> arb_spec" where
  "arb_spec_run [] s = ([], s)"
| "arb_spec_run (e # es) s =
     (let (out, s) = arb_spec_step e s; (outs, s) = arb_spec_run es s in (out @ outs, s))"

definition arb_abs :: "arb_state \<Rightarrow> arb_spec" where
  "arb_abs a =
     \<lparr>acknowledged = (sack a = ASSERTED), busy = (bbsy a = ASSERTED),
      bg_out = (outstanding_bg a = 1), npg_out = (outstanding_npg a = 1)\<rparr>"

text \<open>The flags are 0 or 1, as \<open>init_arb\<close> leaves them, and so is the assertion of a message.\<close>

definition arb_ok :: "arb_state \<Rightarrow> bool" where
  "arb_ok a \<longleftrightarrow> sack a \<in> {0, 1} \<and> bbsy a \<in> {0, 1} \<and> outstanding_bg a \<in> {0, 1} \<and> outstanding_npg a \<in> {0, 1}"

definition signal_of :: "pr_bus_req \<Rightarrow> pr_signal \<times> bool" where
  "signal_of m = (sig m, assertion m = ASSERTED)"

definition arb_follows ::
  "pr_bus_req \<Rightarrow> pr_bus_req \<Rightarrow> arb_state \<Rightarrow> pr_net \<Rightarrow> (pr_signal \<times> bool) list \<times> arb_spec \<Rightarrow> bool" where
  "arb_follows junk m a n r \<longleftrightarrow>
     (\<exists>a' msgs. arb_round junk (Recv_Message m) a n =
        (True, a', n\<lparr>sent := sent n @ map (Pair (current_client a)) msgs\<rparr>) \<and>
      arb_ok a' \<and> current_client a' = current_client a \<and> r = (map signal_of msgs, arb_abs a'))"

lemma arb_follows_silent:
  assumes "arb_round junk (Recv_Message m) a n = (True, a', n)" and "arb_ok a'"
    and "current_client a' = current_client a" and "r = ([], arb_abs a')"
  shows "arb_follows junk m a n r"
  unfolding arb_follows_def using assms by (intro exI [of _ a'] exI [of _ "[]"]) simp

lemma arb_follows_grant:
  assumes "arb_round junk (Recv_Message m) a n = (True, snd (send_grant resp a' n))"
    and "bound n (current_client a)" and "free_fds n \<noteq> []"
    and "arb_ok a'" and "current_client a' = current_client a" and "r = ([signal_of resp], arb_abs a')"
  shows "arb_follows junk m a n r"
proof -
  obtain i "is" where free: "free_fds n = i # is" using assms(3) by (cases "free_fds n") auto
  show ?thesis
    unfolding arb_follows_def
    using assms send_grant_delivered [of n a' i "is" resp] free
    by (intro exI [of _ "a'\<lparr>client_socket := int i\<rparr>"] exI [of _ "[resp]"])
       (simp add: arb_ok_def arb_abs_def)
qed

lemmas arb_round_simps = arb_round_def arb_handle_sack_def arb_handle_bbsy_def grant_functions Let_def

lemma arb_request_refines:
  assumes ok: "arb_ok a" and net: "bound n (current_client a)" "free_fds n \<noteq> []"
    and m: "sig m \<in> {BR, NPR}"
  shows "arb_follows junk m a n (arb_spec_step (signal_of m) (arb_abs a))"
proof -
  note silent = arb_follows_silent [of _ _ _ _ a] and grant = arb_follows_grant [OF _ net]
  note defs = arb_round_simps signal_of_def arb_abs_def arb_ok_def
  consider "sack a = 1" | "sack a \<noteq> 1" "sig m = BR" | "sack a \<noteq> 1" "sig m = NPR" using m by auto
  then show ?thesis
  proof cases
    case 1
    then show ?thesis using ok m by (intro silent) (auto simp: arb_round_simps signal_of_def arb_abs_def)
  next
    case 2
    then show ?thesis using ok
      by (intro grant [of _ _ "(arb_update_from_addr a junk)\<lparr>sig := BG, assertion := 1\<rparr>"
            "a\<lparr>outstanding_bg := 1\<rparr>"]) (simp_all add: defs)
  next
    case 3
    then show ?thesis using ok
      by (intro grant [of _ _ "(arb_update_from_addr a junk)\<lparr>sig := NPG, assertion := 1\<rparr>"
            "a\<lparr>outstanding_npg := 1\<rparr>"]) (simp_all add: defs)
  qed
qed

lemma arb_sack_refines:
  assumes ok: "arb_ok a" and net: "bound n (current_client a)" "free_fds n \<noteq> []"
    and m: "sig m = SACK" "assertion m \<in> {0, 1}"
  shows "arb_follows junk m a n (arb_spec_step (signal_of m) (arb_abs a))"
proof -
  note silent = arb_follows_silent and grant = arb_follows_grant [OF _ net]
  note flags = ok [unfolded arb_ok_def]
  note defs = arb_round_simps signal_of_def arb_abs_def arb_ok_def arb_update_from_addr_def
  consider "assertion m = 0" | "assertion m = 1" "sack a = 1"
    | "assertion m = 1" "sack a = 0" "outstanding_bg a = 1"
    | "assertion m = 1" "sack a = 0" "outstanding_bg a = 0" "outstanding_npg a = 1"
    | "assertion m = 1" "sack a = 0" "outstanding_bg a = 0" "outstanding_npg a = 0"
    using m flags by auto
  then show ?thesis
  proof cases
    case 1
    then show ?thesis using m ok flags
      by (intro silent [of _ _ _ _ "a\<lparr>sack := 0\<rparr>"]) (auto simp: defs)
  next
    case 2
    then show ?thesis using m ok
      by (intro silent [of _ _ _ _ a]) (simp_all add: arb_round_simps signal_of_def arb_abs_def)
  next
    case 3
    then show ?thesis using m ok
      by (intro grant [of _ _ "(arb_update_from_addr a junk)\<lparr>sig := BG, assertion := 0\<rparr>"
            "a\<lparr>sack := 1, outstanding_bg := 0\<rparr>"]) (simp_all add: defs)
  next
    case 4
    then show ?thesis using m ok
      by (intro grant [of _ _ "(arb_update_from_addr a junk)\<lparr>sig := NPG, assertion := 0\<rparr>"
            "a\<lparr>sack := 1, outstanding_npg := 0\<rparr>"]) (simp_all add: defs)
  next
    case 5
    then show ?thesis using m ok
      by (intro silent [of _ _ _ _ "a\<lparr>sack := 1\<rparr>"]) (simp_all add: defs)
  qed
qed

lemma arb_round_refines:
  assumes ok: "arb_ok a" and m: "assertion m \<in> {0, 1}"
    and net: "bound n (current_client a)" "free_fds n \<noteq> []"
  shows "arb_follows junk m a n (arb_spec_step (signal_of m) (arb_abs a))"
proof -
  consider "sig m \<in> {BR, NPR}" | "sig m = SACK" | "sig m = BBSY" | "sig m \<in> {BG, NPG}"
    by (cases "sig m") simp_all
  then show ?thesis
  proof cases
    case 3
    have "assertion m = 0 \<or> assertion m = 1" using m by simp
    then show ?thesis using 3 ok
      by (intro arb_follows_silent [of _ _ _ _ "a\<lparr>bbsy := assertion m\<rparr>"])
         (auto simp: arb_round_simps signal_of_def arb_abs_def arb_ok_def)
  next
    case 4
    then show ?thesis using ok
      by (intro arb_follows_silent [of _ _ _ _ a]) (auto simp: arb_round_simps signal_of_def)
  qed (use assms in \<open>simp_all add: arb_request_refines arb_sack_refines\<close>)
qed

text \<open>
  Property C14. With a client that is bound and a free descriptor the arbiter implements its
  protocol: for every sequence of messages with assertions 0 and 1, the messages it delivers
  to the client are, signal by signal, those of the protocol machine, the flags end as the
  machine's state, and no descriptor stays open.
\<close>

theorem arb_refines_protocol:
  assumes "arb_ok a" and "\<forall>m \<in> set ms. assertion m \<in> {0, 1}"
    and "bound n (current_client a)" and "free_fds n \<noteq> []"
  shows "\<exists>a' msgs. arb_run junk (map Recv_Message ms) a n =
      (a', n\<lparr>sent := sent n @ map (Pair (current_client a)) msgs\<rparr>) \<and>
    arb_spec_run (map signal_of ms) (arb_abs a) = (map signal_of msgs, arb_abs a')"
  using assms
proof (induction ms arbitrary: a n)
  case Nil
  show ?case by (rule exI [of _ a], rule exI [of _ "[]"]) simp
next
  case (Cons m ms)
  from arb_round_refines [of a m n junk] Cons.prems obtain a1 out where
    r: "arb_round junk (Recv_Message m) a n =
         (True, a1, n\<lparr>sent := sent n @ map (Pair (current_client a)) out\<rparr>)"
    and ok: "arb_ok a1" and c: "current_client a1 = current_client a"
    and s: "arb_spec_step (signal_of m) (arb_abs a) = (map signal_of out, arb_abs a1)"
    by (auto simp: arb_follows_def)
  let ?n1 = "n\<lparr>sent := sent n @ map (Pair (current_client a)) out\<rparr>"
  have "bound ?n1 (current_client a1)" "free_fds ?n1 \<noteq> []"
    using Cons.prems c by (simp_all add: free_fds_def)
  then obtain a' msgs where
    rs: "arb_run junk (map Recv_Message ms) a1 ?n1 =
          (a', ?n1\<lparr>sent := sent ?n1 @ map (Pair (current_client a1)) msgs\<rparr>)"
    and ss: "arb_spec_run (map signal_of ms) (arb_abs a1) = (map signal_of msgs, arb_abs a')"
    using Cons.IH [of a1 ?n1] Cons.prems ok by auto
  show ?case
    using r rs s ss c by (intro exI [of _ a'] exI [of _ "out @ msgs"]) (simp add: Let_def)
qed

text \<open>An initial arbiter for the examples.\<close>

definition arb_sample :: arb_state where
  "arb_sample =
     \<lparr>priority_socket = 4, client_socket = -1, arb_socket = pr_socket_path ''cpu'',
      current_client = ''cpu'', client_addr_len = SOCKADDR_SIZE, outstanding_bg = 0,
      outstanding_npg = 0, sack = NEGATED, bbsy = NEGATED, arb_shutdown = 0\<rparr>"

lemma arb_refines_protocol_witness:
  "\<exists>a' msgs. arb_run (pr_msg [] BR 0) (map Recv_Message [pr_msg [] BR 1, pr_msg [] SACK 1])
      arb_sample (net_sample (\<lambda>_. True)) =
      (a', (net_sample (\<lambda>_. True))\<lparr>sent := sent (net_sample (\<lambda>_. True)) @
         map (Pair (current_client arb_sample)) msgs\<rparr>) \<and>
    arb_spec_run (map signal_of [pr_msg [] BR 1, pr_msg [] SACK 1]) (arb_abs arb_sample) =
      (map signal_of msgs, arb_abs a')"
  by (rule arb_refines_protocol)
     (simp_all add: arb_ok_def arb_sample_def net_sample_def pr_msg_def free_fds_def upt_rec)

section \<open>While a grant is acknowledged\<close>

text \<open>
  While the SACK line is asserted the arbiter is silent, whatever the state of
  the network is and whatever messages arrive, as long as none negates SACK: nothing is sent,
  no descriptor is opened or closed, and the outstanding grants stay as they are.
\<close>

theorem arb_silent_while_acknowledged:
  assumes "sack a = ASSERTED"
    and "\<forall>m. Recv_Message m \<in> set rs \<longrightarrow> sig m = SACK \<longrightarrow> assertion m \<noteq> NEGATED"
  shows "\<exists>b. arb_run junk rs a n = (a\<lparr>bbsy := b\<rparr>, n)"
  using assms
proof (induction rs arbitrary: a)
  case Nil
  show ?case by (rule exI [of _ "bbsy a"]) simp
next
  case (Cons r rs)
  have "\<exists>go b. arb_round junk r a n = (go, a\<lparr>bbsy := b\<rparr>, n)"
    using Cons.prems
    by (cases r) (auto simp: arb_round_simps intro: exI [of _ "bbsy a"] split: pr_signal.split)
  then obtain go b where "arb_round junk r a n = (go, a\<lparr>bbsy := b\<rparr>, n)" by blast
  moreover obtain b' where "arb_run junk rs (a\<lparr>bbsy := b\<rparr>) n = (a\<lparr>bbsy := b'\<rparr>, n)"
    using Cons.IH [of "a\<lparr>bbsy := b\<rparr>"] Cons.prems by auto
  ultimately show ?case by (cases go) auto
qed

lemma arb_silent_while_acknowledged_witness:
  "\<exists>b. arb_run (pr_msg [] BR 0) [Recv_Message (pr_msg [] BR 1), Recv_Message (pr_msg [] BBSY 1)]
      (arb_sample\<lparr>sack := ASSERTED\<rparr>) (net_sample (\<lambda>_. True)) =
    (arb_sample\<lparr>sack := ASSERTED\<rparr>\<lparr>bbsy := b\<rparr>, net_sample (\<lambda>_. True))"
  by (rule arb_silent_while_acknowledged) (auto simp: pr_msg_def)

section \<open>Where the grants go\<close>

text \<open>
  \<open>init_arb\<close> sets the address of the client to the bare name of the process, which is not the
  path of any socket that a device binds.
\<close>

lemma arb_name_not_a_path: "arb_name \<noteq> pr_socket_path n"
  by (simp add: arb_name_def pr_socket_path_def)

lemma send_grant_keeps:
  assumes "\<not> bound n (current_client a)"
  shows "sent (snd (snd (send_grant resp a n))) = sent n"
    "bound (snd (snd (send_grant resp a n))) = bound n"
    "nofile (snd (snd (send_grant resp a n))) = nofile n"
    "current_client (fst (snd (send_grant resp a n))) = current_client a"
    "sack (fst (snd (send_grant resp a n))) = sack a"
  using assms by (simp_all add: send_grant_lost split: list.splits)

lemma free_fds_alloc:
  assumes "free_fds n = i # is"
  shows "free_fds (n\<lparr>fd_table := (fd_table n)(i \<mapsto> e)\<rparr>) = is"
proof -
  have "distinct (free_fds n)" by (simp add: free_fds_def)
  then have "i \<notin> set is" using assms by simp
  moreover have "free_fds (n\<lparr>fd_table := (fd_table n)(i \<mapsto> e)\<rparr>) = filter (\<lambda>j. j \<noteq> i) (free_fds n)"
    by (auto simp: free_fds_def intro: filter_cong)
  ultimately show ?thesis using assms by (simp add: filter_id_conv) (metis filter_True)
qed

lemma send_grant_leaks:
  assumes "\<not> bound n (current_client a)"
  shows "free_fds (snd (snd (send_grant resp a n))) = tl (free_fds n)"
  using assms by (simp add: send_grant_lost free_fds_alloc split: list.splits)

lemma arb_round_unbound:
  assumes "\<not> bound n (current_client a)"
  shows "sent (snd (snd (arb_round junk r a n))) = sent n"
    "bound (snd (snd (arb_round junk r a n))) = bound n"
    "current_client (fst (snd (arb_round junk r a n))) = current_client a"
  using assms
  by (cases r; simp add: arb_round_simps send_grant_keeps split: pr_signal.split)+

lemma arb_run_unbound:
  "\<not> bound n (current_client a) \<Longrightarrow> sent (snd (arb_run junk rs a n)) = sent n"
proof (induction rs arbitrary: a n)
  case (Cons r rs)
  obtain go a1 n1 where r: "arb_round junk r a n = (go, a1, n1)" by (cases "arb_round junk r a n")
  with arb_round_unbound [OF Cons.prems, of junk r] Cons show ?case by (cases go) auto
qed simp

lemma arb_run_requests_leak:
  assumes "sig m = BR" and "\<not> bound n (current_client a)" and "sack a \<noteq> ASSERTED"
  shows "length (free_fds (snd (arb_run junk (replicate k (Recv_Message m)) a n))) =
         length (free_fds n) - k"
  using assms(2,3)
proof (induction k arbitrary: a n)
  case (Suc k)
  let ?r = "send_grant ((arb_update_from_addr a junk)\<lparr>sig := BG, assertion := ASSERTED\<rparr>)
    (a\<lparr>outstanding_bg := 1\<rparr>) n"
  have "length (free_fds (snd (arb_run junk (replicate k (Recv_Message m))
      (fst (snd ?r)) (snd (snd ?r))))) = length (free_fds (snd (snd ?r))) - k"
    using Suc.prems by (intro Suc.IH) (simp_all add: send_grant_keeps)
  then show ?case using Suc.prems assms(1)
    by (simp add: arb_round_def grant_functions Let_def case_prod_unfold send_grant_leaks)
qed simp

text \<open>
  No grant ever arrives. With the client address that \<open>init_arb\<close> sets, no run of
  the arbiter delivers a message to anybody, as long as only the paths of device sockets are
  bound; and every bus request that is granted leaves one more socket open, until no
  descriptor is free.
\<close>

theorem arb_grants_lost:
  assumes "init_arb True a0 arb_name = Some a" and "\<forall>p. bound n p \<longrightarrow> (\<exists>name. p = pr_socket_path name)"
    and "sig m = BR"
  shows "sent (snd (arb_run junk rs a n)) = sent n \<and>
    length (free_fds (snd (arb_run junk (replicate k (Recv_Message m)) a n))) = length (free_fds n) - k"
proof -
  have a: "current_client a = arb_name" "sack a = NEGATED"
    using assms(1) by (auto simp: init_arb_def arb_name_def)
  then have "\<not> bound n (current_client a)" using assms(2) arb_name_not_a_path by auto
  then show ?thesis using a assms(3) by (simp add: arb_run_unbound arb_run_requests_leak)
qed

lemma init_arb_sample:
  "init_arb True arb_sample arb_name = Some (arb_sample\<lparr>priority_socket := -1\<rparr>)"
  by (simp add: init_arb_def arb_sample_def arb_name_def)

lemma arb_grants_lost_witness:
  "let a = arb_sample\<lparr>priority_socket := -1\<rparr>; n = net_sample (\<lambda>p. p = pr_socket_path ''disk'');
       br = pr_msg [] BR 1; junk = pr_msg [] BR 0
   in sent (snd (arb_run junk [Recv_Message br] a n)) = sent n \<and>
      length (free_fds (snd (arb_run junk (replicate 3 (Recv_Message br)) a n))) =
      length (free_fds n) - 3"
  unfolding Let_def
  by (rule arb_grants_lost [OF init_arb_sample]) (simp_all add: net_sample_def pr_msg_def)
end
