(* ===== verification/Priority_Bus.thy ===== *)
theory Priority_Bus
  imports Signals
begin

text \<open>
  The priority bus of one device, \<open>src/src/libunibus/priority_bus.c\<close>: the thread
  \<open>priority_bus_mgr\<close> asks for the bus and releases it on behalf of its device and passes the
  messages of its neighbours on. The state of the thread, the state it shares with the device
  (\<open>STATE\<close> of the code, theory \<open>Bus_State\<close>) and the descriptors and messages of the process
  (theory \<open>Signals\<close>) are passed explicitly. The functions that the code repeats line by line
  in several places are written once.
\<close>

section \<open>State\<close>

record pr_state =
  pr_out_addr_l :: string
  pr_out_addr_r :: string
  pr_in_addr :: string
  pr_bus_in :: int
  pr_bus_out_l :: int
  pr_bus_out_r :: int
  npr_issued :: u8
  br_issued :: u8
  sack_asserted :: u8
  bbsy_asserted :: u8

text \<open>
  \<open>junk\<close> is what \<open>malloc\<close> leaves in the struct. With a neighbour the descriptor of its side
  is not set.
\<close>

definition init_pr_state ::
  "bool \<Rightarrow> bool \<Rightarrow> pr_state \<Rightarrow> string option \<Rightarrow> string \<Rightarrow> string option \<Rightarrow> pr_net \<Rightarrow>
   pr_state option \<times> pr_net" where
  "init_pr_state malloc_ok can_bind junk lname name rname n =
     (if \<not> malloc_ok then (None, n)
      else
        (let pr = junk;
             pr = (case lname of None \<Rightarrow> pr | Some l \<Rightarrow> pr\<lparr>pr_out_addr_l := pr_socket_path l\<rparr>);
             pr = (case rname of None \<Rightarrow> pr | Some r \<Rightarrow> pr\<lparr>pr_out_addr_r := pr_socket_path r\<rparr>);
             pr = pr\<lparr>pr_in_addr := pr_socket_path name\<rparr>;
             (fd, n) = os_socket n;
             pr = pr\<lparr>pr_bus_in := fd\<rparr>
         in if fd = -1 then (None, n)
            else
              (let pr = (if lname = None then pr\<lparr>pr_bus_out_l := -1\<rparr> else pr);
                   pr = (if rname = None then pr\<lparr>pr_bus_out_r := -1\<rparr> else pr)
               in if \<not> can_bind then (None, n)
                  else
                    (Some (pr\<lparr>npr_issued := 0, br_issued := 0, bbsy_asserted := 0,
                              sack_asserted := 0\<rparr>),
                     n\<lparr>bound := (bound n)(pr_in_addr pr := True)\<rparr>))))"

text \<open>\<open>priority_bus_mgr\<close> up to its loop; a null \<open>sock\<close> is dereferenced.\<close>

definition priority_bus_start ::
  "bool \<Rightarrow> bool \<Rightarrow> pr_state \<Rightarrow> bus_state \<Rightarrow> pr_net \<Rightarrow> (pr_state option \<times> pr_net) res" where
  "priority_bus_start malloc_ok can_bind junk bus n =
     (case sock bus of
        None \<Rightarrow> Inl Null_Deref
      | Some s \<Rightarrow>
          Inr (init_pr_state malloc_ok can_bind junk (map_option (take SOCK_NAME_LEN) (l_sock bus))
                 (take SOCK_NAME_LEN s) (map_option (take SOCK_NAME_LEN) (r_sock bus)) n))"

section \<open>Connections\<close>

definition pr_connect_l :: "pr_state \<Rightarrow> pr_net \<Rightarrow> int \<times> pr_state \<times> pr_net" where
  "pr_connect_l pr n =
     (if pr_bus_out_l pr = -1 then (-1, pr, n)
      else
        (let (fd, n) = os_socket n; pr = pr\<lparr>pr_bus_out_l := fd\<rparr>
         in if fd = -1 then (-1, pr, n)
            else (let (ret, n) = os_connect fd (pr_out_addr_l pr) n
                  in if ret = -1 then (ret, pr, n) else (0, pr, n))))"

definition pr_connect_r :: "pr_state \<Rightarrow> pr_net \<Rightarrow> int \<times> pr_state \<times> pr_net" where
  "pr_connect_r pr n =
     (if pr_bus_out_r pr = -1 then (-1, pr, n)
      else
        (let (fd, n) = os_socket n; pr = pr\<lparr>pr_bus_out_r := fd\<rparr>
         in if fd = -1 then (-1, pr, n)
            else (let (ret, n) = os_connect fd (pr_out_addr_r pr) n
                  in if ret = -1 then (ret, pr, n) else (0, pr, n))))"

definition pr_connect :: "direction \<Rightarrow> pr_state \<Rightarrow> pr_net \<Rightarrow> int \<times> pr_state \<times> pr_net" where
  "pr_connect dir pr n =
     (case dir of
        D_LEFT \<Rightarrow> pr_connect_l pr n | D_RIGHT \<Rightarrow> pr_connect_r pr n | D_NONE \<Rightarrow> (-1, pr, n))"

definition pr_close_l :: "pr_state \<Rightarrow> pr_net \<Rightarrow> int \<times> pr_net" where
  "pr_close_l pr n = os_close (pr_bus_out_l pr) n"

definition pr_close_r :: "pr_state \<Rightarrow> pr_net \<Rightarrow> int \<times> pr_net" where
  "pr_close_r pr n = os_close (pr_bus_out_r pr) n"

definition pr_close :: "direction \<Rightarrow> pr_state \<Rightarrow> pr_net \<Rightarrow> int \<times> pr_net" where
  "pr_close dir pr n =
     (case dir of D_LEFT \<Rightarrow> pr_close_l pr n | D_RIGHT \<Rightarrow> pr_close_r pr n | D_NONE \<Rightarrow> (-1, n))"

definition get_fd :: "pr_state \<Rightarrow> direction \<Rightarrow> int" where
  "get_fd pr dir =
     (case dir of D_LEFT \<Rightarrow> pr_bus_out_l pr | D_RIGHT \<Rightarrow> pr_bus_out_r pr | D_NONE \<Rightarrow> -1)"

definition get_fd_direction :: "pr_state \<Rightarrow> pr_bus_req \<Rightarrow> bool \<Rightarrow> direction" where
  "get_fd_direction pr req reply =
     (if pr_bus_out_l pr = -1 \<and> pr_bus_out_r pr = -1 then D_NONE
      else if pr_bus_out_l pr = -1 then (if reply then D_RIGHT else D_NONE)
      else if pr_bus_out_r pr = -1 then (if reply then D_LEFT else D_NONE)
      else if take SOCK_NAME_LEN (pr_from req) = take SOCK_NAME_LEN (pr_out_addr_l pr)
      then (if reply then D_LEFT else D_RIGHT)
      else (if reply then D_RIGHT else D_LEFT))"

definition pr_update_from_addr :: "pr_state \<Rightarrow> pr_bus_req \<Rightarrow> pr_bus_req" where
  "pr_update_from_addr pr req = req\<lparr>pr_from := take SOCK_NAME_LEN (pr_in_addr pr)\<rparr>"

section \<open>Sending\<close>

text \<open>
  A message to both neighbours, as in \<open>assert_br\<close>, \<open>assert_bbsy\<close>, \<open>negate_sack\<close> and
  \<open>negate_bbsy\<close>: a side that does not connect is skipped; a failing write ends the function
  (false), before its socket is closed.
\<close>

definition pr_send_both :: "pr_bus_req \<Rightarrow> pr_state \<Rightarrow> pr_net \<Rightarrow> bool \<times> pr_state \<times> pr_net" where
  "pr_send_both req pr n =
     (let (ret, pr, n) = pr_connect_l pr n;
          (ok, n) =
            (if ret \<noteq> -1
             then (let (ret, n) = os_write (pr_bus_out_l pr) req n
                   in if ret = -1 then (False, n) else (True, snd (pr_close_l pr n)))
             else (True, n))
      in if \<not> ok then (False, pr, n)
         else
           (let (ret, pr, n) = pr_connect_r pr n
            in if ret \<noteq> -1
               then (let (ret, n) = os_write (pr_bus_out_r pr) req n
                     in if ret = -1 then (False, pr, n) else (True, pr, snd (pr_close_r pr n)))
               else (True, pr, n)))"

text \<open>
  A message in one direction, as in all handlers: the descriptor that is written to is read
  from the state before \<open>pr_connect\<close> replaces it.
\<close>

definition pr_send_dir ::
  "direction \<Rightarrow> pr_bus_req \<Rightarrow> pr_state \<Rightarrow> pr_net \<Rightarrow> bool \<times> pr_state \<times> pr_net" where
  "pr_send_dir dir req pr n =
     (let out_fd = get_fd pr dir;
          (_, pr, n) = pr_connect dir pr n;
          (ret, n) = os_write out_fd req n
      in if ret = -1 then (False, pr, n) else (True, pr, snd (pr_close dir pr n)))"

definition own_signal :: "pr_bus_req \<Rightarrow> pr_state \<Rightarrow> pr_signal \<Rightarrow> assert_t \<Rightarrow> pr_bus_req" where
  "own_signal junk pr s b = pr_update_from_addr pr (junk\<lparr>sig := s, assertion := b\<rparr>)"

section \<open>Asking for the bus and releasing it\<close>

text \<open>The state of the thread, the state shared with the device, the network.\<close>

type_synonym pr_world = "pr_state \<times> bus_state \<times> pr_net"

definition assert_br :: "pr_bus_req \<Rightarrow> pr_world \<Rightarrow> pr_world" where
  "assert_br junk w =
     (case w of (pr, bus, n) \<Rightarrow>
        if bbsy_asserted pr \<noteq> 0 \<and> br_issued pr = 0 then (pr, bus, n)
        else
          (let (ok, pr, n) = pr_send_both (own_signal junk pr BR ASSERTED) pr n
           in if \<not> ok then (pr, bus, n) else (pr\<lparr>br_issued := 1\<rparr>, bus, n)))"

definition assert_bbsy :: "pr_bus_req \<Rightarrow> pr_world \<Rightarrow> pr_world" where
  "assert_bbsy junk w =
     (case w of (pr, bus, n) \<Rightarrow>
        if bbsy_asserted pr \<noteq> 0 then (pr, bus, n)
        else
          (let (ok, pr, n) = pr_send_both (own_signal junk pr BBSY ASSERTED) pr n
           in if \<not> ok then (pr, bus, n)
              else (pr\<lparr>bbsy_asserted := 1\<rparr>, bus\<lparr>is_master := 1, req_master := 0\<rparr>, n)))"

definition negate_sack :: "pr_bus_req \<Rightarrow> pr_world \<Rightarrow> pr_world" where
  "negate_sack junk w =
     (case w of (pr, bus, n) \<Rightarrow>
        if sack_asserted pr = 0 then (pr, bus, n)
        else
          (let (ok, pr, n) = pr_send_both (own_signal junk pr SACK NEGATED) pr n
           in if \<not> ok then (pr, bus, n)
              else (pr\<lparr>sack_asserted := 0\<rparr>, bus\<lparr>is_master := 0, req_master := 0\<rparr>, n)))"

definition negate_bbsy :: "pr_bus_req \<Rightarrow> pr_world \<Rightarrow> pr_world" where
  "negate_bbsy junk w =
     (case w of (pr, bus, n) \<Rightarrow>
        if bbsy_asserted pr = 0 then (pr, bus, n)
        else
          (let (ok, pr, n) = pr_send_both (own_signal junk pr BBSY NEGATED) pr n
           in if \<not> ok then (pr, bus, n)
              else (pr\<lparr>bbsy_asserted := 0\<rparr>,
                    bus\<lparr>is_master := 0, req_master := 0, rel_master := 0\<rparr>, n)))"

definition request_master :: "pr_bus_req \<Rightarrow> pr_world \<Rightarrow> pr_world" where
  "request_master junk w =
     (if bbsy_asserted (fst w) \<noteq> 0 then w
      else (case assert_br junk w of (pr, bus, n) \<Rightarrow> (pr, bus\<lparr>req_master := 0\<rparr>, n)))"

text \<open>\<open>release_master\<close>; the signal it ends with is in \<open>priority_round\<close>.\<close>

definition release_master :: "pr_bus_req \<Rightarrow> pr_world \<Rightarrow> pr_world" where
  "release_master junk w = negate_bbsy junk (negate_sack junk w)"

section \<open>Messages\<close>

definition pass_on :: "pr_bus_req \<Rightarrow> pr_world \<Rightarrow> pr_world" where
  "pass_on req w =
     (case w of (pr, bus, n) \<Rightarrow>
        (let dir = get_fd_direction pr req False
         in if dir = D_NONE then (pr, bus, n)
            else
              (let (_, pr, n) = pr_send_dir dir (pr_update_from_addr pr req) pr n
               in (pr, bus, n))))"

definition handle_br :: "pr_bus_req \<Rightarrow> pr_world \<Rightarrow> pr_world" where
  "handle_br req w = pass_on req w"

definition handle_npr :: "pr_bus_req \<Rightarrow> pr_world \<Rightarrow> pr_world" where
  "handle_npr req w = pass_on req w"

definition handle_sack :: "pr_bus_req \<Rightarrow> pr_world \<Rightarrow> pr_world" where
  "handle_sack req w = pass_on req w"

text \<open>The direction is computed before the flag is set, on which it does not depend.\<close>

definition handle_bbsy :: "pr_bus_req \<Rightarrow> pr_world \<Rightarrow> pr_world" where
  "handle_bbsy req w =
     (case w of (pr, bus, n) \<Rightarrow>
        pass_on req (pr\<lparr>bbsy_asserted := (if assertion req = ASSERTED then 1 else 0)\<rparr>, bus, n))"

text \<open>The boolean says whether the main thread that waits for the bus is woken.\<close>

definition handle_bg :: "pr_bus_req \<Rightarrow> pr_bus_req \<Rightarrow> pr_world \<Rightarrow> bool \<times> pr_world" where
  "handle_bg junk req w =
     (case w of (pr, bus, n) \<Rightarrow>
        if br_issued pr \<noteq> 0 \<and> assertion req = ASSERTED
        then
          (let resp = own_signal junk pr SACK ASSERTED;
               dir = get_fd_direction pr req True
           in if dir = D_NONE then (False, pr, bus, n)
              else
                (let (ok, pr, n) = pr_send_dir dir resp pr n
                 in if \<not> ok then (False, pr, bus, n)
                    else (False, pr\<lparr>br_issued := 0, sack_asserted := 1\<rparr>, bus, n)))
        else if sack_asserted pr \<noteq> 0 \<and> assertion req = NEGATED
        then (True, assert_bbsy junk (pr, bus, n))
        else (False, pass_on req (pr, bus, n)))"

definition handle_npg :: "pr_bus_req \<Rightarrow> pr_bus_req \<Rightarrow> pr_world \<Rightarrow> pr_world" where
  "handle_npg junk req w =
     (case w of (pr, bus, n) \<Rightarrow>
        if npr_issued pr \<noteq> 0
        then
          (let resp = own_signal junk pr SACK ASSERTED;
               dir = get_fd_direction pr req True
           in if dir = D_NONE then (pr, bus, n)
              else
                (let (ok, pr, n) = pr_send_dir dir resp pr n
                 in if \<not> ok then (pr, bus, n)
                    else (pr\<lparr>npr_issued := 0, sack_asserted := 1\<rparr>, bus, n)))
        else pass_on req (pr, bus, n))"

definition process_pr_events ::
  "pr_bus_req \<Rightarrow> recv_result \<Rightarrow> pr_world \<Rightarrow> bool \<times> pr_world" where
  "process_pr_events junk r w =
     (case r of
        Recv_Again \<Rightarrow> (False, w)
      | Recv_Error \<Rightarrow> (False, w)
      | Recv_Message event \<Rightarrow>
          (case sig event of
             BR \<Rightarrow> (False, handle_br event w)
           | BG \<Rightarrow> handle_bg junk event w
           | NPR \<Rightarrow> (False, handle_npr event w)
           | NPG \<Rightarrow> (False, handle_npg junk event w)
           | SACK \<Rightarrow> (False, handle_sack event w)
           | BBSY \<Rightarrow> (False, handle_bbsy event w)))"

section \<open>The loop\<close>

text \<open>
  One round of the loop of \<open>priority_bus_mgr\<close>: the condition variables it signals and the new
  world. The flags of the device are read once, at the start.
\<close>

definition priority_round ::
  "pr_bus_req \<Rightarrow> recv_result \<Rightarrow> pr_world \<Rightarrow> sync_obj list \<times> pr_world" where
  "priority_round junk r w =
     (case w of (pr, bus, n) \<Rightarrow>
        (let (sigs, w) =
               (if req_master bus \<noteq> 0 \<and> is_master bus = 0 then ([], request_master junk w)
                else if rel_master bus \<noteq> 0 \<and> is_master bus = 1
                then ([cond_pr_rel_master], release_master junk w)
                else ([], w));
             (woken, w) = process_pr_events junk r w
         in (sigs @ (if woken then [cond_pr_master] else []), w)))"

fun priority_run ::
  "pr_bus_req \<Rightarrow> recv_result list \<Rightarrow> pr_world \<Rightarrow> sync_obj list \<times> pr_world" where
  "priority_run junk [] w = ([], w)"
| "priority_run junk (r # rs) w =
     (let (s, w) = priority_round junk r w; (ss, w) = priority_run junk rs w in (s @ ss, w))"

section \<open>Sending between bound neighbours\<close>

text \<open>
  A device in the middle of the bus whose neighbours are up: both sides are open for
  connections and there is a free descriptor \<open>i\<close>, the lowest one.
\<close>

definition linked :: "pr_state \<Rightarrow> pr_net \<Rightarrow> nat \<Rightarrow> bool" where
  "linked pr n i \<longleftrightarrow>
     pr_bus_out_l pr \<noteq> -1 \<and> pr_bus_out_r pr \<noteq> -1 \<and>
     bound n (pr_out_addr_l pr) \<and> bound n (pr_out_addr_r pr) \<and> (\<exists>is. free_fds n = i # is)"

definition refreshed :: "nat \<Rightarrow> pr_state \<Rightarrow> pr_state" where
  "refreshed i pr = pr\<lparr>pr_bus_out_l := int i, pr_bus_out_r := int i\<rparr>"

lemma refreshed_fields [simp]:
  "pr_out_addr_l (refreshed i pr) = pr_out_addr_l pr" "pr_out_addr_r (refreshed i pr) = pr_out_addr_r pr"
  "pr_in_addr (refreshed i pr) = pr_in_addr pr" "pr_bus_in (refreshed i pr) = pr_bus_in pr"
  "npr_issued (refreshed i pr) = npr_issued pr" "br_issued (refreshed i pr) = br_issued pr"
  "sack_asserted (refreshed i pr) = sack_asserted pr" "bbsy_asserted (refreshed i pr) = bbsy_asserted pr"
  "pr_bus_out_l (refreshed i pr) = int i" "pr_bus_out_r (refreshed i pr) = int i"
  "refreshed i (refreshed i pr) = refreshed i pr"
  by (simp_all add: refreshed_def)

lemma refreshed_update [simp]:
  "refreshed i (pr\<lparr>br_issued := x\<rparr>) = (refreshed i pr)\<lparr>br_issued := x\<rparr>"
  "refreshed i (pr\<lparr>sack_asserted := x\<rparr>) = (refreshed i pr)\<lparr>sack_asserted := x\<rparr>"
  "refreshed i (pr\<lparr>bbsy_asserted := x\<rparr>) = (refreshed i pr)\<lparr>bbsy_asserted := x\<rparr>"
  by (simp_all add: refreshed_def)

lemma linked_simps [simp]:
  "linked (pr\<lparr>br_issued := x\<rparr>) n i = linked pr n i"
  "linked (pr\<lparr>sack_asserted := x\<rparr>) n i = linked pr n i"
  "linked (pr\<lparr>bbsy_asserted := x\<rparr>) n i = linked pr n i"
  "linked pr (n\<lparr>sent := ms\<rparr>) i = linked pr n i"
  "linked pr n i \<Longrightarrow> linked (refreshed i pr) n i"
  by (simp_all add: linked_def free_fds_def)

lemma pr_send_both_linked:
  assumes "linked pr n i"
  shows "pr_send_both req pr n =
    (True, refreshed i pr, n\<lparr>sent := sent n @ [(pr_out_addr_l pr, req), (pr_out_addr_r pr, req)]\<rparr>)"
proof -
  obtain "is" where free: "free_fds n = i # is" using assms by (auto simp: linked_def)
  then have "free_fds (n\<lparr>sent := ms\<rparr>) = i # is" for ms by (simp add: free_fds_def)
  then show ?thesis
    using assms free free_fds_Cons [OF free]
    by (simp add: pr_send_both_def pr_connect_l_def pr_connect_r_def pr_close_l_def pr_close_r_def
          os_socket_free os_defs(2-6) linked_def refreshed_def fun_upd_idem)
qed

definition dir_addr :: "pr_state \<Rightarrow> direction \<Rightarrow> string" where
  "dir_addr pr dir = (case dir of D_LEFT \<Rightarrow> pr_out_addr_l pr | _ \<Rightarrow> pr_out_addr_r pr)"

text \<open>The stale descriptor is the right one when it is the lowest free one.\<close>

lemma pr_send_dir_linked:
  assumes "linked pr n i" and "dir \<noteq> D_NONE"
  shows "pr_send_dir dir req (refreshed i pr) n =
    (True, refreshed i pr, n\<lparr>sent := sent n @ [(dir_addr pr dir, req)]\<rparr>)"
proof -
  obtain "is" where free: "free_fds n = i # is" using assms by (auto simp: linked_def)
  show ?thesis
    using assms free free_fds_Cons [OF free]
    by (cases dir)
       (simp_all add: pr_send_dir_def pr_connect_def pr_close_def pr_connect_l_def pr_connect_r_def
          pr_close_l_def pr_close_r_def get_fd_def os_socket_free os_defs(2-6) linked_def
          refreshed_def dir_addr_def fun_upd_idem Let_def)
qed

lemma reply_direction:
  assumes "linked pr n i"
  shows "get_fd_direction pr req True \<noteq> D_NONE" "get_fd_direction pr req False \<noteq> D_NONE"
  using assms by (auto simp: get_fd_direction_def linked_def)

lemma own_signal_refreshed [simp]: "own_signal junk (refreshed i pr) s b = own_signal junk pr s b"
  by (simp add: own_signal_def pr_update_from_addr_def)

lemma own_signal_update [simp]:
  "own_signal junk (pr\<lparr>br_issued := x\<rparr>) s b = own_signal junk pr s b"
  "own_signal junk (pr\<lparr>sack_asserted := x\<rparr>) s b = own_signal junk pr s b"
  "own_signal junk (pr\<lparr>bbsy_asserted := x\<rparr>) s b = own_signal junk pr s b"
  by (simp_all add: own_signal_def pr_update_from_addr_def)

section \<open>The way to the bus and back\<close>

text \<open>The three rounds of a request, each from the state that the one before leaves.\<close>

abbreviation both :: "pr_state \<Rightarrow> pr_bus_req \<Rightarrow> (string \<times> pr_bus_req) list" where
  "both pr m \<equiv> [(pr_out_addr_l pr, m), (pr_out_addr_r pr, m)]"

lemma round_request:
  assumes "linked pr n i" and "req_master bus \<noteq> 0" and "is_master bus = 0" and "bbsy_asserted pr = 0"
  shows "priority_round junk Recv_Again (pr, bus, n) =
    ([], (refreshed i pr)\<lparr>br_issued := 1\<rparr>, bus\<lparr>req_master := 0\<rparr>,
     n\<lparr>sent := sent n @ both pr (own_signal junk pr BR ASSERTED)\<rparr>)"
  using assms
  by (simp add: priority_round_def request_master_def assert_br_def pr_send_both_linked
        process_pr_events_def)

lemma round_grant:
  assumes "linked pr n i" and "req_master bus = 0" and "rel_master bus = 0"
    and "sig m = BG" and "assertion m = ASSERTED"
  shows "\<exists>dir. dir \<noteq> D_NONE \<and>
    priority_round junk (Recv_Message m) ((refreshed i pr)\<lparr>br_issued := 1\<rparr>, bus, n) =
    ([], (refreshed i pr)\<lparr>br_issued := 0, sack_asserted := 1\<rparr>, bus,
     n\<lparr>sent := sent n @ [(dir_addr pr dir, own_signal junk pr SACK ASSERTED)]\<rparr>)"
proof -
  let ?pr = "refreshed i (pr\<lparr>br_issued := 1\<rparr>)"
  let ?dir = "get_fd_direction ?pr m True"
  have l: "linked (pr\<lparr>br_issued := 1\<rparr>) n i" using assms(1) by simp
  have dir: "?dir \<noteq> D_NONE" using l linked_simps(5) reply_direction(1) by blast
  have addr: "dir_addr (pr\<lparr>br_issued := 1\<rparr>) ?dir = dir_addr pr ?dir"
    by (simp add: dir_addr_def split: direction.split)
  show ?thesis
    using dir assms(2-5) pr_send_dir_linked [OF l dir, of "own_signal junk pr SACK 1"] addr
    by (intro exI [of _ ?dir])
       (simp add: priority_round_def process_pr_events_def handle_bg_def Let_def)
qed

lemma round_master:
  assumes "linked pr n i" and "req_master bus = 0" and "rel_master bus = 0"
    and "sig m = BG" and "assertion m = NEGATED"
    and "bbsy_asserted pr = 0" and "sack_asserted pr \<noteq> 0"
  shows "priority_round junk (Recv_Message m) (pr, bus, n) =
    ([cond_pr_master], (refreshed i pr)\<lparr>bbsy_asserted := 1\<rparr>, bus\<lparr>is_master := 1, req_master := 0\<rparr>,
     n\<lparr>sent := sent n @ both pr (own_signal junk pr BBSY ASSERTED)\<rparr>)"
  using assms
  by (simp add: priority_round_def process_pr_events_def handle_bg_def assert_bbsy_def
        pr_send_both_linked)

lemma round_release:
  assumes "linked pr n i" and "rel_master bus \<noteq> 0" and "is_master bus = 1"
    and "sack_asserted pr \<noteq> 0" and "bbsy_asserted pr \<noteq> 0"
  shows "priority_round junk Recv_Again (pr, bus, n) =
    ([cond_pr_rel_master], (refreshed i pr)\<lparr>sack_asserted := 0, bbsy_asserted := 0\<rparr>,
     bus\<lparr>is_master := 0, req_master := 0, rel_master := 0\<rparr>,
     n\<lparr>sent := sent n @ both pr (own_signal junk pr SACK NEGATED) @
                both pr (own_signal junk pr BBSY NEGATED)\<rparr>)"
  using assms
  by (simp add: priority_round_def process_pr_events_def release_master_def negate_sack_def
        negate_bbsy_def pr_send_both_linked [where i = i])

text \<open>From the request to mastership: the messages sent, and the device as master.\<close>

lemma mastership_acquired:
  assumes "linked pr n i" and "req_master bus = 1" and "is_master bus = 0" and "rel_master bus = 0"
    and "br_issued pr = 0" and "bbsy_asserted pr = 0"
    and "sig g1 = BG" and "assertion g1 = ASSERTED" and "sig g2 = BG" and "assertion g2 = NEGATED"
  shows "\<exists>dir. dir \<noteq> D_NONE \<and>
    priority_run junk [Recv_Again, Recv_Message g1, Recv_Message g2] (pr, bus, n) =
      ([cond_pr_master], (refreshed i pr)\<lparr>br_issued := 0, sack_asserted := 1, bbsy_asserted := 1\<rparr>,
       bus\<lparr>req_master := 0, is_master := 1\<rparr>,
       n\<lparr>sent := sent n @ both pr (own_signal junk pr BR ASSERTED) @
         [(dir_addr pr dir, own_signal junk pr SACK ASSERTED)] @ both pr (own_signal junk pr BBSY ASSERTED)\<rparr>)"
proof -
  define n1 where "n1 = n\<lparr>sent := sent n @ both pr (own_signal junk pr BR ASSERTED)\<rparr>"
  define bus1 where "bus1 = bus\<lparr>req_master := 0\<rparr>"
  have l1: "linked pr n1 i" using assms(1) by (simp add: n1_def)
  have b1: "req_master bus1 = 0" "rel_master bus1 = 0" "is_master bus1 = 0"
    using assms by (simp_all add: bus1_def)
  have r1: "priority_round junk Recv_Again (pr, bus, n) = ([], (refreshed i pr)\<lparr>br_issued := 1\<rparr>, bus1, n1)"
    using round_request [OF assms(1)] assms by (simp add: n1_def bus1_def)
  obtain dir where dir: "dir \<noteq> D_NONE" and r2:
    "priority_round junk (Recv_Message g1) ((refreshed i pr)\<lparr>br_issued := 1\<rparr>, bus1, n1) =
     ([], (refreshed i pr)\<lparr>br_issued := 0, sack_asserted := 1\<rparr>, bus1,
      n1\<lparr>sent := sent n1 @ [(dir_addr pr dir, own_signal junk pr SACK ASSERTED)]\<rparr>)"
    using round_grant [OF l1 b1(1,2) assms(7,8)] by blast
  define pr2 where "pr2 = (refreshed i pr)\<lparr>br_issued := 0, sack_asserted := 1\<rparr>"
  define n2 where "n2 = n1\<lparr>sent := sent n1 @ [(dir_addr pr dir, own_signal junk pr SACK ASSERTED)]\<rparr>"
  have pr2: "refreshed i pr2 = pr2" "pr_out_addr_l pr2 = pr_out_addr_l pr"
      "pr_out_addr_r pr2 = pr_out_addr_r pr" "own_signal junk pr2 s b = own_signal junk pr s b"
      "br_issued pr2 = 0" "sack_asserted pr2 = 1" "bbsy_asserted pr2 = 0" for s b
    using assms(6) by (simp_all add: pr2_def)
  have l2: "linked pr2 n2 i" using l1 by (simp add: pr2_def n2_def)
  have "priority_round junk (Recv_Message g2) (pr2, bus1, n2) =
     ([cond_pr_master], pr2\<lparr>bbsy_asserted := 1\<rparr>, bus1\<lparr>is_master := 1\<rparr>,
      n2\<lparr>sent := sent n2 @ both pr (own_signal junk pr BBSY ASSERTED)\<rparr>)"
    using round_master [OF l2 b1(1,2) assms(9,10)] pr2 b1 by simp
  with dir r1 r2 show ?thesis
    by (intro exI [of _ dir]) (simp add: pr2_def [symmetric] n2_def [symmetric], simp add: n1_def n2_def bus1_def pr2_def)
qed

text \<open>
  A device gets the bus and gives it back: between two neighbours that are up, a
  request of the device, the assertion of a grant and its negation make it master and wake it,
  after sending BR to both sides, SACK back towards the grant and BBSY to both sides; the next
  round after the device asks to release the bus negates SACK and BBSY on both sides, wakes
  the device and leaves every flag as it was before the request.
\<close>

theorem mastership_cycle:
  assumes "linked pr n i" and "req_master bus = 1" and "is_master bus = 0" and "rel_master bus = 0"
    and "br_issued pr = 0" and "sack_asserted pr = 0" and "bbsy_asserted pr = 0"
    and "sig g1 = BG" and "assertion g1 = ASSERTED" and "sig g2 = BG" and "assertion g2 = NEGATED"
  shows "\<exists>pr1 bus1 n1 pr2 bus2 n2 dir. dir \<noteq> D_NONE \<and>
    priority_run junk [Recv_Again, Recv_Message g1, Recv_Message g2] (pr, bus, n) =
      ([cond_pr_master], pr1, bus1, n1) \<and>
    is_master bus1 = 1 \<and> req_master bus1 = 0 \<and>
    sent n1 = sent n @ both pr (own_signal junk pr BR ASSERTED) @
      [(dir_addr pr dir, own_signal junk pr SACK ASSERTED)] @ both pr (own_signal junk pr BBSY ASSERTED) \<and>
    priority_run junk [Recv_Again] (pr1, release_bus_master_request bus1, n1) =
      ([cond_pr_rel_master], pr2, bus2, n2) \<and>
    bus2 = bus\<lparr>req_master := 0\<rparr> \<and>
    br_issued pr2 = 0 \<and> sack_asserted pr2 = 0 \<and> bbsy_asserted pr2 = 0 \<and>
    sent n2 = sent n1 @ both pr (own_signal junk pr SACK NEGATED) @
      both pr (own_signal junk pr BBSY NEGATED)"
proof -
  let ?pr1 = "(refreshed i pr)\<lparr>br_issued := 0, sack_asserted := 1, bbsy_asserted := 1\<rparr>"
  let ?bus1 = "bus\<lparr>req_master := 0, is_master := 1\<rparr>"
  obtain dir where dir: "dir \<noteq> D_NONE" and a:
    "priority_run junk [Recv_Again, Recv_Message g1, Recv_Message g2] (pr, bus, n) =
      ([cond_pr_master], ?pr1, ?bus1,
       n\<lparr>sent := sent n @ both pr (own_signal junk pr BR ASSERTED) @
         [(dir_addr pr dir, own_signal junk pr SACK ASSERTED)] @ both pr (own_signal junk pr BBSY ASSERTED)\<rparr>)"
    (is "_ = (_, _, _, ?n1)")
    using mastership_acquired [OF assms(1-5,7-11), of junk] by blast
  have "linked ?pr1 ?n1 i" using assms(1) by simp
  from round_release [OF this, of "?bus1\<lparr>rel_master := 1\<rparr>" junk]
  have r: "priority_round junk Recv_Again (?pr1, ?bus1\<lparr>rel_master := 1\<rparr>, ?n1) =
     ([cond_pr_rel_master], ?pr1\<lparr>sack_asserted := 0, bbsy_asserted := 0\<rparr>, bus\<lparr>req_master := 0\<rparr>,
      ?n1\<lparr>sent := sent ?n1 @ both pr (own_signal junk pr SACK NEGATED) @
                  both pr (own_signal junk pr BBSY NEGATED)\<rparr>)"
    using assms(3,4) by simp
  show ?thesis
    using dir a r assms(4) by (simp add: release_bus_master_request_def) blast
qed

text \<open>A device in the middle of the bus, and its shared state while it asks for the bus.\<close>

definition pr_sample :: pr_state where
  "pr_sample =
     \<lparr>pr_out_addr_l = pr_socket_path ''mem'', pr_out_addr_r = pr_socket_path ''tty'',
      pr_in_addr = pr_socket_path ''disk'', pr_bus_in = 4, pr_bus_out_l = 0, pr_bus_out_r = 0,
      npr_issued = 0, br_issued = 0, sack_asserted = 0, bbsy_asserted = 0\<rparr>"

definition bus_sample :: bus_state where
  "bus_sample =
     \<lparr>is_master = 0, req_master = 0, rel_master = 0, shutdown = 0, l_sock = Some ''mem'',
      sock = Some ''disk'', r_sock = Some ''tty'',
      master = \<lparr>x_op = R_NONE, x_addr = 0, x_value = 0\<rparr>,
      slave = \<lparr>x_op = R_NONE, x_addr = 0, x_value = 0\<rparr>, addr_internal_to_device = None, inited = []\<rparr>"

lemma linked_sample: "linked pr_sample (net_sample (\<lambda>_. True)) 5"
  by (simp add: linked_def pr_sample_def net_sample_def free_fds_def upt_rec)

lemma mastership_cycle_witness:
  "let pr = pr_sample; bus = bus_sample\<lparr>req_master := 1\<rparr>; n = net_sample (\<lambda>_. True); junk = pr_msg [] BR 0
   in \<exists>pr1 bus1 n1 pr2 bus2 n2 dir. dir \<noteq> D_NONE \<and>
    priority_run junk [Recv_Again, Recv_Message (pr_msg [] BG 1), Recv_Message (pr_msg [] BG 0)] (pr, bus, n) =
      ([cond_pr_master], pr1, bus1, n1) \<and>
    is_master bus1 = 1 \<and> req_master bus1 = 0 \<and>
    sent n1 = sent n @ both pr (own_signal junk pr BR ASSERTED) @
      [(dir_addr pr dir, own_signal junk pr SACK ASSERTED)] @ both pr (own_signal junk pr BBSY ASSERTED) \<and>
    priority_run junk [Recv_Again] (pr1, release_bus_master_request bus1, n1) =
      ([cond_pr_rel_master], pr2, bus2, n2) \<and>
    bus2 = bus\<lparr>req_master := 0\<rparr> \<and>
    br_issued pr2 = 0 \<and> sack_asserted pr2 = 0 \<and> bbsy_asserted pr2 = 0 \<and>
    sent n2 = sent n1 @ both pr (own_signal junk pr SACK NEGATED) @
      both pr (own_signal junk pr BBSY NEGATED)"
  unfolding Let_def
  by (rule mastership_cycle [OF linked_sample])
     (simp_all add: bus_sample_def pr_sample_def pr_msg_def)

section \<open>A master holds SACK\<close>

text \<open>Sending changes descriptors only.\<close>

definition flags :: "pr_state \<Rightarrow> u8 \<times> u8 \<times> u8 \<times> u8" where
  "flags pr = (npr_issued pr, br_issued pr, sack_asserted pr, bbsy_asserted pr)"

lemma pr_connect_flags [frame]:
  "flags (fst (snd (pr_connect_l pr n))) = flags pr"
  "flags (fst (snd (pr_connect_r pr n))) = flags pr"
  "flags (fst (snd (pr_connect dir pr n))) = flags pr"
  by (simp_all add: pr_connect_def pr_connect_l_def pr_connect_r_def flags_def Let_def case_prod_unfold
        split: direction.split)

lemma pr_send_flags [frame]:
  "flags (fst (snd (pr_send_both req pr n))) = flags pr"
  "flags (fst (snd (pr_send_dir dir req pr n))) = flags pr"
  by (simp_all add: pr_send_both_def pr_send_dir_def Let_def case_prod_unfold pr_connect_flags)

lemma flags_fields:
  "flags pr' = flags pr \<Longrightarrow> sack_asserted pr' = sack_asserted pr"
  "flags pr' = flags pr \<Longrightarrow> br_issued pr' = br_issued pr"
  "flags pr' = flags pr \<Longrightarrow> npr_issued pr' = npr_issued pr"
  "flags pr' = flags pr \<Longrightarrow> bbsy_asserted pr' = bbsy_asserted pr"
  by (simp_all add: flags_def)

lemmas send_both_fields [simp] = flags_fields [OF pr_send_flags(1)]
lemmas send_dir_fields [simp] = flags_fields [OF pr_send_flags(2)]

definition sack_held :: "pr_world \<Rightarrow> bool" where
  "sack_held w \<longleftrightarrow> (is_master (fst (snd w)) \<noteq> 0 \<longrightarrow> sack_asserted (fst w) \<noteq> 0)"

lemma pass_on_keeps [simp]:
  "sack_asserted (fst (pass_on m w)) = sack_asserted (fst w)" "fst (snd (pass_on m w)) = fst (snd w)"
  "br_issued (fst (pass_on m w)) = br_issued (fst w)" "npr_issued (fst (pass_on m w)) = npr_issued (fst w)"
  by (simp_all add: pass_on_def Let_def case_prod_unfold)

lemmas world_defs = assert_br_def assert_bbsy_def negate_sack_def negate_bbsy_def request_master_def
  release_master_def handle_br_def handle_npr_def handle_sack_def handle_bbsy_def handle_bg_def
  handle_npg_def Let_def case_prod_unfold

lemma sack_held_ops [wf_intros]:
  "sack_held w \<Longrightarrow> sack_held (request_master junk w)"
  "sack_held w \<Longrightarrow> sack_held (negate_sack junk w)"
  "sack_held w \<Longrightarrow> sack_held (negate_bbsy junk w)"
  "sack_held w \<Longrightarrow> sack_held (pass_on m w)"
  "sack_held w \<Longrightarrow> sack_held (handle_bbsy m w)"
  "sack_held w \<Longrightarrow> sack_held (snd (handle_bg junk m w))"
  "sack_held w \<Longrightarrow> sack_held (handle_npg junk m w)"
  by (auto simp: sack_held_def world_defs)

lemma priority_round_sack_held:
  assumes "sack_held w"
  shows "sack_held (snd (priority_round junk r w))"
proof -
  have events: "sack_held (snd (process_pr_events junk r w'))" if "sack_held w'" for w'
    using that
    by (simp add: wf_intros process_pr_events_def handle_br_def handle_npr_def handle_sack_def
          split: recv_result.split pr_signal.split)
  have "sack_held (release_master junk w)"
    using assms by (simp add: wf_intros release_master_def)
  then show ?thesis
    using assms events by (simp add: wf_intros priority_round_def Let_def case_prod_unfold)
qed

text \<open>
  Property C31. A device believes to be bus master only while it holds SACK: whatever messages
  arrive and whatever the network does to the messages that it sends, starting with this
  state of affairs every run of the thread keeps it.
\<close>

theorem master_holds_sack:
  assumes "is_master bus \<noteq> 0 \<longrightarrow> sack_asserted pr \<noteq> 0"
    and "priority_run junk rs (pr, bus, n) = (sigs, pr', bus', n')" and "is_master bus' \<noteq> 0"
  shows "sack_asserted pr' \<noteq> 0"
proof -
  have "sack_held (snd (priority_run junk rs w))" if "sack_held w" for w
    using that by (induction rs arbitrary: w) (simp_all add: case_prod_unfold Let_def priority_round_sack_held)
  from this [of "(pr, bus, n)"] show ?thesis using assms by (simp add: sack_held_def)
qed

lemma master_holds_sack_witness:
  "let (sigs, pr', bus', n') = priority_run (pr_msg [] BR 0) [Recv_Again, Recv_Error]
         (pr_sample\<lparr>sack_asserted := 1\<rparr>, bus_sample\<lparr>is_master := 1\<rparr>, net_sample (\<lambda>_. True))
   in is_master bus' \<noteq> 0 \<and> sack_asserted pr' \<noteq> 0"
proof -
  let ?pr = "pr_sample\<lparr>sack_asserted := 1\<rparr>" and ?bus = "bus_sample\<lparr>is_master := 1\<rparr>"
  let ?n = "net_sample (\<lambda>_. True)"
  have run: "priority_run (pr_msg [] BR 0) [Recv_Again, Recv_Error] (?pr, ?bus, ?n) = ([], ?pr, ?bus, ?n)"
    by (simp add: priority_round_def process_pr_events_def bus_sample_def)
  show ?thesis
    using master_holds_sack [OF _ run] run by (simp add: bus_sample_def)
qed

section \<open>A grant that ends while the bus is busy\<close>

text \<open>
  A device can be told that it is master without being it: when another device
  asserts BBSY between the SACK of the device and the negation of its grant, the negation
  wakes the device although it asserts no BBSY and its flag \<open>is_master\<close> stays 0.
\<close>

theorem busy_grant_wakes_without_mastership:
  assumes "linked pr n i" and "get_fd pr D_LEFT = int i" and "get_fd pr D_RIGHT = int i"
    and "br_issued pr = 0" and "sack_asserted pr \<noteq> 0"
    and "is_master bus = 0" and "req_master bus = 0" and "rel_master bus = 0"
    and "sig b = BBSY" and "assertion b = ASSERTED" and "sig g = BG" and "assertion g = NEGATED"
  shows "\<exists>pr' n'. priority_run junk [Recv_Message b, Recv_Message g] (pr, bus, n) =
      ([cond_pr_master], pr', bus, n') \<and> is_master bus = 0 \<and>
    sent n' = sent n @ [(dir_addr pr (get_fd_direction pr b False), pr_update_from_addr pr b)]"
proof -
  have pr: "refreshed i pr = pr" using assms(2,3) by (simp add: refreshed_def get_fd_def)
  let ?dir = "get_fd_direction pr b False" and ?pr = "pr\<lparr>bbsy_asserted := 1\<rparr>"
  have dir: "?dir \<noteq> D_NONE" using reply_direction [OF assms(1)] by simp
  have same: "get_fd_direction ?pr b False = ?dir" "pr_update_from_addr ?pr b = pr_update_from_addr pr b"
      "dir_addr ?pr ?dir = dir_addr pr ?dir" "refreshed i ?pr = ?pr"
    using pr by (simp_all add: get_fd_direction_def pr_update_from_addr_def dir_addr_def split: direction.split)
  have "pr_send_dir ?dir (pr_update_from_addr pr b) ?pr n =
      (True, ?pr, n\<lparr>sent := sent n @ [(dir_addr pr ?dir, pr_update_from_addr pr b)]\<rparr>)"
    using pr_send_dir_linked [of ?pr n i ?dir "pr_update_from_addr pr b"] assms(1) dir same by simp
  then show ?thesis
    using assms dir same
    by (simp add: priority_round_def process_pr_events_def handle_bbsy_def pass_on_def Let_def
          handle_bg_def assert_bbsy_def)
qed

lemma busy_grant_wakes_without_mastership_witness:
  "let pr = pr_sample\<lparr>pr_bus_out_l := 5, pr_bus_out_r := 5, sack_asserted := 1\<rparr>;
       n = net_sample (\<lambda>_. True); b = pr_msg [] BBSY 1
   in \<exists>pr' n'. priority_run (pr_msg [] BR 0) [Recv_Message b, Recv_Message (pr_msg [] BG 0)] (pr, bus_sample, n) =
        ([cond_pr_master], pr', bus_sample, n') \<and> is_master bus_sample = 0 \<and>
      sent n' = sent n @ [(dir_addr pr (get_fd_direction pr b False), pr_update_from_addr pr b)]"
  unfolding Let_def
  by (rule busy_grant_wakes_without_mastership [where i = 5])
     (simp_all add: bus_sample_def pr_msg_def linked_def pr_sample_def net_sample_def free_fds_def
       upt_rec get_fd_def)

section \<open>The first message through a device\<close>

text \<open>
  The first message that a device passes on is lost: it is written to the
  descriptor that the uninitialised state contains, which is not the socket that is opened
  for it. When that descriptor is another open file of the process the message goes there
  without an error, and the same message is delivered when it comes a second time.
\<close>

theorem first_message_lost:
  assumes "linked pr n i" and "pr_bus_out_l pr = int j" and "pr_bus_out_r pr = int j"
    and "fd_table n j = Some Other_File"
    and "req_master bus = 0" and "rel_master bus = 0" and "sig m \<in> {BR, NPR, SACK}"
  shows "\<exists>pr1 pr2 n2. priority_run junk [Recv_Message m] (pr, bus, n) = ([], pr1, bus, n) \<and>
    priority_run junk [Recv_Message m] (pr1, bus, n) = ([], pr2, bus, n2) \<and>
    sent n2 = sent n @ [(dir_addr pr (get_fd_direction pr m False), pr_update_from_addr pr m)]"
proof -
  obtain "is" where free: "free_fds n = i # is" using assms(1) by (auto simp: linked_def)
  have ij: "j \<noteq> i" using free_fds_Cons [OF free] assms(4) by auto
  have round: "priority_round junk (Recv_Message m) w = ([], pass_on m w)"
    if "req_master (fst (snd w)) = 0" "rel_master (fst (snd w)) = 0" for w
    using that assms(7)
    by (auto simp: priority_round_def process_pr_events_def handle_br_def handle_npr_def handle_sack_def
          Let_def split: prod.split)
  note steps = pass_on_def pr_send_dir_def pr_connect_def pr_close_def pr_connect_l_def pr_connect_r_def
    pr_close_l_def pr_close_r_def get_fd_def os_socket_free os_defs(2-6) Let_def pr_update_from_addr_def
    dir_addr_def get_fd_direction_def
  show ?thesis
    using assms free free_fds_Cons [OF free] ij
    by (cases "take 100 (pr_from m) = take 100 (pr_out_addr_l pr)")
       (simp_all add: round steps linked_def fun_upd_idem)
qed

lemma first_message_lost_witness:
  "let n = net_sample (\<lambda>_. True); m = pr_msg (pr_socket_path ''tty'') BR 1
   in \<exists>pr1 pr2 n2. priority_run m [Recv_Message m] (pr_sample, bus_sample, n) = ([], pr1, bus_sample, n) \<and>
    priority_run m [Recv_Message m] (pr1, bus_sample, n) = ([], pr2, bus_sample, n2) \<and>
    sent n2 = sent n @ [(dir_addr pr_sample (get_fd_direction pr_sample m False), pr_update_from_addr pr_sample m)]"
  unfolding Let_def
  by (rule first_message_lost [OF linked_sample, where j = 0])
     (simp_all add: pr_sample_def net_sample_def bus_sample_def pr_msg_def)

end
