(* ===== verification/Shutdown.thy ===== *)
theory Shutdown
  imports Unibus_Bus Bus_Arb Priority_Bus
begin

text \<open>
  How a process leaves the bus: \<open>cleanup_bus\<close> of \<open>src/src/libunibus/device_bus_mgr.c\<close> sets the
  flag \<open>shutdown\<close> and joins the thread of the priority bus (in the CPU process the arbiter) and
  that of the data bus. It is called by the signal handlers, so the main thread does nothing
  else any more: it neither serves a transfer nor waits for one. The signal is taken to come
  outside the critical sections of the main thread.
\<close>

section \<open>The thread of the priority bus\<close>

text \<open>
  A thread that works in rounds until it sees the flag: a round, whose boolean says whether the
  loop goes on for the thread's own reasons, and what is done after the loop.
\<close>

record ('w, 'r) looping =
  th_round :: "'r \<Rightarrow> 'w \<Rightarrow> bus_state \<Rightarrow> bool \<times> 'w \<times> bus_state"
  th_end :: "'w \<Rightarrow> 'w"

text \<open>The results of \<open>recv\<close> and the uninitialised parts of messages are the input of a round.\<close>

definition pr_cleanup :: "pr_state \<times> pr_net \<Rightarrow> pr_state \<times> pr_net" where
  "pr_cleanup = (\<lambda>(pr, n).
     (pr, (snd (os_close (pr_bus_in pr) n))\<lparr>bound := (bound n)(pr_in_addr pr := False)\<rparr>))"

definition priority_thread :: "(pr_state \<times> pr_net, pr_bus_req \<times> recv_result) looping" where
  "priority_thread =
     \<lparr>th_round = (\<lambda>(junk, r) (pr, n) bus.
        (let (sigs, pr, bus, n) = priority_round junk r (pr, bus, n) in (True, (pr, n), bus))),
      th_end = pr_cleanup\<rparr>"

definition cleanup_arb :: "arb_state \<times> pr_net \<Rightarrow> arb_state \<times> pr_net" where
  "cleanup_arb = (\<lambda>(a, n).
     (a, (snd (os_close (priority_socket a) n))\<lparr>bound := (bound n)(arb_socket a := False)\<rparr>))"

definition arb_thread :: "(arb_state \<times> pr_net, pr_bus_req \<times> recv_result) looping" where
  "arb_thread =
     \<lparr>th_round = (\<lambda>(junk, r) (a, n) bus.
        (let (go, a, n) = arb_round junk r a n in (go, (a, n), bus))),
      th_end = cleanup_arb\<rparr>"

section \<open>Leaving the bus\<close>

text \<open>The main thread in \<open>cleanup_bus\<close>, after it set the flag: in one of the joins, or returned.\<close>

datatype k_loc = K_Join_First | K_Join_Data | K_Joined

record 'w closing =
  k_at :: k_loc
  k_first :: 'w
  k_first_runs :: bool
  k_bus :: bus_state
  k_in :: "data_bus_req list"
  k_ds :: data_state
  k_thr :: d_thread

text \<open>The steps of the three threads, and the arrival of a message for the data bus.\<close>

datatype 'r k_act = K_Main | K_First 'r | K_Data data_bus_req | K_Arrive data_bus_req

definition k_main_step :: "'w closing \<Rightarrow> 'w closing option" where
  "k_main_step s =
     (case k_at s of
        K_Join_First \<Rightarrow> if k_first_runs s then None else Some (s\<lparr>k_at := K_Join_Data\<rparr>)
      | K_Join_Data \<Rightarrow> if d_at (k_thr s) = Stopped then Some (s\<lparr>k_at := K_Joined\<rparr>) else None
      | K_Joined \<Rightarrow> None)"

text \<open>The flag is read at the start of a round and tested at its end.\<close>

definition k_first_step :: "('w, 'r) looping \<Rightarrow> 'r \<Rightarrow> 'w closing \<Rightarrow> 'w closing option" where
  "k_first_step T r s =
     (if k_first_runs s
      then
        (let (go, w, bus) = th_round T r (k_first s) (k_bus s);
             ends = (\<not> go \<or> shutdown (k_bus s) \<noteq> 0)
         in Some (s\<lparr>k_first := if ends then th_end T w else w, k_bus := bus, k_first_runs := \<not> ends\<rparr>))
      else None)"

text \<open>
  The data bus thread; its signals reach nobody. At its end it closes its socket, and what lies
  in it is lost.
\<close>

definition k_data_step :: "net_env \<Rightarrow> data_bus_req \<Rightarrow> 'w closing \<Rightarrow> 'w closing option" where
  "k_data_step E junk s =
     (case d_step E junk (k_in s, k_bus s, k_ds s, k_thr s) of
        None \<Rightarrow> None
      | Some ((inbox, bus, d, t), out, w) \<Rightarrow>
          Some (s\<lparr>k_in := if d_at t = Stopped then [] else inbox, k_bus := bus, k_ds := d, k_thr := t\<rparr>))"

definition k_step :: "('w, 'r) looping \<Rightarrow> net_env \<Rightarrow> 'r k_act \<Rightarrow> 'w closing \<Rightarrow> 'w closing option" where
  "k_step T E act s =
     (case act of
        K_Main \<Rightarrow> k_main_step s
      | K_First r \<Rightarrow> k_first_step T r s
      | K_Data junk \<Rightarrow> k_data_step E junk s
      | K_Arrive ev \<Rightarrow> Some (s\<lparr>k_in := if d_at (k_thr s) = Stopped then [] else k_in s @ [ev]\<rparr>))"

fun k_run :: "('w, 'r) looping \<Rightarrow> net_env \<Rightarrow> 'r k_act list \<Rightarrow> 'w closing \<Rightarrow> 'w closing option" where
  "k_run T E [] s = Some s"
| "k_run T E (a # as) s = (case k_step T E a s of None \<Rightarrow> None | Some s \<Rightarrow> k_run T E as s)"

text \<open>\<open>cleanup_bus\<close> is called while the two threads are anywhere in their loops.\<close>

definition closing_start ::
  "'w \<Rightarrow> bool \<Rightarrow> bus_state \<Rightarrow> data_bus_req list \<Rightarrow> data_state \<Rightarrow> d_thread \<Rightarrow> 'w closing" where
  "closing_start w runs bus inbox d t =
     \<lparr>k_at = K_Join_First, k_first = w, k_first_runs = runs, k_bus = cleanup_bus bus, k_in = inbox,
      k_ds = d, k_thr = t\<rparr>"

section \<open>The data bus thread after the flag is set\<close>

text \<open>
  The steps that are left to it; a thread that read the flag before has one more round to go.
\<close>

definition old_flag :: "d_thread \<Rightarrow> bool" where
  "old_flag t \<longleftrightarrow> d_shutdown t = 0 \<and> d_at t \<noteq> At_Poll \<and> d_at t \<noteq> Stopped"

fun d_loc_rank :: "d_loc \<Rightarrow> nat" where
  "d_loc_rank At_Poll = 8" | "d_loc_rank At_Process = 7" | "d_loc_rank At_Check = 6"
| "d_loc_rank (At_Slave_Signal c) = 5" | "d_loc_rank (At_Slave_Wait c) = 4" | "d_loc_rank (Slave_Waiting c) = 3"
| "d_loc_rank (At_Slave_End c) = 2" | "d_loc_rank At_Master_Signal = 2" | "d_loc_rank At_Loop_End = 1"
| "d_loc_rank Stopped = 0"

definition d_rank :: "d_thread \<Rightarrow> nat" where
  "d_rank t = d_loc_rank (d_at t) + (if old_flag t then 8 else 0)"

text \<open>
  The messages that it still takes from its socket, those that make it wait for the device, and
  whether it waits or will.
\<close>

definition receives :: "d_thread \<Rightarrow> nat" where
  "receives t =
     (if d_at t = At_Poll \<or> d_at t = At_Process \<or> d_at t = At_Check then 1 else 0) +
     (if old_flag t then 1 else 0)"

definition for_device :: "data_state \<Rightarrow> data_bus_req \<Rightarrow> bool" where
  "for_device d ev \<longleftrightarrow> msg_type ev = DBM_REQ \<and> examine_address ev d \<and>
     (ctl ev = D_DATI \<or> ctl ev = D_DATO \<or> ctl ev = D_DATOB)"

fun at_device :: "d_loc \<Rightarrow> bool" where
  "at_device (At_Slave_Signal c) = True" | "at_device (At_Slave_Wait c) = True"
| "at_device (Slave_Waiting c) = True" | "at_device _ = False"

definition caught :: "data_bus_req list \<Rightarrow> data_state \<Rightarrow> d_thread \<Rightarrow> bool" where
  "caught inbox d t \<longleftrightarrow> at_device (d_at t) \<or> list_ex (for_device d) (take (receives t) inbox)"

lemma poll_master_keeps [frame]:
  "shutdown (fst (poll_master bus d)) = shutdown bus"
  "is_addr_internal (snd (poll_master bus d)) = is_addr_internal d"
  by (simp_all add: poll_master_def split: data_op.split)

lemma send_msg_keeps [frame]: "is_addr_internal (snd (snd (send_msg E r d))) = is_addr_internal d"
  by (simp add: send_msg_def d_connect_l_def d_connect_r_def d_close_l_def d_close_r_def Let_def case_prod_unfold)

lemma process_op_keeps [frame]: "is_addr_internal (snd (process_op E junk d)) = is_addr_internal d"
  by (simp add: process_op_def in_word_def out_word_def out_byte_def Let_def case_prod_unfold send_msg_keeps
      split: data_op.split)

lemma handle_req_end_keeps [frame]: "shutdown (snd (handle_req_end c junk bus)) = shutdown bus"
  by (simp add: handle_req_end_def handle_dati_end_def handle_dato_end_def handle_datob_end_def Let_def
      split: data_bus_signal.split)

lemma check_bus_keeps [frame]: "shutdown (snd (check_bus ev m bus d)) = shutdown bus"
  by (simp add: check_bus_def handle_req_def handle_dati_def handle_dato_def handle_datob_def handle_resp_def
      split: option.split data_bus_signal.split)

text \<open>What \<open>check_bus\<close> decides.\<close>

lemma check_bus_device:
  "for_device d ev \<Longrightarrow> at_device (fst (check_bus (Some ev) m bus d))"
  "\<not> for_device d ev \<Longrightarrow> fst (check_bus (Some ev) m bus d) \<in> {At_Loop_End, At_Master_Signal}"
  by (auto simp: check_bus_def for_device_def handle_req_def handle_resp_def split: data_bus_signal.split)

lemma check_bus_rank: "fst (check_bus ev m bus d) \<noteq> Stopped \<and> d_loc_rank (fst (check_bus ev m bus d)) < 6 \<and>
  fst (check_bus ev m bus d) \<noteq> At_Poll \<and> fst (check_bus ev m bus d) \<noteq> At_Process \<and> fst (check_bus ev m bus d) \<noteq> At_Check"
  by (simp add: check_bus_def split: option.split)

lemma for_device_cong: "is_addr_internal d' = is_addr_internal d \<Longrightarrow> for_device d' = for_device d"
  by (rule ext) (simp add: for_device_def examine_address_def)

text \<open>
  A step uses up rank, keeps the flag and the address check, and does not change whether the
  thread is caught.
\<close>

lemma d_step_closing:
  assumes "d_step E junk (inbox, bus, d, t) = Some ((inbox', bus', d', t'), out, w)" and "shutdown bus \<noteq> 0"
  shows "d_rank t' < d_rank t \<and> shutdown bus' = shutdown bus \<and> is_addr_internal d' = is_addr_internal d \<and>
    (caught inbox' d' t' \<longleftrightarrow> caught inbox d t)"
proof (cases "d_at t")
  case At_Poll
  with assms show ?thesis
    using poll_master_keeps [of bus d] for_device_cong [of d' d]
    by (auto simp: d_step_def Let_def d_rank_def old_flag_def caught_def receives_def split: prod.splits)
next
  case At_Process
  with assms(1) show ?thesis
    using process_op_keeps [of E junk d] for_device_cong [of d' d]
    by (auto simp: d_step_def Let_def d_rank_def old_flag_def caught_def receives_def split: prod.splits if_splits)
next
  case At_Check
  show ?thesis
  proof (cases inbox)
    case Nil
    with At_Check assms(1) show ?thesis
      by (auto simp: d_step_def d_rank_def old_flag_def caught_def receives_def)
  next
    case (Cons ev rest)
    let ?l = "fst (check_bus (Some ev) (d_is_master t) bus d)"
    have r: "inbox' = rest" "bus' = snd (check_bus (Some ev) (d_is_master t) bus d)" "d' = d" "t' = t\<lparr>d_at := ?l\<rparr>"
      using assms(1) At_Check Cons by (auto simp: d_step_def Let_def split: prod.splits)
    have l: "?l \<noteq> Stopped" "d_loc_rank ?l < 6" "?l \<noteq> At_Poll" "?l \<noteq> At_Process" "?l \<noteq> At_Check"
      using check_bus_rank [of "Some ev" "d_is_master t" bus d] by auto
    have "caught inbox' d' t' \<longleftrightarrow> caught inbox d t"
      using l check_bus_device [of d ev "d_is_master t" bus] At_Check Cons
      by (cases "for_device d ev") (auto simp: r caught_def receives_def old_flag_def)
    then show ?thesis using l At_Check by (simp add: r check_bus_keeps d_rank_def old_flag_def)
  qed
next
  case (At_Slave_End c)
  with assms(1) show ?thesis
    using send_msg_keeps [of E "fst (handle_req_end c junk bus)" d] handle_req_end_keeps [of c junk bus]
      for_device_cong [of d' d]
    by (auto simp: d_step_def Let_def d_rank_def old_flag_def caught_def receives_def split: prod.splits)
next
  case At_Loop_End
  with assms(1) show ?thesis
    by (cases "d_shutdown t = 0") (auto simp: d_step_def d_rank_def old_flag_def caught_def receives_def)
qed (use assms(1) for_device_cong [of d' d] in
    \<open>auto simp: d_step_def d_rank_def old_flag_def caught_def receives_def handle_resp_end_def\<close>)

lemma d_step_None: "d_step E junk (inbox, bus, d, t) = None \<Longrightarrow> d_at t = Stopped \<or> (\<exists>c. d_at t = Slave_Waiting c)"
  by (cases "d_at t") (auto simp: d_step_def Let_def split: prod.splits list.splits)

section \<open>A thread that does not touch the flag\<close>

locale bus_thread =
  fixes T :: "('w, 'r) looping"
  assumes keeps_shutdown: "shutdown (snd (snd (th_round T r w bus))) = shutdown bus"

text \<open>The steps of the threads, without the arrivals.\<close>

fun moves :: "'r k_act \<Rightarrow> bool" where
  "moves (K_Arrive ev) = False" | "moves _ = True"

definition k_rank :: "'w closing \<Rightarrow> nat" where
  "k_rank s = (case k_at s of K_Join_First \<Rightarrow> 2 | K_Join_Data \<Rightarrow> 1 | K_Joined \<Rightarrow> 0) +
     (if k_first_runs s then 1 else 0) + d_rank (k_thr s)"

definition k_caught :: "'w closing \<Rightarrow> bool" where
  "k_caught s \<longleftrightarrow> caught (k_in s) (k_ds s) (k_thr s)"

definition k_ok :: "'w closing \<Rightarrow> bool" where
  "k_ok s \<longleftrightarrow> shutdown (k_bus s) \<noteq> 0 \<and> (k_at s = K_Joined \<longrightarrow> d_at (k_thr s) = Stopped) \<and>
     (k_at s \<noteq> K_Join_First \<longrightarrow> \<not> k_first_runs s)"

lemma no_address:
  "is_addr_internal (k_ds s) = None \<Longrightarrow> k_caught s \<longleftrightarrow> at_device (d_at (k_thr s))"
  by (auto simp: k_caught_def caught_def list_ex_iff for_device_def examine_address_def)

lemma d_rank_le: "d_rank t \<le> 15"
  by (cases "d_at t") (auto simp: d_rank_def old_flag_def)

lemma caught_Stopped [simp]: "d_at t = Stopped \<Longrightarrow> \<not> caught inbox d t"
  by (simp add: caught_def receives_def old_flag_def)

context bus_thread
begin

lemma step_ok:
  assumes "k_step T E a s = Some s'" and "k_ok s"
  shows "k_ok s'" and "moves a \<Longrightarrow> k_rank s' < k_rank s" and "\<not> moves a \<Longrightarrow> k_rank s' = k_rank s"
    and "is_addr_internal (k_ds s') = is_addr_internal (k_ds s)"
    and "moves a \<Longrightarrow> k_caught s' \<longleftrightarrow> k_caught s" and "k_caught s \<Longrightarrow> k_caught s'"
proof -
  have "k_ok s' \<and> (moves a \<longrightarrow> k_rank s' < k_rank s) \<and> (\<not> moves a \<longrightarrow> k_rank s' = k_rank s) \<and>
    is_addr_internal (k_ds s') = is_addr_internal (k_ds s) \<and> (moves a \<longrightarrow> (k_caught s' \<longleftrightarrow> k_caught s)) \<and>
    (k_caught s \<longrightarrow> k_caught s')"
  proof (cases a)
    case K_Main
    with assms show ?thesis
      by (auto simp: k_step_def k_main_step_def k_ok_def k_rank_def k_caught_def split: k_loc.splits if_splits)
  next
    case (K_First r)
    with assms keeps_shutdown [of r "k_first s" "k_bus s"] show ?thesis
      by (auto simp: k_step_def k_first_step_def k_ok_def k_rank_def k_caught_def Let_def
          split: prod.splits if_splits)
  next
    case (K_Data junk)
    then obtain inbox bus d t out w where
      d: "d_step E junk (k_in s, k_bus s, k_ds s, k_thr s) = Some ((inbox, bus, d, t), out, w)" and
      s': "s' = s\<lparr>k_in := if d_at t = Stopped then [] else inbox, k_bus := bus, k_ds := d, k_thr := t\<rparr>"
      using assms(1) by (auto simp: k_step_def k_data_step_def split: option.splits)
    have "d_at (k_thr s) \<noteq> Stopped" using d by (auto simp: d_step_def)
    then have "k_ok s'" using assms(2) d_step_closing [OF d] by (auto simp: s' k_ok_def)
    with K_Data d_step_closing [OF d] assms(2) show ?thesis
      by (cases "d_at t = Stopped") (auto simp: s' k_ok_def k_rank_def k_caught_def)
  next
    case (K_Arrive ev)
    show ?thesis
    proof (cases "d_at (k_thr s) = Stopped")
      case True
      with K_Arrive assms show ?thesis by (auto simp: k_step_def k_ok_def k_rank_def k_caught_def)
    next
      case False
      with K_Arrive assms show ?thesis by (auto simp: k_step_def k_ok_def k_rank_def k_caught_def caught_def)
    qed
  qed
  then show "k_ok s'" "moves a \<Longrightarrow> k_rank s' < k_rank s" "\<not> moves a \<Longrightarrow> k_rank s' = k_rank s"
    "is_addr_internal (k_ds s') = is_addr_internal (k_ds s)" "moves a \<Longrightarrow> k_caught s' \<longleftrightarrow> k_caught s"
    "k_caught s \<Longrightarrow> k_caught s'" by blast+
qed

lemma run_ok:
  assumes "k_run T E as s = Some s'" and "k_ok s"
  shows "k_ok s' \<and> length (filter moves as) + k_rank s' \<le> k_rank s \<and>
    is_addr_internal (k_ds s') = is_addr_internal (k_ds s) \<and> (k_caught s \<longrightarrow> k_caught s')"
  using assms
proof (induction as arbitrary: s)
  case (Cons a as)
  then obtain s1 where s1: "k_step T E a s = Some s1" "k_run T E as s1 = Some s'" by (auto split: option.splits)
  note st = step_ok [OF s1(1) Cons.prems(2)]
  from Cons.IH [OF s1(2) st(1)] st(2-4,6) show ?case by (cases "moves a") auto
qed simp

text \<open>A process that claims no address is never caught by a message.\<close>

lemma no_address_run:
  assumes "k_run T E as s = Some s'" and "k_ok s" and "is_addr_internal (k_ds s) = None"
    and "\<not> at_device (d_at (k_thr s))"
  shows "\<not> k_caught s'"
  using assms
proof (induction as arbitrary: s)
  case Nil
  then show ?case by (simp add: no_address)
next
  case (Cons a as)
  then obtain s1 where s1: "k_step T E a s = Some s1" "k_run T E as s1 = Some s'" by (auto split: option.splits)
  note st = step_ok [OF s1(1) Cons.prems(2)]
  have "\<not> at_device (d_at (k_thr s1))"
  proof (cases "moves a")
    case True
    with st(4,5) Cons.prems(3,4) show ?thesis by (simp add: no_address)
  next
    case False
    with s1(1) Cons.prems(4) show ?thesis by (cases a) (auto simp: k_step_def)
  qed
  with Cons.IH [OF s1(2) st(1)] st(4) Cons.prems(3) show ?case by simp
qed

text \<open>No thread can go on only at the end, or when the device is waited for.\<close>

lemma no_move:
  assumes "k_ok s" and "\<And>a. moves a \<Longrightarrow> k_step T E a s = None"
  shows "k_at s = K_Joined \<or> k_caught s"
proof -
  have "k_first_step T r s = None" for r using assms(2) [of "K_First r"] by (simp add: k_step_def)
  then have "\<not> k_first_runs s" by (auto simp: k_first_step_def Let_def case_prod_unfold)
  moreover have "k_main_step s = None" using assms(2) [of K_Main] by (simp add: k_step_def)
  moreover have "d_step E junk (k_in s, k_bus s, k_ds s, k_thr s) = None" for junk
    using assms(2) [of "K_Data junk"] by (auto simp: k_step_def k_data_step_def split: option.splits)
  from d_step_None [OF this] have "d_at (k_thr s) = Stopped \<or> k_caught s"
    by (auto simp: k_caught_def caught_def)
  ultimately show ?thesis by (auto simp: k_main_step_def split: k_loc.splits if_splits)
qed

lemma run_to_end:
  "k_ok s \<Longrightarrow> \<not> k_caught s \<Longrightarrow> \<exists>as s'. k_run T E as s = Some s' \<and> k_at s' = K_Joined"
proof (induction "k_rank s" arbitrary: s rule: less_induct)
  case less
  show ?case
  proof (cases "\<exists>a s1. moves a \<and> k_step T E a s = Some s1")
    case True
    then obtain a s1 where a: "moves a" "k_step T E a s = Some s1" by blast
    note st = step_ok [OF a(2) less.prems(1)]
    from less.hyps [OF st(2) [OF a(1)] st(1)] st(5) [OF a(1)] less.prems(2) obtain as s' where
      "k_run T E as s1 = Some s'" "k_at s' = K_Joined" by blast
    with a(2) show ?thesis by (intro exI [of _ "a # as"] exI [of _ s']) simp
  next
    case False
    then have "k_step T E a s = None" if "moves a" for a using that by (cases "k_step T E a s") auto
    with no_move less.prems have "k_at s = K_Joined" by blast
    then show ?thesis by (intro exI [of _ "[]"] exI [of _ s]) simp
  qed
qed

lemma start_ok: "k_ok (closing_start w runs bus inbox d t)"
  by (simp add: k_ok_def closing_start_def cleanup_bus_def)

lemma joins_iff:
  "(\<exists>as s. k_run T E as (closing_start w runs bus inbox d t) = Some s \<and> k_at s = K_Joined) \<longleftrightarrow>
     \<not> caught inbox d t"
proof -
  let ?s = "closing_start w runs bus inbox d t"
  have c: "k_caught ?s \<longleftrightarrow> caught inbox d t" by (simp add: k_caught_def closing_start_def)
  have "\<not> k_caught s" if "k_run T E as ?s = Some s" "k_at s = K_Joined" for as s
    using run_ok [OF that(1) start_ok] that(2) by (auto simp: k_ok_def k_caught_def)
  with run_ok [OF _ start_ok] have "caught inbox d t \<Longrightarrow> k_run T E as ?s = Some s \<Longrightarrow> k_at s \<noteq> K_Joined" for as s
    using c by blast
  with run_to_end [OF start_ok, of w runs bus inbox d t] show ?thesis using c by blast
qed

lemma bounded_joins:
  assumes "k_run T E as (closing_start w runs bus inbox d t) = Some s" and "is_addr_internal d = None"
    and "\<not> at_device (d_at t)"
  shows "length (filter moves as) \<le> 18 \<and>
    ((\<forall>a. moves a \<longrightarrow> k_step T E a s = None) \<longrightarrow> k_at s = K_Joined)"
proof -
  let ?s = "closing_start w runs bus inbox d t"
  note ok = run_ok [OF assms(1) start_ok]
  have "k_rank ?s \<le> 18" using d_rank_le [of t] by (simp add: k_rank_def closing_start_def)
  moreover have "\<not> k_caught s"
    using no_address_run [OF assms(1) start_ok] assms(2,3) by (simp add: closing_start_def no_address)
  ultimately show ?thesis using ok no_move [of s E] by fastforce
qed

end

section \<open>The two processes\<close>

lemma pr_ops_shutdown [frame]:
  "shutdown (fst (snd (request_master junk w))) = shutdown (fst (snd w))"
  "shutdown (fst (snd (release_master junk w))) = shutdown (fst (snd w))"
  "shutdown (fst (snd (snd (process_pr_events junk r w)))) = shutdown (fst (snd w))"
  by (simp_all add: process_pr_events_def world_defs split: recv_result.split pr_signal.split)

interpretation priority_loop: bus_thread priority_thread
  by unfold_locales
    (auto simp: priority_thread_def priority_round_def Let_def case_prod_unfold pr_ops_shutdown)

interpretation arb_loop: bus_thread arb_thread
  by unfold_locales (auto simp: arb_thread_def Let_def case_prod_unfold)

text \<open>
  Property C12. When a device can leave the bus: \<open>cleanup_bus\<close>, called from its signal handler,
  returns in some run exactly when the data bus thread is not about to wait for the device,
  that is, when it is not in the midst of serving a transfer and none of the messages that it
  still takes from its socket asks for one. Otherwise no run returns: the main thread, which
  should serve the transfer, waits in the handler for the thread that waits for it.
\<close>

theorem device_leaves_bus:
  "(\<exists>as s. k_run priority_thread E as (closing_start (pr, n) runs bus inbox d t) = Some s \<and> k_at s = K_Joined) \<longleftrightarrow>
     \<not> caught inbox d t"
  by (rule priority_loop.joins_iff)

text \<open>
  Property C32. The CPU always leaves the bus: as its data bus serves no address, whatever
  messages arrive and in whatever order the threads run, after \<open>cleanup_bus\<close> has set the flag
  at most 18 further steps of the threads are possible, and when none is possible any more,
  \<open>cleanup_bus\<close> has returned.
\<close>

theorem cpu_leaves_bus:
  assumes "k_run arb_thread E as (closing_start (a, n) runs bus inbox d t) = Some s"
    and "is_addr_internal d = None" and "\<not> at_device (d_at t)"
  shows "length (filter moves as) \<le> 18 \<and>
    ((\<forall>act. moves act \<longrightarrow> k_step arb_thread E act s = None) \<longrightarrow> k_at s = K_Joined)"
  using assms by (rule arb_loop.bounded_joins)

text \<open>The signal comes while the arbiter waits for its next round and the data bus is idle.\<close>

definition leaving :: "(arb_state \<times> pr_net) closing" where
  "leaving = closing_start (arb_sample, net_sample (\<lambda>_. True)) True (zero_bus\<lparr>is_master := 1\<rparr>) [zero_req]
     zero_data \<lparr>d_at = At_Loop_End, d_is_master = 1, d_shutdown = 0\<rparr>"

theorem cpu_leaves_bus_witness:
  "\<exists>s. k_run arb_thread net_up
      ([K_Data zero_req, K_First (pr_msg [] BR 0, Recv_Again), K_Main] @ replicate 4 (K_Data zero_req) @ [K_Main])
      leaving = Some s \<and> k_at s = K_Joined"
proof -
  let ?as = "[K_Data zero_req, K_First (pr_msg [] BR 0, Recv_Again), K_Main] @ replicate 4 (K_Data zero_req) @ [K_Main]"
  obtain s where s: "k_run arb_thread net_up ?as leaving = Some s" and
    e: "\<not> k_first_runs s" "d_at (k_thr s) = Stopped" "k_main_step s = None"
    by (simp add: leaving_def closing_start_def cleanup_bus_def k_step_def k_data_step_def k_first_step_def
        k_main_step_def arb_thread_def arb_round_def d_step_def Let_def zero_bus_def zero_data_def zero_req_def
        poll_master_def process_op_def in_word_def send_msg_def d_connect_l_def d_connect_r_def d_close_l_def
        d_close_r_def check_bus_def examine_address_def case_prod_unfold eval_nat_numeral)
  from e have "k_step arb_thread net_up act s = None" if "moves act" for act
    using that by (cases act) (simp_all add: k_step_def k_data_step_def k_first_step_def d_step_def)
  with cpu_leaves_bus [OF s [unfolded leaving_def]] s show ?thesis by (simp add: zero_data_def)
qed

end
