(* ===== verification/Disk.thy ===== *)
theory Disk
  imports Bus_State
begin

text \<open>
  The floppy disk device of \<open>src/src/disk\<close>: its registers and flags, the state machine that
  \<open>execute\<close> drives one round at a time, the transfer of bytes through the data register, and
  the transfer of a sector between the internal buffer and the media. A file is the list of
  its bytes. The last sections show that the index into the buffer stays in its bounds, what
  the buffer and the sectors hold after a transfer, and what requests from the bus can set in
  motion.
\<close>

section \<open>Data\<close>

abbreviation (input) TRACK_SIZE :: u32 where "TRACK_SIZE \<equiv> 3328"
abbreviation (input) SECTOR_SIZE :: u32 where "SECTOR_SIZE \<equiv> 128"
abbreviation (input) BUFFER_SIZE :: nat where "BUFFER_SIZE \<equiv> 128"

text \<open>The addresses 0777170 and 0777172, and the masks, which the code writes in octal.\<close>

abbreviation (input) RXCS_ADDR :: u32 where "RXCS_ADDR \<equiv> 0x3FE78"
abbreviation (input) RXDB_ADDR :: u32 where "RXDB_ADDR \<equiv> 0x3FE7A"
abbreviation (input) RXCS_WRITE_MASK :: u16 where "RXCS_WRITE_MASK \<equiv> 0x405F"

datatype rxcs_flag = RXCS_FLAG_GO | RXCS_FLAG_FS | RXCS_FLAG_US | RXCS_FLAG_DONE
  | RXCS_FLAG_INT | RXCS_FLAG_XFER

primrec flag_mask :: "rxcs_flag \<Rightarrow> u16" where
  "flag_mask RXCS_FLAG_GO = 0x01"
| "flag_mask RXCS_FLAG_FS = 0x0E"
| "flag_mask RXCS_FLAG_US = 0x10"
| "flag_mask RXCS_FLAG_DONE = 0x20"
| "flag_mask RXCS_FLAG_INT = 0x40"
| "flag_mask RXCS_FLAG_XFER = 0x80"

datatype disk_op = DSK_OP_BEGIN | DSK_OP_SECTOR | DSK_OP_TRACK | DSK_OP_FILL | DSK_OP_EMPTY
  | DSK_OP_WRITE_SECTOR | DSK_OP_READ_SECTOR | DSK_OP_DONE

datatype disk_func = DSK_FUNC_FILL_BUFFER | DSK_FUNC_EMPTY_BUFFER | DSK_FUNC_WRITE_SECTOR
  | DSK_FUNC_READ_SECTOR | DSK_FUNC_NOT_USED | DSK_FUNC_READ_STATUS | DSK_FUNC_WRITE_DEL
  | DSK_FUNC_READ_ERR | DSK_FUNC_IDLE

primrec func_code :: "disk_func \<Rightarrow> u16" where
  "func_code DSK_FUNC_FILL_BUFFER = 0"
| "func_code DSK_FUNC_EMPTY_BUFFER = 1"
| "func_code DSK_FUNC_WRITE_SECTOR = 2"
| "func_code DSK_FUNC_READ_SECTOR = 3"
| "func_code DSK_FUNC_NOT_USED = 4"
| "func_code DSK_FUNC_READ_STATUS = 5"
| "func_code DSK_FUNC_WRITE_DEL = 6"
| "func_code DSK_FUNC_READ_ERR = 7"
| "func_code DSK_FUNC_IDLE = 8"

record disk_state =
  dsk_op :: disk_op
  dsk_func :: disk_func
  track :: u32
  sector :: u32
  rxcs :: u16
  rxdb :: u16
  buffer_idx :: u32
  internal_buffer :: "u16 list"
  disk_media :: int

text \<open>The static \<open>DSK_STATE\<close> before \<open>init_disk\<close>: all bytes are zero.\<close>

definition dsk_static :: disk_state where
  "dsk_static =
     \<lparr>dsk_op = DSK_OP_BEGIN, dsk_func = DSK_FUNC_FILL_BUFFER, track = 0, sector = 0, rxcs = 0,
      rxdb = 0, buffer_idx = 0, internal_buffer = replicate BUFFER_SIZE 0, disk_media = 0\<rparr>"

definition init_disk :: "disk_state \<Rightarrow> disk_state" where
  "init_disk d =
     d\<lparr>dsk_op := DSK_OP_BEGIN, dsk_func := DSK_FUNC_IDLE, track := 0, sector := 0, rxcs := 0,
       rxdb := 0, buffer_idx := 0, disk_media := -1\<rparr>"

section \<open>The media\<close>

text \<open>
  The outcome of the calls on the media: the descriptor \<open>open\<close> returns, and how many bytes
  \<open>read\<close> and \<open>write\<close> move at most (none when they fail). \<open>media_read n off m\<close> and
  \<open>media_write bs off m\<close> are \<open>read\<close> and \<open>write\<close> after an \<open>lseek\<close> to \<open>off\<close>: a read ends at
  the end of the file, a write behind it fills the gap with zeros.
\<close>

record disk_io =
  open_disk :: "string \<Rightarrow> int"
  read_limit :: nat
  write_limit :: nat

definition media_read :: "nat \<Rightarrow> nat \<Rightarrow> u8 list \<Rightarrow> u8 list" where
  "media_read n off m = take n (drop off m)"

definition media_write :: "u8 list \<Rightarrow> nat \<Rightarrow> u8 list \<Rightarrow> u8 list" where
  "media_write bs off m =
     (if bs = [] then m
      else take off (m @ replicate (off - length m) 0) @ bs @ drop (off + length bs) m)"

text \<open>
  The internal buffer as the bytes that \<open>read\<close> and \<open>write\<close> see: an array of 16-bit words in
  little-endian order.
\<close>

fun bytes_of_words :: "u16 list \<Rightarrow> u8 list" where
  "bytes_of_words [] = []"
| "bytes_of_words (w # ws) = lo_byte w # hi_byte w # bytes_of_words ws"

fun words_of_bytes :: "u8 list \<Rightarrow> u16 list" where
  "words_of_bytes (l # h # bs) = le_word l h # words_of_bytes bs"
| "words_of_bytes _ = []"

definition overlay_bytes :: "u8 list \<Rightarrow> u16 list \<Rightarrow> u16 list" where
  "overlay_bytes bs ws = words_of_bytes (bs @ drop (length bs) (bytes_of_words ws))"

definition insert_disk_media :: "disk_io \<Rightarrow> string \<Rightarrow> disk_state \<Rightarrow> disk_state" where
  "insert_disk_media io disk d =
     (let fd = open_disk io disk in if fd = -1 then d else d\<lparr>disk_media := fd\<rparr>)"

section \<open>Registers and flags\<close>

definition disk_is_local_addr :: "u32 \<Rightarrow> bool" where
  "disk_is_local_addr a \<longleftrightarrow> a = RXCS_ADDR \<or> a = RXDB_ADDR"

definition clear_buffer_register :: "disk_state \<Rightarrow> disk_state" where
  "clear_buffer_register d = d\<lparr>rxdb := 0\<rparr>"

definition set_status_register :: "u16 \<Rightarrow> disk_state \<Rightarrow> disk_state" where
  "set_status_register v d = d\<lparr>rxcs := rxcs d OR (v AND RXCS_WRITE_MASK)\<rparr>"

definition set_transfer_flag :: "disk_state \<Rightarrow> disk_state" where
  "set_transfer_flag d =
     (if rxcs d AND flag_mask RXCS_FLAG_XFER = 0
      then d\<lparr>rxcs := rxcs d OR flag_mask RXCS_FLAG_XFER\<rparr> else d)"

definition clear_transfer_flag :: "disk_state \<Rightarrow> disk_state" where
  "clear_transfer_flag d = d\<lparr>rxcs := rxcs d AND flag_mask RXCS_FLAG_XFER\<rparr>"

definition is_transfer_flag_set :: "disk_state \<Rightarrow> bool" where
  "is_transfer_flag_set d \<longleftrightarrow> rxcs d AND flag_mask RXCS_FLAG_XFER \<noteq> 0"

definition set_done_flag :: "disk_state \<Rightarrow> disk_state" where
  "set_done_flag d =
     (if rxcs d AND flag_mask RXCS_FLAG_DONE = 0
      then d\<lparr>rxcs := rxcs d OR flag_mask RXCS_FLAG_DONE\<rparr> else d)"

definition clear_all_flags :: "disk_state \<Rightarrow> disk_state" where
  "clear_all_flags d = d\<lparr>rxcs := 0\<rparr>"

section \<open>Transfers\<close>

text \<open>\<open>internal_buffer[i]\<close> as a value and \<open>internal_buffer[i] = v\<close>.\<close>

definition buffer_get :: "u32 \<Rightarrow> disk_state \<Rightarrow> u16 res" where
  "buffer_get i d =
     (if unat i < length (internal_buffer d) then Inr (internal_buffer d ! unat i)
      else Inl (Out_Of_Bounds (uint i)))"

definition buffer_set :: "u32 \<Rightarrow> u16 \<Rightarrow> disk_state \<Rightarrow> disk_state res" where
  "buffer_set i v d =
     (if unat i < length (internal_buffer d)
      then Inr (d\<lparr>internal_buffer := (internal_buffer d)[unat i := v]\<rparr>)
      else Inl (Out_Of_Bounds (uint i)))"

definition fill_buffer :: "disk_state \<Rightarrow> disk_state res" where
  "fill_buffer d =
     (if buffer_idx d = SECTOR_SIZE then Inr d
      else if is_transfer_flag_set d then Inr d
      else
        (let d = clear_transfer_flag d
         in rbind (buffer_set (buffer_idx d) (rxdb d AND 0xFF) d) (\<lambda>d.
            let d = clear_buffer_register d;
                d = d\<lparr>buffer_idx := buffer_idx d + 1\<rparr>
            in if buffer_idx d \<noteq> SECTOR_SIZE then Inr (set_transfer_flag d)
               else
                 (let d = set_done_flag (clear_all_flags d)
                  in Inr (d\<lparr>buffer_idx := 0, dsk_op := DSK_OP_DONE,
                            dsk_func := DSK_FUNC_IDLE\<rparr>)))))"

definition empty_buffer :: "disk_state \<Rightarrow> disk_state res" where
  "empty_buffer d =
     (if buffer_idx d = SECTOR_SIZE then Inr d
      else if is_transfer_flag_set d then Inr d
      else
        rbind (buffer_get (buffer_idx d) d) (\<lambda>v.
          let d = d\<lparr>rxdb := v\<rparr>;
              d = d\<lparr>buffer_idx := buffer_idx d + 1\<rparr>
          in if buffer_idx d \<noteq> SECTOR_SIZE then Inr (set_transfer_flag d)
             else
               (let d = set_done_flag (clear_all_flags d)
                in Inr (d\<lparr>buffer_idx := 0, dsk_op := DSK_OP_DONE,
                          dsk_func := DSK_FUNC_IDLE\<rparr>))))"

text \<open>The byte offset of the sector, computed in 32 bits.\<close>

definition disk_offset :: "disk_state \<Rightarrow> u32" where
  "disk_offset d = TRACK_SIZE * track d + SECTOR_SIZE * sector d"

definition read_sector ::
  "disk_io \<Rightarrow> disk_state \<Rightarrow> u8 list \<Rightarrow> disk_state \<times> u8 list" where
  "read_sector io d m =
     (if dsk_op d = DSK_OP_SECTOR \<and> \<not> is_transfer_flag_set d
      then (set_transfer_flag (d\<lparr>sector := ucast (rxdb d), dsk_op := DSK_OP_TRACK\<rparr>), m)
      else if dsk_op d = DSK_OP_TRACK \<and> \<not> is_transfer_flag_set d
      then (d\<lparr>track := ucast (rxdb d), dsk_op := DSK_OP_WRITE_SECTOR\<rparr>, m)
      else if dsk_op d = DSK_OP_WRITE_SECTOR
      then
        (let d = (if disk_media d \<noteq> -1
                  then d\<lparr>internal_buffer :=
                           overlay_bytes
                             (media_read (min (read_limit io) 128) (unat (disk_offset d)) m)
                             (internal_buffer d)\<rparr>
                  else d)
         in (d\<lparr>dsk_op := DSK_OP_DONE, dsk_func := DSK_FUNC_IDLE, sector := 0, track := 0\<rparr>, m))
      else (d, m))"

definition write_sector ::
  "disk_io \<Rightarrow> disk_state \<Rightarrow> u8 list \<Rightarrow> disk_state \<times> u8 list" where
  "write_sector io d m =
     (if dsk_op d = DSK_OP_SECTOR \<and> \<not> is_transfer_flag_set d
      then (set_transfer_flag (d\<lparr>sector := ucast (rxdb d), dsk_op := DSK_OP_TRACK\<rparr>), m)
      else if dsk_op d = DSK_OP_TRACK \<and> \<not> is_transfer_flag_set d
      then (d\<lparr>track := ucast (rxdb d), dsk_op := DSK_OP_WRITE_SECTOR\<rparr>, m)
      else if dsk_op d = DSK_OP_WRITE_SECTOR
      then
        (let m = (if disk_media d \<noteq> -1
                  then media_write
                         (take (min (write_limit io) 128) (bytes_of_words (internal_buffer d)))
                         (unat (disk_offset d)) m
                  else m)
         in (d\<lparr>dsk_op := DSK_OP_DONE, dsk_func := DSK_FUNC_IDLE, sector := 0, track := 0\<rparr>, m))
      else (d, m))"

section \<open>Requests from the bus\<close>

text \<open>
  \<open>pending_bus_requests\<close> after its wait. The local variable \<open>slave_req\<close> of the code is never
  assigned before it is read, so its value is a parameter.
\<close>

definition pending_bus_requests ::
  "data_xfer_spec \<Rightarrow> bus_state \<Rightarrow> disk_state \<Rightarrow> bus_state \<times> disk_state" where
  "pending_bus_requests slave_req bus d =
     (case x_op slave_req of
        R_BLOCK_IN \<Rightarrow>
          if x_addr slave_req = RXCS_ADDR
          then (fst (data_bus_reply bus (slave_req\<lparr>x_value := rxcs d\<rparr>)), d)
          else if x_addr slave_req = RXDB_ADDR
          then (let slave_req = slave_req\<lparr>x_value := rxdb d\<rparr>;
                    d = clear_buffer_register (clear_transfer_flag d)
                in (fst (data_bus_reply bus slave_req), d))
          else (bus, d)
      | R_BLOCK_OUTB \<Rightarrow>
          if x_addr slave_req = RXCS_ADDR
          then (fst (data_bus_reply bus slave_req), set_status_register (x_value slave_req) d)
          else if x_addr slave_req = RXDB_ADDR
          then (let d = clear_transfer_flag (d\<lparr>rxdb := x_value slave_req\<rparr>)
                in (fst (data_bus_reply bus slave_req), d))
          else (bus, d)
      | R_BLOCK_OUT \<Rightarrow>
          if x_addr slave_req = RXCS_ADDR
          then (fst (data_bus_reply bus slave_req), set_status_register (x_value slave_req) d)
          else if x_addr slave_req = RXDB_ADDR
          then (let d = clear_transfer_flag (d\<lparr>rxdb := x_value slave_req\<rparr>)
                in (fst (data_bus_reply bus slave_req), d))
          else (bus, d)
      | _ \<Rightarrow> (bus, d))"

section \<open>The loop\<close>

text \<open>The switch on the function code in \<open>execute\<close>.\<close>

definition disk_command :: "disk_state \<Rightarrow> disk_state" where
  "disk_command d =
     (let fn = drop_bit 1 (flag_mask RXCS_FLAG_FS AND rxcs d);
          d = clear_all_flags d
      in if fn = func_code DSK_FUNC_FILL_BUFFER
         then set_transfer_flag (d\<lparr>dsk_op := DSK_OP_FILL, dsk_func := DSK_FUNC_FILL_BUFFER\<rparr>)
         else if fn = func_code DSK_FUNC_EMPTY_BUFFER
         then d\<lparr>dsk_op := DSK_OP_EMPTY, dsk_func := DSK_FUNC_EMPTY_BUFFER\<rparr>
         else if fn = func_code DSK_FUNC_WRITE_SECTOR
         then set_transfer_flag (d\<lparr>dsk_op := DSK_OP_SECTOR, dsk_func := DSK_FUNC_WRITE_SECTOR\<rparr>)
         else if fn = func_code DSK_FUNC_READ_SECTOR
         then set_transfer_flag (d\<lparr>dsk_op := DSK_OP_SECTOR, dsk_func := DSK_FUNC_READ_SECTOR\<rparr>)
         else d)"

text \<open>The part of a round that follows \<open>pending_bus_requests\<close>, and the round.\<close>

definition disk_work ::
  "disk_io \<Rightarrow> disk_state \<Rightarrow> u8 list \<Rightarrow> (disk_state \<times> u8 list) res" where
  "disk_work io d m =
     (if flag_mask RXCS_FLAG_GO AND rxcs d \<noteq> 0 \<and> (dsk_op d = DSK_OP_BEGIN \<or> dsk_op d = DSK_OP_DONE)
      then Inr (disk_command d, m)
      else if dsk_op d = DSK_OP_FILL \<and> dsk_func d = DSK_FUNC_FILL_BUFFER
      then rbind (fill_buffer d) (\<lambda>d. Inr (d, m))
      else if dsk_op d = DSK_OP_EMPTY \<and> dsk_func d = DSK_FUNC_EMPTY_BUFFER
      then rbind (empty_buffer d) (\<lambda>d. Inr (d, m))
      else if dsk_func d = DSK_FUNC_READ_SECTOR then Inr (read_sector io d m)
      else if dsk_func d = DSK_FUNC_WRITE_SECTOR then Inr (write_sector io d m)
      else if dsk_op d = DSK_OP_DONE then Inr (set_done_flag (d\<lparr>dsk_op := DSK_OP_BEGIN\<rparr>), m)
      else Inr (d, m))"

definition disk_round ::
  "disk_io \<Rightarrow> data_xfer_spec \<Rightarrow> bus_state \<times> disk_state \<times> u8 list \<Rightarrow>
   (bus_state \<times> disk_state \<times> u8 list) res" where
  "disk_round io slave_req st =
     (case st of (bus, d, m) \<Rightarrow>
        (let (bus, d) = pending_bus_requests slave_req bus d
         in rbind (disk_work io d m) (\<lambda>(d, m). Inr (bus, d, m))))"

text \<open>The loop, for the outcomes of the file calls and the values of \<open>slave_req\<close> it meets.\<close>

fun disk_run ::
  "(disk_io \<times> data_xfer_spec) list \<Rightarrow> bus_state \<times> disk_state \<times> u8 list \<Rightarrow>
   (bus_state \<times> disk_state \<times> u8 list) res" where
  "disk_run [] st = Inr st"
| "disk_run ((io, r) # rs) st = rbind (disk_round io r st) (disk_run rs)"


section \<open>Words and bytes of the buffer\<close>

lemma length_bytes_of_words [simp]: "length (bytes_of_words ws) = 2 * length ws"
  by (induction ws) auto

lemma words_of_bytes_of_words [simp]: "words_of_bytes (bytes_of_words ws) = ws"
  by (induction ws) auto

lemma length_words_of_bytes [simp]: "length (words_of_bytes bs) = length bs div 2"
  by (induction bs rule: words_of_bytes.induct) auto

lemma bytes_of_words_append: "bytes_of_words (vs @ ws) = bytes_of_words vs @ bytes_of_words ws"
  by (induction vs) auto

lemma take_bytes_of_words: "take (2 * n) (bytes_of_words ws) = bytes_of_words (take n ws)"
  by (induction ws arbitrary: n) (auto simp: take_Cons split: nat.splits)

lemma drop_bytes_of_words: "drop (2 * n) (bytes_of_words ws) = bytes_of_words (drop n ws)"
  by (induction ws arbitrary: n) (auto simp: drop_Cons split: nat.splits)

lemma length_overlay_bytes [simp]:
  "length bs \<le> 2 * length ws \<Longrightarrow> length (overlay_bytes bs ws) = length ws"
  by (simp add: overlay_bytes_def)

lemma overlay_words:
  "overlay_bytes (bytes_of_words vs) ws = vs @ drop (length vs) ws"
  by (simp add: overlay_bytes_def drop_bytes_of_words flip: bytes_of_words_append)

section \<open>Block media\<close>

text \<open>
  What the sector functions rely on: a block that was written is read back, and other blocks
  are untouched.
\<close>

locale block_media =
  fixes rd :: "nat \<Rightarrow> nat \<Rightarrow> 'm \<Rightarrow> u8 list"
    and wr :: "u8 list \<Rightarrow> nat \<Rightarrow> 'm \<Rightarrow> 'm"
    and msize :: "'m \<Rightarrow> nat"
  assumes rd_wr_same: "rd (length bs) off (wr bs off m) = bs"
    and rd_wr_other:
      "off' + n \<le> msize m \<Longrightarrow> off' + n \<le> off \<or> off + length bs \<le> off' \<Longrightarrow>
       rd n off' (wr bs off m) = rd n off' m"
    and msize_wr: "bs \<noteq> [] \<Longrightarrow> msize (wr bs off m) = max (msize m) (off + length bs)"
    and length_rd: "length (rd n off m) = min n (msize m - off)"
begin

lemma overlay_read_back:
  assumes "2 * n = length bs" and "n \<le> length vs" and "bs = take (2 * n) (bytes_of_words vs)"
  shows "overlay_bytes (rd (length bs) off (wr bs off m)) ws = take n vs @ drop n ws"
proof -
  have "bs = bytes_of_words (take n vs)" using assms(3) by (simp only: take_bytes_of_words)
  then show ?thesis using assms(2) by (simp only: rd_wr_same overlay_words) (simp add: min_def)
qed

lemma length_overlay_read:
  "n \<le> 2 * length ws \<Longrightarrow> length (overlay_bytes (rd n off m) ws) = length ws"
  by (simp add: length_rd)

lemma write_twice:
  "off' + length bs \<le> off \<or> off + length bs' \<le> off' \<Longrightarrow> off' + length bs \<le> msize m \<Longrightarrow>
   bs \<noteq> [] \<Longrightarrow> rd (length bs) off' (wr bs' off (wr bs off' m)) = bs"
  by (subst rd_wr_other) (auto simp: msize_wr rd_wr_same)

lemma msize_grows: "bs \<noteq> [] \<Longrightarrow> msize m \<le> msize (wr bs off m)"
  by (simp add: msize_wr)

end

lemma media_read_write_same: "media_read (length bs) off (media_write bs off m) = bs"
  by (simp add: media_read_def media_write_def)

lemma media_read_write_other:
  assumes "off' + n \<le> length m" and "off' + n \<le> off \<or> off + length bs \<le> off'"
  shows "media_read n off' (media_write bs off m) = media_read n off' m"
proof (rule nth_equalityI)
  show "length (media_read n off' (media_write bs off m)) = length (media_read n off' m)"
    using assms by (auto simp: media_read_def media_write_def)
  fix i assume "i < length (media_read n off' (media_write bs off m))"
  then have "i < n" by (simp add: media_read_def)
  then show "media_read n off' (media_write bs off m) ! i = media_read n off' m ! i"
    using assms by (auto simp: media_read_def media_write_def nth_append)
qed

lemma length_media_write:
  "bs \<noteq> [] \<Longrightarrow> length (media_write bs off m) = max (length m) (off + length bs)"
  by (auto simp: media_write_def max_def)

interpretation posix: block_media media_read media_write length
proof unfold_locales
  show "media_read (length bs) off (media_write bs off m) = bs" for bs off m
    by (rule media_read_write_same)
  show "media_read n off' (media_write bs off m) = media_read n off' m"
    if "off' + n \<le> length m" and "off' + n \<le> off \<or> off + length bs \<le> off'" for off' n m off bs
    using that by (rule media_read_write_other)
  show "length (media_write bs off m) = max (length m) (off + length bs)" if "bs \<noteq> []" for bs off m
    using that by (rule length_media_write)
  show "length (media_read n off m) = min n (length m - off)" for n off m
    by (simp add: media_read_def)
qed

section \<open>Flags\<close>

lemmas flag_defs = clear_buffer_register_def set_status_register_def set_transfer_flag_def
  clear_transfer_flag_def is_transfer_flag_set_def set_done_flag_def clear_all_flags_def

lemma flag_simps [simp]:
  "is_transfer_flag_set (set_transfer_flag d)"
  "is_transfer_flag_set (clear_transfer_flag d) = is_transfer_flag_set d"
  "is_transfer_flag_set (set_status_register v d) = is_transfer_flag_set d"
  "is_transfer_flag_set (d\<lparr>rxdb := x\<rparr>) = is_transfer_flag_set d"
  "\<not> is_transfer_flag_set (clear_all_flags d)"
  by (auto simp: flag_defs and.assoc and.left_commute bit.conj_disj_distrib2)

text \<open>What an operation on the registers leaves alone: everything but \<open>rxcs\<close> and \<open>rxdb\<close>.\<close>

definition same_machine :: "disk_state \<Rightarrow> disk_state \<Rightarrow> bool" where
  "same_machine d d' \<longleftrightarrow>
     dsk_op d' = dsk_op d \<and> dsk_func d' = dsk_func d \<and> track d' = track d \<and>
     sector d' = sector d \<and> buffer_idx d' = buffer_idx d \<and>
     internal_buffer d' = internal_buffer d \<and> disk_media d' = disk_media d"

lemma same_machine_simps:
  assumes "same_machine d d'"
  shows "dsk_op d' = dsk_op d" "dsk_func d' = dsk_func d" "track d' = track d"
    "sector d' = sector d" "buffer_idx d' = buffer_idx d"
    "internal_buffer d' = internal_buffer d" "disk_media d' = disk_media d"
  using assms by (auto simp: same_machine_def)

lemma pending_same_machine [frame]: "same_machine d (snd (pending_bus_requests r bus d))"
  by (auto simp: pending_bus_requests_def flag_defs same_machine_def Let_def split: data_op.split)

text \<open>No request clears the transfer flag or sets it, and none touches the done flag but to clear it.\<close>

lemma pending_transfer_flag [frame]:
  "is_transfer_flag_set (snd (pending_bus_requests r bus d)) = is_transfer_flag_set d"
  by (auto simp: pending_bus_requests_def clear_buffer_register_def Let_def split: data_op.split)

lemma pending_done_flag:
  "rxcs d AND flag_mask RXCS_FLAG_DONE = 0 \<Longrightarrow>
   rxcs (snd (pending_bus_requests r bus d)) AND flag_mask RXCS_FLAG_DONE = 0"
  by (auto simp: pending_bus_requests_def flag_defs Let_def and.assoc bit.conj_disj_distrib2
        split: data_op.split)

section \<open>The index into the buffer\<close>

definition disk_ok :: "disk_state \<Rightarrow> bool" where
  "disk_ok d \<longleftrightarrow> length (internal_buffer d) = BUFFER_SIZE \<and> unat (buffer_idx d) < BUFFER_SIZE"

lemma disk_ok_same_machine: "same_machine d d' \<Longrightarrow> disk_ok d' = disk_ok d"
  by (simp add: disk_ok_def same_machine_simps)

lemma next_index:
  assumes "unat (i :: u32) < BUFFER_SIZE" and "i + 1 \<noteq> SECTOR_SIZE"
  shows "unat (i + 1) < BUFFER_SIZE"
proof -
  have *: "unat (i + 1) = unat i + 1" using assms(1) by (intro unat_Suc_u32) simp
  have "unat (i + 1) \<noteq> 128" using assms(2) by (auto simp: word_unat_eq_iff)
  then show ?thesis using * assms(1) by simp
qed

lemma fill_buffer_ok: "disk_ok d \<Longrightarrow> res_all (\<lambda>_. False) disk_ok (fill_buffer d)"
  by (auto simp: fill_buffer_def disk_ok_def buffer_set_def flag_defs Let_def intro!: next_index)

lemma empty_buffer_ok: "disk_ok d \<Longrightarrow> res_all (\<lambda>_. False) disk_ok (empty_buffer d)"
  by (auto simp: empty_buffer_def disk_ok_def buffer_get_def flag_defs Let_def intro!: next_index)

lemma read_sector_ok: "disk_ok d \<Longrightarrow> disk_ok (fst (read_sector io d m))"
  by (auto simp: read_sector_def disk_ok_def flag_defs Let_def posix.length_rd)

lemma write_sector_ok: "disk_ok d \<Longrightarrow> disk_ok (fst (write_sector io d m))"
  by (auto simp: write_sector_def disk_ok_def flag_defs Let_def)

lemma disk_command_ok: "disk_ok d \<Longrightarrow> disk_ok (disk_command d)"
  by (auto simp: disk_command_def disk_ok_def flag_defs Let_def)

lemma set_done_ok: "disk_ok d \<Longrightarrow> disk_ok (set_done_flag (d\<lparr>dsk_op := x\<rparr>))"
  by (auto simp: disk_ok_def flag_defs)

lemma disk_work_ok:
  assumes "disk_ok d"
  shows "res_all (\<lambda>_. False) (\<lambda>(d, m). disk_ok d) (disk_work io d m)"
  using fill_buffer_ok [OF assms] empty_buffer_ok [OF assms] read_sector_ok [OF assms, of io m]
    write_sector_ok [OF assms, of io m] disk_command_ok [OF assms] set_done_ok [OF assms]
  by (simp add: disk_work_def res_all_rbind_iff case_prod_beta assms)

lemma disk_round_ok:
  assumes "disk_ok d"
  shows "res_all (\<lambda>_. False) (\<lambda>(bus, d, m). disk_ok d) (disk_round io r (bus, d, m))"
proof -
  have "disk_ok (snd (pending_bus_requests r bus d))"
    using assms disk_ok_same_machine [OF pending_same_machine] by blast
  from disk_work_ok [OF this, of io m] show ?thesis
    by (simp add: disk_round_def Let_def case_prod_unfold res_all_rbind_iff)
qed

lemma disk_run_induct:
  assumes "P d m" and "\<And>io r bus d m. P d m \<Longrightarrow>
    res_all (\<lambda>_. False) (\<lambda>(bus, d, m). P d m) (disk_round io r (bus, d, m))"
  shows "res_all (\<lambda>_. False) (\<lambda>(bus, d, m). P d m) (disk_run rs (bus, d, m))"
  using assms(1)
proof (induction rs arbitrary: bus d m)
  case (Cons x rs)
  obtain io r where "x = (io, r)" by (cases x)
  with Cons assms(2) [of d m io r bus] show ?case
    by (auto simp: res_all_rbind_iff elim!: res_all_mono)
qed simp

text \<open>
  Property C18. From every state in which the index into the internal buffer is in its
  bounds, every sequence of requests, with every outcome of the file calls, keeps the disk
  running: no access leaves the internal buffer, whose size never changes, and the index
  stays in its bounds.
\<close>

theorem disk_buffer_safe:
  assumes "length (internal_buffer d) = 128" and "unat (buffer_idx d) < 128"
  shows "\<exists>bus' d' m'. disk_run rs (bus, d, m) = Inr (bus', d', m') \<and>
    length (internal_buffer d') = 128 \<and> unat (buffer_idx d') < 128"
proof -
  have "res_all (\<lambda>_. False) (\<lambda>(bus, d, m). disk_ok d) (disk_run rs (bus, d, m))"
    using disk_round_ok assms by (intro disk_run_induct) (simp_all add: disk_ok_def)
  then show ?thesis by (cases "disk_run rs (bus, d, m)") (auto simp: disk_ok_def)
qed

lemma disk_buffer_safe_witness:
  "\<forall>bus. \<exists>bus' d' m'. disk_run [(\<lparr>open_disk = (\<lambda>_. 3), read_limit = 128, write_limit = 128\<rparr>,
        \<lparr>x_op = R_BLOCK_OUT, x_addr = RXDB_ADDR, x_value = 7\<rparr>)]
      (bus, dsk_static\<lparr>dsk_op := DSK_OP_FILL, buffer_idx := 127\<rparr>, []) = Inr (bus', d', m') \<and>
    length (internal_buffer d') = 128 \<and> unat (buffer_idx d') < 128"
  by (rule allI, rule disk_buffer_safe) (simp_all add: dsk_static_def)

section \<open>What requests can set in motion\<close>

text \<open>
  The states that the loop can reach from \<open>init_disk\<close>: idle, or waiting for the transfer flag
  to be cleared, which no request does.
\<close>

definition disk_waiting :: "disk_state \<Rightarrow> bool" where
  "disk_waiting d \<longleftrightarrow>
     internal_buffer d = replicate BUFFER_SIZE 0 \<and> track d = 0 \<and> sector d = 0 \<and>
     rxcs d AND flag_mask RXCS_FLAG_DONE = 0 \<and>
     (dsk_op d = DSK_OP_BEGIN \<and> dsk_func d = DSK_FUNC_IDLE \<and> buffer_idx d = 0 \<or>
      dsk_op d = DSK_OP_FILL \<and> dsk_func d = DSK_FUNC_FILL_BUFFER \<and> buffer_idx d = 0 \<and>
        is_transfer_flag_set d \<or>
      dsk_op d = DSK_OP_EMPTY \<and> dsk_func d = DSK_FUNC_EMPTY_BUFFER \<and>
        (if is_transfer_flag_set d then buffer_idx d = 1 else buffer_idx d = 0) \<or>
      dsk_op d = DSK_OP_SECTOR \<and> dsk_func d \<in> {DSK_FUNC_WRITE_SECTOR, DSK_FUNC_READ_SECTOR} \<and>
        buffer_idx d = 0 \<and> is_transfer_flag_set d)"

lemma init_disk_waiting: "disk_waiting (insert_disk_media io p (init_disk dsk_static))"
  by (simp add: disk_waiting_def insert_disk_media_def init_disk_def dsk_static_def Let_def)

lemma pending_waiting:
  "disk_waiting d \<Longrightarrow> disk_waiting (snd (pending_bus_requests r bus d))"
  unfolding disk_waiting_def
  using same_machine_simps [OF pending_same_machine [of d r bus]] pending_transfer_flag [of r bus d]
    pending_done_flag [of d r bus]
  by auto

lemma command_waiting:
  assumes "disk_waiting d" and "dsk_op d = DSK_OP_BEGIN \<or> dsk_op d = DSK_OP_DONE"
  shows "disk_waiting (disk_command d)"
  using assms by (auto simp: disk_waiting_def disk_command_def Let_def flag_defs)

lemma empty_waiting:
  assumes "disk_waiting d" and "dsk_op d = DSK_OP_EMPTY"
  shows "res_all (\<lambda>_. False) disk_waiting (empty_buffer d)"
  using assms
  by (auto simp: disk_waiting_def empty_buffer_def buffer_get_def Let_def set_transfer_flag_def
        is_transfer_flag_set_def bit.conj_disj_distrib2)

lemma disk_work_waiting:
  assumes "disk_waiting d"
  shows "res_all (\<lambda>_. False) (\<lambda>(d, m'). disk_waiting d \<and> m' = m) (disk_work io d m)"
proof -
  consider "dsk_op d = DSK_OP_BEGIN" "dsk_func d = DSK_FUNC_IDLE"
    | "dsk_op d = DSK_OP_FILL" "dsk_func d = DSK_FUNC_FILL_BUFFER" "is_transfer_flag_set d"
    | "dsk_op d = DSK_OP_EMPTY" "dsk_func d = DSK_FUNC_EMPTY_BUFFER"
    | "dsk_op d = DSK_OP_SECTOR" "dsk_func d = DSK_FUNC_WRITE_SECTOR \<or> dsk_func d = DSK_FUNC_READ_SECTOR"
      "is_transfer_flag_set d"
    using assms unfolding disk_waiting_def by blast
  then show ?thesis
  proof cases
    case 1
    then show ?thesis using assms command_waiting [OF assms] by (simp add: disk_work_def)
  next
    case 2
    then show ?thesis using assms by (simp add: disk_work_def fill_buffer_def)
  next
    case 3
    then show ?thesis using empty_waiting [OF assms] by (simp add: disk_work_def res_all_rbind_iff)
  next
    case 4
    then show ?thesis
      using assms by (auto simp: disk_work_def read_sector_def write_sector_def)
  qed
qed

lemma disk_round_waiting:
  assumes "disk_waiting d \<and> m = m0"
  shows "res_all (\<lambda>_. False) (\<lambda>(bus, d, m). disk_waiting d \<and> m = m0) (disk_round io r (bus, d, m))"
  using disk_work_waiting [OF pending_waiting, of d m io r bus] assms
  by (simp add: disk_round_def Let_def case_prod_unfold res_all_rbind_iff)

text \<open>
  Property C16. The operations of the disk never complete. From \<open>init_disk\<close>, also with a disk
  inserted, whatever requests the loop handles and whatever the file calls do: the media is
  not changed, the internal buffer stays all zero, the track and sector registers are never
  loaded and the done flag is never set; the only values ever offered in the data register
  come from the host or are zero. The cause is \<open>clear_transfer_flag\<close>, which keeps the
  transfer flag and clears all the others.
\<close>

theorem disk_never_transfers:
  "\<exists>bus' d'. disk_run rs (bus, insert_disk_media io p (init_disk dsk_static), m) = Inr (bus', d', m) \<and>
     internal_buffer d' = replicate 128 0 \<and> track d' = 0 \<and> sector d' = 0 \<and>
     rxcs d' AND flag_mask RXCS_FLAG_DONE = 0"
proof -
  let ?d = "insert_disk_media io p (init_disk dsk_static)"
  have "res_all (\<lambda>_. False) (\<lambda>(bus, d, m'). disk_waiting d \<and> m' = m) (disk_run rs (bus, ?d, m))"
    using disk_round_waiting init_disk_waiting by (intro disk_run_induct) simp_all
  then show ?thesis
    by (cases "disk_run rs (bus, ?d, m)") (auto simp: disk_waiting_def)
qed

section \<open>A sector\<close>

text \<open>
  Property C19. The halves of a sector. When the track and the number of a sector have been
  taken (no run of the program gets so far), \<open>write_sector\<close> changes 128 bytes of the media, those
  at the offset of the sector, and they are the first 64 words of the buffer: the last 64 words
  of the buffer never reach the media. \<open>read_sector\<close> at the same place gets these 64 words back
  and leaves the last 64 of its own buffer as they were.
\<close>

theorem sector_transfer:
  assumes "dsk_op d = DSK_OP_WRITE_SECTOR" and "dsk_op e = DSK_OP_WRITE_SECTOR"
    and "track e = track d" and "sector e = sector d"
    and "disk_media d \<noteq> -1" and "disk_media e \<noteq> -1"
    and "write_limit io \<ge> 128" and "read_limit io \<ge> 128"
    and "length (internal_buffer d) = 128" and "length (internal_buffer e) = 128"
    and "write_sector io d m = (d', m')" and "read_sector io e m' = (e', m'')"
  shows "internal_buffer e' = take 64 (internal_buffer d) @ drop 64 (internal_buffer e) \<and> m'' = m' \<and>
    dsk_op d' = DSK_OP_DONE \<and> dsk_op e' = DSK_OP_DONE \<and>
    (\<forall>ws. snd (write_sector io (d\<lparr>internal_buffer := take 64 (internal_buffer d) @ ws\<rparr>) m) = m') \<and>
    (\<forall>i n. i + n \<le> length m \<and> (i + n \<le> unat (disk_offset d) \<or> unat (disk_offset d) + 128 \<le> i) \<longrightarrow>
       media_read n i m' = media_read n i m)"
proof -
  let ?bs = "take (2 * 64) (bytes_of_words (internal_buffer d))" and ?off = "unat (disk_offset d)"
  have len: "length ?bs = 128" using assms(9) by simp
  have off: "disk_offset e = disk_offset d" using assms(3,4) by (simp add: disk_offset_def)
  have w: "m' = media_write ?bs ?off m" "dsk_op d' = DSK_OP_DONE"
    using assms(1,5,7,11) by (auto simp: write_sector_def min_def)
  have r: "internal_buffer e' = overlay_bytes (media_read (length ?bs) ?off m') (internal_buffer e)" "m'' = m'"
    "dsk_op e' = DSK_OP_DONE"
    unfolding len using assms(2,6,8,12) by (auto simp: read_sector_def min_def off)
  have "internal_buffer e' = take 64 (internal_buffer d) @ drop 64 (internal_buffer e)"
    unfolding r(1) w(1) using assms(9) by (intro posix.overlay_read_back [of 64]) simp_all
  moreover have "snd (write_sector io (d\<lparr>internal_buffer := take 64 (internal_buffer d) @ ws\<rparr>) m) = m'" for ws
  proof -
    have "take (2 * 64) (bytes_of_words (take 64 (internal_buffer d) @ ws)) = ?bs"
      using assms(9) by (simp only: take_bytes_of_words) simp
    then show ?thesis using assms(1,5,7) by (simp add: write_sector_def min_def disk_offset_def w(1))
  qed
  moreover have "media_read n i m' = media_read n i m"
    if "i + n \<le> length m \<and> (i + n \<le> ?off \<or> ?off + 128 \<le> i)" for i n
    unfolding w(1) using that len by (intro posix.rd_wr_other) auto
  ultimately show ?thesis using w(2) r(2,3) by blast
qed

text \<open>One disk writes 7 into every word, another one reads and keeps its own zeros behind word 64.\<close>

theorem sector_transfer_witness:
  "\<exists>d' m' e'. write_sector \<lparr>open_disk = (\<lambda>_. 3), read_limit = 128, write_limit = 128\<rparr>
      (dsk_static\<lparr>dsk_op := DSK_OP_WRITE_SECTOR, disk_media := 3, internal_buffer := replicate 128 7\<rparr>) [] = (d', m') \<and>
    read_sector \<lparr>open_disk = (\<lambda>_. 3), read_limit = 128, write_limit = 128\<rparr>
      (dsk_static\<lparr>dsk_op := DSK_OP_WRITE_SECTOR, disk_media := 3\<rparr>) m' = (e', m') \<and>
    internal_buffer e' = replicate 64 7 @ replicate 64 0"
proof -
  let ?io = "\<lparr>open_disk = (\<lambda>_. 3), read_limit = 128, write_limit = 128\<rparr>"
  let ?d = "dsk_static\<lparr>dsk_op := DSK_OP_WRITE_SECTOR, disk_media := 3, internal_buffer := replicate 128 7\<rparr>"
  let ?e = "dsk_static\<lparr>dsk_op := DSK_OP_WRITE_SECTOR, disk_media := 3\<rparr>"
  obtain d' m' where d': "write_sector ?io ?d [] = (d', m')" by (metis surj_pair)
  obtain e' m'' where e': "read_sector ?io ?e m' = (e', m'')" by (metis surj_pair)
  have "internal_buffer e' = take 64 (internal_buffer ?d) @ drop 64 (internal_buffer ?e) \<and> m'' = m'"
    using sector_transfer [OF _ _ _ _ _ _ _ _ _ _ d' e'] by (simp add: dsk_static_def)
  with d' e' show ?thesis by (auto simp: dsk_static_def)
qed

end
