(* ===== verification/Disk_Bus.thy ===== *)
theory Disk_Bus
  imports Shutdown Disk
begin

text \<open>
  The disk process on the bus: the main thread in the loop \<open>execute\<close> of \<open>src/src/disk/disk.c\<close>
  beside the data bus thread that serves its two registers. What the loop takes for the request
  is an uninitialised variable, and the request itself is never read.
\<close>

section \<open>The two threads\<close>

text \<open>
  The main thread: before the wait in \<open>pending_bus_requests\<close>, blocked on \<open>cond_perma_slave\<close>,
  woken, before the signal at the end of \<open>data_bus_reply\<close>, at the work of the round, and halted.
\<close>

datatype disk_loc = Disk_Wait | Disk_Waiting | Disk_Requests | Disk_Signal | Disk_Work | Disk_Halted

record disk_node =
  dn_at :: disk_loc
  dn_dsk :: disk_state
  dn_media :: "u8 list"
  dn_bus :: bus_state
  dn_in :: "data_bus_req list"
  dn_ds :: data_state
  dn_thr :: d_thread

text \<open>Whether \<open>pending_bus_requests\<close> replies.\<close>

definition replies :: "data_xfer_spec \<Rightarrow> bool" where
  "replies r \<longleftrightarrow> (x_op r = R_BLOCK_IN \<or> x_op r = R_BLOCK_OUT \<or> x_op r = R_BLOCK_OUTB) \<and>
     (x_addr r = RXCS_ADDR \<or> x_addr r = RXDB_ADDR)"

definition disk_main_step :: "disk_io \<Rightarrow> data_xfer_spec \<Rightarrow> disk_node \<Rightarrow> (disk_node \<times> wakeup) option" where
  "disk_main_step io slave_req s =
     (case dn_at s of
        Disk_Wait \<Rightarrow> Some (s\<lparr>dn_at := Disk_Waiting\<rparr>, None)
      | Disk_Waiting \<Rightarrow> None
      | Disk_Requests \<Rightarrow>
          (let (bus, d) = pending_bus_requests slave_req (dn_bus s) (dn_dsk s)
           in Some (s\<lparr>dn_at := if replies slave_req then Disk_Signal else Disk_Work, dn_bus := bus, dn_dsk := d\<rparr>,
                    None))
      | Disk_Signal \<Rightarrow> Some (s\<lparr>dn_at := Disk_Work\<rparr>, Some cond_slave_data)
      | Disk_Work \<Rightarrow>
          (case disk_work io (dn_dsk s) (dn_media s) of
             Inl e \<Rightarrow> None
           | Inr (d, m) \<Rightarrow>
               Some (s\<lparr>dn_at := if shutdown (dn_bus s) = 0 then Disk_Wait else Disk_Halted,
                       dn_dsk := d, dn_media := m\<rparr>, None))
      | Disk_Halted \<Rightarrow> None)"

text \<open>The steps, and the arrival of a message; the messages that the process sends are returned.\<close>

datatype disk_act = Disk_Main disk_io data_xfer_spec | Disk_Data data_bus_req | Disk_Arrive data_bus_req

definition disk_step ::
  "net_env \<Rightarrow> disk_act \<Rightarrow> disk_node \<Rightarrow> (disk_node \<times> (string \<times> data_bus_req) list) option" where
  "disk_step E act s =
     (case act of
        Disk_Main io slave_req \<Rightarrow>
          (case disk_main_step io slave_req s of
             None \<Rightarrow> None
           | Some (s, w) \<Rightarrow> Some (s\<lparr>dn_thr := d_wake w (dn_thr s)\<rparr>, []))
      | Disk_Data junk \<Rightarrow>
          (case d_step E junk (dn_in s, dn_bus s, dn_ds s, dn_thr s) of
             None \<Rightarrow> None
           | Some ((inbox, bus, d, t), out, w) \<Rightarrow>
               Some (s\<lparr>dn_in := inbox, dn_bus := bus, dn_ds := d, dn_thr := t,
                       dn_at := if dn_at s = Disk_Waiting \<and> w = Some cond_perma_slave then Disk_Requests else dn_at s\<rparr>,
                     out))
      | Disk_Arrive ev \<Rightarrow> Some (s\<lparr>dn_in := dn_in s @ [ev]\<rparr>, []))"

fun disk_steps ::
  "net_env \<Rightarrow> disk_act list \<Rightarrow> disk_node \<Rightarrow> (disk_node \<times> (string \<times> data_bus_req) list) option" where
  "disk_steps E [] s = Some (s, [])"
| "disk_steps E (a # as) s =
     (case disk_step E a s of
        None \<Rightarrow> None
      | Some (s, out) \<Rightarrow>
          (case disk_steps E as s of None \<Rightarrow> None | Some (s, out') \<Rightarrow> Some (s, out @ out')))"

section \<open>What a request can change\<close>

text \<open>
  Two messages that differ only in the address and the value of a request; both or neither are
  for the device.
\<close>

definition alike :: "data_state \<Rightarrow> data_bus_req \<Rightarrow> data_bus_req \<Rightarrow> bool" where
  "alike d ev ev' \<longleftrightarrow> ev' = ev \<or>
     msg_type ev = DBM_REQ \<and> ev' = ev\<lparr>d_addr := d_addr ev', d_data := d_data ev'\<rparr> \<and>
     examine_address ev' d = examine_address ev d"

text \<open>Two shared states that differ in a request that is not served yet.\<close>

definition bus_alike :: "bus_state \<Rightarrow> bus_state \<Rightarrow> bool" where
  "bus_alike bus bus' \<longleftrightarrow>
     bus' = bus\<lparr>slave := slave bus'\<rparr> \<and> x_op (slave bus') = x_op (slave bus) \<and>
     (x_op (slave bus) = R_DONE \<longrightarrow> slave bus' = slave bus)"

lemma alike_refl [simp]: "alike d ev ev" "bus_alike bus bus"
  by (simp_all add: alike_def bus_alike_def)

lemma alike_fields:
  "alike d ev ev' \<Longrightarrow> msg_type ev' = msg_type ev \<and> ctl ev' = ctl ev \<and> examine_address ev' d = examine_address ev d"
  by (auto simp: alike_def) (metis data_bus_req.select_convs data_bus_req.surjective data_bus_req.update_convs)+

lemma alike_cong: "is_addr_internal d' = is_addr_internal d \<Longrightarrow> alike d' = alike d"
  by (intro ext) (simp add: alike_def examine_address_def)

lemma bus_alikeE:
  assumes "bus_alike bus bus'"
  obtains s where "bus' = bus\<lparr>slave := s\<rparr>" "x_op s = x_op (slave bus)" "x_op s = R_DONE \<longrightarrow> s = slave bus"
  using assms by (auto simp: bus_alike_def)

lemma bus_alikeI:
  "x_op s = x_op (slave bus) \<Longrightarrow> (x_op s = R_DONE \<Longrightarrow> s = slave bus) \<Longrightarrow> bus_alike bus (bus\<lparr>slave := s\<rparr>)"
  by (simp add: bus_alike_def)

lemma poll_alike:
  assumes "bus_alike bus bus'"
  shows "snd (poll_master bus' d) = snd (poll_master bus d) \<and>
    bus_alike (fst (poll_master bus d)) (fst (poll_master bus' d))"
  using assms
  by (elim bus_alikeE) (simp add: poll_master_def bus_alike_def split: data_op.split)

lemma check_alike:
  assumes "alike d ev ev'" and "bus_alike bus bus'"
  shows "fst (check_bus (Some ev') m bus' d) = fst (check_bus (Some ev) m bus d) \<and>
    bus_alike (snd (check_bus (Some ev) m bus d)) (snd (check_bus (Some ev') m bus' d))"
proof (cases "msg_type ev = DBM_REQ")
  case True
  with alike_fields [OF assms(1)] assms(2) show ?thesis
    by (elim bus_alikeE) (auto simp: check_bus_def handle_req_def handle_dati_def handle_dato_def handle_datob_def
        bus_alike_def split: data_bus_signal.split)
next
  case False
  then have "ev' = ev" using assms(1) by (auto simp: alike_def)
  with False assms(2) show ?thesis
    by (elim bus_alikeE) (auto simp: check_bus_def handle_resp_def bus_alike_def split: option.split)
qed

lemma req_end_alike:
  assumes "bus_alike bus bus'"
  shows "fst (handle_req_end c junk bus') = fst (handle_req_end c junk bus) \<and>
    bus_alike (snd (handle_req_end c junk bus)) (snd (handle_req_end c junk bus'))"
  using assms
  by (elim bus_alikeE) (auto simp: handle_req_end_def handle_dati_end_def handle_dato_end_def handle_datob_end_def
      bus_alike_def Let_def split: data_bus_signal.split)

lemma d_step_address:
  assumes "d_step E junk (inbox, bus, d, t) = Some ((inbox', bus', d', t'), out, w)"
  shows "is_addr_internal d' = is_addr_internal d"
proof (cases "d_at t")
  case At_Poll
  with assms poll_master_keeps [of bus d] show ?thesis by (auto simp: d_step_def Let_def split: prod.splits)
next
  case At_Process
  with assms process_op_keeps [of E junk d] show ?thesis
    by (auto simp: d_step_def Let_def split: prod.splits if_splits)
next
  case (At_Slave_End c)
  with assms send_msg_keeps [of E "fst (handle_req_end c junk bus)" d] show ?thesis
    by (auto simp: d_step_def Let_def split: prod.splits)
qed (use assms in \<open>auto simp: d_step_def Let_def handle_resp_end_def split: prod.splits list.splits\<close>)

lemma d_step_alike:
  assumes "d_step E junk (inbox, bus, d, t) = Some ((i1, b1, d1, t1), out, w)"
    and "list_all2 (alike d) inbox inbox'" and "bus_alike bus bus'"
  shows "\<exists>i2 b2. d_step E junk (inbox', bus', d, t) = Some ((i2, b2, d1, t1), out, w) \<and>
    list_all2 (alike d) i1 i2 \<and> bus_alike b1 b2"
proof (cases "d_at t")
  case At_Poll
  have f: "is_master bus' = is_master bus" "shutdown bus' = shutdown bus" using assms(3) by (auto elim: bus_alikeE)
  from At_Poll assms poll_alike [OF assms(3), of d] f show ?thesis
    by (auto simp: d_step_def Let_def case_prod_unfold)
next
  case At_Check
  show ?thesis
  proof (cases inbox)
    case Nil
    with At_Check assms show ?thesis by (auto simp: d_step_def)
  next
    case (Cons ev rest)
    then obtain ev' rest' where "inbox' = ev' # rest'" "alike d ev ev'" "list_all2 (alike d) rest rest'"
      using assms(2) by (auto simp: list_all2_Cons1)
    with At_Check Cons assms(1) check_alike [OF _ assms(3), of d ev ev' "d_is_master t"] show ?thesis
      by (auto simp: d_step_def Let_def case_prod_unfold)
  qed
next
  case (At_Slave_End c)
  with assms req_end_alike [OF assms(3), of c junk] show ?thesis
    by (auto simp: d_step_def Let_def case_prod_unfold)
qed (use assms in \<open>auto simp: d_step_def Let_def case_prod_unfold\<close>)

section \<open>The disk does not see what it is asked\<close>

definition node_alike :: "disk_node \<Rightarrow> disk_node \<Rightarrow> bool" where
  "node_alike s s' \<longleftrightarrow>
     s' = s\<lparr>dn_bus := dn_bus s', dn_in := dn_in s'\<rparr> \<and> bus_alike (dn_bus s) (dn_bus s') \<and>
     list_all2 (alike (dn_ds s)) (dn_in s) (dn_in s')"

fun act_alike :: "data_state \<Rightarrow> disk_act \<Rightarrow> disk_act \<Rightarrow> bool" where
  "act_alike d (Disk_Arrive ev) (Disk_Arrive ev') \<longleftrightarrow> alike d ev ev'"
| "act_alike d a a' \<longleftrightarrow> a' = a"

lemma pending_alike:
  assumes "bus_alike bus bus'"
  shows "snd (pending_bus_requests r bus' d) = snd (pending_bus_requests r bus d) \<and>
    bus_alike (fst (pending_bus_requests r bus d)) (fst (pending_bus_requests r bus' d))"
  using assms
  by (elim bus_alikeE) (simp add: pending_bus_requests_def data_bus_reply_def bus_alike_def Let_def split: data_op.split)

lemma disk_main_alike:
  assumes "disk_main_step io r s = Some (s1, w)" and "node_alike s s'"
  shows "\<exists>s2. disk_main_step io r s' = Some (s2, w) \<and> node_alike s1 s2 \<and> dn_ds s1 = dn_ds s"
proof -
  obtain bus inbox where s': "s' = s\<lparr>dn_bus := bus, dn_in := inbox\<rparr>" and b: "bus_alike (dn_bus s) bus"
    and i: "list_all2 (alike (dn_ds s)) (dn_in s) inbox"
    using assms(2) unfolding node_alike_def by blast
  have sd: "shutdown bus = shutdown (dn_bus s)" using b by (auto elim: bus_alikeE)
  show ?thesis
  proof (cases "dn_at s")
    case Disk_Requests
    then have s1: "s1 = s\<lparr>dn_at := if replies r then Disk_Signal else Disk_Work,
        dn_bus := fst (pending_bus_requests r (dn_bus s) (dn_dsk s)),
        dn_dsk := snd (pending_bus_requests r (dn_bus s) (dn_dsk s))\<rparr>" "w = None"
      using assms(1) by (auto simp: disk_main_step_def case_prod_unfold Let_def)
    with Disk_Requests s' i pending_alike [OF b, of r "dn_dsk s"] show ?thesis
      by (auto simp: disk_main_step_def case_prod_unfold Let_def node_alike_def)
  qed (use assms(1) s' b i sd in \<open>auto simp: disk_main_step_def node_alike_def split: sum.splits\<close>)
qed

lemma disk_step_alike:
  assumes "disk_step E a s = Some (s1, out)" and "node_alike s s'" and "act_alike (dn_ds s) a a'"
  shows "\<exists>s2. disk_step E a' s' = Some (s2, out) \<and> node_alike s1 s2 \<and>
    is_addr_internal (dn_ds s1) = is_addr_internal (dn_ds s)"
proof -
  obtain bus inbox where s': "s' = s\<lparr>dn_bus := bus, dn_in := inbox\<rparr>" and b: "bus_alike (dn_bus s) bus"
    and i: "list_all2 (alike (dn_ds s)) (dn_in s) inbox"
    using assms(2) unfolding node_alike_def by blast
  show ?thesis
  proof (cases a)
    case (Disk_Main io r)
    then obtain m w where m: "disk_main_step io r s = Some (m, w)"
      "s1 = m\<lparr>dn_thr := d_wake w (dn_thr m)\<rparr>" "out = []"
      using assms(1) by (auto simp: disk_step_def split: option.splits)
    from disk_main_alike [OF m(1) assms(2)] obtain b2 i2 where
      "disk_main_step io r s' = Some (m\<lparr>dn_bus := b2, dn_in := i2\<rparr>, w)" "bus_alike (dn_bus m) b2"
      "list_all2 (alike (dn_ds m)) (dn_in m) i2" "dn_ds m = dn_ds s" unfolding node_alike_def by metis
    with m Disk_Main assms(3) show ?thesis by (auto simp: disk_step_def node_alike_def)
  next
    case (Disk_Data junk)
    then obtain i1 b1 d1 t1 w where
      d: "d_step E junk (dn_in s, dn_bus s, dn_ds s, dn_thr s) = Some ((i1, b1, d1, t1), out, w)"
      and s1: "s1 = s\<lparr>dn_in := i1, dn_bus := b1, dn_ds := d1, dn_thr := t1,
        dn_at := if dn_at s = Disk_Waiting \<and> w = Some cond_perma_slave then Disk_Requests else dn_at s\<rparr>"
      using assms(1) by (auto simp: disk_step_def split: option.splits)
    from d_step_alike [OF d i b] obtain i2 b2 where
      "d_step E junk (inbox, bus, dn_ds s, dn_thr s) = Some ((i2, b2, d1, t1), out, w)"
      "list_all2 (alike (dn_ds s)) i1 i2" "bus_alike b1 b2" by blast
    with Disk_Data assms(3) d_step_address [OF d] alike_cong [of d1 "dn_ds s"] show ?thesis
      by (auto simp: disk_step_def s' s1 node_alike_def)
  next
    case (Disk_Arrive ev)
    with assms(1,3) s' b i show ?thesis
      by (cases a') (auto simp: disk_step_def node_alike_def intro!: list_all2_appendI)
  qed
qed

lemma disk_steps_alike:
  "disk_steps E as s = Some (s1, out) \<Longrightarrow> node_alike s s' \<Longrightarrow> list_all2 (act_alike (dn_ds s)) as as' \<Longrightarrow>
   \<exists>s2. disk_steps E as' s' = Some (s2, out) \<and> node_alike s1 s2"
proof (induction as arbitrary: s s' as' out)
  case (Cons a as)
  then obtain a' bs where as': "as' = a' # bs" "act_alike (dn_ds s) a a'" "list_all2 (act_alike (dn_ds s)) as bs"
    by (auto simp: list_all2_Cons1)
  obtain m o1 o2 where m: "disk_step E a s = Some (m, o1)" "disk_steps E as m = Some (s1, o2)" "out = o1 @ o2"
    using Cons.prems(1) by (auto split: option.splits)
  from disk_step_alike [OF m(1) Cons.prems(2) as'(2)] obtain m2 where
    m2: "disk_step E a' s' = Some (m2, o1)" "node_alike m m2" "is_addr_internal (dn_ds m) = is_addr_internal (dn_ds s)"
    by blast
  have "act_alike (dn_ds m) = act_alike (dn_ds s)"
    using alike_cong [OF m2(3)] by (intro ext, rename_tac x y, case_tac x; case_tac y) simp_all
  with Cons.IH [OF m(2) m2(2)] as'(3) obtain s2 where "disk_steps E bs m2 = Some (s2, o2)" "node_alike s1 s2"
    by auto
  with m2(1) m(3) show ?case by (simp add: as'(1))
qed auto

text \<open>
  Property C17. The disk does not see what it is asked. However its two threads run, whatever
  value the uninitialised request has in each round and whatever the files do: if the requests
  that arrive are replaced by others with another address and another value (each for the disk
  or not, as before), the process takes the same steps, sends the same answers, and ends with
  the same registers, buffer and media.
\<close>

theorem disk_ignores_requests:
  assumes "disk_steps E as s = Some (s1, out)" and "list_all2 (act_alike (dn_ds s)) as as'"
  shows "\<exists>s2. disk_steps E as' s = Some (s2, out) \<and> dn_dsk s2 = dn_dsk s1 \<and> dn_media s2 = dn_media s1 \<and>
    dn_at s2 = dn_at s1 \<and> dn_thr s2 = dn_thr s1"
proof -
  have "node_alike s s"
    by (simp add: node_alike_def list_all2_refl)
  from disk_steps_alike [OF assms(1) this assms(2)] obtain s2 where
    "disk_steps E as' s = Some (s2, out)" "s2 = s1\<lparr>dn_bus := dn_bus s2, dn_in := dn_in s2\<rparr>"
    unfolding node_alike_def by blast
  moreover from this(2) have "dn_dsk s2 = dn_dsk s1" "dn_media s2 = dn_media s1" "dn_at s2 = dn_at s1" "dn_thr s2 = dn_thr s1"
    by (metis disk_node.select_convs disk_node.surjective disk_node.update_convs)+
  ultimately show ?thesis by blast
qed

text \<open>The commands to fill and to empty the buffer, written to the status register, make no difference.\<close>

definition disk_idle :: disk_node where
  "disk_idle = \<lparr>dn_at = Disk_Wait, dn_dsk = init_disk dsk_static, dn_media = [], dn_bus = zero_bus, dn_in = [],
     dn_ds = zero_data\<lparr>is_addr_internal := Some disk_is_local_addr\<rparr>,
     dn_thr = \<lparr>d_at = At_Poll, d_is_master = 0, d_shutdown = 0\<rparr>\<rparr>"

definition disk_command_acts :: "u16 \<Rightarrow> disk_act list" where
  "disk_command_acts v =
     (let main = Disk_Main \<lparr>open_disk = (\<lambda>_. -1), read_limit = 0, write_limit = 0\<rparr>
                   \<lparr>x_op = R_BLOCK_OUT, x_addr = RXCS_ADDR, x_value = 0\<rparr>
      in [main, Disk_Arrive (zero_req\<lparr>ctl := D_DATO, d_addr := RXCS_ADDR, d_data := v\<rparr>)] @
         map Disk_Data (replicate 5 zero_req) @ [main, main, Disk_Data zero_req])"

theorem disk_ignores_requests_witness:
  "\<exists>s1 s2 out. disk_steps net_up (disk_command_acts 1) disk_idle = Some (s1, out) \<and>
     disk_steps net_up (disk_command_acts 3) disk_idle = Some (s2, out) \<and> dn_dsk s2 = dn_dsk s1"
proof -
  have "list_all2 (act_alike (dn_ds disk_idle)) (disk_command_acts 1) (disk_command_acts 3)"
    by (simp add: disk_command_acts_def Let_def eval_nat_numeral alike_def examine_address_def zero_req_def
        split: option.split)
  moreover have "\<exists>r. disk_steps net_up (disk_command_acts 1) disk_idle = Some r"
    by (simp add: disk_command_acts_def Let_def eval_nat_numeral disk_idle_def disk_step_def disk_main_step_def
        d_step_def d_wake_def poll_master_def check_bus_def handle_req_def handle_dato_def examine_address_def
        disk_is_local_addr_def zero_bus_def zero_data_def zero_req_def pending_bus_requests_def data_bus_reply_def
        replies_def handle_req_end_def handle_dato_end_def send_msg_def d_connect_l_def d_connect_r_def d_close_l_def
        d_close_r_def case_prod_unfold)
  ultimately show ?thesis using disk_ignores_requests by (metis surj_pair)
qed

end
