(* ===== verification/Priority_System.thy ===== *)
theory Priority_System
  imports Bus_Arb Priority_Bus
begin

text \<open>
  The priority bus as a whole: the thread \<open>priority_bus_mgr\<close> of every device, the thread
  \<open>bus_arb_mgr\<close> of the CPU process, the device threads that ask for the bus and release it,
  and the messages between them. A step is a round of one thread; rounds interleave in every
  order. A round may receive any message that was ever sent to its socket, so messages may be
  lost, delayed, reordered and repeated. Between the rounds the other threads of a process may
  open and close files.
\<close>

section \<open>States and steps\<close>

text \<open>\<open>woken\<close> collects the condition variables that were signalled in a device.\<close>

record device =
  dev_pr :: pr_state
  dev_bus :: bus_state
  dev_net :: pr_net
  woken :: "sync_obj list"

record pr_system =
  devices :: "nat \<Rightarrow> device"
  arbiter :: arb_state
  arb_net :: pr_net

definition in_flight :: "pr_system \<Rightarrow> string \<Rightarrow> pr_bus_req set" where
  "in_flight s p =
     {m. (\<exists>i. (p, m) \<in> set (sent (dev_net (devices s i)))) \<or> (p, m) \<in> set (sent (arb_net s))}"

definition may_receive :: "pr_system \<Rightarrow> string \<Rightarrow> recv_result \<Rightarrow> bool" where
  "may_receive s p r \<longleftrightarrow> (\<forall>m. r = Recv_Message m \<longrightarrow> m \<in> in_flight s p)"

definition set_device :: "nat \<Rightarrow> device \<Rightarrow> pr_system \<Rightarrow> pr_system" where
  "set_device i d s = s\<lparr>devices := (devices s)(i := d)\<rparr>"

inductive sys_step :: "pr_system \<Rightarrow> pr_system \<Rightarrow> bool" where
  device_round:
    "\<lbrakk> d = devices s i; may_receive s (pr_in_addr (dev_pr d)) r;
       priority_round junk r (dev_pr d, dev_bus d, dev_net d) = (sigs, pr, bus, n) \<rbrakk> \<Longrightarrow>
     sys_step s (set_device i \<lparr>dev_pr = pr, dev_bus = bus, dev_net = n, woken = woken d @ sigs\<rparr> s)"
| device_request:
    "d = devices s i \<Longrightarrow>
     sys_step s (set_device i (d\<lparr>dev_bus := req_bus_master_request (dev_bus d)\<rparr>) s)"
| device_release:
    "d = devices s i \<Longrightarrow>
     sys_step s (set_device i (d\<lparr>dev_bus := release_bus_master_request (dev_bus d)\<rparr>) s)"
| device_files:
    "d = devices s i \<Longrightarrow> sys_step s (set_device i (d\<lparr>dev_net := (dev_net d)\<lparr>fd_table := f\<rparr>\<rparr>) s)"
| arbiter_round:
    "\<lbrakk> may_receive s (arb_socket (arbiter s)) r;
       arb_round junk r (arbiter s) (arb_net s) = (go, a, n) \<rbrakk> \<Longrightarrow>
     sys_step s (s\<lparr>arbiter := a, arb_net := n\<rparr>)"
| arbiter_files: "sys_step s (s\<lparr>arb_net := (arb_net s)\<lparr>fd_table := f\<rparr>\<rparr>)"

text \<open>
  At the start \<open>init_pr_state\<close> and \<open>init_arb\<close> have run in all processes, no device is master,
  nothing was sent, and the paths that are bound are those of device sockets.
\<close>

definition device_paths_only :: "pr_net \<Rightarrow> bool" where
  "device_paths_only n \<longleftrightarrow> (\<forall>p. bound n p \<longrightarrow> (\<exists>name. p = pr_socket_path name))"

definition sys_start :: "pr_system \<Rightarrow> bool" where
  "sys_start s \<longleftrightarrow>
     (\<forall>i. \<exists>junk l name r n.
        (\<exists>n'. init_pr_state True True junk l name r n = (Some (dev_pr (devices s i)), n')) \<and>
        is_master (dev_bus (devices s i)) = 0 \<and> woken (devices s i) = [] \<and>
        sent (dev_net (devices s i)) = [] \<and> device_paths_only (dev_net (devices s i))) \<and>
     (\<exists>junk. init_arb True junk arb_name = Some (arbiter s)) \<and>
     sent (arb_net s) = [] \<and> device_paths_only (arb_net s)"

section \<open>What threads send\<close>

text \<open>\<open>adds n n' P\<close>: the call kept the bound paths, and every message it sent satisfies \<open>P\<close>.\<close>

definition adds :: "pr_net \<Rightarrow> pr_net \<Rightarrow> (pr_bus_req \<Rightarrow> bool) \<Rightarrow> bool" where
  "adds n n' P \<longleftrightarrow> bound n' = bound n \<and> (\<forall>(p, m) \<in> set (sent n'). (p, m) \<in> set (sent n) \<or> P m)"

lemma adds_refl [simp, intro]: "adds n n P"
  by (auto simp: adds_def)

lemma adds_trans: "adds n n1 P \<Longrightarrow> adds n1 n2 P \<Longrightarrow> adds n n2 P"
  by (fastforce simp: adds_def)

lemma adds_mono: "adds n n1 P \<Longrightarrow> (\<And>m. P m \<Longrightarrow> Q m) \<Longrightarrow> adds n n1 Q"
  by (auto simp: adds_def)

lemma os_adds:
  "adds n n1 P \<Longrightarrow> adds n (snd (os_socket n1)) P"
  "adds n n1 P \<Longrightarrow> adds n (snd (os_connect fd p n1)) P"
  "adds n n1 P \<Longrightarrow> adds n (snd (os_close fd n1)) P"
  "adds n n1 P \<Longrightarrow> P m \<Longrightarrow> adds n (snd (os_write fd m n1)) P"
  by (auto simp: adds_def os_defs split: list.splits option.splits endpoint.splits)

lemma pr_connect_adds:
  assumes "adds n n1 P"
  shows "adds n (snd (snd (pr_connect_l pr n1))) P" "adds n (snd (snd (pr_connect_r pr n1))) P"
  using assms by (auto simp: pr_connect_l_def pr_connect_r_def Let_def case_prod_unfold intro!: os_adds)

lemma pr_send_both_adds:
  assumes "P m" and "adds n n1 P"
  shows "adds n (snd (snd (pr_send_both m pr n1))) P"
  using assms
  by (auto simp: pr_send_both_def pr_close_l_def pr_close_r_def Let_def case_prod_unfold
        intro!: pr_connect_adds os_adds)

lemma pr_send_dir_adds:
  assumes "P m" and "adds n n1 P"
  shows "adds n (snd (snd (pr_send_dir dir m pr n1))) P"
  using assms
  by (cases dir)
     (auto simp: pr_send_dir_def pr_connect_def pr_close_def pr_close_l_def pr_close_r_def Let_def
        case_prod_unfold intro!: pr_connect_adds os_adds)

section \<open>Without grants\<close>

definition no_grant :: "pr_bus_req \<Rightarrow> bool" where
  "no_grant m \<longleftrightarrow> sig m \<noteq> BG \<and> sig m \<noteq> NPG"

definition calm :: "pr_world \<Rightarrow> bool" where
  "calm w \<longleftrightarrow> sack_asserted (fst w) = 0 \<and> npr_issued (fst w) = 0 \<and> is_master (fst (snd w)) = 0"

definition net_of :: "pr_world \<Rightarrow> pr_net" where
  "net_of w = snd (snd w)"

lemma request_master_calm:
  assumes "calm w"
  shows "calm (request_master junk w)" "adds (net_of w) (net_of (request_master junk w)) no_grant"
  using assms
  by (auto simp: calm_def net_of_def world_defs no_grant_def own_signal_def pr_update_from_addr_def
        intro!: pr_send_both_adds)

lemma pass_on_calm:
  assumes "calm w" and "no_grant m"
  shows "calm (pass_on m w)" "adds (net_of w) (net_of (pass_on m w)) no_grant"
  using assms
  by (auto simp: calm_def net_of_def pass_on_def Let_def case_prod_unfold no_grant_def
        pr_update_from_addr_def intro!: pr_send_dir_adds)

lemma handle_bbsy_calm:
  assumes "calm w" and "no_grant m"
  shows "calm (handle_bbsy m w)" "adds (net_of w) (net_of (handle_bbsy m w)) no_grant"
proof -
  let ?w = "((fst w)\<lparr>bbsy_asserted := (if assertion m = ASSERTED then 1 else 0)\<rparr>, snd w)"
  have "calm ?w" "net_of ?w = net_of w" using assms by (simp_all add: calm_def net_of_def)
  moreover have "handle_bbsy m w = pass_on m ?w" by (simp add: handle_bbsy_def case_prod_unfold)
  ultimately show "calm (handle_bbsy m w)" "adds (net_of w) (net_of (handle_bbsy m w)) no_grant"
    using pass_on_calm [of ?w m] assms(2) by simp_all
qed

lemma events_calm:
  assumes "calm w" and "\<forall>m. r = Recv_Message m \<longrightarrow> no_grant m"
  shows "fst (process_pr_events junk r w) = False" "calm (snd (process_pr_events junk r w))"
    "adds (net_of w) (net_of (snd (process_pr_events junk r w))) no_grant"
  using assms pass_on_calm handle_bbsy_calm
  by (auto simp: process_pr_events_def handle_br_def handle_npr_def handle_sack_def no_grant_def
        split: recv_result.split pr_signal.split)

lemma priority_round_calm:
  assumes "calm w" and "\<forall>m. r = Recv_Message m \<longrightarrow> no_grant m"
    and "priority_round junk r w = (sigs, w')"
  shows "sigs = []" "calm w'" "adds (net_of w) (net_of w') no_grant"
proof -
  obtain pr bus n where w: "w = (pr, bus, n)" by (cases w)
  define w1 where "w1 = (if req_master bus \<noteq> 0 then request_master junk w else w)"
  have 1: "calm w1" "adds (net_of w) (net_of w1) no_grant"
    using request_master_calm [OF assms(1)] assms(1) by (simp_all add: w1_def)
  have m: "is_master bus = 0" using assms(1) by (simp add: calm_def w)
  have "(sigs, w') = ([], snd (process_pr_events junk r w1))"
    using assms(3) events_calm(1) [OF 1(1) assms(2), of junk] m
    by (auto simp: priority_round_def w w1_def Let_def case_prod_unfold split: if_splits)
  then show "sigs = []" "calm w'" "adds (net_of w) (net_of w') no_grant"
    using events_calm(2,3) [OF 1(1) assms(2), of junk] adds_trans [OF 1(2)] by simp_all
qed

section \<open>The invariant\<close>

definition device_calm :: "device \<Rightarrow> bool" where
  "device_calm d \<longleftrightarrow>
     calm (dev_pr d, dev_bus d, dev_net d) \<and> woken d = [] \<and>
     (\<forall>(p, m) \<in> set (sent (dev_net d)). no_grant m)"

definition sys_calm :: "pr_system \<Rightarrow> bool" where
  "sys_calm s \<longleftrightarrow>
     (\<forall>i. device_calm (devices s i)) \<and> current_client (arbiter s) = arb_name \<and>
     sent (arb_net s) = [] \<and> device_paths_only (arb_net s)"

lemma sys_calm_messages:
  "sys_calm s \<Longrightarrow> m \<in> in_flight s p \<Longrightarrow> no_grant m"
  by (fastforce simp: sys_calm_def in_flight_def device_calm_def)

lemma sys_calm_device:
  "sys_calm s \<Longrightarrow> device_calm d \<Longrightarrow> sys_calm (set_device i d s)"
  by (simp add: sys_calm_def set_device_def)

lemma init_pr_state_flags:
  "init_pr_state ok can junk l name r n = (Some pr, n') \<Longrightarrow> sack_asserted pr = 0 \<and> npr_issued pr = 0"
  by (auto simp: init_pr_state_def Let_def case_prod_unfold split: if_splits)

lemma init_arb_client: "init_arb True junk arb_name = Some a \<Longrightarrow> current_client a = arb_name"
  by (auto simp: init_arb_def arb_name_def)

lemma sys_calm_start: "sys_start s \<Longrightarrow> sys_calm s"
  unfolding sys_start_def sys_calm_def device_calm_def calm_def
  using init_pr_state_flags init_arb_client by fastforce

lemma device_calm_unbound:
  "sys_calm s \<Longrightarrow> \<not> bound (arb_net s) (current_client (arbiter s))"
  using arb_name_not_a_path by (auto simp: sys_calm_def device_paths_only_def)

lemma sys_calm_step:
  assumes "sys_step s s'" and "sys_calm s"
  shows "sys_calm s'"
  using assms
proof (induction rule: sys_step.induct)
  case (device_round d s i r junk sigs pr bus n)
  have r: "\<forall>m. r = Recv_Message m \<longrightarrow> no_grant m"
    using device_round by (auto simp: may_receive_def sys_calm_messages)
  have d: "device_calm d" using device_round by (simp add: sys_calm_def)
  then have "calm (dev_pr d, dev_bus d, dev_net d)" by (simp add: device_calm_def)
  from priority_round_calm [OF this r device_round(3)] d show ?case
    using device_round(4)
    by (intro sys_calm_device) (fastforce simp: device_calm_def adds_def net_of_def)+
next
  case (arbiter_round s r junk go a n)
  then show ?case
    using arb_round_unbound [OF device_calm_unbound [OF arbiter_round(3)], of junk r]
    by (simp add: sys_calm_def device_paths_only_def)
qed (auto simp: sys_calm_def set_device_def device_calm_def calm_def req_bus_master_request_def
      release_bus_master_request_def device_paths_only_def)

text \<open>
  Property C13. No device ever becomes bus master. In every state that the devices and the
  arbiter can reach, in every interleaving and with every loss, delay and repetition of
  messages, no grant is in any mailbox, no device is master and no thread that waits for the
  bus was ever woken: the grants of the arbiter go to an address that is nobody's socket.
\<close>

theorem mastership_never_granted:
  assumes "sys_start s" and "sys_step\<^sup>*\<^sup>* s s'"
  shows "is_master (dev_bus (devices s' i)) = 0 \<and> woken (devices s' i) = [] \<and>
    (m \<in> in_flight s' p \<longrightarrow> sig m \<noteq> BG \<and> sig m \<noteq> NPG)"
proof -
  have "sys_calm s'"
    using assms(2) sys_calm_start [OF assms(1)] by (induction rule: rtranclp_induct) (auto intro: sys_calm_step)
  then show ?thesis
    using sys_calm_messages [of s' m p] by (auto simp: sys_calm_def device_calm_def calm_def no_grant_def)
qed

text \<open>Devices that have just started, next to an arbiter, and a request of the first one.\<close>

definition net_started :: pr_net where
  "net_started = net_sample (\<lambda>p. p = pr_socket_path ''disk'')"

definition sys_sample :: pr_system where
  "sys_sample =
     \<lparr>devices = (\<lambda>_. \<lparr>dev_pr = pr_sample\<lparr>pr_bus_in := 5\<rparr>, dev_bus = bus_sample,
                      dev_net = net_started, woken = []\<rparr>),
      arbiter = arb_sample\<lparr>priority_socket := -1\<rparr>, arb_net = net_started\<rparr>"

lemma sys_start_sample: "sys_start sys_sample"
proof -
  have net: "device_paths_only net_started" "sent net_started = []"
    by (auto simp: device_paths_only_def net_started_def net_sample_def)
  have init: "init_pr_state True True pr_sample (Some ''mem'') ''disk'' (Some ''tty'') net_started =
      (Some (pr_sample\<lparr>pr_bus_in := 5\<rparr>),
       net_started\<lparr>fd_table := (fd_table net_started)(5 \<mapsto> Unconnected),
                   bound := (bound net_started)(pr_socket_path ''disk'' := True)\<rparr>)"
    by (simp add: init_pr_state_def os_socket_def net_started_def net_sample_def upt_rec pr_sample_def
        eval_nat_numeral)
  have dev: "devices sys_sample i = \<lparr>dev_pr = pr_sample\<lparr>pr_bus_in := 5\<rparr>, dev_bus = bus_sample,
      dev_net = net_started, woken = []\<rparr>" for i
    by (simp add: sys_sample_def)
  have arb: "arbiter sys_sample = arb_sample\<lparr>priority_socket := -1\<rparr>" "arb_net sys_sample = net_started"
    by (simp_all add: sys_sample_def)
  have m: "is_master bus_sample = 0" by (simp add: bus_sample_def)
  show ?thesis
    unfolding sys_start_def dev arb using init init_arb_sample net m by fastforce
qed

lemma mastership_never_granted_witness:
  "let s' = set_device 0 ((devices sys_sample 0)\<lparr>dev_bus := req_bus_master_request bus_sample\<rparr>) sys_sample
   in is_master (dev_bus (devices s' 0)) = 0 \<and> woken (devices s' 0) = [] \<and>
      (pr_msg [] BG 1 \<in> in_flight s' (pr_socket_path ''disk'') \<longrightarrow>
       sig (pr_msg [] BG 1) \<noteq> BG \<and> sig (pr_msg [] BG 1) \<noteq> NPG)"
  unfolding Let_def
  by (rule mastership_never_granted [OF sys_start_sample], rule r_into_rtranclp)
     (use device_request [of "devices sys_sample 0" sys_sample 0] in \<open>simp add: sys_sample_def\<close>)

end
