(* ===== verification/Mastership.thy ===== *)
theory Mastership
  imports Priority_Bus
begin

text \<open>
  A device that asks for the bus: the main thread of the device in \<open>req_bus_master\<close> or
  \<open>release_bus_master\<close> (\<open>src/src/libunibus/device_bus_mgr.c\<close>), beside the thread of the
  priority bus, whose rounds are those of theory \<open>Priority_Bus\<close>. Both calls set a flag and then
  wait for a signal, without a predicate.
\<close>

section \<open>The main thread\<close>

text \<open>
  Where the main thread is: before the critical section, before the wait, blocked on
  \<open>cond_pr_master\<close> or \<open>cond_pr_rel_master\<close>, and returned.
\<close>

datatype b_loc = Req_Lock | Req_Wait | Req_Blocked | Rel_Lock | Rel_Wait | Rel_Blocked | B_Returned

definition b_step :: "b_loc \<times> bus_state \<Rightarrow> (b_loc \<times> bus_state) option" where
  "b_step = (\<lambda>(l, bus).
     (case l of
        Req_Lock \<Rightarrow> Some (Req_Wait, req_bus_master_request bus)
      | Req_Wait \<Rightarrow> Some (Req_Blocked, bus)
      | Req_Blocked \<Rightarrow> None
      | Rel_Lock \<Rightarrow> Some (Rel_Wait, release_bus_master_request bus)
      | Rel_Wait \<Rightarrow> Some (Rel_Blocked, bus)
      | Rel_Blocked \<Rightarrow> None
      | B_Returned \<Rightarrow> None))"

definition b_wake :: "sync_obj list \<Rightarrow> b_loc \<Rightarrow> b_loc" where
  "b_wake sigs l =
     (if l = Req_Blocked \<and> cond_pr_master \<in> set sigs then B_Returned
      else if l = Rel_Blocked \<and> cond_pr_rel_master \<in> set sigs then B_Returned
      else l)"

section \<open>The device\<close>

type_synonym bus_device = "b_loc \<times> pr_world"

text \<open>A step of the device: of its main thread, or a round that receives \<open>r\<close>.\<close>

datatype b_act = B_Main | B_Round recv_result

definition device_step :: "pr_bus_req \<Rightarrow> b_act \<Rightarrow> bus_device \<Rightarrow> bus_device option" where
  "device_step junk act = (\<lambda>(l, pr, bus, n).
     (case act of
        B_Main \<Rightarrow>
          (case b_step (l, bus) of None \<Rightarrow> None | Some (l, bus) \<Rightarrow> Some (l, pr, bus, n))
      | B_Round r \<Rightarrow>
          (let (sigs, w) = priority_round junk r (pr, bus, n) in Some (b_wake sigs l, w))))"

fun device_run :: "pr_bus_req \<Rightarrow> b_act list \<Rightarrow> bus_device \<Rightarrow> bus_device option" where
  "device_run junk [] d = Some d"
| "device_run junk (a # as) d =
     (case device_step junk a d of None \<Rightarrow> None | Some d \<Rightarrow> device_run junk as d)"

text \<open>A list of rounds has the effect of the priority bus alone, and of its signals.\<close>

lemma b_wake_append: "b_wake (s @ ss) l = b_wake ss (b_wake s l)"
  by (auto simp: b_wake_def)

lemma device_rounds:
  "priority_run junk rs w = (sigs, w') \<Longrightarrow> device_run junk (map B_Round rs) (l, w) = Some (b_wake sigs l, w')"
proof (induction rs arbitrary: l w sigs)
  case (Cons r rs)
  obtain s w1 where r: "priority_round junk r w = (s, w1)" by (cases "priority_round junk r w")
  obtain ss where ss: "priority_run junk rs w1 = (ss, w')" "sigs = s @ ss"
    using Cons.prems r by (cases "priority_run junk rs w1") auto
  have step: "device_step junk (B_Round r) (l, w) = Some (b_wake s l, w1)"
    using r by (cases w) (simp add: device_step_def)
  with Cons.IH [OF ss(1), of "b_wake s l"] ss(2) show ?case by (simp add: b_wake_append)
qed (simp add: b_wake_def)

lemma device_run_append:
  "device_run junk (as @ bs) d = (case device_run junk as d of None \<Rightarrow> None | Some d' \<Rightarrow> device_run junk bs d')"
  by (induction as arbitrary: d) (auto split: option.splits)

text \<open>
  The main thread sets the flag, begins to wait after \<open>k\<close> of the rounds and is blocked during the
  others: all the interleavings of a call with the given rounds.
\<close>

definition b_schedule :: "nat \<Rightarrow> recv_result list \<Rightarrow> b_act list" where
  "b_schedule k rs = B_Main # map B_Round (take k rs) @ B_Main # map B_Round (drop k rs)"

lemma schedule_run:
  assumes "priority_run junk (take k rs) (pr, call bus, n) = (s1, w1)" and "priority_run junk (drop k rs) w1 = (s2, w2)"
    and "b_step (l, bus) = Some (l1, call bus)" and "\<And>b. b_step (l1, b) = Some (l2, b)" and "\<And>s. b_wake s l1 = l1"
  shows "device_run junk (b_schedule k rs) (l, pr, bus, n) = Some (b_wake s2 l2, w2)"
proof -
  have 1: "device_step junk B_Main (l, pr, bus, n) = Some (l1, pr, call bus, n)"
    using assms(3) by (simp add: device_step_def)
  have 2: "device_step junk B_Main (l1, w1) = Some (l2, w1)"
    using assms(4) by (cases w1) (simp add: device_step_def)
  show ?thesis
    by (simp add: b_schedule_def 1 2 device_run_append device_rounds [OF assms(1)] device_rounds [OF assms(2)] assms(5))
qed

text \<open>Only the end of a grant wakes a device that asks for the bus.\<close>

lemma round_unwoken:
  assumes "priority_round junk r w = (sigs, w')" and "r = Recv_Again \<or> (\<exists>g. r = Recv_Message g \<and> assertion g = ASSERTED)"
  shows "cond_pr_master \<notin> set sigs"
  using assms
  by (auto simp: priority_round_def process_pr_events_def handle_bg_def Let_def case_prod_unfold
      split: if_splits pr_signal.splits)

lemma grant_rounds:
  assumes "priority_run junk [Recv_Again, Recv_Message g1, Recv_Message g2] w = ([cond_pr_master], w')"
    and "assertion g1 = ASSERTED"
  shows "\<exists>wk. priority_run junk (take k [Recv_Again, Recv_Message g1, Recv_Message g2]) w =
      (if k \<le> 2 then [] else [cond_pr_master], wk) \<and>
    priority_run junk (drop k [Recv_Again, Recv_Message g1, Recv_Message g2]) wk =
      (if k \<le> 2 then [cond_pr_master] else [], w')"
proof -
  obtain s1 w1 where 1: "priority_round junk Recv_Again w = (s1, w1)" by (metis surj_pair)
  obtain s2 w2 where 2: "priority_round junk (Recv_Message g1) w1 = (s2, w2)" by (metis surj_pair)
  obtain s3 w3 where 3: "priority_round junk (Recv_Message g2) w2 = (s3, w3)" by (metis surj_pair)
  have "s1 @ s2 @ s3 = [cond_pr_master]" and w3: "w3 = w'" using assms(1) 1 2 3 by simp_all
  then have s: "s1 = []" "s2 = []" "s3 = [cond_pr_master]"
    using round_unwoken [OF 1] round_unwoken [OF 2] assms(2) by (cases s1; cases s2; auto)+
  consider "k = 0" | "k = 1" | "k = 2" | m where "k = Suc (Suc (Suc m))"
    by (metis One_nat_def Suc_1 not0_implies_Suc)
  then show ?thesis using 1 2 3 s w3 by cases (simp_all add: numeral_2_eq_2)
qed



section \<open>Calls that never return\<close>

text \<open>A round of the priority bus never sets \<open>rel_master\<close>, and signals a release only for it.\<close>

lemma rel_master_ops:
  "rel_master (fst (snd (request_master junk w))) = rel_master (fst (snd w))"
  "rel_master (fst (snd (snd (process_pr_events junk r w)))) = rel_master (fst (snd w))"
  by (auto simp: world_defs process_pr_events_def split: recv_result.split pr_signal.split)

lemma round_no_release:
  assumes "rel_master (fst (snd w)) = 0" and "priority_round junk r w = (sigs, w')"
  shows "rel_master (fst (snd w')) = 0 \<and> cond_pr_rel_master \<notin> set sigs"
proof (cases "req_master (fst (snd w)) \<noteq> 0 \<and> is_master (fst (snd w)) = 0")
  case True
  then show ?thesis
    using assms rel_master_ops(1) [of junk w] rel_master_ops(2) [of junk r "request_master junk w"]
    by (auto simp: priority_round_def case_prod_unfold Let_def split: if_splits)
next
  case False
  then show ?thesis
    using assms rel_master_ops(2) [of junk r w]
    by (auto simp: priority_round_def case_prod_unfold Let_def split: if_splits)
qed

lemma blocked_step:
  assumes "device_step junk a (l, w) = Some (l', w')" and "l \<in> {Rel_Wait, Rel_Blocked}"
    and "rel_master (fst (snd w)) = 0"
  shows "l' \<in> {Rel_Wait, Rel_Blocked} \<and> rel_master (fst (snd w')) = 0"
proof (cases a)
  case B_Main
  with assms show ?thesis by (cases w) (auto simp: device_step_def b_step_def)
next
  case (B_Round r)
  obtain sigs w1 where r: "priority_round junk r w = (sigs, w1)" by (cases "priority_round junk r w")
  with B_Round assms(1) have "l' = b_wake sigs l" "w' = w1" by (cases w; simp add: device_step_def)+
  with round_no_release [OF assms(3) r] assms(2) show ?thesis by (auto simp: b_wake_def)
qed

lemma blocked_run:
  "device_run junk as (l, w) = Some (l', w') \<Longrightarrow> l \<in> {Rel_Wait, Rel_Blocked} \<Longrightarrow> rel_master (fst (snd w)) = 0 \<Longrightarrow>
   l' \<in> {Rel_Wait, Rel_Blocked}"
proof (induction as arbitrary: l w)
  case (Cons a as)
  obtain l1 w1 where 1: "device_step junk a (l, w) = Some (l1, w1)"
    using Cons.prems(1) by (cases "device_step junk a (l, w)") auto
  with Cons.prems(1) have "device_run junk as (l1, w1) = Some (l', w')" by simp
  with blocked_step [OF 1 Cons.prems(2,3)] Cons.IH show ?case by blast
qed simp

text \<open>
  Releasing a bus one does not hold blocks for ever: \<open>release_bus_master\<close> then sets no
  flag and waits all the same, and no round of the priority bus ever wakes it, whatever
  messages arrive, grants included, and however the threads are scheduled.
\<close>

theorem release_without_mastership_blocks:
  assumes "is_master bus = 0" and "rel_master bus = 0"
    and "device_run junk (B_Main # as) (Rel_Lock, pr, bus, n) = Some (l, w)"
  shows "l \<in> {Rel_Wait, Rel_Blocked}"
proof -
  have "device_step junk B_Main (Rel_Lock, pr, bus, n) = Some (Rel_Wait, pr, bus, n)"
    using assms(1) by (simp add: device_step_def b_step_def release_bus_master_request_def)
  with assms(3) have "device_run junk as (Rel_Wait, pr, bus, n) = Some (l, w)" by simp
  then show ?thesis using blocked_run [of junk as Rel_Wait "(pr, bus, n)" l w] assms(2) by simp
qed

lemma release_without_mastership_blocks_witness:
  "\<exists>l w. device_run (pr_msg [] BR 0) [B_Main, B_Main, B_Round Recv_Again]
     (Rel_Lock, pr_sample, bus_sample, net_sample (\<lambda>_. True)) = Some (l, w) \<and> l \<in> {Rel_Wait, Rel_Blocked}"
proof -
  have "\<exists>l w. device_run (pr_msg [] BR 0) [B_Main, B_Main, B_Round Recv_Again]
      (Rel_Lock, pr_sample, bus_sample, net_sample (\<lambda>_. True)) = Some (l, w)"
    by (simp add: device_step_def b_step_def case_prod_unfold Let_def) (metis surj_pair)
  moreover have "is_master bus_sample = 0" "rel_master bus_sample = 0" by (simp_all add: bus_sample_def)
  ultimately show ?thesis using release_without_mastership_blocks by blast
qed

end
