(* ===== verification/Connect.thy ===== *)
theory Connect
  imports Data_Bus Bus_Arb Priority_Bus
begin

text \<open>
  How a process comes onto the bus: \<open>connect_cpu_bus\<close> and \<open>connect_device_bus\<close> of
  \<open>src/src/libunibus/device_bus_mgr.c\<close> create a thread, wait for its signal, and do the same
  with a second one. The new threads run beside the main thread, so a signal can come before
  the wait has begun, and then nobody hears it. The calls are modelled as a step relation on
  the three threads and run under a given interleaving of them. A function of what is heard
  summarises the outcomes of all interleavings and is proved to do so.
\<close>

section \<open>The three threads\<close>

text \<open>
  The main thread: before each \<open>pthread_create\<close>, before each wait, blocked in it, and
  returned. \<open>Died\<close>: one of the threads took the process down.
\<close>

datatype c_loc =
  Create_Pr | Wait_Pr | Blocked_Pr
| Create_D | Wait_D | Blocked_D
| Connect_Returns int
| Died fault

text \<open>
  A thread that is created: \<open>bus_arb_mgr\<close>, \<open>priority_bus_mgr\<close> or \<open>data_bus_mgr\<close> up to its
  loop. When its initialisation fails it returns without a signal.
\<close>

datatype t_loc = T_Absent | T_Init | T_Signal | T_Loop | T_Gone

record connecting =
  c_at :: c_loc
  pr_at :: t_loc
  db_at :: t_loc
  db_state :: "data_state option"
  c_bus :: bus_state

text \<open>
  What the calls depend on: whether \<open>pthread_create\<close> succeeds, and what the first part of each
  thread makes of the shared state.
\<close>

record conn_env =
  pr_create_ok :: bool
  d_create_ok :: bool
  pr_begin :: "bus_state \<Rightarrow> bool res"
  d_begin :: "bus_state \<Rightarrow> data_state option res"

definition init_thread :: "bool \<Rightarrow> int" where
  "init_thread created = (if created then 0 else -1)"

datatype c_tid = C_Main | C_Priority | C_Data

text \<open>There are three threads, so that \<open>conn_final\<close> below, which asks all of them, can be evaluated.\<close>

instantiation c_tid :: enum
begin

definition enum_c_tid :: "c_tid list" where
  "enum_c_tid = [C_Main, C_Priority, C_Data]"

definition enum_all_c_tid :: "(c_tid \<Rightarrow> bool) \<Rightarrow> bool" where
  "enum_all_c_tid P \<longleftrightarrow> P C_Main \<and> P C_Priority \<and> P C_Data"

definition enum_ex_c_tid :: "(c_tid \<Rightarrow> bool) \<Rightarrow> bool" where
  "enum_ex_c_tid P \<longleftrightarrow> P C_Main \<or> P C_Priority \<or> P C_Data"

instance
proof
  have u: "UNIV = {C_Main, C_Priority, C_Data}" by (auto intro: c_tid.exhaust)
  then show "(UNIV :: c_tid set) = set Enum.enum" "distinct (Enum.enum :: c_tid list)"
    by (simp_all add: enum_c_tid_def)
  show "Enum.enum_all P \<longleftrightarrow> Ball UNIV P" "Enum.enum_ex P \<longleftrightarrow> Bex UNIV P" for P :: "c_tid \<Rightarrow> bool"
    by (simp_all add: enum_all_c_tid_def enum_ex_c_tid_def u)
qed

end

lemma all_c_tid: "(\<forall>t. P t) \<longleftrightarrow> P C_Main \<and> P C_Priority \<and> P C_Data"
  using enum_all_UNIV [of P] by (simp only: enum_all_c_tid_def ball_UNIV)

definition main_step :: "conn_env \<Rightarrow> connecting \<Rightarrow> connecting option" where
  "main_step E s =
     (case c_at s of
        Create_Pr \<Rightarrow>
          (let ret = init_thread (pr_create_ok E)
           in Some (if ret \<noteq> 0 then s\<lparr>c_at := Connect_Returns ret\<rparr>
                    else s\<lparr>c_at := Wait_Pr, pr_at := T_Init\<rparr>))
      | Wait_Pr \<Rightarrow> Some (s\<lparr>c_at := Blocked_Pr\<rparr>)
      | Blocked_Pr \<Rightarrow> None
      | Create_D \<Rightarrow>
          (let ret = init_thread (d_create_ok E)
           in Some (if ret \<noteq> 0 then s\<lparr>c_at := Connect_Returns ret\<rparr>
                    else s\<lparr>c_at := Wait_D, db_at := T_Init\<rparr>))
      | Wait_D \<Rightarrow> Some (s\<lparr>c_at := Blocked_D\<rparr>)
      | Blocked_D \<Rightarrow> None
      | Connect_Returns r \<Rightarrow> None
      | Died e \<Rightarrow> None)"

definition pr_thread_step :: "conn_env \<Rightarrow> connecting \<Rightarrow> connecting option" where
  "pr_thread_step E s =
     (case pr_at s of
        T_Init \<Rightarrow>
          Some (case pr_begin E (c_bus s) of
                  Inl e \<Rightarrow> s\<lparr>c_at := Died e\<rparr>
                | Inr ok \<Rightarrow> s\<lparr>pr_at := (if ok then T_Signal else T_Gone)\<rparr>)
      | T_Signal \<Rightarrow>
          Some (s\<lparr>pr_at := T_Loop, c_at := (if c_at s = Blocked_Pr then Create_D else c_at s)\<rparr>)
      | _ \<Rightarrow> None)"

definition d_thread_step :: "conn_env \<Rightarrow> connecting \<Rightarrow> connecting option" where
  "d_thread_step E s =
     (case db_at s of
        T_Init \<Rightarrow>
          Some (case d_begin E (c_bus s) of
                  Inl e \<Rightarrow> s\<lparr>c_at := Died e\<rparr>
                | Inr None \<Rightarrow> s\<lparr>db_at := T_Gone\<rparr>
                | Inr (Some d) \<Rightarrow> s\<lparr>db_at := T_Signal, db_state := Some d\<rparr>)
      | T_Signal \<Rightarrow>
          Some (s\<lparr>db_at := T_Loop,
                  c_at := (if c_at s = Blocked_D then Connect_Returns 0 else c_at s)\<rparr>)
      | _ \<Rightarrow> None)"

definition conn_step :: "conn_env \<Rightarrow> c_tid \<Rightarrow> connecting \<Rightarrow> connecting option" where
  "conn_step E t s =
     (if \<exists>e. c_at s = Died e then None
      else case t of
             C_Main \<Rightarrow> main_step E s
           | C_Priority \<Rightarrow> pr_thread_step E s
           | C_Data \<Rightarrow> d_thread_step E s)"

inductive conn_steps :: "conn_env \<Rightarrow> connecting \<Rightarrow> connecting \<Rightarrow> bool" for E where
  conn_refl: "conn_steps E s s"
| conn_next: "conn_step E t s = Some s' \<Longrightarrow> conn_steps E s' s'' \<Longrightarrow> conn_steps E s s''"

definition conn_start :: "bus_state \<Rightarrow> connecting" where
  "conn_start bus =
     \<lparr>c_at = Create_Pr, pr_at = T_Absent, db_at = T_Absent, db_state = None, c_bus = bus\<rparr>"

section \<open>The outcomes\<close>

datatype conn_result = Conn_Ok data_state | Conn_Failed int | Conn_Blocked | Conn_Died fault

text \<open>
  The state after the last step, when no thread can go on, and the outcome that is visible in a
  state; \<open>Conn_Blocked\<close> while the call has not returned.
\<close>

definition conn_final :: "conn_env \<Rightarrow> connecting \<Rightarrow> bool" where
  "conn_final E s \<longleftrightarrow> (\<forall>t. conn_step E t s = None)"

definition conn_outcome :: "connecting \<Rightarrow> conn_result" where
  "conn_outcome s =
     (case c_at s of
        Connect_Returns r \<Rightarrow>
          (case db_state s of
             Some d \<Rightarrow> if r = 0 then Conn_Ok d else Conn_Failed r
           | None \<Rightarrow> Conn_Failed r)
      | Died e \<Rightarrow> Conn_Died e
      | _ \<Rightarrow> Conn_Blocked)"

text \<open>What the outcomes are, by what the main thread hears: a specification, proved of the steps below.\<close>

definition connect_bus :: "conn_env \<Rightarrow> bool \<Rightarrow> bool \<Rightarrow> bus_state \<Rightarrow> conn_result" where
  "connect_bus E heard_pr heard_d bus =
     (if \<not> pr_create_ok E then Conn_Failed (-1)
      else case pr_begin E bus of
             Inl e \<Rightarrow> Conn_Died e
           | Inr started \<Rightarrow>
               if \<not> (started \<and> heard_pr) then Conn_Blocked
               else if \<not> d_create_ok E then Conn_Failed (-1)
               else case d_begin E bus of
                      Inl e \<Rightarrow> Conn_Died e
                    | Inr None \<Rightarrow> Conn_Blocked
                    | Inr (Some d) \<Rightarrow> if heard_d then Conn_Ok d else Conn_Blocked)"

lemmas conn_step_defs = conn_step_def main_step_def pr_thread_step_def d_thread_step_def
  init_thread_def Let_def

text \<open>
  The states that can be reached from the start. A thread that was not heard has signalled
  while the main thread had not yet begun to wait.
\<close>

definition pr_phase :: "conn_env \<Rightarrow> connecting \<Rightarrow> bool" where
  "pr_phase E s \<longleftrightarrow> pr_create_ok E \<and>
     (case pr_at s of
        T_Absent \<Rightarrow> False
      | T_Init \<Rightarrow> True
      | T_Signal \<Rightarrow> pr_begin E (c_bus s) = Inr True
      | T_Loop \<Rightarrow> pr_begin E (c_bus s) = Inr True
      | T_Gone \<Rightarrow> pr_begin E (c_bus s) = Inr False)"

definition pr_heard :: "conn_env \<Rightarrow> connecting \<Rightarrow> bool" where
  "pr_heard E s \<longleftrightarrow> pr_create_ok E \<and> pr_begin E (c_bus s) = Inr True \<and> pr_at s = T_Loop"

definition d_phase :: "conn_env \<Rightarrow> connecting \<Rightarrow> bool" where
  "d_phase E s \<longleftrightarrow> pr_heard E s \<and> d_create_ok E \<and>
     (case db_at s of
        T_Absent \<Rightarrow> False
      | T_Init \<Rightarrow> db_state s = None
      | T_Signal \<Rightarrow> db_state s \<noteq> None \<and> d_begin E (c_bus s) = Inr (db_state s)
      | T_Loop \<Rightarrow> db_state s \<noteq> None \<and> d_begin E (c_bus s) = Inr (db_state s)
      | T_Gone \<Rightarrow> db_state s = None \<and> d_begin E (c_bus s) = Inr None)"

definition conn_inv :: "conn_env \<Rightarrow> connecting \<Rightarrow> bool" where
  "conn_inv E s \<longleftrightarrow>
     (case c_at s of
        Create_Pr \<Rightarrow> pr_at s = T_Absent \<and> db_at s = T_Absent \<and> db_state s = None
      | Wait_Pr \<Rightarrow> pr_phase E s \<and> db_at s = T_Absent \<and> db_state s = None
      | Blocked_Pr \<Rightarrow> pr_phase E s \<and> db_at s = T_Absent \<and> db_state s = None
      | Create_D \<Rightarrow> pr_heard E s \<and> db_at s = T_Absent \<and> db_state s = None
      | Wait_D \<Rightarrow> d_phase E s
      | Blocked_D \<Rightarrow> d_phase E s
      | Connect_Returns r \<Rightarrow>
          (if r = 0 then d_phase E s \<and> db_at s = T_Loop
           else r = -1 \<and> db_at s = T_Absent \<and> db_state s = None \<and>
             (\<not> pr_create_ok E \<and> pr_at s = T_Absent \<or> pr_heard E s \<and> \<not> d_create_ok E))
      | Died e \<Rightarrow>
          pr_create_ok E \<and> pr_begin E (c_bus s) = Inl e \<or>
          pr_heard E s \<and> d_create_ok E \<and> d_begin E (c_bus s) = Inl e)"

lemma conn_inv_start: "conn_inv E (conn_start bus)"
  by (simp add: conn_inv_def conn_start_def)

lemmas conn_inv_defs = conn_inv_def pr_phase_def pr_heard_def d_phase_def

lemma conn_step_bus: "conn_step E t s = Some s' \<Longrightarrow> c_bus s' = c_bus s"
  by (auto simp: conn_step_defs split: c_tid.splits c_loc.splits t_loc.splits if_splits sum.splits option.splits)

lemma conn_inv_main: "conn_inv E s \<Longrightarrow> main_step E s = Some s' \<Longrightarrow> conn_inv E s'"
  by (cases "c_at s") (auto simp: main_step_def init_thread_def conn_inv_defs split: if_splits t_loc.splits)

lemma conn_inv_pr: "conn_inv E s \<Longrightarrow> \<forall>e. c_at s \<noteq> Died e \<Longrightarrow> pr_thread_step E s = Some s' \<Longrightarrow> conn_inv E s'"
  by (cases "pr_at s"; cases "c_at s")
    (auto simp: pr_thread_step_def conn_inv_defs split: if_splits sum.splits)

lemma conn_inv_d: "conn_inv E s \<Longrightarrow> \<forall>e. c_at s \<noteq> Died e \<Longrightarrow> d_thread_step E s = Some s' \<Longrightarrow> conn_inv E s'"
  by (cases "db_at s"; cases "c_at s")
    (auto simp: d_thread_step_def conn_inv_defs split: if_splits sum.splits option.splits)

lemma conn_inv_step:
  assumes "conn_inv E s" and "conn_step E t s = Some s'"
  shows "conn_inv E s' \<and> c_bus s' = c_bus s"
proof -
  from assms(2) have alive: "\<forall>e. c_at s \<noteq> Died e" by (auto simp: conn_step_def split: if_splits)
  with assms(2) have "(case t of C_Main \<Rightarrow> main_step E s | C_Priority \<Rightarrow> pr_thread_step E s
      | C_Data \<Rightarrow> d_thread_step E s) = Some s'"
    by (simp add: conn_step_def)
  then have "conn_inv E s'"
    using conn_inv_main [OF assms(1)] conn_inv_pr [OF assms(1) alive] conn_inv_d [OF assms(1) alive]
    by (cases t) (simp_all only: c_tid.case)
  with conn_step_bus [OF assms(2)] show ?thesis by blast
qed

lemma conn_inv_steps: "conn_steps E s s' \<Longrightarrow> conn_inv E s \<Longrightarrow> conn_inv E s' \<and> c_bus s' = c_bus s"
proof (induction rule: conn_steps.induct)
  case (conn_next t s s' s'')
  then show ?case using conn_inv_step [OF conn_next.prems conn_next.hyps(1)] by simp
qed simp

text \<open>
  Every step takes the process further, so every interleaving ends.
\<close>

fun c_rank :: "c_loc \<Rightarrow> nat" where
  "c_rank Create_Pr = 14" | "c_rank Wait_Pr = 11" | "c_rank Blocked_Pr = 10"
| "c_rank Create_D = 9" | "c_rank Wait_D = 4" | "c_rank Blocked_D = 3"
| "c_rank (Connect_Returns r) = 1" | "c_rank (Died e) = 0"

fun t_rank :: "t_loc \<Rightarrow> nat" where
  "t_rank T_Absent = 0" | "t_rank T_Init = 2" | "t_rank T_Signal = 1" | "t_rank T_Loop = 0" | "t_rank T_Gone = 0"

definition conn_rank :: "connecting \<Rightarrow> nat" where
  "conn_rank s = c_rank (c_at s) + t_rank (pr_at s) + t_rank (db_at s)"

lemma conn_rank_main: "conn_inv E s \<Longrightarrow> main_step E s = Some s' \<Longrightarrow> conn_rank s' < conn_rank s"
  by (cases "c_at s") (auto simp: main_step_def init_thread_def conn_rank_def conn_inv_defs split: if_splits)

lemma conn_rank_pr: "\<forall>e. c_at s \<noteq> Died e \<Longrightarrow> pr_thread_step E s = Some s' \<Longrightarrow> conn_rank s' < conn_rank s"
  by (cases "pr_at s"; cases "c_at s")
    (auto simp: pr_thread_step_def conn_rank_def split: if_splits sum.splits)

lemma conn_rank_d: "\<forall>e. c_at s \<noteq> Died e \<Longrightarrow> d_thread_step E s = Some s' \<Longrightarrow> conn_rank s' < conn_rank s"
  by (cases "db_at s"; cases "c_at s")
    (auto simp: d_thread_step_def conn_rank_def split: if_splits sum.splits option.splits)

lemma conn_rank_step:
  assumes "conn_inv E s" and "conn_step E t s = Some s'"
  shows "conn_rank s' < conn_rank s"
proof -
  from assms(2) have alive: "\<forall>e. c_at s \<noteq> Died e" by (auto simp: conn_step_def split: if_splits)
  with assms(2) have "(case t of C_Main \<Rightarrow> main_step E s | C_Priority \<Rightarrow> pr_thread_step E s
      | C_Data \<Rightarrow> d_thread_step E s) = Some s'"
    by (simp add: conn_step_def)
  then show ?thesis
    using conn_rank_main [OF assms(1)] conn_rank_pr [OF alive] conn_rank_d [OF alive]
    by (cases t) (simp_all only: c_tid.case)
qed

lemma conn_steps_trans: "conn_steps E s s' \<Longrightarrow> conn_steps E s' s'' \<Longrightarrow> conn_steps E s s''"
  by (induction rule: conn_steps.induct) (auto intro: conn_steps.intros)

lemma conn_ends: "conn_inv E s \<Longrightarrow> \<exists>s'. conn_steps E s s' \<and> conn_final E s'"
proof (induction "conn_rank s" arbitrary: s rule: less_induct)
  case less
  show ?case
  proof (cases "conn_final E s")
    case True
    then show ?thesis using conn_refl by blast
  next
    case False
    then obtain t s1 where s1: "conn_step E t s = Some s1" by (auto simp: conn_final_def)
    from less.hyps [OF conn_rank_step [OF less.prems s1]] conn_inv_step [OF less.prems s1]
    obtain s' where "conn_steps E s1 s'" "conn_final E s'" by blast
    with s1 show ?thesis by (blast intro: conn_next)
  qed
qed

text \<open>The number of steps is bounded: no interleaving goes on for ever.\<close>

lemma conn_powers:
  assumes "((\<lambda>s s'. \<exists>t. conn_step E t s = Some s') ^^ n) s s'" and "conn_inv E s"
  shows "conn_steps E s s' \<and> n + conn_rank s' \<le> conn_rank s"
  using assms
proof (induction n arbitrary: s)
  case (Suc n)
  from relpowp_Suc_D2 [OF Suc.prems(1)] obtain s1 t where 1: "conn_step E t s = Some s1"
    "((\<lambda>s s'. \<exists>t. conn_step E t s = Some s') ^^ n) s1 s'" by blast
  from Suc.IH [OF 1(2)] conn_inv_step [OF Suc.prems(2) 1(1)] have
    "conn_steps E s1 s'" "n + conn_rank s' \<le> conn_rank s1" by blast+
  with conn_rank_step [OF Suc.prems(2) 1(1)] 1(1) show ?case by (auto intro: conn_next)
qed (auto intro: conn_refl)

text \<open>A schedule that leaves out the threads that cannot go on.\<close>

fun conn_run :: "conn_env \<Rightarrow> c_tid list \<Rightarrow> connecting \<Rightarrow> connecting" where
  "conn_run E [] s = s"
| "conn_run E (t # ts) s = conn_run E ts (case conn_step E t s of None \<Rightarrow> s | Some s' \<Rightarrow> s')"

lemma conn_run_steps: "conn_steps E s (conn_run E ts s)"
proof (induction ts arbitrary: s)
  case (Cons t ts)
  then show ?case by (cases "conn_step E t s") (auto intro: conn_next)
qed (auto intro: conn_refl)

text \<open>The main thread waits before the signal that it hears, and after one that it misses.\<close>

definition conn_schedule :: "bool \<Rightarrow> bool \<Rightarrow> c_tid list" where
  "conn_schedule heard_pr heard_d =
     (if heard_pr then [C_Main, C_Main, C_Priority, C_Priority]
      else [C_Main, C_Priority, C_Priority, C_Main]) @
     (if heard_d then [C_Main, C_Main, C_Data, C_Data] else [C_Main, C_Data, C_Data, C_Main])"

lemma conn_final_iff:
  "conn_final E s \<longleftrightarrow>
     (\<exists>e. c_at s = Died e) \<or> main_step E s = None \<and> pr_thread_step E s = None \<and> d_thread_step E s = None"
  by (auto simp: conn_final_def conn_step_def all_c_tid)

lemma conn_first_half:
  assumes "pr_create_ok E" and "pr_begin E bus = Inr ok"
  shows "conn_run E ((if h then [C_Main, C_Main, C_Priority, C_Priority]
      else [C_Main, C_Priority, C_Priority, C_Main]) @ ts) (conn_start bus) =
    conn_run E ts ((conn_start bus)\<lparr>pr_at := (if ok then T_Loop else T_Gone),
      c_at := (if ok \<and> h then Create_D else Blocked_Pr)\<rparr>)"
  using assms by (cases ok; cases h) (simp_all add: conn_start_def conn_step_defs)

lemma conn_stuck: "conn_final E s \<Longrightarrow> conn_run E ts s = s"
  by (induction ts) (simp_all add: conn_final_def)

lemma conn_schedule_outcome:
  "conn_final E (conn_run E (conn_schedule h k) (conn_start bus)) \<and>
   conn_outcome (conn_run E (conn_schedule h k) (conn_start bus)) = connect_bus E h k bus"
proof (cases "pr_create_ok E")
  case False
  let ?s = "(conn_start bus)\<lparr>c_at := Connect_Returns (-1)\<rparr>"
  have f: "conn_final E ?s" by (simp add: conn_final_iff conn_start_def conn_step_defs)
  obtain ts where "conn_schedule h k = C_Main # ts" by (cases h) (auto simp: conn_schedule_def)
  moreover have "conn_step E C_Main (conn_start bus) = Some ?s"
    using False by (simp add: conn_start_def conn_step_defs)
  ultimately show ?thesis
    using f False conn_stuck [OF f] by (simp add: conn_outcome_def connect_bus_def conn_start_def)
next
  case True
  show ?thesis
  proof (cases "pr_begin E bus")
    case (Inl e)
    with True show ?thesis
      by (cases h)
        (simp_all add: conn_final_iff conn_schedule_def conn_start_def conn_step_defs conn_outcome_def connect_bus_def)
  next
    case (Inr ok)
    let ?s = "(conn_start bus)\<lparr>pr_at := (if ok then T_Loop else T_Gone),
      c_at := (if ok \<and> h then Create_D else Blocked_Pr)\<rparr>"
    have r: "conn_run E (conn_schedule h k) (conn_start bus) =
        conn_run E (if k then [C_Main, C_Main, C_Data, C_Data] else [C_Main, C_Data, C_Data, C_Main]) ?s"
      unfolding conn_schedule_def by (rule conn_first_half [OF True Inr])
    show ?thesis
    proof (cases "ok \<and> h")
      case False
      then have f: "conn_final E ?s" by (cases ok) (simp_all add: conn_final_iff conn_start_def conn_step_defs)
      from False True Inr show ?thesis
        unfolding r conn_stuck [OF f] using f
        by (auto simp: conn_outcome_def connect_bus_def conn_start_def)
    next
      case heard: True
      then show ?thesis
        unfolding r using True Inr
        by (cases "d_create_ok E"; cases "d_begin E bus"; cases k)
          (simp_all add: conn_final_iff conn_start_def conn_step_defs conn_outcome_def connect_bus_def
            split: option.split)
    qed
  qed
qed

lemma conn_final_outcome:
  assumes "conn_inv E s" and "conn_final E s"
  shows "\<exists>h k. conn_outcome s = connect_bus E h k (c_bus s)"
proof (cases "c_at s")
  case Blocked_Pr
  with assms have "conn_outcome s = connect_bus E False True (c_bus s)"
    by (cases "pr_at s") (auto simp: conn_final_iff conn_inv_defs conn_outcome_def connect_bus_def pr_thread_step_def
        split: sum.splits)
  then show ?thesis by blast
next
  case Blocked_D
  with assms have "conn_outcome s = connect_bus E True False (c_bus s)"
    by (cases "db_at s") (auto simp: conn_final_iff conn_inv_defs conn_outcome_def connect_bus_def d_thread_step_def
        split: sum.splits)
  then show ?thesis by blast
next
  case (Connect_Returns r)
  with assms have "conn_outcome s = connect_bus E True True (c_bus s)"
    by (auto simp: conn_inv_defs conn_outcome_def connect_bus_def split: if_splits)
  then show ?thesis by blast
next
  case (Died e)
  with assms have "conn_outcome s = connect_bus E True True (c_bus s)"
    by (auto simp: conn_inv_defs conn_outcome_def connect_bus_def split: sum.splits)
  then show ?thesis by blast
qed (use assms in \<open>auto simp: conn_final_iff main_step_def Let_def\<close>)

text \<open>
  Property C11. Connecting to the bus has exactly the results of \<open>connect_bus\<close>, a summary of
  the code over what the main thread hears: over all interleavings of the main thread and the
  two threads it creates, the final outcomes are those for the four cases of what it hears
  (among them that it waits for ever although every call succeeded, when a signal comes before
  the wait). No interleaving has more than 14 steps, and as long as a thread can go on from a
  reachable state there is a way to such an outcome: every interleaving ends, in one of them.
\<close>

theorem connect_outcomes:
  "{conn_outcome s | s. conn_steps E (conn_start bus) s \<and> conn_final E s} =
     {connect_bus E heard_pr heard_d bus | heard_pr heard_d. True} \<and>
   {n. \<exists>s. ((\<lambda>s s'. \<exists>t. conn_step E t s = Some s') ^^ n) (conn_start bus) s} \<subseteq> {..14} \<and>
   {s. conn_steps E (conn_start bus) s} \<subseteq> {s. \<exists>s'. conn_steps E s s' \<and> conn_final E s'}"
proof (intro conjI subset_antisym)
  have inv: "conn_inv E s \<and> c_bus s = bus" if "conn_steps E (conn_start bus) s" for s
    using conn_inv_steps [OF that conn_inv_start] by (simp add: conn_start_def)
  show "{conn_outcome s | s. conn_steps E (conn_start bus) s \<and> conn_final E s}
      \<subseteq> {connect_bus E heard_pr heard_d bus | heard_pr heard_d. True}"
    using inv conn_final_outcome by fastforce
  show "{connect_bus E heard_pr heard_d bus | heard_pr heard_d. True}
      \<subseteq> {conn_outcome s | s. conn_steps E (conn_start bus) s \<and> conn_final E s}"
    using conn_schedule_outcome conn_run_steps by (fastforce simp: eq_commute)
  have "conn_rank (conn_start bus) = 14" by (simp add: conn_rank_def conn_start_def)
  then show "{n. \<exists>s. ((\<lambda>s s'. \<exists>t. conn_step E t s = Some s') ^^ n) (conn_start bus) s} \<subseteq> {..14}"
    using conn_powers [OF _ conn_inv_start] by fastforce
  show "{s. conn_steps E (conn_start bus) s} \<subseteq> {s. \<exists>s'. conn_steps E s s' \<and> conn_final E s'}"
    using inv conn_ends by blast
qed

section \<open>The two processes' threads\<close>

text \<open>
  The threads of the CPU process are the arbiter (whose socket call is not checked) and the
  data bus; those of a device the priority bus and the data bus.
\<close>

record thread_env =
  create_first_ok :: bool
  create_second_ok :: bool
  interleaving :: "c_tid list"
  pr_malloc_ok :: bool
  pr_bind_ok :: bool
  arb_junk :: arb_state
  pr_junk :: pr_state
  pr_files :: pr_net
  data_env :: net_env
  data_junk :: data_state

definition cpu_threads :: "thread_env \<Rightarrow> conn_env" where
  "cpu_threads T =
     \<lparr>pr_create_ok = create_first_ok T, d_create_ok = create_second_ok T,
      pr_begin = (\<lambda>bus. Inr (init_arb (pr_malloc_ok T) (arb_junk T) arb_name \<noteq> None)),
      d_begin = data_bus_start (data_env T) (data_junk T)\<rparr>"

definition device_threads :: "thread_env \<Rightarrow> conn_env" where
  "device_threads T =
     \<lparr>pr_create_ok = create_first_ok T, d_create_ok = create_second_ok T,
      pr_begin = (\<lambda>bus. map_sum id (\<lambda>(pr, n). pr \<noteq> None)
        (priority_bus_start (pr_malloc_ok T) (pr_bind_ok T) (pr_junk T) bus (pr_files T))),
      d_begin = data_bus_start (data_env T) (data_junk T)\<rparr>"

text \<open>The calls, with the threads stepping as the interleaving says.\<close>

definition connect_cpu_bus :: "thread_env \<Rightarrow> bus_state \<Rightarrow> bus_state \<times> conn_result" where
  "connect_cpu_bus T bus =
     (let bus = bus\<lparr>is_master := 1\<rparr>
      in (bus, conn_outcome (conn_run (cpu_threads T) (interleaving T) (conn_start bus))))"

definition connect_device_bus :: "thread_env \<Rightarrow> bus_state \<Rightarrow> bus_state \<times> conn_result" where
  "connect_device_bus T bus =
     (bus, conn_outcome (conn_run (device_threads T) (interleaving T) (conn_start bus)))"

lemma connect_bus_ok:
  "connect_bus E h k bus = Conn_Ok d \<longleftrightarrow>
     pr_create_ok E \<and> pr_begin E bus = Inr True \<and> h \<and> d_create_ok E \<and> d_begin E bus = Inr (Some d) \<and> k"
  by (auto simp: connect_bus_def split: sum.splits option.splits)

lemma conn_run_ok:
  assumes "conn_outcome (conn_run E ts (conn_start bus)) = Conn_Ok d"
  shows "d_begin E bus = Inr (Some d)"
proof -
  let ?s = "conn_run E ts (conn_start bus)"
  have "conn_inv E ?s" and b: "c_bus ?s = bus"
    using conn_inv_steps [OF conn_run_steps conn_inv_start] by (simp_all add: conn_start_def)
  moreover obtain r where "c_at ?s = Connect_Returns r" "db_state ?s = Some d"
    using assms by (auto simp: conn_outcome_def split: c_loc.splits option.splits if_splits)
  ultimately show ?thesis by (auto simp: conn_inv_def d_phase_def b split: if_splits)
qed

lemma connect_data_start:
  "connect_cpu_bus T bus = (bus', Conn_Ok d) \<Longrightarrow>
     bus' = bus\<lparr>is_master := 1\<rparr> \<and> data_bus_start (data_env T) (data_junk T) bus' = Inr (Some d)"
  "connect_device_bus T bus = (bus', Conn_Ok d) \<Longrightarrow>
     bus' = bus \<and> data_bus_start (data_env T) (data_junk T) bus' = Inr (Some d)"
  by (auto simp: connect_cpu_bus_def connect_device_bus_def Let_def dest!: conn_run_ok)
    (auto simp: cpu_threads_def device_threads_def)

end
