(* ===== verification/Process.thy ===== *)
theory Process
  imports Connect Load Mem Disk Cpu_Run "HOL-Library.Char_ord"
begin

text \<open>
  The processes: \<open>main\<close> of \<open>src/src/cpu/cpu.c\<close>, \<open>mem/mem.c\<close> and \<open>disk/disk.c\<close>, from the command
  line to the loop \<open>execute\<close>, and their signal handlers. The command line is the list of the
  arguments after the program's name; the results of the system calls are a record.
\<close>

section \<open>The command line\<close>

text \<open>
  \<open>getopt\<close> as the code uses it: every option of its string takes an argument. The result are
  the values of the calls up to the one that returns -1, each with \<open>optarg\<close>; an option that
  is not in the string, or has no argument, is \<open>?\<close>. The list \<open>cs\<close> is what is left of the
  current element of \<open>argv\<close>.
\<close>

function getopt_scan :: "char list \<Rightarrow> string \<Rightarrow> string list \<Rightarrow> (char \<times> string) list" where
  "getopt_scan letters [] [] = []"
| "getopt_scan letters [] (w # ws) =
     (if length w < 2 \<or> hd w \<noteq> CHR ''-'' \<or> w = ''--'' then []
      else getopt_scan letters (tl w) ws)"
| "getopt_scan letters (c # cs) ws =
     (if c \<notin> set letters then (CHR ''?'', []) # getopt_scan letters cs ws
      else if cs \<noteq> [] then (c, cs) # getopt_scan letters [] ws
      else case ws of
             [] \<Rightarrow> [(CHR ''?'', [])]
           | w # ws \<Rightarrow> (c, w) # getopt_scan letters [] ws)"
  by pat_completeness auto

termination getopt_scan
proof (relation "measure (\<lambda>(letters, cs, ws). length cs + sum_list (map length ws) + length ws)", goal_cases)
  case (2 letters w ws)
  then show ?case by (cases w) auto
qed auto

definition getopt :: "char list \<Rightarrow> string list \<Rightarrow> (char \<times> string) list" where
  "getopt letters args = getopt_scan letters [] args"

text \<open>
  \<open>strtoul(s, NULL, 10)\<close> with a 64-bit \<open>unsigned long\<close>: white space, a sign, decimal digits;
  a value that does not fit is \<open>ULONG_MAX\<close>, a minus sign negates modulo \<open>2 ^ 64\<close>.
\<close>

definition is_white :: "char \<Rightarrow> bool" where
  "is_white c \<longleftrightarrow> (of_char c :: nat) = 32 \<or> 9 \<le> (of_char c :: nat) \<and> (of_char c :: nat) \<le> 13"

definition is_decimal :: "char \<Rightarrow> bool" where
  "is_decimal c \<longleftrightarrow> 48 \<le> (of_char c :: nat) \<and> (of_char c :: nat) \<le> 57"

definition decimal_value :: "string \<Rightarrow> nat" where
  "decimal_value ds = foldl (\<lambda>v c. 10 * v + (of_char c - 48)) 0 ds"

definition strtoul :: "string \<Rightarrow> 64 word" where
  "strtoul s =
     (let s = dropWhile is_white s;
          negative = (s \<noteq> [] \<and> hd s = CHR ''-'');
          s = (if s \<noteq> [] \<and> (hd s = CHR ''-'' \<or> hd s = CHR ''+'') then tl s else s);
          v = decimal_value (takeWhile is_decimal s)
      in if 2 ^ 64 \<le> v then - 1 else if negative then - of_nat v else of_nat v)"

section \<open>Outcomes and environment\<close>

abbreviation (input) EXIT_SUCCESS :: int where "EXIT_SUCCESS \<equiv> 0"
abbreviation (input) EXIT_FAILURE :: int where "EXIT_FAILURE \<equiv> 1"

text \<open>
  How far a process gets: it exits with a status, hangs, is taken down, or reaches its loop.
\<close>

datatype 'a started = Exited int | Hangs | Crashed fault | Running 'a

record proc_env =
  sighup_ok :: bool
  sigint_ok :: bool
  state_alloc_ok :: bool
  bus_env :: init_env
  thread_env :: thread_env

definition signals_ok :: "proc_env \<Rightarrow> bool" where
  "signals_ok P \<longleftrightarrow> sighup_ok P \<and> sigint_ok P"

text \<open>What \<open>main\<close> does with the result of the connect call, which frees what it must and exits.\<close>

definition after_connect :: "bus_state \<times> conn_result \<Rightarrow> (bus_state \<times> data_state \<Rightarrow> 'a) \<Rightarrow> 'a started" where
  "after_connect r f =
     (case r of (bus, c) \<Rightarrow>
        (case c of
           Conn_Ok d \<Rightarrow> Running (f (bus, d))
         | Conn_Failed ret \<Rightarrow> Exited EXIT_FAILURE
         | Conn_Blocked \<Rightarrow> Hangs
         | Conn_Died e \<Rightarrow> Crashed e))"

section \<open>The CPU process\<close>

text \<open>
  The string of options names \<open>l\<close> and \<open>r\<close>, for which the switch has no case; the processor's
  registers without a bus are a \<^typ>\<open>unit machine\<close>.
\<close>

fun cpu_options :: "(char \<times> string) list \<Rightarrow> unit machine \<Rightarrow> unit machine option" where
  "cpu_options [] m = Some m"
| "cpu_options ((c, arg) # os) m =
     (if c = CHR ''p'' then cpu_options os (m\<lparr>pc := ucast (strtoul arg)\<rparr>) else None)"

definition cpu_main :: "proc_env \<Rightarrow> string list \<Rightarrow> (unit machine \<times> bus_state \<times> data_state) started" where
  "cpu_main P args =
     (if \<not> signals_ok P then Exited EXIT_FAILURE
      else if \<not> state_alloc_ok P then Exited EXIT_FAILURE
      else
        case cpu_options (getopt ''plr'' args) (init_cpu ()) of
          None \<Rightarrow> Exited EXIT_FAILURE
        | Some m \<Rightarrow>
            (case init_bus (bus_env P) None (Some ''cpu'') (Some ''mem'') of
               None \<Rightarrow> Exited EXIT_FAILURE
             | Some bus \<Rightarrow> after_connect (connect_cpu_bus (thread_env P) bus) (\<lambda>bd. (m, bd))))"

section \<open>The memory process\<close>

text \<open>The options: the a.out file, the load offset; \<open>None\<close> for an option it does not know.\<close>

fun mem_options :: "(char \<times> string) list \<Rightarrow> string option \<times> u32 \<Rightarrow> (string option \<times> u32) option" where
  "mem_options [] r = Some r"
| "mem_options ((c, arg) # os) (file, off) =
     (if c = CHR ''f'' then mem_options os (Some arg, off)
      else if c = CHR ''o'' then mem_options os (file, ucast (strtoul arg))
      else None)"

definition mem_main ::
  "proc_env \<Rightarrow> os \<Rightarrow> mem_dev \<Rightarrow> string list \<Rightarrow> (mem_dev \<times> bus_state \<times> data_state) started" where
  "mem_main P F junk args =
     (if \<not> signals_ok P then Exited EXIT_FAILURE
      else if \<not> state_alloc_ok P then Exited EXIT_FAILURE
      else
        case mem_options (getopt ''fo'' args) (None, 0) of
          None \<Rightarrow> Exited EXIT_FAILURE
        | Some (None, load_offset) \<Rightarrow> Exited EXIT_FAILURE
        | Some (Some aout_file, load_offset) \<Rightarrow>
            (case aout_read F aout_file of
               None \<Rightarrow> Exited EXIT_FAILURE
             | Some aout \<Rightarrow>
                 (case load_aout aout load_offset junk of
                    Inl e \<Rightarrow> Crashed e
                  | Inr m \<Rightarrow>
                      (case init_bus (bus_env P) (Some ''cpu'') (Some ''mem'') None of
                         None \<Rightarrow> Exited EXIT_FAILURE
                       | Some bus \<Rightarrow>
                           (let bus = bus\<lparr>addr_internal_to_device := Some is_local_addr\<rparr>
                            in after_connect (connect_device_bus (thread_env P) bus)
                                 (\<lambda>bd. (m, bd)))))))"

section \<open>The disk process\<close>

fun disk_options :: "(char \<times> string) list \<Rightarrow> string option \<Rightarrow> string option option" where
  "disk_options [] img = Some img"
| "disk_options ((c, arg) # os) img = (if c = CHR ''i'' then disk_options os (Some arg) else None)"

text \<open>The disk image is only compared with the null pointer; nothing opens it.\<close>

definition disk_main :: "proc_env \<Rightarrow> string list \<Rightarrow> (disk_state \<times> bus_state \<times> data_state) started" where
  "disk_main P args =
     (if \<not> signals_ok P then Exited EXIT_FAILURE
      else
        case disk_options (getopt ''i'' args) None of
          None \<Rightarrow> Exited EXIT_FAILURE
        | Some None \<Rightarrow> Exited EXIT_FAILURE
        | Some (Some disk_image) \<Rightarrow>
            (case init_bus (bus_env P) (Some ''mem'') (Some ''disk'') None of
               None \<Rightarrow> Exited EXIT_FAILURE
             | Some bus \<Rightarrow>
                 (let bus = bus\<lparr>addr_internal_to_device := Some disk_is_local_addr\<rparr>
                  in after_connect (connect_device_bus (thread_env P) bus)
                       (\<lambda>bd. (init_disk dsk_static, bd)))))"

section \<open>Signals\<close>

text \<open>
  The pointers \<open>CPU_STATE\<close> and \<open>BUS_REF\<close> of the CPU process. \<open>cleanup\<close> is called by the signal
  handler, which returns to where the signal interrupted the program, and at the end of \<open>main\<close>;
  it returns the flags that the joined threads see.
\<close>

record 'b cpu_proc =
  CPU_STATE :: "'b machine option"
  BUS_PTR :: "bus_state option"

definition cpu_cleanup :: "'b cpu_proc \<Rightarrow> bus_state option \<times> 'b cpu_proc" where
  "cpu_cleanup p = (map_option cleanup_bus (BUS_PTR p), p\<lparr>CPU_STATE := None, BUS_PTR := None\<rparr>)"

definition cpu_handler :: "'b cpu_proc \<Rightarrow> bus_state option \<times> 'b cpu_proc" where
  "cpu_handler p = cpu_cleanup p"

text \<open>
  The loop with a signal that comes after \<open>n\<close> rounds, before the loop tests \<open>halted\<close>: the state
  at the end of the loop. A round reads \<open>CPU_STATE\<close>.
\<close>

fun execute_signalled :: "'b bus_ops \<Rightarrow> nat \<Rightarrow> 'b cpu_proc \<Rightarrow> ('b cpu_proc) res" where
  "execute_signalled B 0 p =
     (let p = snd (cpu_handler p)
      in case CPU_STATE p of None \<Rightarrow> Inl Null_Deref | Some m \<Rightarrow> Inr p)"
| "execute_signalled B (Suc n) p =
     (case CPU_STATE p of
        None \<Rightarrow> Inl Null_Deref
      | Some m \<Rightarrow>
          if halted m \<noteq> 0 then Inr p
          else rbind (cpu_cycle B m) (\<lambda>m. execute_signalled B n (p\<lparr>CPU_STATE := Some m\<rparr>)))"

text \<open>
  The handlers of the devices exit. That of the memory follows \<open>BUS_STATE\<close> without a test;
  that of the disk closes its media, and returns the descriptors it closes.
\<close>

definition mem_handler :: "mem_dev option \<Rightarrow> bus_state option \<Rightarrow> (int \<times> bus_state) res" where
  "mem_handler m bus =
     rbind (case m of None \<Rightarrow> Inr [] | Some m \<Rightarrow> dump_mem m) (\<lambda>rows.
     case bus of None \<Rightarrow> Inl Null_Deref | Some bus \<Rightarrow> Inr (EXIT_SUCCESS, cleanup_bus bus))"

definition shutdown_disk :: "disk_state \<Rightarrow> int list" where
  "shutdown_disk d = (if disk_media d = -1 then [] else [disk_media d])"

definition disk_handler :: "disk_state \<Rightarrow> bus_state option \<Rightarrow> int \<times> int list \<times> bus_state option" where
  "disk_handler d bus = (EXIT_SUCCESS, shutdown_disk d, map_option cleanup_bus bus)"

section \<open>Lemmas\<close>

text \<open>A command line of options with separate arguments.\<close>

lemma getopt_option [simp]:
  "c \<in> set letters \<Longrightarrow> c \<noteq> CHR ''-'' \<Longrightarrow>
   getopt letters ([CHR ''-'', c] # arg # args) = (c, arg) # getopt letters args"
  by (simp add: getopt_def)

lemma getopt_Nil [simp]: "getopt letters [] = []"
  by (simp add: getopt_def)

text \<open>Decimal numerals, as a user writes them, and what \<open>strtoul\<close> makes of them.\<close>

fun decimal :: "nat \<Rightarrow> string" where
  "decimal n = (if n < 10 then [char_of (48 + n)] else decimal (n div 10) @ [char_of (48 + n mod 10)])"

declare decimal.simps [simp del]

lemma of_char_digit: "k < 10 \<Longrightarrow> (of_char (char_of (48 + k)) :: nat) = 48 + k"
  by simp

lemma decimal_digits: "list_all is_decimal (decimal n) \<and> decimal n \<noteq> []"
proof (induction n rule: decimal.induct)
  case (1 n)
  show ?case
  proof (cases "n < 10")
    case True
    then show ?thesis by (simp add: decimal.simps [of n] is_decimal_def)
  next
    case False
    then have "is_decimal (char_of (48 + n mod 10))" by (simp add: is_decimal_def)
    with False 1 show ?thesis by (simp add: decimal.simps [of n])
  qed
qed

lemma decimal_value_append: "decimal_value (s @ [c]) = 10 * decimal_value s + (of_char c - 48)"
  by (simp add: decimal_value_def)

lemma decimal_value_decimal [simp]: "decimal_value (decimal n) = n"
proof (induction n rule: decimal.induct)
  case (1 n)
  show ?case
  proof (cases "n < 10")
    case True
    then show ?thesis by (simp add: decimal.simps [of n] decimal_value_def)
  next
    case False
    with 1 show ?thesis by (simp add: decimal.simps [of n] decimal_value_append)
  qed
qed

lemma digit_no_space: "is_decimal c \<Longrightarrow> \<not> is_white c \<and> c \<noteq> CHR ''-'' \<and> c \<noteq> CHR ''+''"
  by (auto simp: is_decimal_def is_white_def)

lemma strtoul_decimal: "n < 2 ^ 64 \<Longrightarrow> strtoul (decimal n) = of_nat n"
proof -
  assume n: "n < 2 ^ 64"
  obtain c cs where c: "decimal n = c # cs" using decimal_digits [of n] by (cases "decimal n") auto
  have d: "\<forall>x \<in> set (decimal n). is_decimal x" using decimal_digits [of n] by (simp add: list_all_iff)
  then have "dropWhile is_white (decimal n) = decimal n" "hd (decimal n) \<noteq> CHR ''-''" "hd (decimal n) \<noteq> CHR ''+''"
    using digit_no_space [of c] by (simp_all add: c)
  moreover have "takeWhile is_decimal (decimal n) = decimal n" using d by (simp add: takeWhile_eq_all_conv)
  ultimately show ?thesis using n by (simp add: strtoul_def Let_def del: takeWhile_eq_all_conv)
qed

lemma cpu_options_pc: "cpu_options os m = Some m' \<Longrightarrow> \<exists>v. m' = m\<lparr>pc := v\<rparr>"
proof (induction os arbitrary: m)
  case Nil
  then show ?case by (intro exI [of _ "pc m"]) simp
next
  case (Cons o_arg os)
  then show ?case by (cases o_arg) (fastforce split: if_splits)
qed

lemma after_connect_running:
  "after_connect r f = Running x \<longleftrightarrow> (\<exists>bus d. r = (bus, Conn_Ok d) \<and> x = f (bus, d))"
  by (auto simp: after_connect_def split: prod.splits conn_result.splits)

section \<open>Properties\<close>

text \<open>
  The CPU process accepts the options \<open>-l\<close> and \<open>-r\<close> for its neighbours and then fails on
  them: with one of them first on the command line it exits in every environment.
\<close>

lemma cpu_main_neighbour_options:
  "cpu_main P ([''-l'', x] @ args) = Exited EXIT_FAILURE" "cpu_main P ([''-r'', x] @ args) = Exited EXIT_FAILURE"
  by (simp_all add: cpu_main_def)

text \<open>The disk process does the same with every disk image, and starts without media.\<close>

lemma disk_main_ignores_image: "disk_main P [''-i'', img] = disk_main P [''-i'', img']"
  by (simp add: disk_main_def)

lemma disk_main_no_media: "disk_main P args = Running (d, bd) \<Longrightarrow> d = init_disk dsk_static \<and> disk_media d = -1"
  by (auto simp: disk_main_def after_connect_running Let_def init_disk_def split: if_splits option.splits)

text \<open>
  A signal crashes the CPU process: the handler frees the processor's state, sets the
  pointer to null and returns, and the loop that it interrupted follows the pointer. After
  any number of cycles of a run, a hangup or an interrupt that arrives between two cycles
  ends in a null dereference, whatever state the processor is in.
\<close>

theorem signal_crashes_loop:
  assumes "run B m cs m'"
  shows "execute_signalled B (length cs) \<lparr>CPU_STATE = Some m, BUS_PTR = bus\<rparr> = Inl Null_Deref"
  using assms
proof (induction rule: run.induct)
  case (run_Nil m)
  then show ?case by (simp add: cpu_handler_def cpu_cleanup_def)
next
  case (run_Cons m c m1 cs m2)
  from run_Cons.hyps(1) have "halted m = 0" "cpu_cycle B m = Inr m1" by (auto elim: cpu_stepE)
  with run_Cons.IH show ?case by simp
qed

text \<open>A run of one cycle of \<open>HALT\<close>.\<close>

lemma halt_run: "\<exists>m'. run mem_bus (init_cpu (program_mem [0])) [None] m'"
proof -
  have c: "cpu_cycle mem_bus (init_cpu (program_mem [0])) =
      Inr ((init_cpu (program_mem [0]))\<lparr>ir := 0, pc := 2, halted := 1\<rparr>)"
    using program_mem_word [of 0 "[0]"] by (simp add: cycle_eval init_cpu_def) (simp add: HALT_def)
  have "cpu_step mem_bus (init_cpu (program_mem [0])) None ((init_cpu (program_mem [0]))\<lparr>ir := 0, pc := 2, halted := 1\<rparr>)"
    using cpu_step.cycle [OF _ c] by (simp add: init_cpu_def decode_eval)
  then show ?thesis by (blast intro: run.intros)
qed

theorem signal_crashes_loop_witness:
  "execute_signalled mem_bus 1 \<lparr>CPU_STATE = Some (init_cpu (program_mem [0])), BUS_PTR = None\<rparr> = Inl Null_Deref"
  using halt_run signal_crashes_loop [where B = mem_bus and cs = "[None]" and m = "init_cpu (program_mem [0])" and bus = None]
  by fastforce

end
