(* ===== verification/Programs.thy ===== *)
theory Programs
  imports Cpu_Properties
begin

text \<open>
  A program with a loop on the CPU of \<open>src/src/cpu/cpu.c\<close> with the memory device: the sum of the
  numbers up to \<open>n\<close>. Each instruction of it is evaluated once, at any place of the memory
  window; the loop is an induction on the counter.
\<close>

section \<open>The program\<close>

text \<open>\<open>MOV #n, R0; CLR R1; loop: ADD R0, R1; DEC R0; BNE loop; HALT\<close>\<close>

definition sum_program :: "u16 \<Rightarrow> u16 list" where
  "sum_program n = [0x15C0, n, 0x0A01, 0x6001, 0x0AC0, 0x02FD, 0]"

text \<open>The program lies at address \<open>v\<close> of the memory window.\<close>

definition program_at :: "nat \<Rightarrow> u16 list \<Rightarrow> mem_dev \<Rightarrow> bool" where
  "program_at v ws b \<longleftrightarrow> v + 2 * length ws \<le> 512 \<and> (\<forall>i \<in> {..<length ws}. mem_word b (v + 2 * i) = ws ! i)"

text \<open>The CPU before the instruction at \<open>v + i\<close>, with its first two registers.\<close>

definition cpu_at :: "nat \<Rightarrow> nat \<Rightarrow> u16 \<Rightarrow> u16 \<Rightarrow> mem_dev \<Rightarrow> mem_dev machine \<Rightarrow> bool" where
  "cpu_at v i x y b m \<longleftrightarrow>
     pc m = of_nat (v + i) \<and> r0 m = x \<and> r1 m = y \<and> halted m = 0 \<and> BUS_REF m = b"

section \<open>Its instructions\<close>

lemma program_word:
  assumes "program_at v ws b" and "i < length ws"
  shows "unat (of_nat (v + 2 * i) :: u16) = v + 2 * i \<and> v + 2 * i < 512 \<and> mem_word b (v + 2 * i) = ws ! i"
proof -
  have "v + 2 * i < 512" using assms by (simp add: program_at_def)
  moreover from this have "unat (of_nat (v + 2 * i) :: u16) = v + 2 * i"
    by (simp only: unsigned_of_nat) (simp add: take_bit_nat_eq_self)
  ultimately show ?thesis using assms by (simp add: program_at_def)
qed

lemma cycle_at:
  assumes "cpu_at v (2 * i) x y b m" and "program_at v ws b" and "i < length ws"
  shows "cpu_cycle mem_bus m = exec_instruction mem_bus (m\<lparr>ir := ws ! i, pc := of_nat (v + 2 * i + 2)\<rparr>)"
  using assms program_word [OF assms(2,3)] fetch_low [of "ucast (pc m)" m]
  by (simp add: cpu_cycle_def cpu_at_def unat_ucast_u32 add.commute)

lemma step_at:
  assumes "cpu_at v (2 * i) x y b m" and "program_at v ws b" and "i < length ws"
    and "exec_instruction mem_bus (m\<lparr>ir := ws ! i, pc := of_nat (v + 2 * i + 2)\<rparr>) = Inr m'"
  shows "execute mem_bus m = execute mem_bus m'"
  using assms(1) cycle_at [OF assms(1-3)] assms(4) cpu_step.cycle [of m mem_bus m']
  by (intro execute_step) (auto simp: cpu_at_def)

lemma mov_at:
  assumes "cpu_at v 0 x y b m" and "program_at v (sum_program n) b"
  shows "\<exists>m'. execute mem_bus m = execute mem_bus m' \<and> cpu_at v 4 n y b m'"
proof -
  have "fetch_data mem_bus (ucast (of_nat (v + 2) :: u16)) m' = Inr (n, m')" if "BUS_REF m' = b" for m'
    using program_word [OF assms(2), of 1] fetch_low [of "ucast (of_nat (v + 2) :: u16)" m'] that
    by (simp add: sum_program_def unat_ucast_u32)
  then obtain m' where e: "exec_instruction mem_bus (m\<lparr>ir := 0x15C0, pc := of_nat (v + 2)\<rparr>) = Inr m'" "cpu_at v 4 n y b m'"
    using assms(1)
    by (simp add: cpu_at_def exec_instruction_def decode_eval MOV_def operand_eval Let_def add.assoc)
  with step_at [of v 0 x y b m "sum_program n" m'] assms show ?thesis
    by (auto simp: sum_program_def)
qed

lemma clr_at:
  assumes "cpu_at v 4 x y b m" and "program_at v (sum_program n) b"
  shows "\<exists>m'. execute mem_bus m = execute mem_bus m' \<and> cpu_at v 6 x 0 b m'"
proof -
  obtain m' where e: "exec_instruction mem_bus (m\<lparr>ir := 0x0A01, pc := of_nat (v + 6)\<rparr>) = Inr m'" "cpu_at v 6 x 0 b m'"
    using assms(1)
    by (simp add: cpu_at_def exec_instruction_def decode_eval CLR_def operand_eval Let_def)
  with step_at [of v 2 x y b m "sum_program n" m'] assms show ?thesis
    by (auto simp: sum_program_def add.commute)
qed

lemma add_at:
  assumes "cpu_at v 6 x y b m" and "program_at v (sum_program n) b"
  shows "\<exists>m'. execute mem_bus m = execute mem_bus m' \<and> cpu_at v 8 x (x + y) b m'"
proof -
  obtain m' where e: "exec_instruction mem_bus (m\<lparr>ir := 0x6001, pc := of_nat (v + 8)\<rparr>) = Inr m'"
    "cpu_at v 8 x (x + y) b m'"
    using assms(1)
    by (simp add: cpu_at_def exec_instruction_def decode_eval ADD_def operand_eval Let_def)
  with step_at [of v 3 x y b m "sum_program n" m'] assms show ?thesis
    by (auto simp: sum_program_def add.commute)
qed

text \<open>\<open>DEC\<close> also sets the flag that \<open>BNE\<close> tests.\<close>

lemma dec_at:
  assumes "cpu_at v 8 x y b m" and "program_at v (sum_program n) b"
  shows "\<exists>m'. execute mem_bus m = execute mem_bus m' \<and> cpu_at v 10 (x - 1) y b m' \<and> Z_flag m' = (x = 1)"
proof -
  obtain m' where e: "exec_instruction mem_bus (m\<lparr>ir := 0x0AC0, pc := of_nat (v + 10)\<rparr>) = Inr m'"
    "cpu_at v 10 (x - 1) y b m'" "Z_flag m' = (x = 1)"
    using assms(1)
    by (simp add: cpu_at_def exec_instruction_def decode_eval DEC_def operand_eval Let_def flag_defs)
  with step_at [of v 4 x y b m "sum_program n" m'] assms show ?thesis
    by (auto simp: sum_program_def add.commute)
qed

lemma bne_at:
  assumes "cpu_at v 10 x y b m" and "program_at v (sum_program n) b"
  shows "\<exists>m'. execute mem_bus m = execute mem_bus m' \<and> cpu_at v (if Z_flag m then 12 else 6) x y b m'"
proof -
  have "(2 :: u16) * scast (0xFD :: 8 word) = - 6" by simp
  then obtain m' where e: "exec_instruction mem_bus (m\<lparr>ir := 0x02FD, pc := of_nat (v + 12)\<rparr>) = Inr m'"
    "cpu_at v (if Z_flag m then 12 else 6) x y b m'"
    using assms(1)
    by (cases "Z_flag m")
      (simp_all add: cpu_at_def exec_instruction_def decode_eval branch_defs get_branch_offset_def flag_defs Let_def
        and_flag)
  with step_at [of v 5 x y b m "sum_program n" m'] assms show ?thesis
    by (auto simp: sum_program_def add.commute)
qed

lemma halt_at:
  assumes "cpu_at v 12 x y b m" and "program_at v (sum_program n) b"
  shows "\<exists>m'. execute mem_bus m = Some (Inr m') \<and> halted m' = 1 \<and> r0 m' = x \<and> r1 m' = y \<and> BUS_REF m' = b"
proof -
  obtain m' where e: "exec_instruction mem_bus (m\<lparr>ir := 0, pc := of_nat (v + 14)\<rparr>) = Inr m'"
    "halted m' = 1" "r0 m' = x" "r1 m' = y" "BUS_REF m' = b"
    using assms(1)
    by (simp add: cpu_at_def exec_instruction_def decode_eval HALT_def Let_def)
  moreover have "execute mem_bus m' = Some (Inr m')"
    using e(2) by (intro execute_final) (simp add: final_def)
  ultimately show ?thesis
    using step_at [of v 6 x y b m "sum_program n" m'] assms
    by (auto simp: sum_program_def add.commute)
qed

section \<open>The loop\<close>

lemma loop_at:
  assumes "program_at v (sum_program n) b"
  shows "0 < k \<Longrightarrow> k < 65536 \<Longrightarrow> cpu_at v 6 (of_nat k) y b m \<Longrightarrow>
    \<exists>m'. execute mem_bus m = execute mem_bus m' \<and> cpu_at v 12 0 (y + of_nat (\<Sum>{..k})) b m'"
proof (induction k arbitrary: y m)
  case (Suc k)
  let ?x = "of_nat (Suc k) :: u16"
  obtain m1 where 1: "execute mem_bus m = execute mem_bus m1" "cpu_at v 8 ?x (?x + y) b m1"
    using add_at [OF Suc.prems(3) assms] by blast
  obtain m2 where 2: "execute mem_bus m1 = execute mem_bus m2" "cpu_at v 10 (of_nat k) (?x + y) b m2"
    "Z_flag m2 = (?x = 1)"
    using dec_at [OF 1(2) assms] by auto
  obtain m3 where 3: "execute mem_bus m2 = execute mem_bus m3"
    "cpu_at v (if Z_flag m2 then 12 else 6) (of_nat k) (?x + y) b m3"
    using bne_at [OF 2(2) assms] by blast
  have "unat ?x = Suc k" using Suc.prems(2) by (simp only: unsigned_of_nat) (simp add: take_bit_nat_eq_self)
  then have z: "?x = 1 \<longleftrightarrow> k = 0" by (metis One_nat_def nat.inject of_nat_1 unsigned_1)
  show ?case
  proof (cases "k = 0")
    case True
    with 1 2 3 z show ?thesis by (intro exI [of _ m3]) (simp add: add.commute)
  next
    case False
    with 3(2) 2(3) z have "cpu_at v 6 (of_nat k) (?x + y) b m3" by simp
    from Suc.IH [OF _ _ this] False Suc.prems(2) obtain m' where
      "execute mem_bus m3 = execute mem_bus m'" "cpu_at v 12 0 (?x + y + of_nat (\<Sum>{..k})) b m'" by auto
    with 1 2 3 show ?thesis by (intro exI [of _ m']) (simp add: ac_simps atMost_Suc)
  qed
qed simp

lemma sum_to: "\<Sum>{..k} = k * (k + 1) div (2 :: nat)"
  using gauss_sum_nat [of k] by (simp add: atMost_atLeast0)

lemma sum_program_runs:
  assumes "program_at v (sum_program n) b" and "n \<noteq> 0"
  shows "\<exists>m'. execute mem_bus (init_cpu b\<lparr>pc := of_nat v\<rparr>) = Some (Inr m') \<and> halted m' = 1 \<and>
    r0 m' = 0 \<and> r1 m' = of_nat (unat n * (unat n + 1) div 2) \<and> BUS_REF m' = b"
proof -
  have "cpu_at v 0 0 0 b (init_cpu b\<lparr>pc := of_nat v\<rparr>)" by (simp add: cpu_at_def init_cpu_def)
  from mov_at [OF this assms(1)] obtain m1 where
    1: "execute mem_bus (init_cpu b\<lparr>pc := of_nat v\<rparr>) = execute mem_bus m1" "cpu_at v 4 n 0 b m1" by blast
  from clr_at [OF 1(2) assms(1)] obtain m2 where
    2: "execute mem_bus m1 = execute mem_bus m2" "cpu_at v 6 (of_nat (unat n)) 0 b m2" by auto
  have "0 < unat n" using assms(2) by (simp add: unat_gt_0)
  moreover have "unat n < 65536" using unat_u16_less [of n] by simp
  ultimately obtain m3 where 3: "execute mem_bus m2 = execute mem_bus m3"
    "cpu_at v 12 0 (of_nat (\<Sum>{..unat n})) b m3"
    using loop_at [OF assms(1) _ _ 2(2)] by auto
  from halt_at [OF 3(2) assms(1)] 1(1) 2(1) 3(1) show ?thesis by (simp add: sum_to)
qed

end
