(* ===== verification/Boot.thy ===== *)
theory Boot
  imports Process Programs Unibus_Properties
begin

text \<open>
  The memory and the CPU process from their command lines to the end of a program: what the
  two \<open>main\<close> functions leave behind, and the run of the CPU over the bus between them.
\<close>

section \<open>The started processes\<close>

text \<open>What \<open>malloc\<close> must leave in the \<open>bus_state\<close> of a process, since \<open>init_bus\<close> does not set it.\<close>

definition cleared :: "proc_env \<Rightarrow> bool" where
  "cleared P \<longleftrightarrow> shutdown (malloc_junk (bus_env P)) = 0 \<and>
     addr_internal_to_device (malloc_junk (bus_env P)) = None"

lemma cpu_main_running:
  assumes "cpu_main P args = Running (c, bd)"
  shows "cpu_options (getopt ''plr'' args) (init_cpu ()) = Some c"
    and "start_cpu (bus_env P) (data_env (thread_env P)) (data_junk (thread_env P)) = Some bd"
  using assms
  by (auto simp: cpu_main_def start_cpu_def after_connect_running Let_def dest!: connect_data_start
      split: if_splits option.splits)

lemma mem_main_running:
  assumes "mem_main P F junk args = Running (b, bd)"
  shows "\<exists>file off aout. mem_options (getopt ''fo'' args) (None, 0) = Some (Some file, off) \<and>
      aout_read F file = Some aout \<and> load_aout aout off junk = Inr b"
    and "start_mem (bus_env P) (data_env (thread_env P)) (data_junk (thread_env P)) = Some bd"
  using assms
  by (auto simp: mem_main_def start_mem_def after_connect_running Let_def dest!: connect_data_start
      split: if_splits option.splits prod.splits sum.splits)

text \<open>
  The CPU process in its loop, with the memory process on the other side of the bus, and the
  slots in which the threads of the two will step.
\<close>

definition boot ::
  "unit machine \<times> bus_state \<times> data_state \<Rightarrow> mem_dev \<times> bus_state \<times> data_state \<Rightarrow> slot list stream \<Rightarrow>
   net_bus machine" where
  "boot cp mp S = rebus (system (snd cp) (snd mp) (fst mp), S) (fst cp)"

lemma boot_start:
  assumes "cpu_main Pc ac = Running cp" and "mem_main Pm F junk am = Running mp"
    and "cleared Pc" and "cleared Pm"
  shows "\<exists>u v. (\<forall>S. boot cp mp S = init_cpu (u, S)\<lparr>pc := v\<rparr>) \<and> fst cp = init_cpu ()\<lparr>pc := v\<rparr> \<and> settled u \<and> dev u = fst mp"
proof -
  let ?u = "system (snd cp) (snd mp) (fst mp)"
  obtain c cb b mb where cp: "cp = (c, cb)" and mp: "mp = (b, mb)" by (cases cp, cases mp) auto
  have z: "shutdown (malloc_junk (bus_env Pc)) = 0" "shutdown (malloc_junk (bus_env Pm)) = 0"
    "addr_internal_to_device (malloc_junk (bus_env Pc)) = None"
    using assms(3,4) by (simp_all add: cleared_def)
  have "settled ?u"
    using start_settled [OF cpu_main_running(2) mem_main_running(2) z] assms(1,2) by (simp add: cp mp)
  moreover obtain v where "c = init_cpu ()\<lparr>pc := v\<rparr>"
    using cpu_options_pc [OF cpu_main_running(1) [OF assms(1) [unfolded cp]]] by blast
  ultimately show ?thesis
    using rebus_init [where b = "(?u, S)" and d = "()" and v = v for S] by (fastforce simp: boot_def cp mp system_def)
qed

section \<open>A program from the command lines to its end\<close>

lemma text_at:
  assumes "load_aout aout off m = Inr b" and "text_ptr aout = Some ws"
    and "unat (a_text (header aout)) = 2 * length ws" and "unat off + 2 * length ws \<le> 512"
  shows "program_at (unat off) ws b"
proof -
  have "b = m\<lparr>store := (\<lambda>j. if unat off \<le> j \<and> j < unat off + 2 * length ws
      then text_byte ws (j - unat off) else store m j)\<rparr>"
    using load_aout_stores_text [OF assms(2) refl, of off m] assms by simp
  then show ?thesis using assms(4)
    by (auto simp: program_at_def mem_word_def text_byte_def)
qed

text \<open>The options \<open>-f file -o v\<close> of the memory and \<open>-p v\<close> of the CPU.\<close>

lemma strtoul_u16: "v < 65536 \<Longrightarrow> (ucast (strtoul (decimal v)) :: u16) = of_nat v"
  by (simp add: strtoul_decimal unsigned_of_nat take_bit_nat_eq_self)

lemma strtoul_u32: "v < 65536 \<Longrightarrow> (ucast (strtoul (decimal v)) :: u32) = of_nat v"
  by (simp add: strtoul_decimal unsigned_of_nat take_bit_nat_eq_self)

text \<open>A program that the memory process loads from its command line lies at the offset it names.\<close>

lemma program_loaded:
  assumes "files F p = Some f" and "reads_left f = None"
    and "fbytes f = aout_image (text_header (of_nat (2 * length ws))) ws @ rest"
    and "v + 2 * length ws \<le> 512" and "mem_main P F m0 [''-f'', p, ''-o'', decimal v] = Running mp"
  shows "program_at v ws (fst mp)"
proof -
  let ?h = "text_header (of_nat (2 * length ws))"
  obtain b mb where mp: "mp = (b, mb)" by (cases mp)
  from mem_main_running(1) [OF assms(5) [unfolded mp]] obtain aout where
    r: "aout_read F p = Some aout" and b: "load_aout aout (of_nat v) m0 = Inr b"
    using strtoul_u32 [of v] assms(4) by auto
  have ok: "malloc_ok F" "calloc_ok F" "close_ok F"
    using r aout_read_None_iff [of F p] assms(1) by auto
  have len: "unat (of_nat (2 * length ws) :: u16) = 2 * length ws" "unat (of_nat v :: u32) = v"
    using assms(4) by (simp_all only: unsigned_of_nat) (simp_all add: take_bit_nat_eq_self)
  have "?h = header_of_refs (words_of (header_refs (junk_header F)) (fbytes f))"
    using assms(3) by (simp add: header_of_image)
  from aout_read_ok [OF assms(1,2) ok this] have "aout = \<lparr>header = ?h, text_ptr = Some ws\<rparr>"
    using r assms(3) len(1) by (simp add: drop_header words_of_image unat_half [simplified] del: drop_append)
  with text_at [OF b, of ws] len assms(4) show ?thesis by (simp add: mp)
qed

text \<open>How the CPU leaves its loop when the program has added up the numbers to \<open>n\<close>.\<close>

definition summed :: "u16 \<Rightarrow> mem_dev \<Rightarrow> net_bus machine \<Rightarrow> bool" where
  "summed n d m \<longleftrightarrow> halted m = 1 \<and> r0 m = 0 \<and> r1 m = of_nat (unat n * (unat n + 1) div 2) \<and>
     ready (fst (BUS_REF m)) \<and> store (dev (fst (BUS_REF m))) = store d"


text \<open>An environment in which every call succeeds and every signal is heard.\<close>

definition threads_up :: thread_env where
  "threads_up = \<lparr>create_first_ok = True, create_second_ok = True, interleaving = conn_schedule True True,
     pr_malloc_ok = True, pr_bind_ok = True, arb_junk = arb_sample, pr_junk = pr_sample,
     pr_files = net_sample (\<lambda>_. True), data_env = net_up, data_junk = zero_data\<rparr>"

definition proc_up :: proc_env where
  "proc_up = \<lparr>sighup_ok = True, sigint_ok = True, state_alloc_ok = True, bus_env = env_up,
     thread_env = threads_up\<rparr>"

lemma cleared_up: "cleared proc_up"
  by (simp add: cleared_def proc_up_def env_up_def zero_bus_def)

lemma init_bus_up: "init_bus env_up l s r = Some (zero_bus\<lparr>l_sock := l, sock := s, r_sock := r, inited := init_order,
    master := \<lparr>x_op = R_NONE, x_addr = 0, x_value = 0\<rparr>, slave := \<lparr>x_op = R_NONE, x_addr = 0, x_value = 0\<rparr>\<rparr>)"
  by (simp add: init_bus_def env_up_def setup_socket_dir_def init_sync_some zero_bus_def)

lemma connect_up:
  "sock bus = Some s \<Longrightarrow> \<exists>d. connect_cpu_bus threads_up bus = (bus\<lparr>is_master := 1\<rparr>, Conn_Ok d)"
  "sock bus = Some s \<Longrightarrow> \<exists>d. connect_device_bus threads_up bus = (bus, Conn_Ok d)"
  by (simp_all add: connect_cpu_bus_def connect_device_bus_def conn_schedule_outcome connect_bus_ok cpu_threads_def device_threads_def
      threads_up_def init_arb_def priority_bus_start_def init_pr_state_def data_bus_start_def init_data_state_def Let_def
      os_socket_def net_sample_def upt_rec)

lemma cpu_up: "\<exists>bd. cpu_main proc_up [''-p'', decimal v] = Running (init_cpu ()\<lparr>pc := ucast (strtoul (decimal v))\<rparr>, bd)"
proof -
  obtain bus where "init_bus env_up None (Some ''cpu'') (Some ''mem'') = Some bus" "sock bus = Some ''cpu''"
    by (simp add: init_bus_up)
  then show ?thesis
    using connect_up(1) [of bus "''cpu''"]
    by (auto simp: cpu_main_def proc_up_def signals_ok_def after_connect_def)
qed

lemma mem_up:
  assumes "aout_read F p = Some aout" and "load_aout aout (ucast (strtoul (decimal v))) m = Inr b"
  shows "\<exists>bd. mem_main proc_up F m [''-f'', p, ''-o'', decimal v] = Running (b, bd)"
proof -
  obtain bus where "init_bus env_up (Some ''cpu'') (Some ''mem'') None = Some bus" "sock bus = Some ''mem''"
    by (simp add: init_bus_up)
  then show ?thesis
    using connect_up(2) [of "bus\<lparr>addr_internal_to_device := Some is_local_addr\<rparr>" "''mem''"] assms
    by (auto simp: mem_main_def proc_up_def signals_ok_def after_connect_def Let_def)
qed


end
