(* ===== verification/Topology.thy ===== *)
theory Topology
  imports Boot
begin

text \<open>
  The three processes on the data bus in the configuration that their \<open>main\<close> functions build.
  Each has its data bus thread (theory \<open>Data_Bus\<close>); its main thread may do anything to the
  state it shares with that thread, which covers every program and every device.
\<close>

section \<open>The network\<close>

record node =
  nd_in :: "data_bus_req list"
  nd_sh :: bus_state
  nd_ds :: data_state
  nd_thr :: d_thread

datatype proc = P_CPU | P_MEM | P_DISK

type_synonym network = "proc \<Rightarrow> node"

text \<open>A message arrives in the inbox of every process whose socket has its path.\<close>

definition deliver_to :: "(string \<times> data_bus_req) list \<Rightarrow> node \<Rightarrow> node" where
  "deliver_to out n = n\<lparr>nd_in := nd_in n @ map snd (filter (\<lambda>(p, r). p = d_in_addr (nd_ds n)) out)\<rparr>"

inductive net_steps :: "net_env \<Rightarrow> network \<Rightarrow> network \<Rightarrow> bool" for E where
  net_refl: "net_steps E ns ns"
| net_bus: "net_steps E ns ns' \<Longrightarrow>
    d_step E junk (nd_in (ns' i), nd_sh (ns' i), nd_ds (ns' i), nd_thr (ns' i)) =
      Some ((inbox, bus, d, th), out, w) \<Longrightarrow>
    net_steps E ns (\<lambda>k. deliver_to out
      (if k = i then \<lparr>nd_in = inbox, nd_sh = bus, nd_ds = d, nd_thr = th\<rparr> else ns' k))"
| net_main: "net_steps E ns ns' \<Longrightarrow>
    net_steps E ns (ns'(i := (ns' i)\<lparr>nd_sh := bus, nd_thr := d_wake w (nd_thr (ns' i))\<rparr>))"

text \<open>The addresses of a process do not change, and it sends to its two neighbours only.\<close>

definition addresses :: "data_state \<Rightarrow> string \<times> string \<times> string" where
  "addresses d = (d_out_addr_l d, d_out_addr_r d, d_in_addr d)"

lemma send_msg_addresses:
  assumes "send_msg E r d = (ret, out, d')"
  shows "addresses d' = addresses d \<and> fst ` set out \<subseteq> {d_out_addr_l d, d_out_addr_r d} - {[]}"
  using assms
  by (auto simp: send_msg_def d_connect_l_def d_connect_r_def d_close_l_def d_close_r_def addresses_def Let_def
      split: if_splits)

lemma process_op_addresses:
  assumes "process_op E junk d = (out, d')"
  shows "addresses d' = addresses d \<and> fst ` set out \<subseteq> {d_out_addr_l d, d_out_addr_r d} - {[]}"
proof -
  have "addresses (snd (snd (send_msg E r d))) = addresses d \<and>
      fst ` set (fst (snd (send_msg E r d))) \<subseteq> {d_out_addr_l d, d_out_addr_r d} - {[]}" for r
    using send_msg_addresses [of E r d] by (cases "send_msg E r d") auto
  then show ?thesis
    using assms
    by (auto simp: process_op_def in_word_def out_word_def out_byte_def Let_def case_prod_unfold addresses_def
        split: data_op.splits)
qed

lemma poll_master_addresses: "addresses (snd (poll_master bus d)) = addresses d"
  by (simp add: poll_master_def addresses_def split: data_op.split)

lemma d_step_addresses:
  assumes "d_step E junk (inbox, bus, d, t) = Some ((inbox', bus', d', t'), out, w)"
  shows "addresses d' = addresses d" and "fst ` set out \<subseteq> {d_out_addr_l d, d_out_addr_r d} - {[]}"
    and "set inbox' \<subseteq> set inbox"
proof -
  have "addresses d' = addresses d \<and> fst ` set out \<subseteq> {d_out_addr_l d, d_out_addr_r d} - {[]} \<and>
      set inbox' \<subseteq> set inbox"
  proof (cases "d_at t")
    case At_Poll
    with assms show ?thesis
      using poll_master_addresses [of bus d] by (auto simp: d_step_def Let_def split: prod.splits)
  next
    case At_Process
    with assms show ?thesis
      using process_op_addresses [of E junk d]
      by (auto simp: d_step_def Let_def split: prod.splits if_splits)
  next
    case (At_Slave_End c)
    with assms show ?thesis
      using send_msg_addresses [of E "fst (handle_req_end c junk bus)" d]
      by (auto simp: d_step_def Let_def split: prod.splits)
  qed (use assms in \<open>auto simp: d_step_def Let_def handle_resp_end_def addresses_def split: prod.splits list.splits\<close>)
  then show "addresses d' = addresses d" "fst ` set out \<subseteq> {d_out_addr_l d, d_out_addr_r d} - {[]}"
    "set inbox' \<subseteq> set inbox" by blast+
qed

section \<open>Who can be reached\<close>

text \<open>A process is named by another when one of its outgoing addresses is its socket.\<close>

definition names :: "network \<Rightarrow> proc \<Rightarrow> proc \<Rightarrow> bool" where
  "names ns i k \<longleftrightarrow> d_in_addr (nd_ds (ns k)) \<in> {d_out_addr_l (nd_ds (ns i)), d_out_addr_r (nd_ds (ns i))} - {[]}"

lemma unnamed_unreached:
  "net_steps E ns ns' \<Longrightarrow> (\<And>i. \<not> names ns i k) \<Longrightarrow> nd_in (ns k) = [] \<Longrightarrow>
   nd_in (ns' k) = [] \<and> (\<forall>i. addresses (nd_ds (ns' i)) = addresses (nd_ds (ns i)))"
proof (induction rule: net_steps.induct)
  case (net_bus ns ns' junk i inbox bus d th out w)
  then have IH: "nd_in (ns' k) = []" "\<And>i. addresses (nd_ds (ns' i)) = addresses (nd_ds (ns i))" by auto
  note st = d_step_addresses [OF net_bus.hyps(2)]
  have "p \<noteq> d_in_addr (nd_ds (ns k))" if "p \<in> fst ` set out" for p
    using st(2) that net_bus.prems(1) [of i] IH(2) [of i] by (auto simp: names_def addresses_def)
  then have none: "filter (\<lambda>(p, r). p = d_in_addr (nd_ds (ns k))) out = []"
    by (force simp: filter_empty_conv)
  have addr: "d_in_addr (nd_ds (ns' k)) = d_in_addr (nd_ds (ns k))" "d_in_addr d = d_in_addr (nd_ds (ns i))"
    using IH(2) [of k] IH(2) [of i] st(1) by (auto simp: addresses_def)
  show ?case
  proof (intro conjI allI)
    show "nd_in (deliver_to out (if k = i then \<lparr>nd_in = inbox, nd_sh = bus, nd_ds = d, nd_thr = th\<rparr> else ns' k)) = []"
      using IH(1) st(3) none addr by (auto simp: deliver_to_def)
    show "addresses (nd_ds (deliver_to out (if j = i then \<lparr>nd_in = inbox, nd_sh = bus, nd_ds = d, nd_thr = th\<rparr> else ns' j)))
        = addresses (nd_ds (ns j))" for j
      using IH(2) [of j] st(1) by (auto simp: deliver_to_def)
  qed
qed auto

section \<open>The shipped configuration\<close>

definition started_node :: "bus_state \<times> data_state \<Rightarrow> node" where
  "started_node bd = \<lparr>nd_in = [], nd_sh = fst bd, nd_ds = snd bd,
     nd_thr = \<lparr>d_at = At_Poll, d_is_master = 0, d_shutdown = 0\<rparr>\<rparr>"

definition started_network ::
  "bus_state \<times> data_state \<Rightarrow> bus_state \<times> data_state \<Rightarrow> bus_state \<times> data_state \<Rightarrow> network" where
  "started_network c m d =
     (\<lambda>p. started_node (case p of P_CPU \<Rightarrow> c | P_MEM \<Rightarrow> m | P_DISK \<Rightarrow> d))"

lemma disk_main_running:
  assumes "disk_main P args = Running (d, bus, ds)"
  shows "sock bus = Some ''disk'' \<and> l_sock bus = Some ''mem'' \<and> r_sock bus = None \<and>
    data_bus_start (data_env (thread_env P)) (data_junk (thread_env P)) bus = Inr (Some ds)"
  using assms
  by (auto simp: disk_main_def after_connect_running Let_def init_bus_def init_sync_some dest!: connect_data_start
      split: if_splits option.splits)

lemma start_addresses:
  "start_cpu E N junk = Some (bus, ds) \<Longrightarrow> addresses ds = ([], d_socket_path ''mem'', d_socket_path ''cpu'')"
  "start_mem E N junk = Some (bus, ds) \<Longrightarrow> addresses ds = (d_socket_path ''cpu'', [], d_socket_path ''mem'')"
  by (auto simp: start_cpu_def start_mem_def init_bus_def init_sync_some data_bus_start_def init_data_state_def Let_def
      data_neighbour_def addresses_def split: if_splits)

lemma disk_addresses:
  assumes "disk_main P args = Running (d, bus, ds)"
  shows "addresses ds = (d_socket_path ''mem'', [], d_socket_path ''disk'')"
  using disk_main_running [OF assms]
  by (auto simp: data_bus_start_def init_data_state_def Let_def data_neighbour_def addresses_def split: if_splits)

text \<open>
  Property C35. The disk cannot be reached: when the CPU, the memory and the disk process are
  started as their \<open>main\<close> functions start them, no message ever arrives at the data bus of
  the disk, whatever the programs and devices do, whatever the sockets do and in whatever
  order the threads run. The memory is started without a right neighbour, and the data bus
  does not pass requests on.
\<close>

theorem disk_unreachable:
  assumes "cpu_main Pc ac = Running (c, cb)" and "mem_main Pm F m0 am = Running (m, mb)"
    and "disk_main Pd ad = Running (d, db)"
    and "net_steps E (started_network cb mb db) ns"
  shows "nd_in (ns P_DISK) = []"
proof -
  obtain bc dc bm dm bd dd where b: "cb = (bc, dc)" "mb = (bm, dm)" "db = (bd, dd)"
    by (cases cb, cases mb, cases db) auto
  have a: "addresses dc = ([], d_socket_path ''mem'', d_socket_path ''cpu'')"
    "addresses dm = (d_socket_path ''cpu'', [], d_socket_path ''mem'')"
    "addresses dd = (d_socket_path ''mem'', [], d_socket_path ''disk'')"
    using start_addresses(1) [OF cpu_main_running(2) [OF assms(1) [unfolded b]]]
      start_addresses(2) [OF mem_main_running(2) [OF assms(2) [unfolded b]]]
      disk_addresses [OF assms(3) [unfolded b]] by blast+
  have "\<not> names (started_network cb mb db) i P_DISK" for i
    using a by (cases i) (auto simp: names_def started_network_def started_node_def b addresses_def d_socket_path_def)
  then show ?thesis
    using unnamed_unreached [OF assms(4), of P_DISK] by (simp add: started_network_def started_node_def)
qed

lemma disk_up: "\<exists>dbd. disk_main proc_up [''-i'', img] = Running dbd"
proof -
  obtain bus where "init_bus env_up (Some ''mem'') (Some ''disk'') None = Some bus" "sock bus = Some ''disk''"
    by (simp add: init_bus_up)
  then show ?thesis
    using connect_up(2) [of "bus\<lparr>addr_internal_to_device := Some disk_is_local_addr\<rparr>" "''disk''"]
    by (auto simp: disk_main_def proc_up_def signals_ok_def after_connect_def Let_def)
qed

theorem disk_unreachable_witness:
  "\<exists>cp mp dp. cpu_main proc_up [''-p'', decimal 0] = Running cp \<and>
     mem_main proc_up (file_os (aout_image (text_header 0) [])) (program_mem []) [''-f'', ''a'', ''-o'', decimal 0] = Running mp \<and>
     disk_main proc_up [''-i'', ''img''] = Running dp \<and>
     nd_in (started_network (snd cp) (snd mp) (snd dp) P_DISK) = []"
proof -
  let ?F = "file_os (aout_image (text_header 0) [])"
  have "header_of_refs (words_of (header_refs (junk_header ?F)) (aout_image (text_header 0) [])) = text_header 0"
    using header_of_image [of _ "text_header 0" "[]" "[]"] by simp
  then obtain ws where r: "aout_read ?F ''a'' = Some \<lparr>header = text_header 0, text_ptr = Some ws\<rparr>"
    using aout_read_ok [OF file_os_ok(1), of "aout_image (text_header 0) []"] by simp
  have "load_aout \<lparr>header = text_header 0, text_ptr = Some ws\<rparr> (ucast (strtoul (decimal 0))) (program_mem []) =
      Inr (program_mem [])"
    by (simp add: load_aout_def)
  from mem_up [OF r this] obtain mb where
    m: "mem_main proc_up ?F (program_mem []) [''-f'', ''a'', ''-o'', decimal 0] = Running (program_mem [], mb)" by blast
  obtain c cb where c: "cpu_main proc_up [''-p'', decimal 0] = Running (c, cb)" using cpu_up by blast
  obtain d db where d: "disk_main proc_up [''-i'', ''img''] = Running (d, db)" using disk_up by (metis surj_pair)
  from disk_unreachable [OF c m d net_refl] c m d show ?thesis by auto
qed

end
