(* ===== verification/Attic_Mem.thy ===== *)
theory Attic_Mem
  imports Prelude
begin

text \<open>
  The memory of the former single-process machine, \<open>src/attic/src/memory.c\<close>: an array of
  bytes in which the registers of the processor and of the devices lie as well, and two tables
  of side effects, functions that are called when a location is read or written. The functions
  that the devices register are those of \<open>tty.c\<close> and \<open>disk.c\<close>; they access the memory
  themselves, and so may run into further side effects. The accesses take as a parameter
  \<open>run\<close> what a call through a function pointer does; \<open>handler_run\<close> ties the knot for a
  stack of a given depth. The mutex of the file serialises the accesses of two threads, which
  are the steps of the model.
\<close>

section \<open>Data\<close>

abbreviation (input) A_MEMBYTES :: nat where "A_MEMBYTES \<equiv> 65535"
abbreviation (input) MAX_HANDLERS :: nat where "MAX_HANDLERS \<equiv> 20"
abbreviation (input) INACTIVE_HANDLER_LOC :: u16 where "INACTIVE_HANDLER_LOC \<equiv> 0xFFFF"

abbreviation (input) R_SP :: u16 where "R_SP \<equiv> 6"
abbreviation (input) R_PC :: u16 where "R_PC \<equiv> 7"
abbreviation (input) R_PS :: u16 where "R_PS \<equiv> 8"

text \<open>The functions that a side effect can point to.\<close>

datatype handler = Read_TKB | Clear_TPB | Clear_RXDB | Clear_RXCS

record side_effect =
  se_loc :: u16
  se_handler :: "handler option"

record amem =
  a_dest :: u16
  a_src :: u16
  a_bytes :: "nat \<Rightarrow> u8"
  read_side_effects :: "side_effect list"
  write_side_effects :: "side_effect list"
  bus_shutdown :: bool

type_synonym effect_run = "handler \<Rightarrow> amem \<Rightarrow> amem res"

text \<open>\<open>_memory[i]\<close> as a value and \<open>_memory[i] = v\<close>.\<close>

definition peek :: "nat \<Rightarrow> amem \<Rightarrow> u8 res" where
  "peek i m = (if i < A_MEMBYTES then Inr (a_bytes m i) else Inl (Out_Of_Bounds (int i)))"

definition poke :: "nat \<Rightarrow> u8 \<Rightarrow> amem \<Rightarrow> amem res" where
  "poke i v m =
     (if i < A_MEMBYTES then Inr (m\<lparr>a_bytes := (a_bytes m)(i := v)\<rparr>) else Inl (Out_Of_Bounds (int i)))"

text \<open>The two bytes of a word at a location; the index is computed in \<open>int\<close> and does not wrap.\<close>

definition peek_word :: "u16 \<Rightarrow> amem \<Rightarrow> u16 res" where
  "peek_word l m =
     rbind (peek (unat l) m) (\<lambda>lo. rbind (peek (unat l + 1) m) (\<lambda>hi. Inr (le_word lo hi)))"

definition poke_word :: "u16 \<Rightarrow> u16 \<Rightarrow> amem \<Rightarrow> amem res" where
  "poke_word l w m = rbind (poke (unat l) (lo_byte w) m) (poke (unat l + 1) (hi_byte w))"

section \<open>Side effects\<close>

text \<open>The first entry with the location is called; a null pointer is dereferenced.\<close>

definition process_side_effects :: "effect_run \<Rightarrow> side_effect list \<Rightarrow> u16 \<Rightarrow> amem \<Rightarrow> amem res" where
  "process_side_effects run es l m =
     (case find (\<lambda>e. se_loc e = l) es of
        None \<Rightarrow> Inr m
      | Some e \<Rightarrow> (case se_handler e of None \<Rightarrow> Inl Null_Deref | Some h \<Rightarrow> run h m))"

definition process_read_side_effects :: "effect_run \<Rightarrow> u16 \<Rightarrow> amem \<Rightarrow> amem res" where
  "process_read_side_effects run l m = process_side_effects run (read_side_effects m) l m"

definition process_write_side_effects :: "effect_run \<Rightarrow> u16 \<Rightarrow> amem \<Rightarrow> amem res" where
  "process_write_side_effects run l m = process_side_effects run (write_side_effects m) l m"

text \<open>The first free entry is taken; the boolean says whether there was one.\<close>

fun register_effect :: "u16 \<Rightarrow> handler \<Rightarrow> side_effect list \<Rightarrow> bool \<times> side_effect list" where
  "register_effect l h [] = (False, [])"
| "register_effect l h (e # es) =
     (if se_loc e = INACTIVE_HANDLER_LOC
      then (True, e\<lparr>se_loc := l, se_handler := Some h\<rparr> # es)
      else (let (ok, es) = register_effect l h es in (ok, e # es)))"

definition register_read_side_effect :: "u16 \<Rightarrow> handler \<Rightarrow> amem \<Rightarrow> bool \<times> amem" where
  "register_read_side_effect l h m =
     (let (ok, es) = register_effect l h (read_side_effects m) in (ok, m\<lparr>read_side_effects := es\<rparr>))"

definition register_write_side_effect :: "u16 \<Rightarrow> handler \<Rightarrow> amem \<Rightarrow> bool \<times> amem" where
  "register_write_side_effect l h m =
     (let (ok, es) = register_effect l h (write_side_effects m) in (ok, m\<lparr>write_side_effects := es\<rparr>))"

section \<open>Accesses\<close>

definition a_write_word :: "effect_run \<Rightarrow> u16 \<Rightarrow> amem \<Rightarrow> amem res" where
  "a_write_word run w m = rbind (poke_word (a_dest m) w m) (process_write_side_effects run (a_dest m))"

definition a_write_byte :: "effect_run \<Rightarrow> u8 \<Rightarrow> amem \<Rightarrow> amem res" where
  "a_write_byte run b m = rbind (poke (unat (a_dest m)) b m) (process_write_side_effects run (a_dest m))"

definition a_read_word :: "effect_run \<Rightarrow> amem \<Rightarrow> (u16 \<times> amem) res" where
  "a_read_word run m =
     rbind (peek_word (a_src m) m) (\<lambda>w.
     rbind (process_read_side_effects run (a_src m) m) (\<lambda>m. Inr (w, m)))"

definition a_read_byte :: "effect_run \<Rightarrow> amem \<Rightarrow> (u8 \<times> amem) res" where
  "a_read_byte run m =
     rbind (peek (unat (a_src m)) m) (\<lambda>b.
     rbind (process_read_side_effects run (a_src m) m) (\<lambda>m. Inr (b, m)))"

definition direct_read_word :: "effect_run \<Rightarrow> u16 \<Rightarrow> amem \<Rightarrow> (u16 \<times> amem) res" where
  "direct_read_word run l m =
     rbind (peek_word l m) (\<lambda>w. rbind (process_read_side_effects run l m) (\<lambda>m. Inr (w, m)))"

definition direct_read_byte :: "effect_run \<Rightarrow> u16 \<Rightarrow> amem \<Rightarrow> (u8 \<times> amem) res" where
  "direct_read_byte run l m =
     rbind (peek (unat l) m) (\<lambda>b. rbind (process_read_side_effects run l m) (\<lambda>m. Inr (b, m)))"

definition direct_read_word_n :: "u16 \<Rightarrow> amem \<Rightarrow> u16 res" where
  "direct_read_word_n l m = peek_word l m"

definition direct_read_byte_n :: "u16 \<Rightarrow> amem \<Rightarrow> u8 res" where
  "direct_read_byte_n l m = peek (unat l) m"

definition direct_write_word :: "effect_run \<Rightarrow> u16 \<Rightarrow> u16 \<Rightarrow> amem \<Rightarrow> amem res" where
  "direct_write_word run l v m = rbind (poke_word l v m) (process_write_side_effects run l)"

definition direct_write_byte :: "effect_run \<Rightarrow> u16 \<Rightarrow> u8 \<Rightarrow> amem \<Rightarrow> amem res" where
  "direct_write_byte run l v m = rbind (poke (unat l) v m) (process_write_side_effects run l)"

definition direct_write_word_n :: "u16 \<Rightarrow> u16 \<Rightarrow> amem \<Rightarrow> amem res" where
  "direct_write_word_n l v m = poke_word l v m"

definition direct_write_byte_n :: "u16 \<Rightarrow> u8 \<Rightarrow> amem \<Rightarrow> amem res" where
  "direct_write_byte_n l v m = poke (unat l) v m"

definition direct_write_word_OR :: "u16 \<Rightarrow> u16 \<Rightarrow> amem \<Rightarrow> amem res" where
  "direct_write_word_OR l v m =
     rbind (peek (unat l) m) (\<lambda>lo. rbind (poke (unat l) (lo OR lo_byte v) m) (\<lambda>m.
     rbind (peek (unat l + 1) m) (\<lambda>hi. poke (unat l + 1) (hi OR hi_byte v) m)))"

text \<open>\<open>word_advance\<close>, \<open>byte_advance\<close>, \<open>word_decrease\<close> and \<open>byte_decrease\<close> of a location.\<close>

definition word_advance :: "u16 \<Rightarrow> amem \<Rightarrow> amem res" where
  "word_advance l m = rbind (peek_word l m) (\<lambda>v. poke_word l (v + 2) m)"

definition byte_advance :: "u16 \<Rightarrow> amem \<Rightarrow> amem res" where
  "byte_advance l m = rbind (peek_word l m) (\<lambda>v. poke_word l (v + 1) m)"

definition word_decrease :: "u16 \<Rightarrow> amem \<Rightarrow> amem res" where
  "word_decrease l m = rbind (peek_word l m) (\<lambda>v. poke_word l (v - 2) m)"

definition byte_decrease :: "u16 \<Rightarrow> amem \<Rightarrow> amem res" where
  "byte_decrease l m = rbind (peek_word l m) (\<lambda>v. poke_word l (v - 1) m)"

section \<open>Registers\<close>

text \<open>The locations 017400 to 017420.\<close>

definition translate_register :: "u16 \<Rightarrow> u16" where
  "translate_register r =
     (if r = 0 then 0x1F00 else if r = 1 then 0x1F02 else if r = 2 then 0x1F04
      else if r = 3 then 0x1F06 else if r = 4 then 0x1F08 else if r = 5 then 0x1F0A
      else if r = 6 then 0x1F0C else if r = 7 then 0x1F0E else 0x1F10)"

text \<open>Register accesses stay inside the array (lemma \<open>register_bounds\<close>), so they need no check.\<close>

definition get_r :: "u16 \<Rightarrow> amem \<Rightarrow> u16" where
  "get_r r m =
     (let l = translate_register r in le_word (a_bytes m (unat l)) (a_bytes m (unat l + 1)))"

definition set_r :: "u16 \<Rightarrow> u16 \<Rightarrow> amem \<Rightarrow> amem" where
  "set_r r v m =
     (let l = translate_register r
      in m\<lparr>a_bytes := (a_bytes m)(unat l := lo_byte v, unat l + 1 := hi_byte v)\<rparr>)"

definition word_advance_r :: "u16 \<Rightarrow> amem \<Rightarrow> amem" where
  "word_advance_r r m = set_r r (get_r r m + 2) m"

definition byte_advance_r :: "u16 \<Rightarrow> amem \<Rightarrow> amem" where
  "byte_advance_r r m = set_r r (get_r r m + 1) m"

definition word_decrease_r :: "u16 \<Rightarrow> amem \<Rightarrow> amem" where
  "word_decrease_r r m = set_r r (get_r r m - 2) m"

definition byte_decrease_r :: "u16 \<Rightarrow> amem \<Rightarrow> amem" where
  "byte_decrease_r r m = set_r r (get_r r m - 1) m"

section \<open>Initialisation\<close>

definition no_effect :: side_effect where
  "no_effect = \<lparr>se_loc = INACTIVE_HANDLER_LOC, se_handler = None\<rparr>"

text \<open>\<open>junk\<close> is what \<open>malloc\<close> leaves in the fields that the function does not set.\<close>

definition initialize_memory :: "bool \<Rightarrow> amem \<Rightarrow> amem res" where
  "initialize_memory malloc_ok junk =
     (if \<not> malloc_ok then Inl Null_Deref
      else Inr (junk\<lparr>a_bytes := (\<lambda>_. 0),
                     read_side_effects := replicate MAX_HANDLERS no_effect,
                     write_side_effects := replicate MAX_HANDLERS no_effect\<rparr>))"

section \<open>The handlers of the devices\<close>

abbreviation (input) TKS_LOC :: u16 where "TKS_LOC \<equiv> 0x1F40"
abbreviation (input) TKB_LOC :: u16 where "TKB_LOC \<equiv> 0x1F42"
abbreviation (input) TPS_LOC :: u16 where "TPS_LOC \<equiv> 0x1F44"
abbreviation (input) TPB_LOC :: u16 where "TPB_LOC \<equiv> 0x1F46"
abbreviation (input) RXCS :: u16 where "RXCS \<equiv> 0xFE78"
abbreviation (input) RXDB :: u16 where "RXDB \<equiv> 0xFE7A"
abbreviation (input) RXCS_XFER :: u16 where "RXCS_XFER \<equiv> 0x80"
abbreviation (input) TPS_READY :: u16 where "TPS_READY \<equiv> 0x80"

definition clear_TKB :: "effect_run \<Rightarrow> amem \<Rightarrow> amem res" where
  "clear_TKB run m = direct_write_word run TKB_LOC 0 m"

definition clear_flags_TKS :: "effect_run \<Rightarrow> amem \<Rightarrow> amem res" where
  "clear_flags_TKS run m = direct_write_word run TKS_LOC 0 m"

definition read_TKB :: "effect_run \<Rightarrow> amem \<Rightarrow> amem res" where
  "read_TKB run m = rbind (clear_TKB run m) (clear_flags_TKS run)"

definition clear_TPB :: "effect_run \<Rightarrow> amem \<Rightarrow> amem res" where
  "clear_TPB run m =
     rbind (direct_read_word run TPS_LOC m) (\<lambda>(tps, m).
     rbind (direct_write_word run TPB_LOC 0 m) (\<lambda>m.
     direct_write_word run TPS_LOC (tps OR TPS_READY) m))"

definition clear_RXDB :: "effect_run \<Rightarrow> amem \<Rightarrow> amem res" where
  "clear_RXDB run m =
     rbind (direct_write_word_n RXDB 0 m) (\<lambda>m.
     rbind (direct_read_word run RXCS m) (\<lambda>(flags, m).
     let flags = (if flags AND RXCS_XFER \<noteq> 0 then flags XOR RXCS_XFER else flags)
     in direct_write_word_n RXCS flags m))"

definition clear_RXCS :: "effect_run \<Rightarrow> amem \<Rightarrow> amem res" where
  "clear_RXCS run m =
     rbind (direct_read_word run RXCS m) (\<lambda>(flags, m).
     let flags = (if flags AND RXCS_XFER \<noteq> 0 then flags XOR RXCS_XFER else flags)
     in direct_write_word_n RXCS flags m)"

text \<open>A call of a handler when the stack has room for \<open>n\<close> nested calls.\<close>

primrec handler_run :: "nat \<Rightarrow> effect_run" where
  "handler_run 0 = (\<lambda>h m. Inl Stack_Exhausted)"
| "handler_run (Suc n) = (\<lambda>h m.
     case h of
       Read_TKB \<Rightarrow> read_TKB (handler_run n) m
     | Clear_TPB \<Rightarrow> clear_TPB (handler_run n) m
     | Clear_RXDB \<Rightarrow> clear_RXDB (handler_run n) m
     | Clear_RXCS \<Rightarrow> clear_RXCS (handler_run n) m)"


section \<open>Laws of the registers\<close>

text \<open>The two bytes of every register lie inside the array, below the devices' registers.\<close>

lemma register_bounds: "0x1F00 \<le> unat (translate_register r) \<and> unat (translate_register r) + 1 < 0x1F12"
  by (simp add: translate_register_def)

lemma register_even: "even (unat (translate_register r))"
  by (simp add: translate_register_def)

lemma peek_word_register: "peek_word (translate_register r) m = Inr (get_r r m)"
  using register_bounds [of r] by (simp add: peek_word_def peek_def get_r_def Let_def)

lemma poke_word_register: "poke_word (translate_register r) v m = Inr (set_r r v m)"
  using register_bounds [of r] by (simp add: poke_word_def poke_def set_r_def Let_def)

lemma registers_disjoint:
  assumes "translate_register r \<noteq> translate_register q"
  shows "unat (translate_register r) \<noteq> unat (translate_register q)"
    and "unat (translate_register r) \<noteq> unat (translate_register q) + 1"
    and "unat (translate_register r) + 1 \<noteq> unat (translate_register q)"
proof -
  show "unat (translate_register r) \<noteq> unat (translate_register q)" using assms by (metis unsigned_word_eqI)
  show "unat (translate_register r) \<noteq> unat (translate_register q) + 1"
    "unat (translate_register r) + 1 \<noteq> unat (translate_register q)"
    using register_even [of r] register_even [of q] by presburger+
qed

lemma get_set_r: 
  "get_r r (set_r q v m) = (if translate_register r = translate_register q then v else get_r r m)"
  using registers_disjoint [of r q] by (auto simp: get_r_def set_r_def Let_def)

lemma set_r_frame [simp, frame]:
  "a_dest (set_r r v m) = a_dest m" "a_src (set_r r v m) = a_src m"
  "read_side_effects (set_r r v m) = read_side_effects m"
  "write_side_effects (set_r r v m) = write_side_effects m"
  "bus_shutdown (set_r r v m) = bus_shutdown m"
  by (simp_all add: set_r_def Let_def)

lemma get_r_frame [simp, frame]:
  "get_r r (m\<lparr>a_dest := l\<rparr>) = get_r r m" "get_r r (m\<lparr>a_src := l\<rparr>) = get_r r m"
  "get_r r (m\<lparr>bus_shutdown := b\<rparr>) = get_r r m"
  by (simp_all add: get_r_def Let_def)

section \<open>Laws of the accesses\<close>

text \<open>The 16-bit addresses reach one byte further than the array of \<open>MEMBYTES\<close> bytes.\<close>

definition is_oob :: "fault \<Rightarrow> bool" where
  "is_oob e \<longleftrightarrow> e = Out_Of_Bounds 65535"

lemma is_oob_simps [simp]:
  "is_oob (Out_Of_Bounds i) = (i = 65535)" "\<not> is_oob Null_Deref" "\<not> is_oob Stack_Exhausted"
  "\<not> is_oob (Bus_Hang a)"
  by (simp_all add: is_oob_def)

text \<open>
  The two tables \<open>T\<close> hold only the registrations of the terminal and the disk. \<open>effects T m\<close>: \<open>T\<close> are
  the tables of \<open>m\<close>.
\<close>

type_synonym effect_tables = "side_effect list \<times> side_effect list"

definition tables_ok :: "effect_tables \<Rightarrow> bool" where
  "tables_ok T \<longleftrightarrow>
     (\<forall>e \<in> set (fst T). (se_loc e, se_handler e) \<in>
        {(INACTIVE_HANDLER_LOC, None), (TKB_LOC, Some Read_TKB), (TPB_LOC, Some Clear_TPB),
         (RXDB, Some Clear_RXDB)}) \<and>
     (\<forall>e \<in> set (snd T). (se_loc e, se_handler e) \<in>
        {(INACTIVE_HANDLER_LOC, None), (RXDB, Some Clear_RXCS)})"

definition effects :: "effect_tables \<Rightarrow> amem \<Rightarrow> bool" where
  "effects T m \<longleftrightarrow> tables_ok T \<and> (read_side_effects m, write_side_effects m) = T"

lemma effects_frame [simp, frame]:
  "effects T (set_r r v m) = effects T m"
  "effects T (m\<lparr>a_dest := l\<rparr>) = effects T m" "effects T (m\<lparr>a_src := l\<rparr>) = effects T m"
  "effects T (m\<lparr>a_bytes := f\<rparr>) = effects T m" "effects T (m\<lparr>bus_shutdown := b\<rparr>) = effects T m"
  by (simp_all add: effects_def)

lemma find_cases: "find P xs = None \<or> (\<exists>x \<in> set xs. P x \<and> find P xs = Some x)"
  by (induction xs) auto

text \<open>What a read or a write of a location runs, given the tables.\<close>

lemma read_effect_cases:
  assumes "effects T m" and "l \<noteq> INACTIVE_HANDLER_LOC"
  shows "process_read_side_effects run l m = Inr m \<or>
    (\<exists>h. (l, h) \<in> {(TKB_LOC, Read_TKB), (TPB_LOC, Clear_TPB), (RXDB, Clear_RXDB)} \<and>
      process_read_side_effects run l m = run h m)"
  using find_cases [of "\<lambda>e. se_loc e = l" "read_side_effects m"] assms
  by (auto simp: process_read_side_effects_def process_side_effects_def effects_def tables_ok_def
      split: option.splits)

lemma write_effect_cases:
  assumes "effects T m" and "l \<noteq> INACTIVE_HANDLER_LOC"
  shows "process_write_side_effects run l m = Inr m \<or>
    (l = RXDB \<and> process_write_side_effects run l m = run Clear_RXCS m)"
  using find_cases [of "\<lambda>e. se_loc e = l" "write_side_effects m"] assms
  by (auto simp: process_write_side_effects_def process_side_effects_def effects_def tables_ok_def
      split: option.splits)

text \<open>Locations whose reads, or writes, run nothing.\<close>

lemma read_quiet [simp]:
  assumes "effects T m" and "l \<notin> {INACTIVE_HANDLER_LOC, TKB_LOC, TPB_LOC, RXDB}"
  shows "process_read_side_effects run l m = Inr m"
  using read_effect_cases [of T m l run] assms by auto

lemma write_quiet [simp]:
  assumes "effects T m" and "l \<notin> {INACTIVE_HANDLER_LOC, RXDB}"
  shows "process_write_side_effects run l m = Inr m"
  using write_effect_cases [of T m l run] assms by auto

text \<open>A byte or a word is written inside the array or the access fails there.\<close>

lemma unat_top: "\<not> unat (l :: u16) < 65535 \<Longrightarrow> unat l = 65535"
  using unat_u16_less [of l] by simp

lemma word_in_bounds:
  "unat (l :: u16) + 1 < 65535 \<or> unat l = 65534 \<or> unat l = 65535"
  using unat_u16_less [of l] by linarith

lemma peek_all [wf_intros]: "res_all is_oob (\<lambda>_. True) (peek (unat (l :: u16)) m)"
  by (simp add: peek_def unat_top)

lemma poke_all: "effects T m \<Longrightarrow> res_all is_oob (effects T) (poke (unat (l :: u16)) v m)"
  by (simp add: poke_def unat_top)

lemma peek_word_all: "res_all is_oob (\<lambda>_. True) (peek_word l m)"
  using word_in_bounds [of l] by (elim disjE) (simp_all add: peek_word_def peek_def)

lemma poke_word_all: "effects T m \<Longrightarrow> res_all is_oob (effects T) (poke_word l v m)"
  using word_in_bounds [of l] by (elim disjE) (simp_all add: poke_word_def poke_def)

lemma direct_write_quiet:
  assumes "effects T m" and "l \<notin> {INACTIVE_HANDLER_LOC, RXDB}"
  shows "direct_write_word run l v m = poke_word l v m"
proof -
  have "process_write_side_effects run l m' = Inr m'" if "poke_word l v m = Inr m'" for m'
    using poke_word_all [OF assms(1), of l v] that assms(2) by (intro write_quiet) auto
  then show ?thesis
    unfolding direct_write_word_def by (cases "poke_word l v m") auto
qed

lemma direct_read_quiet:
  assumes "effects T m" and "l \<notin> {INACTIVE_HANDLER_LOC, TKB_LOC, TPB_LOC, RXDB}"
  shows "direct_read_word run l m = rbind (peek_word l m) (\<lambda>w. Inr (w, m))"
  by (simp add: direct_read_word_def read_quiet [OF assms])

lemma direct_read_register:
  assumes "effects T m"
  shows "direct_read_word run (translate_register r) m = Inr (get_r r m, m)"
proof -
  have "translate_register r \<notin> {INACTIVE_HANDLER_LOC, TKB_LOC, TPB_LOC, RXDB}"
    by (simp add: translate_register_def)
  then show ?thesis by (simp add: direct_read_quiet [OF assms] peek_word_register)
qed

lemma direct_write_register:
  assumes "effects T m"
  shows "direct_write_word run (translate_register r) v m = Inr (set_r r v m)"
proof -
  have "translate_register r \<notin> {INACTIVE_HANDLER_LOC, RXDB}"
    by (simp add: translate_register_def)
  then show ?thesis by (simp add: direct_write_quiet [OF assms] poke_word_register)
qed

text \<open>The handlers make only accesses that run no further handler.\<close>

lemma word_cases_all:
  assumes "effects T m" and "l \<notin> {INACTIVE_HANDLER_LOC, TKB_LOC, TPB_LOC, RXDB}"
  shows "res_all is_oob (\<lambda>(w, m'). effects T m') (direct_read_word run l m)"
  unfolding direct_read_quiet [OF assms] by (rule res_all_rbind [OF peek_word_all]) (simp add: assms)

lemma handler_keeps: "effects T m \<Longrightarrow> res_all is_oob (effects T) (handler_run (Suc n) h m)"
proof (cases h)
  assume e: "effects T m"
  note q = direct_write_quiet poke_word_all word_cases_all
  {
    case Read_TKB
    then show ?thesis
      using e by (auto simp: read_TKB_def clear_TKB_def clear_flags_TKS_def q
          intro!: res_all_rbind [where P = "effects T"])
  next
    case Clear_TPB
    then show ?thesis
      using e by (auto simp: clear_TPB_def q 
          intro!: res_all_rbind2 [where P = "\<lambda>_. effects T"] res_all_rbind [where P = "effects T"])
  next
    case Clear_RXDB
    then show ?thesis
      using e by (auto simp: clear_RXDB_def direct_write_word_n_def Let_def q
          intro!: res_all_rbind2 [where P = "\<lambda>_. effects T"] res_all_rbind [where P = "effects T"])
  next
    case Clear_RXCS
    then show ?thesis
      using e by (auto simp: clear_RXCS_def direct_write_word_n_def Let_def q
          intro!: res_all_rbind2 [where P = "\<lambda>_. effects T"])
  }
qed

section \<open>Calls through a table\<close>

text \<open>
  What the callers of the memory need of the functions in the tables: from the installed tables
  they return with the same tables, or index the array out of its bounds.
\<close>

locale effect_calls =
  fixes run :: effect_run
  assumes run_keeps: "effects T m \<Longrightarrow> res_all is_oob (effects T) (run h m)"
begin

lemma read_effect_all:
  "effects T m \<Longrightarrow> l \<noteq> INACTIVE_HANDLER_LOC \<Longrightarrow>
    res_all is_oob (effects T) (process_read_side_effects run l m)"
  using read_effect_cases [of T m l run] by (auto intro: run_keeps)

lemma write_effect_all:
  "effects T m \<Longrightarrow> l \<noteq> INACTIVE_HANDLER_LOC \<Longrightarrow>
    res_all is_oob (effects T) (process_write_side_effects run l m)"
  using write_effect_cases [of T m l run] by (auto intro: run_keeps)

lemma read_word_all [wf_intros]:
  assumes "effects T m"
  shows "res_all is_oob (\<lambda>(w, m'). effects T m') (direct_read_word run l m)"
proof (cases "l = INACTIVE_HANDLER_LOC")
  case True
  then show ?thesis by (simp add: direct_read_word_def peek_word_def peek_def)
next
  case False
  from read_effect_all [OF assms this] show ?thesis
    unfolding direct_read_word_def
    by (auto intro!: res_all_rbind [OF peek_word_all] res_all_rbind [where P = "effects T"])
qed

lemma read_byte_all [wf_intros]:
  assumes "effects T m"
  shows "res_all is_oob (\<lambda>(b, m'). effects T m') (direct_read_byte run l m)"
proof (cases "l = INACTIVE_HANDLER_LOC")
  case True
  then show ?thesis by (simp add: direct_read_byte_def peek_def)
next
  case False
  from read_effect_all [OF assms this] show ?thesis
    unfolding direct_read_byte_def
    by (auto intro!: res_all_rbind [OF peek_all] res_all_rbind [where P = "effects T"])
qed

lemma write_word_all [wf_intros]:
  assumes "effects T m"
  shows "res_all is_oob (effects T) (direct_write_word run l v m)"
proof (cases "l = INACTIVE_HANDLER_LOC")
  case True
  then show ?thesis by (simp add: direct_write_word_def poke_word_def poke_def)
next
  case False
  then show ?thesis unfolding direct_write_word_def
    by (auto intro!: res_all_rbind [OF poke_word_all [OF assms]] write_effect_all)
qed

lemma write_byte_all [wf_intros]:
  assumes "effects T m"
  shows "res_all is_oob (effects T) (direct_write_byte run l v m)"
proof (cases "l = INACTIVE_HANDLER_LOC")
  case True
  then show ?thesis by (simp add: direct_write_byte_def poke_def)
next
  case False
  then show ?thesis unfolding direct_write_byte_def
    by (auto intro!: res_all_rbind [OF poke_all [OF assms]] write_effect_all)
qed

end

lemma access_alt:
  "a_read_word run m = direct_read_word run (a_src m) m"
  "a_read_byte run m = direct_read_byte run (a_src m) m"
  by (simp_all add: a_read_word_def a_read_byte_def direct_read_word_def direct_read_byte_def)

lemma poke_frame: "poke i v m = Inr m' \<Longrightarrow> a_dest m' = a_dest m"
  by (auto simp: poke_def split: if_splits)

lemma write_alt:
  "a_write_word run w m = direct_write_word run (a_dest m) w m"
  "a_write_byte run b m = direct_write_byte run (a_dest m) b m"
  by (simp_all add: a_write_word_def a_write_byte_def direct_write_word_def direct_write_byte_def)

interpretation devices: effect_calls "handler_run (Suc n)" for n
  by unfold_locales (rule handler_keeps)

end
