(* ===== verification/Attic_Addr.thy ===== *)
theory Attic_Addr
  imports Attic_Mem
begin

text \<open>
  The addressing modes of \<open>src/attic/src/handlers.c\<close>: each function computes the destination
  or the source location from the instruction word \<open>ir\<close> and leaves it in the memory's state. A
  mode without a case leaves the location as it was. The functions for the program counter,
  and those for bytes, are the same for source and destination up to the field that they set,
  which is the parameter \<open>put\<close>.
\<close>

definition put_dest :: "u16 \<Rightarrow> amem \<Rightarrow> amem" where "put_dest l m = m\<lparr>a_dest := l\<rparr>"
definition put_src :: "u16 \<Rightarrow> amem \<Rightarrow> amem" where "put_src l m = m\<lparr>a_src := l\<rparr>"

section \<open>The program counter\<close>

text \<open>Mode 0 uses the destination register field, also for the source.\<close>

definition a_pc_addressing ::
  "effect_run \<Rightarrow> (u16 \<Rightarrow> amem \<Rightarrow> amem) \<Rightarrow> u16 \<Rightarrow> u16 \<Rightarrow> amem \<Rightarrow> amem res" where
  "a_pc_addressing run put mode ir m =
     (if mode = 0 then Inr (put (translate_register (dest_reg ir)) m)
      else if mode = 2 then
        (let p = get_r R_PC m; m = word_advance_r R_PC m in Inr (put p m))
      else if mode = 3 then
        (let p = get_r R_PC m; m = word_advance_r R_PC m
         in rbind (direct_read_word run p m) (\<lambda>(a, m). Inr (put a m)))
      else if mode = 6 then
        (let p = get_r R_PC m
         in rbind (direct_read_word run p m) (\<lambda>(relative, m).
            let m = word_advance_r R_PC m; p = get_r R_PC m in Inr (put (p + relative) m)))
      else Inr m)"

definition a_setup_pc_dest_addressing :: "effect_run \<Rightarrow> u16 \<Rightarrow> amem \<Rightarrow> amem res" where
  "a_setup_pc_dest_addressing run ir m = a_pc_addressing run put_dest (dest_mode ir) ir m"

definition a_setup_pc_dest_byte_addressing :: "effect_run \<Rightarrow> u16 \<Rightarrow> amem \<Rightarrow> amem res" where
  "a_setup_pc_dest_byte_addressing run ir m = a_pc_addressing run put_dest (dest_mode ir) ir m"

definition a_setup_pc_src_addressing :: "effect_run \<Rightarrow> u16 \<Rightarrow> amem \<Rightarrow> amem res" where
  "a_setup_pc_src_addressing run ir m = a_pc_addressing run put_src (src_mode ir) ir m"

definition a_setup_pc_src_byte_addressing :: "effect_run \<Rightarrow> u16 \<Rightarrow> amem \<Rightarrow> amem res" where
  "a_setup_pc_src_byte_addressing run ir m = a_pc_addressing run put_src (src_mode ir) ir m"

section \<open>The stack pointer\<close>

text \<open>The source modes 6 and 7 do not advance the program counter over the index.\<close>

definition a_setup_sp_dest_addressing :: "effect_run \<Rightarrow> u16 \<Rightarrow> amem \<Rightarrow> amem res" where
  "a_setup_sp_dest_addressing run ir m =
     (let mode = dest_mode ir; reg = dest_reg ir
      in if mode = 0 then Inr (put_dest (translate_register reg) m)
         else if mode = 1 then Inr (put_dest (get_r reg m) m)
         else if mode = 2 then Inr (word_advance_r reg (put_dest (get_r reg m) m))
         else if mode = 3 then
           rbind (direct_read_word run (get_r reg m) m) (\<lambda>(a, m).
           Inr (put_dest a (word_advance_r reg m)))
         else if mode = 4 then
           (let m = word_decrease_r reg m in Inr (put_dest (get_r reg m) m))
         else if mode = 6 then
           (let p = get_r R_PC m; m = word_advance_r R_PC m
            in rbind (direct_read_word run p m) (\<lambda>(index, m). Inr (put_dest (get_r reg m + index) m)))
         else if mode = 7 then
           (let p = get_r R_PC m; m = word_advance_r R_PC m
            in rbind (direct_read_word run p m) (\<lambda>(index, m).
               rbind (direct_read_word run (get_r reg m + index) m) (\<lambda>(a, m). Inr (put_dest a m))))
         else Inr m)"

definition a_setup_sp_src_addressing :: "effect_run \<Rightarrow> u16 \<Rightarrow> amem \<Rightarrow> amem res" where
  "a_setup_sp_src_addressing run ir m =
     (let mode = src_mode ir; reg = src_reg ir
      in if mode = 0 then Inr (put_src (translate_register reg) m)
         else if mode = 1 then Inr (put_src (get_r reg m) m)
         else if mode = 2 then Inr (word_advance_r reg (put_src (get_r reg m) m))
         else if mode = 3 then
           rbind (direct_read_word run (get_r reg m) m) (\<lambda>(a, m).
           Inr (put_src a (word_advance_r reg m)))
         else if mode = 4 then
           (let m = word_decrease_r reg m in Inr (put_src (get_r reg m) m))
         else if mode = 6 then
           (let p = get_r R_PC m
            in rbind (direct_read_word run p m) (\<lambda>(index, m). Inr (put_src (get_r reg m + index) m)))
         else if mode = 7 then
           (let p = get_r R_PC m
            in rbind (direct_read_word run p m) (\<lambda>(index, m).
               rbind (direct_read_word run (get_r reg m + index) m) (\<lambda>(a, m). Inr (put_src a m))))
         else Inr m)"

section \<open>The general registers, words\<close>

definition a_setup_general_dest_addressing :: "effect_run \<Rightarrow> u16 \<Rightarrow> amem \<Rightarrow> amem res" where
  "a_setup_general_dest_addressing run ir m =
     (let mode = dest_mode ir; reg = dest_reg ir
      in if mode = 0 then Inr (put_dest (translate_register reg) m)
         else if mode = 1 then Inr (put_dest (get_r reg m) m)
         else if mode = 2 then Inr (word_advance_r reg (put_dest (get_r reg m) m))
         else if mode = 3 then
           (let deferred = get_r reg m
            in rbind (direct_read_word run deferred m) (\<lambda>(index, m).
               rbind (word_advance deferred m) (\<lambda>m.
               rbind (direct_read_word run index m) (\<lambda>(a, m). Inr (put_dest a m)))))
         else if mode = 4 then Inr (word_decrease_r reg (put_dest (get_r reg m) m))
         else if mode = 5 then
           (let deferred = get_r reg m
            in rbind (direct_read_word run deferred m) (\<lambda>(index, m).
               rbind (direct_read_word run index m) (\<lambda>(a, m).
               word_decrease deferred (put_dest a m))))
         else if mode = 6 then
           (let p = get_r R_PC m; m = word_advance_r R_PC m
            in rbind (direct_read_word run p m) (\<lambda>(index, m).
               rbind (direct_read_word run (get_r reg m + index) m) (\<lambda>(a, m). Inr (put_dest a m))))
         else
           (let p = get_r R_PC m; m = word_advance_r R_PC m
            in rbind (direct_read_word run p m) (\<lambda>(index, m).
               let deferred = get_r reg m
               in rbind (direct_read_word run deferred m) (\<lambda>(d, m).
                  rbind (direct_read_word run (d + index) m) (\<lambda>(a, m). Inr (put_dest a m))))))"

definition a_setup_general_src_addressing :: "effect_run \<Rightarrow> u16 \<Rightarrow> amem \<Rightarrow> amem res" where
  "a_setup_general_src_addressing run ir m =
     (let mode = src_mode ir; reg = src_reg ir
      in if mode = 0 then Inr (put_src (translate_register reg) m)
         else if mode = 1 then Inr (put_src (get_r reg m) m)
         else if mode = 2 then Inr (word_advance_r reg (put_src (get_r reg m) m))
         else if mode = 3 then
           (let deferred = get_r reg m
            in rbind (direct_read_word run deferred m) (\<lambda>(index, m).
               rbind (word_advance deferred m) (\<lambda>m.
               rbind (direct_read_word run index m) (\<lambda>(a, m). Inr (put_src a m)))))
         else if mode = 4 then Inr (word_decrease_r reg (put_src (get_r reg m) m))
         else if mode = 5 then
           (let m = word_decrease_r reg m; deferred = get_r reg m
            in rbind (direct_read_word run deferred m) (\<lambda>(index, m). Inr (put_src index m)))
         else if mode = 6 then
           (let p = get_r R_PC m; m = word_advance_r R_PC m
            in rbind (direct_read_word run p m) (\<lambda>(index, m).
               rbind (direct_read_word run (get_r reg m + index) m) (\<lambda>(a, m). Inr (put_src a m))))
         else
           (let p = get_r R_PC m; m = word_advance_r R_PC m
            in rbind (direct_read_word run p m) (\<lambda>(index, m).
               let deferred = get_r reg m
               in rbind (direct_read_word run deferred m) (\<lambda>(d, m).
                  rbind (direct_read_word run (d + index) m) (\<lambda>(a, m). Inr (put_src a m))))))"

section \<open>The general registers, bytes\<close>

definition a_general_byte_addressing ::
  "effect_run \<Rightarrow> (u16 \<Rightarrow> amem \<Rightarrow> amem) \<Rightarrow> u16 \<Rightarrow> u16 \<Rightarrow> amem \<Rightarrow> amem res" where
  "a_general_byte_addressing run put mode reg m =
     (if mode = 0 then Inr (put (translate_register reg) m)
      else if mode = 1 then Inr (put (get_r reg m) m)
      else if mode = 2 then Inr (byte_advance_r reg (put (get_r reg m) m))
      else if mode = 3 then
        (let deferred = get_r reg m
         in rbind (direct_read_byte run deferred m) (\<lambda>(index, m).
            rbind (byte_advance deferred m) (\<lambda>m.
            rbind (direct_read_byte run (ucast index) m) (\<lambda>(a, m). Inr (put (ucast a) m)))))
      else if mode = 4 then Inr (byte_decrease_r reg (put (get_r reg m) m))
      else if mode = 5 then
        (let deferred = get_r reg m
         in rbind (direct_read_byte run deferred m) (\<lambda>(index, m).
            rbind (direct_read_byte run (ucast index) m) (\<lambda>(a, m).
            byte_decrease deferred (put (ucast a) m))))
      else if mode = 6 then
        (let p = get_r R_PC m; m = word_advance_r R_PC m
         in rbind (direct_read_byte run p m) (\<lambda>(index, m).
            rbind (direct_read_byte run (get_r reg m + ucast index) m) (\<lambda>(a, m).
            Inr (put (ucast a) m))))
      else
        (let p = get_r R_PC m; m = word_advance_r R_PC m
         in rbind (direct_read_byte run p m) (\<lambda>(index, m).
            let deferred = get_r reg m
            in rbind (direct_read_byte run deferred m) (\<lambda>(d, m).
               rbind (direct_read_byte run (ucast d + ucast index) m) (\<lambda>(a, m).
               Inr (put (ucast a) m))))))"

definition a_setup_general_dest_byte_addressing :: "effect_run \<Rightarrow> u16 \<Rightarrow> amem \<Rightarrow> amem res" where
  "a_setup_general_dest_byte_addressing run ir m =
     a_general_byte_addressing run put_dest (dest_mode ir) (dest_reg ir) m"

definition a_setup_general_src_byte_addressing :: "effect_run \<Rightarrow> u16 \<Rightarrow> amem \<Rightarrow> amem res" where
  "a_setup_general_src_byte_addressing run ir m =
     a_general_byte_addressing run put_src (src_mode ir) (src_reg ir) m"

section \<open>The choice by register\<close>

definition a_setup_dest_addressing :: "effect_run \<Rightarrow> u16 \<Rightarrow> amem \<Rightarrow> amem res" where
  "a_setup_dest_addressing run ir m =
     (if dest_reg ir = 7 then a_setup_pc_dest_addressing run ir m
      else if dest_reg ir = 6 then a_setup_sp_dest_addressing run ir m
      else a_setup_general_dest_addressing run ir m)"

definition a_setup_dest_byte_addressing :: "effect_run \<Rightarrow> u16 \<Rightarrow> amem \<Rightarrow> amem res" where
  "a_setup_dest_byte_addressing run ir m =
     (if dest_reg ir = 7 then a_setup_pc_dest_byte_addressing run ir m
      else if dest_reg ir = 6 then a_setup_sp_dest_addressing run ir m
      else a_setup_general_dest_byte_addressing run ir m)"

definition a_setup_src_addressing :: "effect_run \<Rightarrow> u16 \<Rightarrow> amem \<Rightarrow> amem res" where
  "a_setup_src_addressing run ir m =
     (if src_reg ir = 7 then a_setup_pc_src_addressing run ir m
      else if src_reg ir = 6 then a_setup_sp_src_addressing run ir m
      else a_setup_general_src_addressing run ir m)"

definition a_setup_src_byte_addressing :: "effect_run \<Rightarrow> u16 \<Rightarrow> amem \<Rightarrow> amem res" where
  "a_setup_src_byte_addressing run ir m =
     (if src_reg ir = 7 then a_setup_pc_src_byte_addressing run ir m
      else if src_reg ir = 6 then a_setup_sp_src_addressing run ir m
      else a_setup_general_src_byte_addressing run ir m)"


section \<open>What the addressing keeps\<close>

lemma word_step_all [wf_intros]:
  assumes "effects T m"
  shows "res_all is_oob (effects T) (word_advance l m)" "res_all is_oob (effects T) (word_decrease l m)"
    "res_all is_oob (effects T) (byte_advance l m)" "res_all is_oob (effects T) (byte_decrease l m)"
  unfolding word_advance_def word_decrease_def byte_advance_def byte_decrease_def
  by (rule res_all_rbind [OF peek_word_all], rule poke_word_all [OF assms])+

lemma register_step_effects [simp, frame]:
  "effects T (word_advance_r r m) = effects T m" "effects T (word_decrease_r r m) = effects T m"
  "effects T (byte_advance_r r m) = effects T m" "effects T (byte_decrease_r r m) = effects T m"
  "effects T (put_dest l m) = effects T m" "effects T (put_src l m) = effects T m"
  by (simp_all add: word_advance_r_def word_decrease_r_def byte_advance_r_def byte_decrease_r_def
      put_dest_def put_src_def)

context effect_calls
begin

lemma pc_addressing_all [wf_intros]:
  assumes "effects T m" and "put = put_dest \<or> put = put_src"
  shows "res_all is_oob (effects T) (a_pc_addressing run put mode ir m)"
  using assms unfolding a_pc_addressing_def Let_def
  by (auto intro!: res_all_rbind2 [where P = "\<lambda>_. effects T"] wf_intros)

lemma sp_addressing_all [wf_intros]:
  assumes "effects T m"
  shows "res_all is_oob (effects T) (a_setup_sp_dest_addressing run ir m)"
    and "res_all is_oob (effects T) (a_setup_sp_src_addressing run ir m)"
  using assms unfolding a_setup_sp_dest_addressing_def a_setup_sp_src_addressing_def Let_def
  by (auto intro!: res_all_rbind2 [where P = "\<lambda>_. effects T"] wf_intros)

lemma general_addressing_all [wf_intros]:
  assumes "effects T m"
  shows "res_all is_oob (effects T) (a_setup_general_dest_addressing run ir m)"
    and "res_all is_oob (effects T) (a_setup_general_src_addressing run ir m)"
  using assms unfolding a_setup_general_dest_addressing_def a_setup_general_src_addressing_def Let_def
  by (auto intro!: res_all_rbind2 [where P = "\<lambda>_. effects T"] res_all_rbind [where P = "effects T"]
      wf_intros)

lemma byte_addressing_all [wf_intros]:
  assumes "effects T m" and "put = put_dest \<or> put = put_src"
  shows "res_all is_oob (effects T) (a_general_byte_addressing run put mode reg m)"
  using assms unfolding a_general_byte_addressing_def Let_def
  by (auto intro!: res_all_rbind2 [where P = "\<lambda>_. effects T"] res_all_rbind [where P = "effects T"]
      wf_intros)

lemma addressing_all [wf_intros]:
  assumes "effects T m"
  shows "res_all is_oob (effects T) (a_setup_dest_addressing run ir m)"
    and "res_all is_oob (effects T) (a_setup_src_addressing run ir m)"
    and "res_all is_oob (effects T) (a_setup_dest_byte_addressing run ir m)"
    and "res_all is_oob (effects T) (a_setup_src_byte_addressing run ir m)"
  using assms pc_addressing_all sp_addressing_all general_addressing_all byte_addressing_all
  by (auto simp: a_setup_dest_addressing_def a_setup_src_addressing_def
      a_setup_dest_byte_addressing_def a_setup_src_byte_addressing_def
      a_setup_pc_dest_addressing_def a_setup_pc_src_addressing_def
      a_setup_pc_dest_byte_addressing_def a_setup_pc_src_byte_addressing_def
      a_setup_general_dest_byte_addressing_def a_setup_general_src_byte_addressing_def)

end

end
