(* ===== verification/Attic_Cpu.thy ===== *)
theory Attic_Cpu
  imports Attic_Addr Cpu_State
begin

text \<open>
  The instructions of \<open>src/attic/src/handlers.c\<close> and their dispatch. The registers and the
  processor status lie in the memory, so an instruction is a function on the memory and on
  the two words \<open>ALU\<close> and \<open>IR\<close>. The opcodes and the nested switches of \<open>exec_instruction\<close> are
  those of \<open>src/src/cpu/cpu.c\<close> (theory \<open>Cpu_State\<close>), value by value and case by case.
\<close>

section \<open>The machine\<close>

record amachine =
  a_alu :: u16
  a_ir :: u16
  a_halted :: bool
  a_step :: bool
  a_memory :: amem

text \<open>The machine with a new memory, and with a new \<open>ALU\<close> and a new memory.\<close>

definition with_memory :: "amachine \<Rightarrow> amem \<Rightarrow> amachine" where
  "with_memory M m = M\<lparr>a_memory := m\<rparr>"

definition with_alu :: "amachine \<Rightarrow> u16 \<Rightarrow> amem \<Rightarrow> amachine" where
  "with_alu M v m = M\<lparr>a_alu := v, a_memory := m\<rparr>"

section \<open>Flags\<close>

definition a_set_zero_flag :: "u16 \<Rightarrow> amem \<Rightarrow> amem" where
  "a_set_zero_flag v m =
     (let ps = get_r R_PS m
      in if v = 0 then set_r R_PS (ps OR ZEROFLAG) m
         else set_r R_PS (if ps AND ZEROFLAG \<noteq> 0 then ps XOR ZEROFLAG else ps) m)"

definition a_set_negative_flag_b :: "u8 \<Rightarrow> amem \<Rightarrow> amem" where
  "a_set_negative_flag_b v m =
     (let ps = get_r R_PS m
      in if v AND 0x80 \<noteq> 0 then set_r R_PS (ps OR NEGATIVEFLAG) m
         else set_r R_PS (if ps AND NEGATIVEFLAG \<noteq> 0 then ps XOR NEGATIVEFLAG else ps) m)"

definition a_set_negative_flag_w :: "u16 \<Rightarrow> amem \<Rightarrow> amem" where
  "a_set_negative_flag_w v m =
     (let ps = get_r R_PS m
      in if v AND 0x8000 \<noteq> 0 then set_r R_PS (ps OR NEGATIVEFLAG) m
         else set_r R_PS (if ps AND NEGATIVEFLAG \<noteq> 0 then ps XOR NEGATIVEFLAG else ps) m)"

section \<open>Branches\<close>

definition a_get_branch_offset :: "amachine \<Rightarrow> 8 word" where
  "a_get_branch_offset M = ucast (a_ir M AND 0xFF)"

text \<open>\<open>pc + (2 * OFFSET)\<close>, stored in 16 bits.\<close>

definition a_branch :: "u16 \<Rightarrow> amachine \<Rightarrow> amachine" where
  "a_branch p M =
     with_memory M (set_r R_PC (p + 2 * scast (a_get_branch_offset M)) (a_memory M))"

definition A_NOP :: "amachine \<Rightarrow> amachine" where
  "A_NOP M = M"

definition A_BR :: "amachine \<Rightarrow> amachine" where
  "A_BR M = a_branch (get_r R_PC (a_memory M)) M"

text \<open>Here twice the offset is cast to 8 bits before it is added.\<close>

definition A_BNE :: "amachine \<Rightarrow> amachine" where
  "A_BNE M =
     (let p = get_r R_PC (a_memory M); ps = get_r R_PS (a_memory M);
          new_pc = p + scast (2 * a_get_branch_offset M);
          alu = ps AND ZEROFLAG;
          M = M\<lparr>a_alu := alu\<rparr>
      in if alu = 0 then with_memory M (set_r R_PC new_pc (a_memory M)) else M)"

definition A_BEQ :: "amachine \<Rightarrow> amachine" where
  "A_BEQ M =
     (let p = get_r R_PC (a_memory M); ps = get_r R_PS (a_memory M);
          alu = ps AND ZEROFLAG;
          M = M\<lparr>a_alu := alu\<rparr>
      in if alu = ZEROFLAG then a_branch p M else M)"

definition A_BGE :: "amachine \<Rightarrow> amachine" where
  "A_BGE M =
     (let p = get_r R_PC (a_memory M); ps = get_r R_PS (a_memory M);
          alu = drop_bit 3 (ps AND NEGATIVEFLAG) XOR drop_bit 1 (ps AND OVERFLOWFLAG);
          M = M\<lparr>a_alu := alu\<rparr>
      in if alu = 0 then a_branch p M else M)"

definition A_BLT :: "amachine \<Rightarrow> amachine" where
  "A_BLT M =
     (let p = get_r R_PC (a_memory M); ps = get_r R_PS (a_memory M);
          alu = drop_bit 3 (ps AND NEGATIVEFLAG) XOR drop_bit 1 (ps AND OVERFLOWFLAG);
          M = M\<lparr>a_alu := alu\<rparr>
      in if alu \<noteq> 0 then a_branch p M else M)"

definition A_BGT :: "amachine \<Rightarrow> amachine" where
  "A_BGT M =
     (let p = get_r R_PC (a_memory M); ps = get_r R_PS (a_memory M);
          alu = drop_bit 2 (ps AND ZEROFLAG)
                  OR (drop_bit 3 (ps AND NEGATIVEFLAG) XOR drop_bit 1 (ps AND OVERFLOWFLAG));
          M = M\<lparr>a_alu := alu\<rparr>
      in if alu = 0 then a_branch p M else M)"

definition A_BLE :: "amachine \<Rightarrow> amachine" where
  "A_BLE M =
     (let p = get_r R_PC (a_memory M); ps = get_r R_PS (a_memory M);
          alu = drop_bit 2 (ps AND ZEROFLAG)
                  OR (drop_bit 3 (ps AND NEGATIVEFLAG) XOR drop_bit 1 (ps AND OVERFLOWFLAG));
          M = M\<lparr>a_alu := alu\<rparr>
      in if alu \<noteq> 0 then a_branch p M else M)"

definition A_BPL :: "amachine \<Rightarrow> amachine" where
  "A_BPL M =
     (let p = get_r R_PC (a_memory M); ps = get_r R_PS (a_memory M)
      in if ps AND NEGATIVEFLAG = 0 then a_branch p M else M)"

definition A_BMI :: "amachine \<Rightarrow> amachine" where
  "A_BMI M =
     (let p = get_r R_PC (a_memory M); ps = get_r R_PS (a_memory M)
      in if ps AND NEGATIVEFLAG \<noteq> 0 then a_branch p M else M)"

definition A_BHI :: "amachine \<Rightarrow> amachine" where
  "A_BHI M =
     (let p = get_r R_PC (a_memory M); ps = get_r R_PS (a_memory M);
          alu = (ps AND CARRYFLAG) OR drop_bit 2 (ps AND ZEROFLAG);
          M = M\<lparr>a_alu := alu\<rparr>
      in if alu = 0 then a_branch p M else M)"

definition A_BLOS :: "amachine \<Rightarrow> amachine" where
  "A_BLOS M =
     (let p = get_r R_PC (a_memory M); ps = get_r R_PS (a_memory M);
          alu = (ps AND CARRYFLAG) OR drop_bit 2 (ps AND ZEROFLAG);
          M = M\<lparr>a_alu := alu\<rparr>
      in if alu \<noteq> 0 then a_branch p M else M)"

definition A_BVC :: "amachine \<Rightarrow> amachine" where
  "A_BVC M =
     (let p = get_r R_PC (a_memory M); ps = get_r R_PS (a_memory M);
          alu = ps AND OVERFLOWFLAG;
          M = M\<lparr>a_alu := alu\<rparr>
      in if alu = 0 then a_branch p M else M)"

definition A_BVS :: "amachine \<Rightarrow> amachine" where
  "A_BVS M =
     (let p = get_r R_PC (a_memory M); ps = get_r R_PS (a_memory M);
          alu = ps AND OVERFLOWFLAG;
          M = M\<lparr>a_alu := alu\<rparr>
      in if alu \<noteq> 0 then a_branch p M else M)"

definition A_BCC :: "amachine \<Rightarrow> amachine" where
  "A_BCC M =
     (let p = get_r R_PC (a_memory M); ps = get_r R_PS (a_memory M);
          alu = ps AND CARRYFLAG;
          M = M\<lparr>a_alu := alu\<rparr>
      in if alu = 0 then a_branch p M else M)"

definition A_BCS :: "amachine \<Rightarrow> amachine" where
  "A_BCS M =
     (let p = get_r R_PC (a_memory M); ps = get_r R_PS (a_memory M);
          alu = ps AND CARRYFLAG;
          M = M\<lparr>a_alu := alu\<rparr>
      in if alu \<noteq> 0 then a_branch p M else M)"

section \<open>Operands\<close>

text \<open>
  The calls with which the instructions begin: both addresses, or the destination address
  and the word or the byte found there.
\<close>

definition word_addresses :: "effect_run \<Rightarrow> amachine \<Rightarrow> amem res" where
  "word_addresses run M =
     rbind (a_setup_src_addressing run (a_ir M) (a_memory M)) (a_setup_dest_addressing run (a_ir M))"

definition byte_addresses :: "effect_run \<Rightarrow> amachine \<Rightarrow> amem res" where
  "byte_addresses run M =
     rbind (a_setup_src_byte_addressing run (a_ir M) (a_memory M))
       (a_setup_dest_byte_addressing run (a_ir M))"

definition dest_word :: "effect_run \<Rightarrow> amachine \<Rightarrow> (u16 \<times> amem) res" where
  "dest_word run M =
     rbind (a_setup_dest_addressing run (a_ir M) (a_memory M)) (\<lambda>m. direct_read_word run (a_dest m) m)"

definition dest_byte :: "effect_run \<Rightarrow> amachine \<Rightarrow> (u8 \<times> amem) res" where
  "dest_byte run M =
     rbind (a_setup_dest_byte_addressing run (a_ir M) (a_memory M))
       (\<lambda>m. direct_read_byte run (a_dest m) m)"

section \<open>Two operands\<close>

definition A_MOV :: "effect_run \<Rightarrow> amachine \<Rightarrow> amachine res" where
  "A_MOV run M =
     rbind (word_addresses run M) (\<lambda>m.
     rbind (a_read_word run m) (\<lambda>(alu, m).
     rbind (a_write_word run alu m) (\<lambda>m.
     Inr (with_alu M alu (a_set_negative_flag_w alu (a_set_zero_flag alu m))))))"

definition A_MOVB :: "effect_run \<Rightarrow> amachine \<Rightarrow> amachine res" where
  "A_MOVB run M =
     rbind (byte_addresses run M) (\<lambda>m.
     rbind (a_read_byte run m) (\<lambda>(b, m).
     rbind (a_write_byte run b m) (\<lambda>m.
     Inr (with_alu M (ucast b) (a_set_negative_flag_b b (a_set_zero_flag (ucast b) m))))))"

definition A_CMP :: "effect_run \<Rightarrow> amachine \<Rightarrow> amachine res" where
  "A_CMP run M =
     rbind (word_addresses run M) (\<lambda>m.
     rbind (direct_read_word run (a_dest m) m) (\<lambda>(d, m).
     rbind (a_read_word run m) (\<lambda>(s, m).
     let alu = d - s in Inr (with_alu M alu (a_set_zero_flag alu m)))))"

definition A_CMPB :: "effect_run \<Rightarrow> amachine \<Rightarrow> amachine res" where
  "A_CMPB run M =
     rbind (byte_addresses run M) (\<lambda>m.
     rbind (direct_read_byte run (a_dest m) m) (\<lambda>(d, m).
     rbind (a_read_byte run m) (\<lambda>(s, m).
     let alu = ucast d - ucast s in Inr (with_alu M alu (a_set_zero_flag alu m)))))"

definition A_BIT :: "effect_run \<Rightarrow> amachine \<Rightarrow> amachine res" where
  "A_BIT run M =
     rbind (word_addresses run M) (\<lambda>m.
     rbind (a_read_word run m) (\<lambda>(s, m).
     rbind (direct_read_word run (a_dest m) m) (\<lambda>(d, m).
     let alu = s AND d in Inr (with_alu M alu (a_set_zero_flag alu m)))))"

definition A_BITB :: "amachine \<Rightarrow> amachine" where "A_BITB M = A_NOP M"

definition A_BIC :: "effect_run \<Rightarrow> amachine \<Rightarrow> amachine res" where
  "A_BIC run M =
     rbind (word_addresses run M) (\<lambda>m.
     rbind (direct_read_word run (a_dest m) m) (\<lambda>(d, m).
     rbind (a_read_word run m) (\<lambda>(s, m).
     let alu = d AND NOT s in rbind (a_write_word run alu m) (\<lambda>m. Inr (with_alu M alu m)))))"

definition A_BICB :: "amachine \<Rightarrow> amachine" where "A_BICB M = A_NOP M"

definition A_BIS :: "effect_run \<Rightarrow> amachine \<Rightarrow> amachine res" where
  "A_BIS run M =
     rbind (word_addresses run M) (\<lambda>m.
     rbind (direct_read_word run (a_dest m) m) (\<lambda>(d, m).
     rbind (a_read_word run m) (\<lambda>(s, m).
     let alu = d OR s in rbind (a_write_word run alu m) (\<lambda>m. Inr (with_alu M alu m)))))"

definition A_BISB :: "amachine \<Rightarrow> amachine" where "A_BISB M = A_NOP M"

definition A_ADD :: "effect_run \<Rightarrow> amachine \<Rightarrow> amachine res" where
  "A_ADD run M =
     rbind (word_addresses run M) (\<lambda>m.
     rbind (direct_read_word run (a_dest m) m) (\<lambda>(d, m).
     rbind (a_read_word run m) (\<lambda>(s, m).
     let alu = d + s in rbind (a_write_word run alu m) (\<lambda>m. Inr (with_alu M alu m)))))"

definition A_SUB :: "effect_run \<Rightarrow> amachine \<Rightarrow> amachine res" where
  "A_SUB run M =
     rbind (word_addresses run M) (\<lambda>m.
     rbind (direct_read_word run (a_dest m) m) (\<lambda>(d, m).
     rbind (a_read_word run m) (\<lambda>(s, m).
     let alu = d - s in rbind (a_write_word run alu m) (\<lambda>m.
     Inr (with_alu M alu (a_set_zero_flag alu m))))))"

section \<open>One operand\<close>

definition A_JMP :: "effect_run \<Rightarrow> amachine \<Rightarrow> amachine res" where
  "A_JMP run M = rbind (dest_word run M) (\<lambda>(w, m). Inr (with_memory M (set_r R_PC w m)))"

definition A_SWAB :: "effect_run \<Rightarrow> amachine \<Rightarrow> amachine res" where
  "A_SWAB run M =
     rbind (dest_word run M) (\<lambda>(w, m).
     rbind (a_write_word run (drop_bit 8 (w AND 0xFF00) OR push_bit 8 (w AND 0xFF)) m) (\<lambda>m.
     Inr (with_memory M m)))"

definition A_CLR :: "effect_run \<Rightarrow> amachine \<Rightarrow> amachine res" where
  "A_CLR run M =
     rbind (a_setup_dest_addressing run (a_ir M) (a_memory M)) (\<lambda>m.
     rbind (a_write_word run 0 m) (\<lambda>m. Inr (with_memory M m)))"

definition A_CLRB :: "effect_run \<Rightarrow> amachine \<Rightarrow> amachine res" where
  "A_CLRB run M =
     rbind (a_setup_dest_addressing run (a_ir M) (a_memory M)) (\<lambda>m.
     rbind (a_write_byte run 0 m) (\<lambda>m. Inr (with_memory M m)))"

definition A_COM :: "effect_run \<Rightarrow> amachine \<Rightarrow> amachine res" where
  "A_COM run M =
     rbind (dest_word run M) (\<lambda>(w, m).
     rbind (a_write_word run (NOT w) m) (\<lambda>m. Inr (with_memory M m)))"

text \<open>\<open>COMB\<close> and \<open>INCB\<close> use the addressing for words.\<close>

definition A_COMB :: "effect_run \<Rightarrow> amachine \<Rightarrow> amachine res" where
  "A_COMB run M =
     rbind (a_setup_dest_addressing run (a_ir M) (a_memory M)) (\<lambda>m.
     rbind (direct_read_byte run (a_dest m) m) (\<lambda>(b, m).
     rbind (a_write_byte run (NOT b) m) (\<lambda>m. Inr (with_memory M m))))"

definition A_INC :: "effect_run \<Rightarrow> amachine \<Rightarrow> amachine res" where
  "A_INC run M =
     rbind (dest_word run M) (\<lambda>(w, m).
     rbind (a_write_word run (w + 1) m) (\<lambda>m. Inr (with_memory M m)))"

definition A_INCB :: "effect_run \<Rightarrow> amachine \<Rightarrow> amachine res" where
  "A_INCB run M =
     rbind (a_setup_dest_addressing run (a_ir M) (a_memory M)) (\<lambda>m.
     rbind (direct_read_byte run (a_dest m) m) (\<lambda>(b, m).
     rbind (a_write_byte run (b + 1) m) (\<lambda>m. Inr (with_memory M m))))"

definition A_DEC :: "effect_run \<Rightarrow> amachine \<Rightarrow> amachine res" where
  "A_DEC run M =
     rbind (dest_word run M) (\<lambda>(w, m).
     let w = w - 1 in rbind (a_write_word run w m) (\<lambda>m. Inr (with_memory M (a_set_zero_flag w m))))"

definition A_DECB :: "effect_run \<Rightarrow> amachine \<Rightarrow> amachine res" where
  "A_DECB run M =
     rbind (dest_byte run M) (\<lambda>(b, m).
     let b = b - 1
     in rbind (a_write_byte run b m) (\<lambda>m. Inr (with_memory M (a_set_zero_flag (ucast b) m))))"

definition A_NEG :: "effect_run \<Rightarrow> amachine \<Rightarrow> amachine res" where
  "A_NEG run M =
     rbind (dest_word run M) (\<lambda>(w, m).
     let alu = NOT w + 1
     in rbind (a_write_word run alu m) (\<lambda>m. Inr (with_alu M alu (a_set_zero_flag alu m))))"

definition A_NEGB :: "effect_run \<Rightarrow> amachine \<Rightarrow> amachine res" where
  "A_NEGB run M =
     rbind (dest_byte run M) (\<lambda>(b, m).
     let b = NOT b + 1
     in rbind (a_write_byte run b m) (\<lambda>m. Inr (with_memory M (a_set_zero_flag (ucast b) m))))"

definition A_ADC :: "effect_run \<Rightarrow> amachine \<Rightarrow> amachine res" where
  "A_ADC run M =
     rbind (dest_word run M) (\<lambda>(w, m).
     let w = w + (get_r R_PS m AND CARRYFLAG)
     in rbind (a_write_word run w m) (\<lambda>m. Inr (with_memory M (a_set_zero_flag w m))))"

definition A_ADCB :: "effect_run \<Rightarrow> amachine \<Rightarrow> amachine res" where
  "A_ADCB run M =
     rbind (dest_byte run M) (\<lambda>(b, m).
     let b = b + ucast (get_r R_PS m AND CARRYFLAG)
     in rbind (a_write_byte run b m) (\<lambda>m. Inr (with_memory M (a_set_zero_flag (ucast b) m))))"

definition A_SBC :: "effect_run \<Rightarrow> amachine \<Rightarrow> amachine res" where
  "A_SBC run M =
     rbind (dest_word run M) (\<lambda>(w, m).
     let w = w - (get_r R_PS m AND CARRYFLAG)
     in rbind (a_write_word run w m) (\<lambda>m. Inr (with_memory M (a_set_zero_flag w m))))"

definition A_SBCB :: "effect_run \<Rightarrow> amachine \<Rightarrow> amachine res" where
  "A_SBCB run M =
     rbind (dest_byte run M) (\<lambda>(b, m).
     let b = b - ucast (get_r R_PS m AND CARRYFLAG)
     in rbind (a_write_byte run b m) (\<lambda>m. Inr (with_memory M (a_set_zero_flag (ucast b) m))))"

definition A_TST :: "effect_run \<Rightarrow> amachine \<Rightarrow> amachine res" where
  "A_TST run M =
     rbind (dest_word run M) (\<lambda>(alu, m).
     Inr (with_alu M alu (a_set_negative_flag_w alu (a_set_zero_flag alu m))))"

definition A_TSTB :: "effect_run \<Rightarrow> amachine \<Rightarrow> amachine res" where
  "A_TSTB run M =
     rbind (dest_byte run M) (\<lambda>(b, m).
     Inr (with_alu M (ucast b) (a_set_negative_flag_b b (a_set_zero_flag (ucast b) m))))"

definition A_ROR :: "effect_run \<Rightarrow> amachine \<Rightarrow> amachine res" where
  "A_ROR run M =
     rbind (dest_word run M) (\<lambda>(w, m).
     let w = push_bit 1 w OR drop_bit 15 w
     in rbind (a_write_word run w m) (\<lambda>m. Inr (with_memory M (a_set_zero_flag w m))))"

definition A_RORB :: "effect_run \<Rightarrow> amachine \<Rightarrow> amachine res" where
  "A_RORB run M =
     rbind (dest_byte run M) (\<lambda>(b, m).
     let b = push_bit 1 b OR drop_bit 7 b
     in rbind (a_write_byte run b m) (\<lambda>m. Inr (with_memory M (a_set_zero_flag (ucast b) m))))"

definition A_ROL :: "effect_run \<Rightarrow> amachine \<Rightarrow> amachine res" where
  "A_ROL run M =
     rbind (dest_word run M) (\<lambda>(w, m).
     let w = push_bit 15 w OR drop_bit 1 w
     in rbind (a_write_word run w m) (\<lambda>m. Inr (with_memory M (a_set_zero_flag w m))))"

definition A_ROLB :: "effect_run \<Rightarrow> amachine \<Rightarrow> amachine res" where
  "A_ROLB run M =
     rbind (dest_byte run M) (\<lambda>(b, m).
     let b = push_bit 7 b OR drop_bit 1 b
     in rbind (a_write_byte run b m) (\<lambda>m. Inr (with_memory M (a_set_zero_flag (ucast b) m))))"

definition A_ASR :: "effect_run \<Rightarrow> amachine \<Rightarrow> amachine res" where
  "A_ASR run M =
     rbind (dest_word run M) (\<lambda>(w, m).
     let alu = drop_bit 1 w
     in rbind (a_write_word run alu m) (\<lambda>m. Inr (with_alu M alu (a_set_zero_flag alu m))))"

definition A_ASRB :: "effect_run \<Rightarrow> amachine \<Rightarrow> amachine res" where
  "A_ASRB run M =
     rbind (dest_byte run M) (\<lambda>(b, m).
     let alu = drop_bit 1 (ucast b)
     in rbind (a_write_byte run (ucast alu) m) (\<lambda>m. Inr (with_alu M alu (a_set_zero_flag alu m))))"

definition A_ASL :: "effect_run \<Rightarrow> amachine \<Rightarrow> amachine res" where
  "A_ASL run M =
     rbind (dest_word run M) (\<lambda>(w, m).
     let alu = push_bit 1 w
     in rbind (a_write_word run alu m) (\<lambda>m. Inr (with_alu M alu (a_set_zero_flag alu m))))"

definition A_ASLB :: "effect_run \<Rightarrow> amachine \<Rightarrow> amachine res" where
  "A_ASLB run M =
     rbind (dest_byte run M) (\<lambda>(b, m).
     let alu = push_bit 1 (ucast b)
     in rbind (a_write_byte run (ucast alu) m) (\<lambda>m. Inr (with_alu M alu (a_set_zero_flag alu m))))"

definition A_MTPS :: "effect_run \<Rightarrow> amachine \<Rightarrow> amachine res" where
  "A_MTPS run M = rbind (dest_word run M) (\<lambda>(w, m). Inr (with_memory M (set_r R_PS w m)))"

definition A_MFPI :: "amachine \<Rightarrow> amachine" where "A_MFPI M = A_NOP M"
definition A_MFPD :: "amachine \<Rightarrow> amachine" where "A_MFPD M = A_NOP M"
definition A_MTPI :: "amachine \<Rightarrow> amachine" where "A_MTPI M = A_NOP M"
definition A_MTPD :: "amachine \<Rightarrow> amachine" where "A_MTPD M = A_NOP M"
definition A_SXT :: "amachine \<Rightarrow> amachine" where "A_SXT M = A_NOP M"

definition A_MFPS :: "effect_run \<Rightarrow> amachine \<Rightarrow> amachine res" where
  "A_MFPS run M =
     rbind (a_setup_dest_addressing run (a_ir M) (a_memory M)) (\<lambda>m.
     rbind (a_write_word run (get_r R_PS m) m) (\<lambda>m. Inr (with_memory M m)))"

section \<open>A register and an operand\<close>

definition A_MUL :: "amachine \<Rightarrow> amachine" where "A_MUL M = A_NOP M"
definition A_DIV :: "amachine \<Rightarrow> amachine" where "A_DIV M = A_NOP M"
definition A_ASH :: "amachine \<Rightarrow> amachine" where "A_ASH M = A_NOP M"
definition A_ASHC :: "amachine \<Rightarrow> amachine" where "A_ASHC M = A_NOP M"

definition A_XOR :: "effect_run \<Rightarrow> amachine \<Rightarrow> amachine res" where
  "A_XOR run M =
     rbind (a_setup_dest_addressing run (a_ir M) (a_memory M)) (\<lambda>m.
     let r = get_r (src_reg (a_ir M)) m
     in rbind (direct_read_word run (a_dest m) m) (\<lambda>(d, m).
        let alu = r XOR d
        in rbind (a_write_word run alu m) (\<lambda>m. Inr (with_alu M alu (a_set_zero_flag alu m)))))"

definition A_JSR :: "effect_run \<Rightarrow> amachine \<Rightarrow> amachine res" where
  "A_JSR run M =
     (let reg = src_reg (a_ir M)
      in rbind (dest_word run M) (\<lambda>(tmp, m).
         let contents = get_r reg m; s = get_r R_SP m
         in rbind (direct_write_word run s contents m) (\<lambda>m.
            let m = word_decrease_r R_SP m;
                p = get_r R_PC m;
                m = set_r reg p m
            in Inr (with_memory M (set_r R_PC tmp m)))))"

definition A_RTS :: "effect_run \<Rightarrow> amachine \<Rightarrow> amachine res" where
  "A_RTS run M =
     (let reg = dest_reg (a_ir M);
          m = a_memory M;
          m = set_r R_PC (get_r reg m) m;
          m = word_advance_r R_SP m
      in rbind (direct_read_word run (get_r R_SP m) m) (\<lambda>(top, m).
         Inr (with_memory M (set_r reg top m))))"

definition A_HALT :: "amachine \<Rightarrow> amachine" where
  "A_HALT M = M\<lparr>a_halted := True\<rparr>"

section \<open>Dispatch\<close>

primrec A_exec_op :: "opcode \<Rightarrow> effect_run \<Rightarrow> amachine \<Rightarrow> amachine res" where
  "A_exec_op BR_op run M = Inr (A_BR M)"
| "A_exec_op BNE_op run M = Inr (A_BNE M)"
| "A_exec_op BEQ_op run M = Inr (A_BEQ M)"
| "A_exec_op BGE_op run M = Inr (A_BGE M)"
| "A_exec_op BLT_op run M = Inr (A_BLT M)"
| "A_exec_op BGT_op run M = Inr (A_BGT M)"
| "A_exec_op BLE_op run M = Inr (A_BLE M)"
| "A_exec_op BPL_op run M = Inr (A_BPL M)"
| "A_exec_op BMI_op run M = Inr (A_BMI M)"
| "A_exec_op BHI_op run M = Inr (A_BHI M)"
| "A_exec_op BLOS_op run M = Inr (A_BLOS M)"
| "A_exec_op BVC_op run M = Inr (A_BVC M)"
| "A_exec_op BVS_op run M = Inr (A_BVS M)"
| "A_exec_op BCC_op run M = Inr (A_BCC M)"
| "A_exec_op BCS_op run M = Inr (A_BCS M)"
| "A_exec_op MUL_op run M = Inr (A_MUL M)"
| "A_exec_op DIV_op run M = Inr (A_DIV M)"
| "A_exec_op ASH_op run M = Inr (A_ASH M)"
| "A_exec_op ASHC_op run M = Inr (A_ASHC M)"
| "A_exec_op XOR_op run M = A_XOR run M"
| "A_exec_op JSR_op run M = A_JSR run M"
| "A_exec_op RTS_op run M = A_RTS run M"
| "A_exec_op MOV_op run M = A_MOV run M"
| "A_exec_op MOVB_op run M = A_MOVB run M"
| "A_exec_op CMP_op run M = A_CMP run M"
| "A_exec_op CMPB_op run M = A_CMPB run M"
| "A_exec_op BIT_op run M = A_BIT run M"
| "A_exec_op BITB_op run M = Inr (A_BITB M)"
| "A_exec_op BIC_op run M = A_BIC run M"
| "A_exec_op BICB_op run M = Inr (A_BICB M)"
| "A_exec_op BIS_op run M = A_BIS run M"
| "A_exec_op BISB_op run M = Inr (A_BISB M)"
| "A_exec_op ADD_op run M = A_ADD run M"
| "A_exec_op SUB_op run M = A_SUB run M"
| "A_exec_op JMP_op run M = A_JMP run M"
| "A_exec_op SWAB_op run M = A_SWAB run M"
| "A_exec_op CLR_op run M = A_CLR run M"
| "A_exec_op CLRB_op run M = A_CLRB run M"
| "A_exec_op COM_op run M = A_COM run M"
| "A_exec_op COMB_op run M = A_COMB run M"
| "A_exec_op INC_op run M = A_INC run M"
| "A_exec_op INCB_op run M = A_INCB run M"
| "A_exec_op DEC_op run M = A_DEC run M"
| "A_exec_op DECB_op run M = A_DECB run M"
| "A_exec_op NEG_op run M = A_NEG run M"
| "A_exec_op NEGB_op run M = A_NEGB run M"
| "A_exec_op ADC_op run M = A_ADC run M"
| "A_exec_op ADCB_op run M = A_ADCB run M"
| "A_exec_op SBC_op run M = A_SBC run M"
| "A_exec_op SBCB_op run M = A_SBCB run M"
| "A_exec_op TST_op run M = A_TST run M"
| "A_exec_op TSTB_op run M = A_TSTB run M"
| "A_exec_op ROR_op run M = A_ROR run M"
| "A_exec_op RORB_op run M = A_RORB run M"
| "A_exec_op ROL_op run M = A_ROL run M"
| "A_exec_op ROLB_op run M = A_ROLB run M"
| "A_exec_op ASR_op run M = A_ASR run M"
| "A_exec_op ASRB_op run M = A_ASRB run M"
| "A_exec_op ASL_op run M = A_ASL run M"
| "A_exec_op ASLB_op run M = A_ASLB run M"
| "A_exec_op MTPS_op run M = A_MTPS run M"
| "A_exec_op MFPI_op run M = Inr (A_MFPI M)"
| "A_exec_op MFPD_op run M = Inr (A_MFPD M)"
| "A_exec_op MTPI_op run M = Inr (A_MTPI M)"
| "A_exec_op MTPD_op run M = Inr (A_MTPD M)"
| "A_exec_op SXT_op run M = Inr (A_SXT M)"
| "A_exec_op MFPS_op run M = A_MFPS run M"

definition A_exec_instruction :: "effect_run \<Rightarrow> amachine \<Rightarrow> amachine res" where
  "A_exec_instruction run M =
     (case decode (a_ir M) of None \<Rightarrow> Inr (A_HALT M) | Some c \<Rightarrow> A_exec_op c run M)"

end
