(* ===== verification/Attic_Machine.thy ===== *)
theory Attic_Machine
  imports Attic_Cpu
begin

text \<open>
  The loop of the former machine (\<open>src/attic/src/machine.c\<close>) and its terminal (\<open>tty.c\<close>). Standard input is the list of the bytes that
  will be read, standard output the list of the bytes that were written.
\<close>

section \<open>The terminal\<close>

abbreviation (input) TKS_RDRENB :: u16 where "TKS_RDRENB \<equiv> 0x1"
abbreviation (input) TKS_DONE :: u16 where "TKS_DONE \<equiv> 0x80"
abbreviation (input) TKS_BUSY :: u16 where "TKS_BUSY \<equiv> 0x800"

record aworld =
  a_machine :: amachine
  stdin_left :: "u8 list"
  stdout_done :: "u8 list"

text \<open>\<open>(uint16_t) fgetc(stdin)\<close>: at the end of the input, -1.\<close>

definition fgetc_stdin :: "u8 list \<Rightarrow> u16 \<times> u8 list" where
  "fgetc_stdin inp = (case inp of [] \<Rightarrow> (0xFFFF, []) | c # cs \<Rightarrow> (ucast c, cs))"

definition fill_buffer_TKB :: "effect_run \<Rightarrow> amem \<times> u8 list \<Rightarrow> (amem \<times> u8 list) res" where
  "fill_buffer_TKB run s =
     (case s of (m, inp) \<Rightarrow>
        (let (tkb, inp) = fgetc_stdin inp
         in rbind (direct_write_word run TKB_LOC tkb m) (\<lambda>m. Inr (m, inp))))"

definition exec_tty_kb :: "effect_run \<Rightarrow> amem \<times> u8 list \<Rightarrow> (amem \<times> u8 list) res" where
  "exec_tty_kb run s =
     (case s of (m, inp) \<Rightarrow>
        rbind (a_read_word run (m\<lparr>a_src := TKS_LOC, a_dest := TKS_LOC\<rparr>)) (\<lambda>(tks, m).
        if tks AND TKS_RDRENB \<noteq> 0
        then
          (let tks = tks XOR TKS_BUSY
           in rbind (a_write_word run tks m) (\<lambda>m.
              rbind (fill_buffer_TKB run (m, inp)) (\<lambda>(m, inp).
              let tks = tks XOR TKS_DONE; tks = tks XOR TKS_BUSY; tks = tks XOR TKS_RDRENB
              in rbind (a_write_word run tks m) (\<lambda>m. Inr (m, inp)))))
        else Inr (m, inp)))"

definition clear_flags_TPS :: "effect_run \<Rightarrow> amem \<Rightarrow> amem res" where
  "clear_flags_TPS run m = direct_write_word run TPS_LOC 0 m"

definition fetch_buffer_TPB :: "effect_run \<Rightarrow> amem \<Rightarrow> (u8 \<times> amem) res" where
  "fetch_buffer_TPB run m = direct_read_byte run TPB_LOC m"

definition exec_tty_print :: "effect_run \<Rightarrow> amem \<times> u8 list \<Rightarrow> (amem \<times> u8 list) res" where
  "exec_tty_print run s =
     (case s of (m, out) \<Rightarrow>
        rbind (direct_read_word run TPS_LOC m) (\<lambda>(tps, m).
        if tps AND TPS_READY \<noteq> 0
        then
          rbind (clear_flags_TPS run m) (\<lambda>m.
          rbind (fetch_buffer_TPB run m) (\<lambda>(c, m).
          Inr (m, if c \<noteq> 0 then out @ [c] else out)))
        else Inr (m, out)))"

text \<open>\<open>init_tty_subsystem\<close> up to the terminal modes; the results of the registrations are ignored.\<close>

definition init_tty_subsystem :: "effect_run \<Rightarrow> amem \<Rightarrow> amem res" where
  "init_tty_subsystem run m =
     (let m = snd (register_read_side_effect TKB_LOC Read_TKB m);
          m = snd (register_read_side_effect TPB_LOC Clear_TPB m)
      in direct_write_word run TPS_LOC TPS_READY m)"

section \<open>Start\<close>

text \<open>
  \<open>init_machine\<close> up to the creation of the disk thread, and the two registrations that the disk
  thread makes in \<open>start_disk_subsystem\<close> before it calls \<open>exec_disk\<close>. (Theory \<open>Attic_Start\<close> has
  the thread as a whole, with the two registrations as steps of their own.)
\<close>

definition init_machine :: "effect_run \<Rightarrow> bool \<Rightarrow> amem \<Rightarrow> bool \<Rightarrow> amachine res" where
  "init_machine run malloc_ok junk step =
     rbind (initialize_memory malloc_ok junk) (\<lambda>m.
     rbind (init_tty_subsystem run (m\<lparr>bus_shutdown := False\<rparr>)) (\<lambda>m.
     Inr \<lparr>a_alu = 0, a_ir = 0, a_halted = False, a_step = step, a_memory = m\<rparr>))"

definition disk_registrations :: "amem \<Rightarrow> amem" where
  "disk_registrations m =
     (let m = snd (register_read_side_effect RXDB Clear_RXDB m)
      in snd (register_write_side_effect RXDB Clear_RXCS m))"

section \<open>The dump\<close>

text \<open>
  The accesses of \<open>dump_state\<close> with \<open>dump_memory\<close> set: every word of the rows below \<open>MEMWORDS\<close> is
  read twice, and each read has its side effects. The printing is left out.
\<close>

fun dump_reads :: "effect_run \<Rightarrow> nat list \<Rightarrow> amem \<Rightarrow> amem res" where
  "dump_reads run [] m = Inr m"
| "dump_reads run (l # ls) m =
     rbind (direct_read_word run (of_nat l) m) (\<lambda>(_, m).
     rbind (direct_read_word run (of_nat l) m) (\<lambda>(_, m).
     dump_reads run ls m))"

definition dump_locs :: "nat list" where
  "dump_locs = concat (map (\<lambda>k. map (\<lambda>c. 32 * k + 2 * c) [0..<16]) [0..<1024])"

definition a_dump_state :: "effect_run \<Rightarrow> amem \<Rightarrow> amem res" where
  "a_dump_state run m = dump_reads run dump_locs m"

section \<open>The loop\<close>

definition a_fetch :: "effect_run \<Rightarrow> amachine \<Rightarrow> amachine res" where
  "a_fetch run M =
     (let m = a_memory M; m = m\<lparr>a_src := get_r R_PC m\<rparr>
      in rbind (a_read_word run m) (\<lambda>(w, m).
         Inr (M\<lparr>a_ir := w, a_memory := word_advance_r R_PC m\<rparr>)))"

text \<open>In single steps the state is dumped and a key is awaited before each instruction.\<close>

definition a_pause :: "effect_run \<Rightarrow> amachine \<times> u8 list \<Rightarrow> (amachine \<times> u8 list) res" where
  "a_pause run s =
     (case s of (M, inp) \<Rightarrow>
        if a_step M
        then rbind (a_dump_state run (a_memory M)) (\<lambda>m. Inr (with_memory M m, snd (fgetc_stdin inp)))
        else Inr (M, inp))"

definition a_cycle :: "effect_run \<Rightarrow> aworld \<Rightarrow> aworld res" where
  "a_cycle run w =
     rbind (a_fetch run (a_machine w)) (\<lambda>M.
     rbind (a_pause run (M, stdin_left w)) (\<lambda>(M, inp).
     rbind (A_exec_instruction run M) (\<lambda>M.
     rbind (exec_tty_kb run (a_memory M, inp)) (\<lambda>(m, inp).
     rbind (exec_tty_print run (m, stdout_done w)) (\<lambda>(m, out).
     Inr \<lparr>a_machine = with_memory M m, stdin_left = inp, stdout_done = out\<rparr>)))))"

partial_function (option) run_machine :: "effect_run \<Rightarrow> aworld \<Rightarrow> (aworld res) option" where
  "run_machine run w =
     (if a_halted (a_machine w)
      then Some (Inr (w\<lparr>a_machine := with_memory (a_machine w)
                          ((a_memory (a_machine w))\<lparr>bus_shutdown := True\<rparr>)\<rparr>))
      else (case a_cycle run w of Inl e \<Rightarrow> Some (Inl e) | Inr w' \<Rightarrow> run_machine run w'))"

end
