(* ===== verification/Attic_Safety.thy ===== *)
theory Attic_Safety
  imports Attic_Machine
begin

text \<open>
  Safety of the former machine: with the tables that its own start installs, a cycle of the
  machine, and so a whole run, can only fail by indexing the memory out of its bounds. It never
  calls through a null pointer of a table, its side effects do not nest, and the tables stay
  what they are.
\<close>

section \<open>Instructions\<close>

lemma with_frame [simp, frame]:
  "a_memory (with_memory M m) = m" "a_memory (with_alu M v m) = m"
  "a_ir (with_memory M m) = a_ir M" "a_ir (with_alu M v m) = a_ir M"
  "a_alu (with_memory M m) = a_alu M" "a_alu (with_alu M v m) = v"
  "a_halted (with_memory M m) = a_halted M" "a_halted (with_alu M v m) = a_halted M"
  by (simp_all add: with_memory_def with_alu_def)

lemma flag_effects [simp, frame]:
  "effects T (a_set_zero_flag v m) = effects T m"
  "effects T (a_set_negative_flag_w v m) = effects T m"
  "effects T (a_set_negative_flag_b b m) = effects T m"
  by (simp_all add: a_set_zero_flag_def a_set_negative_flag_w_def a_set_negative_flag_b_def Let_def)

lemma branch_effects [simp, frame]: "effects T (a_memory (a_branch p M)) = effects T (a_memory M)"
  by (simp add: a_branch_def)

lemmas a_branch_defs =
  A_BR_def A_BNE_def A_BEQ_def A_BGE_def A_BLT_def A_BGT_def A_BLE_def A_BPL_def A_BMI_def
  A_BHI_def A_BLOS_def A_BVC_def A_BVS_def A_BCC_def A_BCS_def

lemmas a_nop_defs =
  A_NOP_def A_BITB_def A_BICB_def A_BISB_def A_MUL_def A_DIV_def A_ASH_def A_ASHC_def
  A_MFPI_def A_MFPD_def A_MTPI_def A_MTPD_def A_SXT_def

lemmas a_operand_defs =
  A_MOV_def A_MOVB_def A_CMP_def A_CMPB_def A_BIT_def A_BIC_def A_BIS_def A_ADD_def A_SUB_def
  A_JMP_def A_SWAB_def A_CLR_def A_CLRB_def A_COM_def A_COMB_def A_INC_def A_INCB_def A_DEC_def
  A_DECB_def A_NEG_def A_NEGB_def A_ADC_def A_ADCB_def A_SBC_def A_SBCB_def A_TST_def A_TSTB_def
  A_ROR_def A_RORB_def A_ROL_def A_ROLB_def A_ASR_def A_ASRB_def A_ASL_def A_ASLB_def A_MTPS_def
  A_MFPS_def A_XOR_def A_JSR_def A_RTS_def

context effect_calls
begin

lemma operand_all:
  assumes "effects T (a_memory M)"
  shows "res_all is_oob (effects T) (word_addresses run M)"
    and "res_all is_oob (effects T) (byte_addresses run M)"
    and "res_all is_oob (\<lambda>(w, m). effects T m) (dest_word run M)"
    and "res_all is_oob (\<lambda>(b, m). effects T m) (dest_byte run M)"
  using assms
  by (auto simp: word_addresses_def byte_addresses_def dest_word_def dest_byte_def
      intro!: res_all_rbind [where P = "effects T"] wf_intros)

lemma instruction_all:
  assumes "effects T (a_memory M)"
  shows "res_all is_oob (\<lambda>M. effects T (a_memory M)) (A_exec_op c run M)"
  using assms
  by (cases c)
    (auto simp: a_branch_defs a_nop_defs a_operand_defs Let_def access_alt write_alt
      intro!: res_all_rbind2 [where P = "\<lambda>_. effects T"] res_all_rbind [where P = "effects T"]
        operand_all wf_intros)

end


section \<open>The devices\<close>

text \<open>Conditions on a pair of the memory and the rest of the world.\<close>

lemma res_all_rbind_fst:
  assumes "res_all E (\<lambda>(m, s). P m) r" and "\<And>m s. P m \<Longrightarrow> res_all E Q (f (m, s))"
  shows "res_all E Q (rbind r f)"
  using assms by (cases r) auto

context effect_calls
begin

lemma tty_kb_all:
  assumes "effects T m"
  shows "res_all is_oob (\<lambda>(m, inp). effects T m) (exec_tty_kb run (m, inp))"
  using assms
  by (auto simp: exec_tty_kb_def fill_buffer_TKB_def Let_def access_alt write_alt split: prod.splits
      intro!: res_all_rbind2 [where P = "\<lambda>_. effects T"] res_all_rbind_fst [where P = "effects T"]
        res_all_rbind [where P = "effects T"] wf_intros)

lemma tty_print_all:
  assumes "effects T m"
  shows "res_all is_oob (\<lambda>(m, out). effects T m) (exec_tty_print run (m, out))"
  using assms
  by (auto simp: exec_tty_print_def clear_flags_TPS_def fetch_buffer_TPB_def Let_def
      intro!: res_all_rbind2 [where P = "\<lambda>_. effects T"]
        res_all_rbind [where P = "effects T"] wf_intros)

lemma dump_reads_all: "effects T m \<Longrightarrow> res_all is_oob (effects T) (dump_reads run ls m)"
  by (induction ls arbitrary: m)
    (auto intro!: res_all_rbind2 [where P = "\<lambda>_. effects T"] wf_intros)

lemma fetch_all:
  assumes "effects T (a_memory M)"
  shows "res_all is_oob (\<lambda>M. effects T (a_memory M)) (a_fetch run M)"
  using assms
  by (auto simp: a_fetch_def Let_def access_alt
      intro!: res_all_rbind2 [where P = "\<lambda>_. effects T"] wf_intros)

lemma pause_all:
  assumes "effects T (a_memory M)"
  shows "res_all is_oob (\<lambda>(M, inp). effects T (a_memory M)) (a_pause run (M, inp))"
  using assms
  by (auto simp: a_pause_def a_dump_state_def intro!: res_all_rbind [where P = "effects T"] dump_reads_all)

lemma exec_all:
  assumes "effects T (a_memory M)"
  shows "res_all is_oob (\<lambda>M. effects T (a_memory M)) (A_exec_instruction run M)"
  using instruction_all [OF assms] assms
  by (simp add: A_exec_instruction_def A_HALT_def split: option.split)

lemma cycle_all:
  assumes "effects T (a_memory (a_machine w))"
  shows "res_all is_oob (\<lambda>w. effects T (a_memory (a_machine w))) (a_cycle run w)"
  using assms unfolding a_cycle_def
  by (auto intro!: res_all_rbind_fst [where P = "effects T"]
      res_all_rbind_fst [where P = "\<lambda>M. effects T (a_memory M)"]
      res_all_rbind [where P = "\<lambda>M. effects T (a_memory M)"]
      fetch_all pause_all exec_all tty_kb_all tty_print_all)

lemma run_all:
  assumes "run_machine run w = Some r" and "effects T (a_memory (a_machine w))"
  shows "res_all is_oob (\<lambda>w. effects T (a_memory (a_machine w)) \<and> a_halted (a_machine w)) r"
proof -
  have "run = run \<longrightarrow> effects T (a_memory (a_machine w)) \<longrightarrow>
      res_all is_oob (\<lambda>w. effects T (a_memory (a_machine w)) \<and> a_halted (a_machine w)) r"
  proof (rule run_machine.raw_induct [where P = "\<lambda>run' w r. run' = run \<longrightarrow>
      effects T (a_memory (a_machine w)) \<longrightarrow>
      res_all is_oob (\<lambda>w. effects T (a_memory (a_machine w)) \<and> a_halted (a_machine w)) r"])
    fix f run' w r
    assume IH: "\<And>run' w r. f run' w = Some r \<Longrightarrow> run' = run \<longrightarrow>
        effects T (a_memory (a_machine w)) \<longrightarrow>
        res_all is_oob (\<lambda>w. effects T (a_memory (a_machine w)) \<and> a_halted (a_machine w)) r"
      and step: "(if a_halted (a_machine w)
      then Some (Inr (w\<lparr>a_machine := with_memory (a_machine w)
                          ((a_memory (a_machine w))\<lparr>bus_shutdown := True\<rparr>)\<rparr>))
      else (case a_cycle run' w of Inl e \<Rightarrow> Some (Inl e) | Inr w' \<Rightarrow> f run' w')) = Some r"
    show "run' = run \<longrightarrow> effects T (a_memory (a_machine w)) \<longrightarrow>
        res_all is_oob (\<lambda>w. effects T (a_memory (a_machine w)) \<and> a_halted (a_machine w)) r"
    proof (intro impI)
      assume e: "run' = run" "effects T (a_memory (a_machine w))"
      then have c: "res_all is_oob (\<lambda>w. effects T (a_memory (a_machine w))) (a_cycle run' w)"
        by (simp add: cycle_all)
      show "res_all is_oob (\<lambda>w. effects T (a_memory (a_machine w)) \<and> a_halted (a_machine w)) r"
      proof (cases "a_halted (a_machine w)")
        case True
        with step e show ?thesis by auto
      next
        case False
        from c consider a where "a_cycle run' w = Inl a" "is_oob a"
          | w' where "a_cycle run' w = Inr w'" "effects T (a_memory (a_machine w'))"
          by (cases "a_cycle run' w") auto
        then show ?thesis using step False e IH by cases auto
      qed
    qed
  qed (rule assms)
  with assms show ?thesis by simp
qed

end


section \<open>The start\<close>

text \<open>The tables after \<open>init_machine\<close>, and after the disk thread has registered its functions.\<close>

definition boot_tables :: effect_tables where
  "boot_tables =
     (\<lparr>se_loc = TKB_LOC, se_handler = Some Read_TKB\<rparr> # \<lparr>se_loc = TPB_LOC, se_handler = Some Clear_TPB\<rparr>
        # replicate 18 no_effect,
      replicate 20 no_effect)"

definition disk_tables :: effect_tables where
  "disk_tables =
     (\<lparr>se_loc = TKB_LOC, se_handler = Some Read_TKB\<rparr> # \<lparr>se_loc = TPB_LOC, se_handler = Some Clear_TPB\<rparr>
        # \<lparr>se_loc = RXDB, se_handler = Some Clear_RXDB\<rparr> # replicate 17 no_effect,
      \<lparr>se_loc = RXDB, se_handler = Some Clear_RXCS\<rparr> # replicate 19 no_effect)"

lemma replicate_free:
  "replicate 20 e = e # replicate 19 e" "replicate 19 e = e # replicate 18 e"
  "replicate 18 e = e # replicate 17 e"
  by (simp_all add: eval_nat_numeral)

lemma free_entry: "se_loc no_effect = INACTIVE_HANDLER_LOC" 
  by (simp add: no_effect_def)

lemma tables_installed: "tables_ok boot_tables" "tables_ok disk_tables"
  by (auto simp: tables_ok_def boot_tables_def disk_tables_def no_effect_def)

lemma init_machine_effects:
  "init_machine run True junk step =
     Inr \<lparr>a_alu = 0, a_ir = 0, a_halted = False, a_step = step,
          a_memory = junk\<lparr>a_bytes := (\<lambda>_. 0)(0x1F44 := 0x80, 0x1F45 := 0),
            read_side_effects := fst boot_tables, write_side_effects := snd boot_tables,
            bus_shutdown := False\<rparr>\<rparr>"
proof -
  let ?m = "junk\<lparr>a_bytes := (\<lambda>_. 0), read_side_effects := fst boot_tables,
    write_side_effects := snd boot_tables, bus_shutdown := False\<rparr>"
  have "effects boot_tables ?m" by (simp add: effects_def tables_installed)
  then have "direct_write_word run TPS_LOC TPS_READY ?m = Inr (?m\<lparr>a_bytes := (\<lambda>_. 0)(0x1F44 := 0x80, 0x1F45 := 0)\<rparr>)"
    by (simp add: direct_write_quiet poke_word_def poke_def lo_byte_def hi_byte_def)
  moreover have "replicate 20 no_effect = no_effect # no_effect # replicate 18 no_effect"
    by (simp add: replicate_free)
  ultimately show ?thesis
    by (cases junk) (simp add: init_machine_def initialize_memory_def init_tty_subsystem_def
      register_read_side_effect_def boot_tables_def no_effect_def)
qed

lemma start_disk_effects:
  assumes "effects boot_tables m"
  shows "effects disk_tables (disk_registrations m)"
  using assms tables_installed
  by (simp add: effects_def disk_registrations_def register_read_side_effect_def
      register_write_side_effect_def boot_tables_def disk_tables_def free_entry replicate_free)

lemma init_effects:
  assumes "init_machine run True junk step = Inr M"
  shows "effects boot_tables (a_memory M)" "a_halted M = False" "a_step M = step"
  using assms tables_installed unfolding init_machine_effects by (auto simp: effects_def)

text \<open>
  Property C21. The former machine runs safely: started as its code starts it, with the disk's
  functions registered, whatever program and data are then put into its memory and whatever is
  typed, if it stops it has halted with the installed tables, or it accessed the last address
  of the 16-bit space, which the array of 65535 bytes does not have. No function pointer that
  it follows is null, and one level of nested calls is enough for every side effect.
\<close>

theorem attic_run_safe:
  assumes "init_machine (handler_run (Suc n)) True junk step = Inr M"
    and "m = (disk_registrations (a_memory M))\<lparr>a_bytes := program\<rparr>"
    and "run_machine (handler_run (Suc n))
      \<lparr>a_machine = with_memory M m, stdin_left = inp, stdout_done = out\<rparr> = Some r"
  shows "r = Inl (Out_Of_Bounds 65535) \<or>
    (\<exists>w. r = Inr w \<and> a_halted (a_machine w) \<and> effects disk_tables (a_memory (a_machine w)))"
  using devices.run_all [OF assms(3), of disk_tables] start_disk_effects [OF init_effects(1) [OF assms(1)]]
    assms(2)
  by (cases r) (auto simp: is_oob_def)

text \<open>An empty memory: the first instruction word is 0, which halts.\<close>

lemma decode_0: "decode 0 = None"
  by code_simp

lemma halted_returns: "a_halted (a_machine w) \<Longrightarrow> \<exists>w'. run_machine run w = Some (Inr w')"
  by (subst run_machine.simps) simp

lemma empty_memory_halts:
  assumes "effects T m" and "a_bytes m = (\<lambda>_. 0)"
    and "M = \<lparr>a_alu = 0, a_ir = 0, a_halted = False, a_step = False, a_memory = m\<rparr>"
  shows "\<exists>w. run_machine run \<lparr>a_machine = M, stdin_left = inp, stdout_done = out\<rparr> = Some (Inr w)"
proof -
  have "\<exists>w. a_cycle run \<lparr>a_machine = M, stdin_left = inp, stdout_done = out\<rparr> = Inr w \<and> a_halted (a_machine w)"
    using assms
    by (simp add: a_cycle_def a_fetch_def Let_def get_r_def access_alt direct_read_quiet peek_word_def
      peek_def translate_register_def le_word_def word_advance_r_def set_r_def a_pause_def decode_0
      A_exec_instruction_def A_HALT_def exec_tty_kb_def exec_tty_print_def)
  then show ?thesis
    using halted_returns assms(3) by (subst run_machine.simps) auto
qed

theorem attic_run_safe_witness:
  "\<exists>w. run_machine (handler_run 1)
     \<lparr>a_machine = \<lparr>a_alu = 0, a_ir = 0, a_halted = False, a_step = False, a_memory =
        \<lparr>a_dest = 0, a_src = 0, a_bytes = (\<lambda>_. 0), read_side_effects = fst disk_tables,
         write_side_effects = snd disk_tables, bus_shutdown = False\<rparr>\<rparr>,
      stdin_left = [], stdout_done = []\<rparr> = Some (Inr w) \<and>
     effects disk_tables (a_memory (a_machine w))"
proof -
  let ?junk = "\<lparr>a_dest = 0, a_src = 0, a_bytes = (\<lambda>_. 0), read_side_effects = [],
    write_side_effects = [], bus_shutdown = False\<rparr>"
  obtain M where M: "init_machine (handler_run (Suc 0)) True ?junk False = Inr M"
    by (simp add: init_machine_effects)
  let ?m = "(disk_registrations (a_memory M))\<lparr>a_bytes := (\<lambda>_. 0)\<rparr>"
  have fields: "a_dest ?m = 0" "a_src ?m = 0" "bus_shutdown ?m = False" "a_alu M = 0" "a_ir M = 0"
    "\<not> a_halted M" "\<not> a_step M"
    using M by (auto simp: init_machine_effects disk_registrations_def register_read_side_effect_def
        register_write_side_effect_def split: prod.splits)
  have e: "effects disk_tables ?m"
    using start_disk_effects [OF init_effects(1) [OF M]] by simp
  have b: "a_bytes ?m = (\<lambda>_. 0)" by simp
  from e fields have m: "with_memory M ?m = \<lparr>a_alu = 0, a_ir = 0, a_halted = False, a_step = False, a_memory =
        \<lparr>a_dest = 0, a_src = 0, a_bytes = (\<lambda>_. 0), read_side_effects = fst disk_tables,
         write_side_effects = snd disk_tables, bus_shutdown = False\<rparr>\<rparr>"
    by (auto intro!: amachine.equality amem.equality simp: with_memory_def effects_def prod_eq_iff)
  have "with_memory M ?m = \<lparr>a_alu = 0, a_ir = 0, a_halted = False, a_step = False, a_memory = ?m\<rparr>"
    using fields by (auto intro!: amachine.equality simp: with_memory_def)
  then obtain w where w: "run_machine (handler_run (Suc 0)) \<lparr>a_machine = with_memory M ?m,
      stdin_left = [], stdout_done = []\<rparr> = Some (Inr w)"
    using empty_memory_halts [OF e b] by blast
  from attic_run_safe [OF M refl w] w show ?thesis
    by (simp add: m)
qed
end
