(* ===== verification/Attic_Tty.thy ===== *)
theory Attic_Tty
  imports Attic_Safety
begin

text \<open>
  The terminal of the former machine: what a key press and a printed byte go through, with the
  side effects installed, and what single-stepping does to them.
\<close>

section \<open>Words in the memory\<close>

definition word_at :: "u16 \<Rightarrow> amem \<Rightarrow> u16" where
  "word_at l m = le_word (a_bytes m (unat l)) (a_bytes m (unat l + 1))"

text \<open>\<open>put_word l v m\<close>: the memory after a word was stored.\<close>

definition put_word :: "u16 \<Rightarrow> u16 \<Rightarrow> amem \<Rightarrow> amem" where
  "put_word l v m = m\<lparr>a_bytes := (a_bytes m)(unat l := lo_byte v, unat l + 1 := hi_byte v)\<rparr>"

lemma peek_word_at: "unat l + 1 < 65535 \<Longrightarrow> peek_word l m = Inr (word_at l m)"
  by (simp add: peek_word_def peek_def word_at_def)

lemma poke_word_at: "unat l + 1 < 65535 \<Longrightarrow> poke_word l v m = Inr (put_word l v m)"
  by (simp add: poke_word_def poke_def put_word_def)

lemma put_word_frame [simp, frame]:
  "effects T (put_word l v m) = effects T m"
  "read_side_effects (put_word l v m) = read_side_effects m"
  "write_side_effects (put_word l v m) = write_side_effects m"
  by (simp_all add: put_word_def)

lemma word_at_put_same [simp]: "word_at l (put_word l v m) = v"
  by (simp add: word_at_def put_word_def)

lemma word_at_put_other:
  "unat l + 1 < unat k \<or> unat k + 1 < unat l \<Longrightarrow> word_at k (put_word l v m) = word_at k m"
  by (auto simp: word_at_def put_word_def)

lemma word_at_src [simp]: "word_at l (m\<lparr>a_src := k\<rparr>) = word_at l m" "word_at l (m\<lparr>a_dest := k\<rparr>) = word_at l m"
  by (simp_all add: word_at_def)

text \<open>Accesses of the terminal's registers.\<close>

lemma tty_write:
  assumes "effects T m" and "l \<in> {TKS_LOC, TKB_LOC, TPS_LOC, TPB_LOC}"
  shows "direct_write_word run l v m = Inr (put_word l v m)"
proof -
  have "l \<notin> {INACTIVE_HANDLER_LOC, RXDB}" and "unat l + 1 < 65535" using assms(2) by auto
  then show ?thesis using assms(1) by (simp add: direct_write_quiet poke_word_at)
qed

lemma tty_read:
  assumes "effects T m" and "l \<in> {TKS_LOC, TPS_LOC}"
  shows "direct_read_word run l m = Inr (word_at l m, m)"
proof -
  have "l \<notin> {INACTIVE_HANDLER_LOC, TKB_LOC, TPB_LOC, RXDB}" and "unat l + 1 < 65535"
    using assms(2) by auto
  then show ?thesis using assms(1) by (simp add: direct_read_quiet peek_word_at)
qed

text \<open>The effects of reading the keyboard's and the printer's buffer.\<close>

abbreviation (input) key_taken :: "amem \<Rightarrow> amem" where
  "key_taken m \<equiv> put_word TKS_LOC 0 (put_word TKB_LOC 0 m)"

abbreviation (input) byte_taken :: "amem \<Rightarrow> amem" where
  "byte_taken m \<equiv> put_word TPS_LOC (word_at TPS_LOC m OR TPS_READY) (put_word TPB_LOC 0 m)"

lemma read_TKB_effect:
  "effects disk_tables m \<Longrightarrow> process_read_side_effects (handler_run (Suc n)) TKB_LOC m = Inr (key_taken m)"
  using tty_write [of disk_tables] 
  by (auto simp: process_read_side_effects_def process_side_effects_def effects_def disk_tables_def
      read_TKB_def clear_TKB_def clear_flags_TKS_def)

lemma read_TPB_effect:
  "effects disk_tables m \<Longrightarrow> process_read_side_effects (handler_run (Suc n)) TPB_LOC m = Inr (byte_taken m)"
  using tty_write [of disk_tables] tty_read [of disk_tables m TPS_LOC]
  by (auto simp: process_read_side_effects_def process_side_effects_def effects_def disk_tables_def
      clear_TPB_def)

section \<open>The printer\<close>

text \<open>
  Property C29. A byte is printed once: when the printer is ready and the processor has stored a
  byte other than 0 in its buffer, the next call of \<open>exec_tty_print\<close> writes that byte, empties
  the buffer and leaves the printer ready; the call after that writes nothing.
\<close>

theorem printed_once:
  assumes "effects disk_tables m" and "word_at TPS_LOC m AND TPS_READY \<noteq> 0"
    and "c = a_bytes m (unat TPB_LOC)" and "c \<noteq> 0"
  shows "\<exists>m' m''. exec_tty_print (handler_run (Suc n)) (m, out) = Inr (m', out @ [c]) \<and>
    word_at TPB_LOC m' = 0 \<and> word_at TPS_LOC m' = TPS_READY \<and>
    exec_tty_print (handler_run (Suc n)) (m', out @ [c]) = Inr (m'', out @ [c])"
proof -
  let ?run = "handler_run (Suc n)"
  have fetch: "fetch_buffer_TPB ?run m = Inr (a_bytes m (unat TPB_LOC), byte_taken m)"
    if "effects disk_tables m" for m
    using read_TPB_effect [OF that] by (simp add: fetch_buffer_TPB_def direct_read_byte_def peek_def)
  have step: "exec_tty_print ?run (m, out) = 
      (let b = a_bytes m (unat TPB_LOC) in
       Inr (byte_taken (put_word TPS_LOC 0 m), if b \<noteq> 0 then out @ [b] else out))"
    if "effects disk_tables m" "word_at TPS_LOC m AND TPS_READY \<noteq> 0" for m out
    using that fetch [of "put_word TPS_LOC 0 m"] 
      tty_read [OF that(1), of TPS_LOC] tty_write [OF that(1), of TPS_LOC]
    by (simp add: exec_tty_print_def clear_flags_TPS_def Let_def put_word_def)
  let ?m = "byte_taken (put_word TPS_LOC 0 m)"
  have m': "word_at TPB_LOC ?m = 0" "word_at TPS_LOC ?m = TPS_READY"
    by (simp_all add: word_at_put_other)
  then have "a_bytes ?m (unat TPB_LOC) = 0"
    by (simp add: put_word_def lo_byte_def)
  with step [of ?m "out @ [c]"] m' have "exec_tty_print ?run (?m, out @ [c]) = 
      Inr (byte_taken (put_word TPS_LOC 0 ?m), out @ [c])"
    using assms(1) by (simp add: Let_def)
  with step [OF assms(1,2)] m' assms(3,4) show ?thesis
    by (auto simp: Let_def)
qed

section \<open>The keyboard\<close>

text \<open>
  A key press is delivered once: when the processor has set the reader enable bit
  alone, \<open>exec_tty_kb\<close> takes the next byte of the input, and sets the done bit alone. A read of
  the buffer then returns the byte and clears the buffer and the status; at the end of the
  input the byte read is -1.
\<close>

theorem key_delivered_once:
  assumes "effects disk_tables m" and "word_at TKS_LOC m = TKS_RDRENB"
  shows "\<exists>m' m''. exec_tty_kb (handler_run (Suc n)) (m, inp) = Inr (m', tl inp) \<and>
    word_at TKS_LOC m' = TKS_DONE \<and>
    direct_read_word (handler_run (Suc n)) TKB_LOC m' =
      Inr (case inp of [] \<Rightarrow> 0xFFFF | c # cs \<Rightarrow> ucast c, m'') \<and>
    word_at TKB_LOC m'' = 0 \<and> word_at TKS_LOC m'' = 0"
proof -
  let ?run = "handler_run (Suc n)" and ?w = "(case inp of [] \<Rightarrow> 0xFFFF | c # cs \<Rightarrow> ucast c) :: u16"
  let ?m0 = "m\<lparr>a_src := TKS_LOC, a_dest := TKS_LOC\<rparr>"
  let ?m' = "put_word TKS_LOC TKS_DONE (put_word TKB_LOC ?w (put_word TKS_LOC (TKS_RDRENB XOR TKS_BUSY) ?m0))"
  have e: "effects disk_tables ?m0" using assms(1) by simp
  have "fgetc_stdin inp = (?w, tl inp)"
    by (simp add: fgetc_stdin_def split: list.split)
  moreover have "a_dest (put_word l v k) = a_dest k" for l v k by (simp add: put_word_def)
  ultimately have "exec_tty_kb ?run (m, inp) = Inr (?m', tl inp)"
    using assms(2) e
    by (simp add: exec_tty_kb_def fill_buffer_TKB_def access_alt write_alt tty_read [OF e]
        tty_write [where T = disk_tables])
  moreover have e': "effects disk_tables ?m'" using assms(1) by simp
  moreover have "word_at TKS_LOC ?m' = TKS_DONE" "word_at TKB_LOC ?m' = ?w"
    by (simp_all add: word_at_put_other)
  moreover have "direct_read_word ?run TKB_LOC ?m' = Inr (word_at TKB_LOC ?m', key_taken ?m')"
    using read_TKB_effect [OF e'] by (simp add: direct_read_word_def peek_word_at)
  moreover have "word_at TKB_LOC (key_taken ?m') = 0" "word_at TKS_LOC (key_taken ?m') = 0"
    by (simp_all add: word_at_put_other)
  ultimately show ?thesis by metis
qed

section \<open>Single steps\<close>

text \<open>The keyboard's registers are empty.\<close>

definition no_key :: "amem \<Rightarrow> bool" where
  "no_key m \<longleftrightarrow> effects disk_tables m \<and> word_at TKB_LOC m = 0 \<and> word_at TKS_LOC m = 0"

lemma dump_read:
  assumes "effects disk_tables m" and "unat l < 32768"
  shows "\<exists>w m'. direct_read_word (handler_run (Suc n)) l m = Inr (w, m') \<and> effects disk_tables m' \<and>
    (l = TKB_LOC \<or> no_key m \<longrightarrow> no_key m')"
proof -
  have p: "peek_word l m = Inr (word_at l m)" using assms(2) by (simp add: peek_word_at)
  consider "l = TKB_LOC" | "l = TPB_LOC" | "l \<notin> {INACTIVE_HANDLER_LOC, TKB_LOC, TPB_LOC, RXDB}"
    using assms(2) by fastforce
  then show ?thesis
  proof cases
    case 1
    with p assms(1) show ?thesis
      by (auto simp: direct_read_word_def read_TKB_effect no_key_def word_at_put_other simp del: handler_run.simps)
  next
    case 2
    with p assms(1) show ?thesis
      by (auto simp: direct_read_word_def read_TPB_effect no_key_def word_at_put_other simp del: handler_run.simps)
  next
    case 3
    with p assms(1) show ?thesis by (auto simp: direct_read_quiet no_key_def)
  qed
qed

lemma dump_empties:
  assumes "effects disk_tables m" and "\<forall>l \<in> set ls. l < 32768"
  shows "\<exists>m'. dump_reads (handler_run (Suc n)) ls m = Inr m' \<and> effects disk_tables m' \<and>
    (8002 \<in> set ls \<or> no_key m \<longrightarrow> no_key m')"
  using assms
proof (induction ls arbitrary: m)
  case (Cons l ls)
  have u: "unat (of_nat l :: u16) = l"
    using Cons.prems(2) by (simp add: unsigned_of_nat take_bit_nat_eq_self)
  then have l: "unat (of_nat l :: u16) < 32768" "of_nat l = TKB_LOC \<longleftrightarrow> l = 8002"
    using Cons.prems(2) by auto
  obtain w m1 where 1: "direct_read_word (handler_run (Suc n)) (of_nat l) m = Inr (w, m1)"
    "effects disk_tables m1" "l = 8002 \<or> no_key m \<longrightarrow> no_key m1"
    using dump_read [OF Cons.prems(1) l(1), of n] l(2) by auto
  obtain v m2 where 2: "direct_read_word (handler_run (Suc n)) (of_nat l) m1 = Inr (v, m2)"
    "effects disk_tables m2" "l = 8002 \<or> no_key m1 \<longrightarrow> no_key m2"
    using dump_read [OF 1(2) l(1), of n] l(2) by auto
  from Cons.IH [OF 2(2)] Cons.prems(2) obtain m3 where
    "dump_reads (handler_run (Suc n)) ls m2 = Inr m3" "effects disk_tables m3"
    "8002 \<in> set ls \<or> no_key m2 \<longrightarrow> no_key m3"
    by auto
  with 1 2 show ?case by auto
qed simp

lemma dump_locs_range: "\<forall>l \<in> set dump_locs. l < 32768" "8002 \<in> set dump_locs"
proof -
  show "\<forall>l \<in> set dump_locs. l < 32768" by (auto simp: dump_locs_def)
  have "8002 \<in> set (map (\<lambda>c. 32 * 250 + 2 * c) [0..<16])"
    unfolding set_map by (rule image_eqI [of _ _ 1]) simp_all
  then show "8002 \<in> set dump_locs"
    unfolding dump_locs_def set_concat
    by (rule UN_I [rotated], unfold set_map, intro image_eqI [of _ _ 250]) simp_all
qed

text \<open>
  Single-stepping takes the keyboard away: the dump of the memory before each
  instruction reads the keyboard's buffer, and the side effect of that read empties the buffer
  and the status. It never fails, and after it no key is there for the instruction to read.
\<close>

theorem single_step_loses_key:
  assumes "effects disk_tables (a_memory M)" and "a_step M"
  shows "\<exists>M'. a_pause (handler_run (Suc n)) (M, inp) = Inr (M', tl inp) \<and>
    word_at TKB_LOC (a_memory M') = 0 \<and> word_at TKS_LOC (a_memory M') = 0"
proof -
  obtain m where "dump_reads (handler_run (Suc n)) dump_locs (a_memory M) = Inr m" "no_key m"
    using dump_empties [OF assms(1) dump_locs_range(1), of n] dump_locs_range(2) by auto
  moreover have "snd (fgetc_stdin inp) = tl inp"
    by (simp add: fgetc_stdin_def split: list.split)
  ultimately show ?thesis
    using assms(2) by (auto simp: a_pause_def a_dump_state_def no_key_def)
qed

section \<open>Witnesses\<close>

text \<open>A memory with the installed tables in which one byte is not zero.\<close>

definition tty_memory :: "u16 \<Rightarrow> u8 \<Rightarrow> u16 \<Rightarrow> u8 \<Rightarrow> amem" where
  "tty_memory l b k c = \<lparr>a_dest = 0, a_src = 0, a_bytes = (\<lambda>_. 0)(unat l := b, unat k := c),
     read_side_effects = fst disk_tables, write_side_effects = snd disk_tables, bus_shutdown = False\<rparr>"

lemma tty_memory_effects: "effects disk_tables (tty_memory l b k c)"
  using tables_installed by (simp add: effects_def tty_memory_def)

theorem printed_once_witness:
  "\<exists>m'. exec_tty_print (handler_run 1) (tty_memory TPS_LOC 0x80 TPB_LOC 65, []) = Inr (m', [65]) \<and>
     word_at TPB_LOC m' = 0"
  using printed_once [OF tty_memory_effects [of TPS_LOC 128 TPB_LOC 65] _ refl, where n = 0 and out = "[]"]
  by (auto simp: word_at_def tty_memory_def le_word_def simp del: handler_run.simps)

theorem key_delivered_once_witness:
  "\<exists>m' m''. exec_tty_kb (handler_run 1) (tty_memory TKS_LOC 1 TKB_LOC 0, [65, 66]) = Inr (m', [66]) \<and>
     direct_read_word (handler_run 1) TKB_LOC m' = Inr (65, m'')"
  using key_delivered_once [OF tty_memory_effects [of TKS_LOC 1 TKB_LOC 0], where n = 0 and inp = "[65, 66]"]
  by (auto simp: word_at_def tty_memory_def le_word_def simp del: handler_run.simps)

theorem single_step_loses_key_witness:
  "\<exists>M'. a_pause (handler_run 1)
     (\<lparr>a_alu = 0, a_ir = 0, a_halted = False, a_step = True,
       a_memory = tty_memory TKS_LOC 0x80 TKB_LOC 65\<rparr>, [10]) = Inr (M', []) \<and>
     word_at TKB_LOC (a_memory M') = 0"
  using single_step_loses_key [where M = "\<lparr>a_alu = 0, a_ir = 0, a_halted = False, a_step = True,
       a_memory = tty_memory TKS_LOC 0x80 TKB_LOC 65\<rparr>" and n = 0 and inp = "[10]"] tty_memory_effects
  by (auto simp del: handler_run.simps)

end
