(* ===== verification/Attic_Semantics.thy ===== *)
theory Attic_Semantics
  imports Attic_Safety Cpu_Properties
begin

text \<open>
  The instructions of the former machine with operands in registers, and their agreement with
  the processor that replaced it, \<open>src/src/cpu/cpu.c\<close>.
\<close>

section \<open>Registers as operands\<close>

lemma translate_register_inj:
  "reg_num r \<Longrightarrow> reg_num q \<Longrightarrow> translate_register r = translate_register q \<longleftrightarrow> r = q"
  by (auto simp: reg_num_def translate_register_def)

lemma register_not_ps: "reg_num r \<Longrightarrow> translate_register r \<noteq> translate_register R_PS"
  by (auto simp: reg_num_def translate_register_def)

lemma get_set_register [simp]:
  "reg_num r \<Longrightarrow> reg_num q \<Longrightarrow> get_r r (set_r q v m) = (if r = q then v else get_r r m)"
  by (simp add: get_set_r translate_register_inj)

lemma get_set_ps [simp]:
  "reg_num r \<Longrightarrow> get_r r (set_r R_PS v m) = get_r r m"
  "reg_num r \<Longrightarrow> get_r R_PS (set_r r v m) = get_r R_PS m"
  "get_r R_PS (set_r R_PS v m) = v"
  using register_not_ps [of r] by (simp_all add: get_set_r eq_commute)

lemma put_frame [simp, frame]:
  "get_r r (put_dest l m) = get_r r m" "get_r r (put_src l m) = get_r r m"
  "a_dest (put_dest l m) = l" "a_src (put_dest l m) = a_src m"
  "a_src (put_src l m) = l" "a_dest (put_src l m) = a_dest m"
  by (simp_all add: put_dest_def put_src_def)

lemma register_dest: "dest_mode iw = 0 \<Longrightarrow>
    a_setup_dest_addressing rn iw m = Inr (put_dest (translate_register (dest_reg iw)) m)"
  by (simp add: a_setup_dest_addressing_def a_setup_pc_dest_addressing_def a_pc_addressing_def
      a_setup_sp_dest_addressing_def a_setup_general_dest_addressing_def)

text \<open>The program counter as a source register is mistaken for the destination register.\<close>

lemma register_src: "src_mode iw = 0 \<Longrightarrow>
    a_setup_src_addressing rn iw m =
      Inr (put_src (translate_register (if src_reg iw = 7 then dest_reg iw else src_reg iw)) m)"
  by (simp add: a_setup_src_addressing_def a_setup_pc_src_addressing_def a_pc_addressing_def
      a_setup_sp_src_addressing_def a_setup_general_src_addressing_def)

text \<open>The flags Z and N are set in the status word alone, and leave its other bits.\<close>

definition a_carry :: "amem \<Rightarrow> bool" where
  "a_carry m = bit (get_r R_PS m) 0"

lemma flags_registers [simp, frame]:
  assumes "reg_num r"
  shows "get_r r (a_set_zero_flag v m) = get_r r m"
    and "get_r r (a_set_negative_flag_w v m) = get_r r m"
    and "get_r r (a_set_negative_flag_b b m) = get_r r m"
  using assms
  by (simp_all add: a_set_zero_flag_def a_set_negative_flag_w_def a_set_negative_flag_b_def Let_def)

lemma carry_frame [simp, frame]:
  "a_carry (a_set_zero_flag v m) = a_carry m" "a_carry (a_set_negative_flag_w v m) = a_carry m"
  "a_carry (put_dest l m) = a_carry m" "a_carry (put_src l m) = a_carry m"
  "reg_num r \<Longrightarrow> a_carry (set_r r v m) = a_carry m"
  by (simp_all add: a_carry_def a_set_zero_flag_def a_set_negative_flag_w_def Let_def bit_simps)

text \<open>What an instruction does to the registers, as a relation.\<close>

definition writes_register :: "amachine \<Rightarrow> u16 \<Rightarrow> u16 \<Rightarrow> amachine \<Rightarrow> bool" where
  "writes_register M q v M' \<longleftrightarrow> a_ir M' = a_ir M \<and> a_carry (a_memory M') = a_carry (a_memory M) \<and>
     (\<forall>r. reg_num r \<longrightarrow> get_r r (a_memory M') = (if r = q then v else get_r r (a_memory M)))"

lemmas register_simps =
  word_addresses_def dest_word_def register_dest register_src access_alt write_alt
  direct_read_register direct_write_register Let_def

text \<open>The value a two-operand instruction computes: as in \<open>alu2\<close>, but \<open>SUB\<close> has the operands in order.\<close>

definition a_alu2 :: "opcode \<Rightarrow> u16 \<Rightarrow> u16 \<Rightarrow> u16" where
  "a_alu2 c s d = (if c = SUB_op then d - s else alu2 c s d)"

lemma attic_double:
  assumes "c \<in> set word_double_ops" and "effects T (a_memory M)"
    and "src_mode (a_ir M) = 0" and "dest_mode (a_ir M) = 0"
    and "s = get_r (if src_reg (a_ir M) = 7 then dest_reg (a_ir M) else src_reg (a_ir M)) (a_memory M)"
    and "d = get_r (dest_reg (a_ir M)) (a_memory M)"
  shows "\<exists>M'. A_exec_op c rn M = Inr M' \<and>
    writes_register M (dest_reg (a_ir M)) (if writes_dest c then a_alu2 c s d else d) M'"
  using assms(1) unfolding word_double_ops_def list.set insert_iff empty_iff
  by (elim disjE)
    (use assms(2-6) in \<open>auto simp: A_MOV_def A_CMP_def A_BIT_def A_BIC_def A_BIS_def A_ADD_def
      A_SUB_def register_simps writes_register_def a_alu2_def alu2_def writes_dest_def
      add.commute\<close>)

lemmas a_single_alt =
  A_SWAB_def [unfolded swap_bytes] A_ROR_def [unfolded rotate_left] A_ROL_def [unfolded rotate_right]
  A_NEG_def [unfolded negate] A_COM_def [unfolded not_eq_complement] A_ASR_def [unfolded halve]
  A_ADC_def [unfolded carry_bit] A_SBC_def [unfolded carry_bit]
  A_CLR_def A_INC_def A_DEC_def A_TST_def A_ASL_def

lemma attic_single:
  assumes "c \<in> set word_single_ops" and "effects T (a_memory M)" and "dest_mode (a_ir M) = 0"
    and "d = get_r (dest_reg (a_ir M)) (a_memory M)" and "cy = a_carry (a_memory M)"
  shows "\<exists>M'. A_exec_op c rn M = Inr M' \<and>
    writes_register M (dest_reg (a_ir M)) (if writes_dest c then alu1 c cy d else d) M'"
  using assms(1) unfolding word_single_ops_def list.set insert_iff empty_iff
  by (elim disjE)
    (use assms(2-) in \<open>auto simp: a_single_alt register_simps writes_register_def alu1_def
      writes_dest_def a_carry_def [symmetric] mult.commute\<close>)

section \<open>Agreement of the two machines\<close>

lemma status_frame [simp, frame]:
  "ir (set_zero_flag v m) = ir m" "ir (set_negative_flag_w v m) = ir m"
  "C_flag (set_zero_flag v m) = C_flag m" "C_flag (set_negative_flag_w v m) = C_flag m"
  by (auto simp: set_zero_flag_def set_negative_flag_w_def C_flag_def bit_simps)

lemma write_register_status [simp, frame]:
  assumes "reg_num r"
  shows "ir (write_register r v m) = ir m" "C_flag (write_register r v m) = C_flag m"
  using assms by (auto simp: reg_num_def write_register_def register_ref_def C_flag_def)

lemma C_flag_frame [simp, frame]:
  "C_flag (m\<lparr>alu := v\<rparr>) = C_flag m" "C_flag (m\<lparr>src_address := a\<rparr>) = C_flag m"
  "C_flag (m\<lparr>dest_address := a\<rparr>) = C_flag m"
  by (simp_all add: C_flag_def)

lemma cpu_double_keeps:
  assumes "c \<in> set word_double_ops" and "src_mode (ir m) = 0" and "dest_mode (ir m) = 0"
    and "exec_op B c m = Inr m'"
  shows "ir m' = ir m \<and> C_flag m' = C_flag m"
  using assms(1,4) unfolding word_double_ops_def list.set insert_iff empty_iff
  by (elim disjE)
    (use assms(2,3) in \<open>auto simp: MOV_def CMP_def BIT_def BIC_def BIS_def ADD_def SUB_def Let_def
       src_register_mode dest_register_mode fetch_register store_register\<close>)

lemma cpu_single_keeps:
  assumes "c \<in> set word_single_ops" and "dest_mode (ir m) = 0" and "exec_op B c m = Inr m'"
  shows "ir m' = ir m \<and> C_flag m' = C_flag m"
  using assms(1,3) unfolding word_single_ops_def list.set insert_iff empty_iff
  by (elim disjE)
    (use assms(2) in \<open>auto simp: single_alt Let_def dest_register_mode fetch_register
       store_register\<close>)

text \<open>
  The two machines agree: the same instruction word, the same registers R0 to PC, the same carry.
\<close>

definition agree :: "amachine \<Rightarrow> 'b machine \<Rightarrow> bool" where
  "agree M m \<longleftrightarrow> a_ir M = ir m \<and> a_carry (a_memory M) = C_flag m \<and>
     (\<forall>r. reg_num r \<longrightarrow> get_r r (a_memory M) = fetch_register_contents r m)"

text \<open>They agree but for one register, which holds \<open>v\<close> in the one and \<open>w\<close> in the other.\<close>

definition agree_but :: "u16 \<Rightarrow> u16 \<Rightarrow> u16 \<Rightarrow> amachine \<Rightarrow> 'b machine \<Rightarrow> bool" where
  "agree_but q v w M m \<longleftrightarrow> a_ir M = ir m \<and> a_carry (a_memory M) = C_flag m \<and>
     get_r q (a_memory M) = v \<and> fetch_register_contents q m = w \<and>
     (\<forall>r. reg_num r \<and> r \<noteq> q \<longrightarrow> get_r r (a_memory M) = fetch_register_contents r m)"

lemma agree_but_same: "agree_but q v v M m \<Longrightarrow> agree M m"
  by (auto simp: agree_but_def agree_def)

lemma agree_step:
  assumes "agree M m" and "writes_register M q v M'" and "ir m' = ir m" and "C_flag m' = C_flag m"
    and "\<forall>r. reg_num r \<longrightarrow> fetch_register_contents r m' =
      (if r = q \<and> b then w else fetch_register_contents r m)"
    and "reg_num q"
  shows "agree_but q v (if b then w else fetch_register_contents q m) M' m'"
  using assms by (auto simp: agree_def agree_but_def writes_register_def)

lemma agree_double:
  assumes "agree M m" and "effects T (a_memory M)" and c: "c \<in> set word_double_ops"
    and "src_mode (ir m) = 0" and "dest_mode (ir m) = 0"
    and q: "q = dest_reg (ir m)" and d: "d = fetch_register_contents q m"
  shows "\<exists>M' m'. A_exec_op c rn M = Inr M' \<and> exec_op B c m = Inr m' \<and>
    agree_but q
      (if writes_dest c
       then a_alu2 c (if src_reg (ir m) = 7 then d else fetch_register_contents (src_reg (ir m)) m) d else d)
      (if writes_dest c then alu2 c (fetch_register_contents (src_reg (ir m)) m) d else d) M' m'"
proof -
  let ?s = "fetch_register_contents (src_reg (ir m)) m"
  from assms(1) have M: "a_ir M = ir m" "get_r (src_reg (ir m)) (a_memory M) = ?s"
    "get_r q (a_memory M) = d"
    by (auto simp: agree_def q d)
  have src: "(if src_reg (ir m) = 7 then d else ?s) =
      get_r (if src_reg (a_ir M) = 7 then dest_reg (a_ir M) else src_reg (a_ir M)) (a_memory M)"
    using M by (simp add: q)
  obtain M' where M': "A_exec_op c rn M = Inr M'"
    "writes_register M q (if writes_dest c then a_alu2 c (if src_reg (ir m) = 7 then d else ?s) d else d) M'"
    using attic_double [OF c assms(2) _ _ src, of d rn] assms(4,5) M(1,3) unfolding q by auto
  obtain m' where m': "exec_op B c m = Inr m'"
    "\<forall>r. reg_num r \<longrightarrow> fetch_register_contents r m' =
      (if r = q \<and> writes_dest c then alu2 c ?s d else fetch_register_contents r m)"
    using double_register [OF c assms(4,5) refl, of B] unfolding q d by blast
  have "reg_num q" by (simp add: q)
  with agree_step [OF assms(1) M'(2) _ _ m'(2)] cpu_double_keeps [OF c assms(4,5) m'(1)] M'(1) m'(1)
  show ?thesis by (auto simp: d)
qed

lemma agree_single:
  assumes "agree M m" and "effects T (a_memory M)" and c: "c \<in> set word_single_ops"
    and "dest_mode (ir m) = 0"
  shows "\<exists>M' m'. A_exec_op c rn M = Inr M' \<and> exec_op B c m = Inr m' \<and> agree M' m'"
proof -
  let ?q = "dest_reg (ir m)"
  let ?d = "fetch_register_contents ?q m"
  from assms(1) have M: "a_ir M = ir m" "get_r ?q (a_memory M) = ?d"
    "a_carry (a_memory M) = C_flag m"
    by (auto simp: agree_def)
  obtain M' where M': "A_exec_op c rn M = Inr M'"
    "writes_register M ?q (if writes_dest c then alu1 c (C_flag m) ?d else ?d) M'"
    using attic_single [OF c assms(2), of ?d "C_flag m" rn] assms(4) M by auto
  obtain m' where m': "exec_op B c m = Inr m'"
    "\<forall>r. reg_num r \<longrightarrow> fetch_register_contents r m' =
      (if r = ?q \<and> writes_dest c then alu1 c (C_flag m) ?d else fetch_register_contents r m)"
    using single_register [OF c assms(4) refl, of B] by blast
  have "reg_num ?q" by simp
  with agree_step [OF assms(1) M'(2) _ _ m'(2)] cpu_single_keeps [OF c assms(4) m'(1)]
  have "agree M' m'" by (auto dest: agree_but_same)
  with M'(1) m'(1) show ?thesis by blast
qed


section \<open>Branches\<close>

lemma double_offset:
  "scast (2 * o1 :: 8 word) = (2 * scast o1 :: u16) \<longleftrightarrow> - 64 \<le> sint o1 \<and> sint o1 < 64"
proof -
  have range: "- 128 \<le> sint w \<and> sint w < 128" for w :: "8 word"
    using sint_greater_eq [of w] sint_less [of w] by simp
  have "scast (2 * o1) = (word_of_int (sint (2 * o1)) :: u16)"
    "2 * scast o1 = (word_of_int (2 * sint o1) :: u16)"
    by (simp_all add: of_int_sint)
  then have "scast (2 * o1) = (2 * scast o1 :: u16) \<longleftrightarrow>
      (word_of_int (sint (2 * o1)) :: u16) = word_of_int (2 * sint o1)"
    by simp
  also have "\<dots> \<longleftrightarrow> signed_take_bit 15 (sint (2 * o1)) = signed_take_bit 15 (2 * sint o1)"
    by (simp only: word_of_int_eq_iff signed_take_bit_eq_iff_take_bit_eq) simp
  also have "\<dots> \<longleftrightarrow> sint (2 * o1) = 2 * sint o1"
    using range [of o1] range [of "2 * o1"] by (simp add: signed_take_bit_int_eq_self)
  also have "\<dots> \<longleftrightarrow> signed_take_bit 7 (2 * sint o1) = 2 * sint o1"
    using sint_word_ariths(3) [of 2 o1] by simp
  also have "\<dots> \<longleftrightarrow> - 64 \<le> sint o1 \<and> sint o1 < 64"
    by (simp add: signed_take_bit_int_eq_self_iff)
  finally show ?thesis .
qed

text \<open>The conditions of the branches, on the status word in the memory.\<close>

lemma attic_branch:
  assumes "c \<in> set branch_ops" and "get_r R_PC (a_memory M) = pc m"
    and "get_r R_PS (a_memory M) = psw m" and "a_ir M = ir m"
  shows "\<exists>M'. A_exec_op c rn M = Inr M' \<and> get_r R_PC (a_memory M') =
    (if branch_taken c m
     then pc m + (if c = BNE_op then scast (2 * get_branch_offset m) else 2 * scast (get_branch_offset m))
     else pc m)"
  using assms unfolding branch_ops_def
  by simp (elim disjE; simp add: branch_defs Let_def flag_defs and_flag get_branch_offset_def
      a_branch_defs a_branch_def a_get_branch_offset_def)

text \<open>
  Property C28. From the same program counter, status and instruction word the branches of the
  two processors go to the same place, with one exception: the old \<open>BNE\<close> doubles its offset in
  8 bits, so that a taken \<open>BNE\<close> goes elsewhere exactly for the offsets below -64 or above 63.
\<close>

theorem branches_agree:
  assumes "decode (ir m) = Some c" and "c \<in> set branch_ops" and "a_ir M = ir m"
    and "get_r R_PC (a_memory M) = pc m" and "get_r R_PS (a_memory M) = psw m"
  shows "\<exists>M' m'. A_exec_instruction rn M = Inr M' \<and> exec_instruction B m = Inr m' \<and>
    (get_r R_PC (a_memory M') \<noteq> pc m' \<longleftrightarrow>
       c = BNE_op \<and> \<not> Z_flag m \<and>
       (sint (get_branch_offset m) < - 64 \<or> 63 < sint (get_branch_offset m)))"
proof -
  let ?o = "get_branch_offset m"
  from attic_branch [OF assms(2,4,5,3), of rn] obtain M' where M': "A_exec_op c rn M = Inr M'"
    "get_r R_PC (a_memory M') = (if branch_taken c m
       then pc m + (if c = BNE_op then scast (2 * ?o) else 2 * scast ?o) else pc m)"
    by blast
  from branch_step [OF assms(2), of B m] obtain m' where m': "exec_op B c m = Inr m'"
    "pc m' = (if branch_taken c m then pc m + 2 * scast ?o else pc m)"
    by blast
  have "get_r R_PC (a_memory M') \<noteq> pc m' \<longleftrightarrow>
      c = BNE_op \<and> \<not> Z_flag m \<and> (sint ?o < - 64 \<or> 63 < sint ?o)"
    using double_offset [of ?o] by (auto simp: M'(2) m'(2))
  with M'(1) m'(1) show ?thesis
    using assms(1,3) by (auto simp: A_exec_instruction_def exec_instruction_def)
qed

text \<open>A memory with the given words in the registers R0, R1 and PC and in the status.\<close>

definition sample :: "u16 \<Rightarrow> u16 \<Rightarrow> u16 \<Rightarrow> amachine" where
  "sample w v p =
     \<lparr>a_alu = 0, a_ir = w, a_halted = False, a_step = False, a_memory =
        set_r 0 v (set_r R_PC p \<lparr>a_dest = 0, a_src = 0, a_bytes = (\<lambda>_. 0),
          read_side_effects = fst disk_tables, write_side_effects = snd disk_tables,
          bus_shutdown = False\<rparr>)\<rparr>"

lemma sample_fields:
  "a_ir (sample w v p) = w" "effects disk_tables (a_memory (sample w v p))"
  "get_r R_PS (a_memory (sample w v p)) = 0" "get_r R_PC (a_memory (sample w v p)) = p"
  "reg_num r \<Longrightarrow> get_r r (a_memory (sample w v p)) = (if r = 0 then v else if r = 7 then p else 0)"
proof -
  have z: "get_r r \<lparr>a_dest = 0, a_src = 0, a_bytes = (\<lambda>_. 0), read_side_effects = fst disk_tables,
      write_side_effects = snd disk_tables, bus_shutdown = False\<rparr> = 0" for r
    by (simp add: get_r_def Let_def le_word_def)
  show "a_ir (sample w v p) = w" "effects disk_tables (a_memory (sample w v p))"
    "get_r R_PS (a_memory (sample w v p)) = 0" "get_r R_PC (a_memory (sample w v p)) = p"
    "reg_num r \<Longrightarrow> get_r r (a_memory (sample w v p)) = (if r = 0 then v else if r = 7 then p else 0)"
    using tables_installed by (simp_all add: sample_def effects_def z)
qed

definition cpu_sample :: "u16 \<Rightarrow> u16 \<Rightarrow> u16 \<Rightarrow> mem_dev machine" where
  "cpu_sample w v p = (init_cpu (program_mem []))\<lparr>ir := w, r0 := v, pc := p\<rparr>"

theorem branches_agree_witness:
  "\<exists>M' m'. A_exec_instruction (handler_run 1) (sample 0x0240 0 0x100) = Inr M' \<and>
     exec_instruction mem_bus (cpu_sample 0x0240 0 0x100) = Inr m' \<and>
     get_r R_PC (a_memory M') \<noteq> pc m'"
proof -
  have "sint (0x40 :: 8 word) = 64" by simp
  then show ?thesis
    using branches_agree [where M = "sample 0x0240 0 0x100" and m = "cpu_sample 0x0240 0 0x100"
        and c = BNE_op and B = mem_bus and rn = "handler_run 1"]
    by (auto simp: decode_eval sample_fields cpu_sample_def init_cpu_def flag_defs
        get_branch_offset_def branch_ops_def)
qed


end
