(* ===== verification/Attic_Disk.thy ===== *)
theory Attic_Disk
  imports Attic_Mem Disk
begin

text \<open>
  The disk of the former machine, \<open>src/attic/src/disk.c\<close>: a thread that polls its registers in
  the memory. One round of \<open>exec_disk\<close> is a step; the files are lists of bytes, as in theory
  \<open>Disk\<close>.
\<close>

abbreviation (input) RXCS_GO :: u16 where "RXCS_GO \<equiv> 0x01"
abbreviation (input) RXCS_FS :: u16 where "RXCS_FS \<equiv> 0x0E"
abbreviation (input) RXCS_DONE :: u16 where "RXCS_DONE \<equiv> 0x20"

datatype adisk_func = F_FILL_BUFFER | F_EMPTY_BUFFER | F_WRITE_SECTOR | F_READ_SECTOR
  | F_NOT_USED | F_READ_STATUS | F_WRITE_DEL | F_READ_ERR | F_IDLE

datatype adisk_mode = S_BEGIN | S_SECTOR | S_TRACK | S_FILL | S_EMPTY | S_WRITE | S_READ | S_DONE

text \<open>\<open>disk_drive\<close> is \<open>None\<close> for the null pointer, and the content of the file otherwise.\<close>

record adisk =
  ad_buffer :: "u8 list"
  ad_index :: u8
  ad_track :: u8
  ad_sector :: u8
  current_func :: adisk_func
  ad_state :: adisk_mode
  disk_drive :: "u8 list option"

text \<open>The file of the image, if it can be opened.\<close>

definition new_disk :: "u8 list option \<Rightarrow> adisk" where
  "new_disk img =
     \<lparr>ad_buffer = replicate 128 0, ad_index = 0, ad_track = 0, ad_sector = 0,
      current_func = F_IDLE, ad_state = S_BEGIN, disk_drive = img\<rparr>"

text \<open>\<open>buffer[index] = v\<close>.\<close>

definition ad_put :: "u8 \<Rightarrow> adisk \<Rightarrow> adisk res" where
  "ad_put v d =
     (if unat (ad_index d) < length (ad_buffer d)
      then Inr (d\<lparr>ad_buffer := (ad_buffer d)[unat (ad_index d) := v]\<rparr>)
      else Inl (Out_Of_Bounds (uint (ad_index d))))"

definition a_fill_buffer :: "effect_run \<Rightarrow> adisk \<Rightarrow> amem \<Rightarrow> (adisk \<times> amem) res" where
  "a_fill_buffer run d m =
     rbind (direct_read_word run RXCS m) (\<lambda>(flags, m).
     if ad_index d = 128
     then Inr (d\<lparr>ad_index := 0, ad_state := S_DONE, current_func := F_IDLE\<rparr>, m)
     else if flags AND RXCS_XFER \<noteq> RXCS_XFER
     then
       rbind (direct_write_word_OR RXCS flags m) (\<lambda>m.
       rbind (direct_read_byte_n RXDB m) (\<lambda>data.
       rbind (ad_put data d) (\<lambda>d.
       let d = d\<lparr>ad_index := ad_index d + 1\<rparr>
       in rbind (direct_write_word_OR RXCS
                   (if ad_index d \<noteq> 128 then flags XOR RXCS_XFER else flags XOR RXCS_DONE) m) (\<lambda>m.
          Inr (d, m)))))
     else Inr (d, m))"

text \<open>\<open>empty_buffer\<close> stores the index, not the byte at the index.\<close>

definition a_empty_buffer :: "effect_run \<Rightarrow> adisk \<Rightarrow> amem \<Rightarrow> (adisk \<times> amem) res" where
  "a_empty_buffer run d m =
     rbind (direct_read_word run RXCS m) (\<lambda>(flags, m).
     if ad_index d = 128
     then Inr (d\<lparr>ad_index := 0, ad_state := S_DONE, current_func := F_IDLE\<rparr>, m)
     else if flags AND RXCS_XFER \<noteq> RXCS_XFER
     then
       rbind (direct_write_word_OR RXCS flags m) (\<lambda>m.
       rbind (direct_write_byte_n RXDB (ad_index d) m) (\<lambda>m.
       let d = d\<lparr>ad_index := ad_index d + 1\<rparr>
       in rbind (direct_write_word_OR RXCS
                   (if ad_index d \<noteq> 128 then flags XOR RXCS_XFER else flags XOR RXCS_DONE) m) (\<lambda>m.
          Inr (d, m))))
     else Inr (d, m))"

definition ad_offset :: "adisk \<Rightarrow> nat" where
  "ad_offset d = 3328 * unat (ad_track d) + 128 * unat (ad_sector d)"

definition a_write_sector :: "effect_run \<Rightarrow> adisk \<Rightarrow> amem \<Rightarrow> (adisk \<times> amem) res" where
  "a_write_sector run d m =
     rbind (direct_read_word run RXCS m) (\<lambda>(flags, m).
     let free = (flags AND RXCS_XFER \<noteq> RXCS_XFER)
     in if ad_state d = S_SECTOR \<and> free
        then
          rbind (direct_read_byte_n RXDB m) (\<lambda>b.
          rbind (direct_write_word_OR RXCS (flags XOR RXCS_XFER) m) (\<lambda>m.
          Inr (d\<lparr>ad_sector := b, ad_state := S_TRACK\<rparr>, m)))
        else if ad_state d = S_TRACK \<and> free
        then rbind (direct_read_byte_n RXDB m) (\<lambda>b. Inr (d\<lparr>ad_track := b, ad_state := S_WRITE\<rparr>, m))
        else if ad_state d = S_WRITE
        then
          Inr (d\<lparr>disk_drive := map_option (media_write (ad_buffer d) (ad_offset d)) (disk_drive d),
                 ad_state := S_DONE, current_func := F_IDLE, ad_sector := 0, ad_track := 0\<rparr>, m)
        else Inr (d, m))"

definition a_read_sector :: "effect_run \<Rightarrow> adisk \<Rightarrow> amem \<Rightarrow> (adisk \<times> amem) res" where
  "a_read_sector run d m =
     rbind (direct_read_word run RXCS m) (\<lambda>(flags, m).
     let free = (flags AND RXCS_XFER \<noteq> RXCS_XFER)
     in if ad_state d = S_SECTOR \<and> free
        then
          rbind (direct_read_byte_n RXDB m) (\<lambda>b.
          rbind (direct_write_word_OR RXCS (flags XOR RXCS_XFER) m) (\<lambda>m.
          Inr (d\<lparr>ad_sector := b, ad_state := S_TRACK\<rparr>, m)))
        else if ad_state d = S_TRACK \<and> free
        then rbind (direct_read_byte_n RXDB m) (\<lambda>b. Inr (d\<lparr>ad_track := b, ad_state := S_READ\<rparr>, m))
        else if ad_state d = S_READ
        then
          (let d = (case disk_drive d of
                      None \<Rightarrow> d
                    | Some f \<Rightarrow>
                        (let bs = media_read 128 (ad_offset d) f
                         in d\<lparr>ad_buffer := bs @ drop (length bs) (ad_buffer d)\<rparr>))
           in Inr (d\<lparr>ad_state := S_DONE, current_func := F_IDLE, ad_sector := 0, ad_track := 0\<rparr>, m))
        else Inr (d, m))"

text \<open>The switch on the function code, after the register was cleared.\<close>

definition a_disk_command :: "effect_run \<Rightarrow> u16 \<Rightarrow> adisk \<Rightarrow> amem \<Rightarrow> (adisk \<times> amem) res" where
  "a_disk_command run r_rxcs d m =
     rbind (direct_write_word run RXCS 0 m) (\<lambda>m.
     let fn = drop_bit 1 (RXCS_FS AND r_rxcs)
     in if fn = 0
        then rbind (direct_write_word run RXCS RXCS_XFER m) (\<lambda>m.
             Inr (d\<lparr>ad_state := S_FILL, current_func := F_FILL_BUFFER\<rparr>, m))
        else if fn = 1 then Inr (d\<lparr>ad_state := S_EMPTY, current_func := F_EMPTY_BUFFER\<rparr>, m)
        else if fn = 2
        then rbind (direct_write_word run RXCS RXCS_XFER m) (\<lambda>m.
             Inr (d\<lparr>ad_state := S_SECTOR, current_func := F_WRITE_SECTOR\<rparr>, m))
        else if fn = 3
        then rbind (direct_write_word run RXCS RXCS_XFER m) (\<lambda>m.
             Inr (d\<lparr>ad_state := S_SECTOR, current_func := F_READ_SECTOR\<rparr>, m))
        else Inr (d, m))"

definition exec_disk_round :: "effect_run \<Rightarrow> adisk \<Rightarrow> amem \<Rightarrow> (adisk \<times> amem) res" where
  "exec_disk_round run d m =
     rbind (direct_read_word run RXCS m) (\<lambda>(r_rxcs, m).
     if RXCS_GO AND r_rxcs \<noteq> 0 \<and> (ad_state d = S_BEGIN \<or> ad_state d = S_DONE)
     then a_disk_command run r_rxcs d m
     else if ad_state d = S_FILL \<and> current_func d = F_FILL_BUFFER then a_fill_buffer run d m
     else if ad_state d = S_EMPTY \<and> current_func d = F_EMPTY_BUFFER then a_empty_buffer run d m
     else if current_func d = F_READ_SECTOR then a_read_sector run d m
     else if current_func d = F_WRITE_SECTOR then a_write_sector run d m
     else if ad_state d = S_DONE
     then rbind (direct_write_word_OR RXCS (r_rxcs OR RXCS_DONE) m) (\<lambda>m.
          Inr (d\<lparr>ad_state := S_BEGIN\<rparr>, m))
     else Inr (d, m))"

section \<open>What the data of the disk can influence\<close>

text \<open>
  Two states of the disk that differ at most in the data they hold: the bytes of the buffer and
  the content of the image. \<open>adisk_wf\<close> is the invariant of one state.
\<close>

definition adisk_wf :: "adisk \<Rightarrow> bool" where
  "adisk_wf d \<longleftrightarrow> length (ad_buffer d) = 128 \<and> ad_index d \<le> 128"

definition same_control :: "adisk \<Rightarrow> adisk \<Rightarrow> bool" where
  "same_control d d' \<longleftrightarrow> adisk_wf d \<and> adisk_wf d' \<and> ad_index d = ad_index d' \<and>
     ad_track d = ad_track d' \<and> ad_sector d = ad_sector d' \<and>
     current_func d = current_func d' \<and> ad_state d = ad_state d'"

text \<open>One round from two such states: the same failure, or the same memory and two such states.\<close>

definition same_round :: "(adisk \<times> amem) res \<Rightarrow> (adisk \<times> amem) res \<Rightarrow> bool" where
  "same_round = res_rel (\<lambda>(d, m) (d', m'). same_control d d' \<and> m = m')"

lemma same_round_rbind:
  assumes "\<And>x. same_round (f x) (g x)"
  shows "same_round (rbind r f) (rbind r g)"
  using assms by (cases r) (simp_all add: same_round_def)

lemma same_round_Inr [simp]: "same_round (Inr (d, m)) (Inr (d', m')) \<longleftrightarrow> same_control d d' \<and> m = m'"
  by (simp add: same_round_def)

lemma index_step: "(i :: u8) \<le> 128 \<Longrightarrow> i \<noteq> 128 \<Longrightarrow> i + 1 \<le> 128 \<and> unat i < 128"
  by unat_arith

lemma put_same:
  assumes "same_control d d'" and "ad_index d \<noteq> 128"
  shows "\<exists>e e'. ad_put v d = Inr e \<and> ad_put v d' = Inr e' \<and> same_control e e' \<and>
    ad_index e = ad_index d \<and> ad_index e' = ad_index d"
  using assms index_step [of "ad_index d"]
  by (auto simp: ad_put_def same_control_def adisk_wf_def)

lemma same_round_put:
  assumes "same_control d d'" and "ad_index d \<noteq> 128"
    and "\<And>e e'. same_control e e' \<Longrightarrow> ad_index e = ad_index d \<Longrightarrow> ad_index e' = ad_index d \<Longrightarrow>
      same_round (f e) (g e')"
  shows "same_round (rbind (ad_put v d) f) (rbind (ad_put v d') g)"
  using put_same [OF assms(1,2), of v] assms(3) by auto

lemma control_next:
  "same_control d d' \<Longrightarrow> j \<le> 128 \<Longrightarrow> same_control (d\<lparr>ad_index := j\<rparr>) (d'\<lparr>ad_index := j\<rparr>)"
  by (auto simp: same_control_def adisk_wf_def)

lemma index_next: "same_control d d' \<Longrightarrow> ad_index d \<noteq> 128 \<Longrightarrow> ad_index d + 1 \<le> 128"
  using index_step [of "ad_index d"] by (auto simp: same_control_def adisk_wf_def)

lemma control_index: "same_control d d' \<Longrightarrow> ad_index d' = ad_index d"
  by (simp add: same_control_def)

lemma control_reset:
  "same_control d d' \<Longrightarrow> same_control (d\<lparr>ad_index := 0, ad_state := s, current_func := f\<rparr>)
    (d'\<lparr>ad_index := 0, ad_state := s, current_func := f\<rparr>)"
  by (auto simp: same_control_def adisk_wf_def)

lemma fill_same:
  assumes "same_control d d'"
  shows "same_round (a_fill_buffer run d m) (a_fill_buffer run d' m)"
  using assms unfolding a_fill_buffer_def
  by (auto intro!: same_round_rbind same_round_put control_next control_reset simp: Let_def control_index index_next)

lemma empty_same:
  assumes "same_control d d'"
  shows "same_round (a_empty_buffer run d m) (a_empty_buffer run d' m)"
  using assms unfolding a_empty_buffer_def
  by (auto intro!: same_round_rbind control_next control_reset simp: Let_def control_index index_next)

lemma write_same:
  assumes "same_control d d'"
  shows "same_round (a_write_sector run d m) (a_write_sector run d' m)"
  using assms unfolding a_write_sector_def
  by (auto intro!: same_round_rbind simp: Let_def same_control_def adisk_wf_def)

lemma media_read_length: "length (media_read n k f) \<le> n"
  by (simp add: media_read_def)

lemma read_same:
  assumes "same_control d d'"
  shows "same_round (a_read_sector run d m) (a_read_sector run d' m)"
  using assms media_read_length unfolding a_read_sector_def
  by (auto intro!: same_round_rbind simp: Let_def same_control_def adisk_wf_def split: option.split)

lemma command_same:
  assumes "same_control d d'"
  shows "same_round (a_disk_command run r d m) (a_disk_command run r d' m)"
  using assms unfolding a_disk_command_def
  by (auto intro!: same_round_rbind simp: Let_def same_control_def adisk_wf_def)

lemma round_same:
  assumes "same_control d d'"
  shows "same_round (exec_disk_round run d m) (exec_disk_round run d' m)"
proof -
  from assms have e: "ad_state d' = ad_state d" "current_func d' = current_func d"
    by (simp_all add: same_control_def)
  show ?thesis
    unfolding exec_disk_round_def e
    using assms fill_same empty_same write_same read_same command_same
    by (auto intro!: same_round_rbind simp: same_control_def adisk_wf_def)
qed

text \<open>
  The polling thread between the processor's actions: before each round the memory is changed by
  the next function of the list.
\<close>

fun disk_rounds :: "effect_run \<Rightarrow> (amem \<Rightarrow> amem) list \<Rightarrow> adisk \<Rightarrow> amem \<Rightarrow> (adisk \<times> amem) res" where
  "disk_rounds run [] d m = Inr (d, m)"
| "disk_rounds run (f # fs) d m =
     rbind (exec_disk_round run d (f m)) (\<lambda>(d, m). disk_rounds run fs d m)"

lemma rounds_same:
  "same_control d d' \<Longrightarrow> same_round (disk_rounds run fs d m) (disk_rounds run fs d' m)"
proof (induction fs arbitrary: d d' m)
  case (Cons f fs)
  show ?case
    using round_same [OF Cons.prems, of run "f m"] unfolding same_round_def disk_rounds.simps
    by (rule res_rel_rbind) (auto intro!: Cons.IH [unfolded same_round_def])
qed simp

lemma same_round_memory: "same_round r s \<Longrightarrow> map_sum id snd r = map_sum id snd s"
  by (cases r; cases s) (auto simp: same_round_def)

text \<open>
  Property C27. The data of the former disk cannot be read: whatever the processor does to the
  memory between the rounds of the disk thread, the contents of the memory after them are the
  same for every content of the sector buffer and every disk image. (\<open>empty_buffer\<close> hands
  out the index in place of the byte at the index.)
\<close>

theorem disk_data_unobservable:
  assumes "adisk_wf d" and "length buf = 128"
  shows "map_sum id snd (disk_rounds run fs (d\<lparr>ad_buffer := buf, disk_drive := img\<rparr>) m) =
    map_sum id snd (disk_rounds run fs d m)"
  using assms by (intro same_round_memory rounds_same) (simp add: same_control_def adisk_wf_def)

section \<open>Safety\<close>

abbreviation (input) never :: "fault \<Rightarrow> bool" where "never \<equiv> \<lambda>_. False"

lemma rx_accesses [wf_intros]:
  assumes "effects T m"
  shows "res_all never (\<lambda>(w, m). effects T m) (direct_read_word run RXCS m)"
    and "res_all never (effects T) (direct_write_word run RXCS v m)"
    and "res_all never (effects T) (direct_write_word_OR RXCS v m)"
    and "res_all never (\<lambda>_. True) (direct_read_byte_n RXDB m)"
    and "res_all never (effects T) (direct_write_byte_n RXDB b m)"
  using assms
  by (simp_all add: direct_read_quiet direct_write_quiet direct_write_word_OR_def poke_word_def
      peek_word_def peek_def poke_def direct_read_byte_n_def direct_write_byte_n_def)

definition disk_ok :: "effect_tables \<Rightarrow> adisk \<times> amem \<Rightarrow> bool" where
  "disk_ok T s = (case s of (d, m) \<Rightarrow> adisk_wf d \<and> effects T m)"

lemma disk_ok_pair [simp]: "disk_ok T (d, m) \<longleftrightarrow> adisk_wf d \<and> effects T m"
  by (simp add: disk_ok_def)

lemma put_wf:
  assumes "adisk_wf d" and "ad_index d \<noteq> 128"
  shows "res_all never (\<lambda>e. adisk_wf e \<and> ad_index e = ad_index d) (ad_put v d)"
  using assms index_step [of "ad_index d"] by (auto simp: ad_put_def adisk_wf_def)

lemma wf_fields [simp]:
  "adisk_wf (d\<lparr>ad_state := s\<rparr>) = adisk_wf d" "adisk_wf (d\<lparr>current_func := f\<rparr>) = adisk_wf d"
  "adisk_wf (d\<lparr>ad_track := b\<rparr>) = adisk_wf d" "adisk_wf (d\<lparr>ad_sector := b\<rparr>) = adisk_wf d"
  "adisk_wf (d\<lparr>disk_drive := img\<rparr>) = adisk_wf d"
  by (simp_all add: adisk_wf_def)

lemma wf_index: "adisk_wf d \<Longrightarrow> j \<le> 128 \<Longrightarrow> adisk_wf (d\<lparr>ad_index := j\<rparr>)"
  by (simp add: adisk_wf_def)

lemma wf_next: "adisk_wf d \<Longrightarrow> ad_index d \<noteq> 128 \<Longrightarrow> ad_index d + 1 \<le> 128"
  using index_step [of "ad_index d"] by (simp add: adisk_wf_def)

lemma wf_read:
  "adisk_wf d \<Longrightarrow> bs = media_read 128 k f \<Longrightarrow> adisk_wf (d\<lparr>ad_buffer := bs @ drop (length bs) (ad_buffer d)\<rparr>)"
  using media_read_length [of 128 k f] by (simp add: adisk_wf_def)

lemma transfers_all:
  assumes "adisk_wf d" and "effects T m"
  shows "res_all never (disk_ok T) (a_fill_buffer run d m)"
    and "res_all never (disk_ok T) (a_empty_buffer run d m)"
    and "res_all never (disk_ok T) (a_write_sector run d m)"
    and "res_all never (disk_ok T) (a_read_sector run d m)"
    and "res_all never (disk_ok T) (a_disk_command run r d m)"
  using assms
  unfolding a_fill_buffer_def a_empty_buffer_def a_write_sector_def a_read_sector_def
    a_disk_command_def Let_def
  by (auto intro!: res_all_rbind2 [where P = "\<lambda>_. effects T"] res_all_rbind [where P = "effects T"]
      res_all_rbind [where P = "\<lambda>_ :: u8. True"]
      res_all_rbind [where P = "\<lambda>e. adisk_wf e \<and> ad_index e = ad_index d"]
      rx_accesses put_wf wf_index wf_next wf_read split: option.split)

lemma round_all:
  assumes "adisk_wf d" and "effects T m"
  shows "res_all never (disk_ok T) (exec_disk_round run d m)"
  using assms unfolding exec_disk_round_def
  by (auto intro!: res_all_rbind2 [where P = "\<lambda>_. effects T"] res_all_rbind [where P = "effects T"]
      rx_accesses transfers_all)

text \<open>
  Property C26. The former disk thread is safe: from its start, with any image or none, and
  between any actions of the processor that leave the side effects alone, no round ever fails;
  its buffer keeps 128 bytes and its index never exceeds 128.
\<close>

theorem attic_disk_safe:
  assumes "\<And>f m. f \<in> set fs \<Longrightarrow> effects T m \<Longrightarrow> effects T (f m)" and "effects T m"
  shows "\<exists>d m'. disk_rounds run fs (new_disk img) m = Inr (d, m') \<and>
    length (ad_buffer d) = 128 \<and> ad_index d \<le> 128 \<and> effects T m'"
proof -
  have "res_all never (disk_ok T) (disk_rounds run fs d m)" if "adisk_wf d" "effects T m" for d m
    using that assms(1)
  proof (induction fs arbitrary: d m)
    case (Cons f fs)
    then have "res_all never (disk_ok T) (exec_disk_round run d (f m))"
      by (intro round_all) auto
    then show ?case
      unfolding disk_rounds.simps
      by (rule res_all_rbind) (use Cons in \<open>auto simp: disk_ok_def\<close>)
  qed simp
  from this [of "new_disk img" m] assms(2) show ?thesis
    by (cases "disk_rounds run fs (new_disk img) m") (auto simp: new_disk_def adisk_wf_def)
qed

text \<open>The processor starts the function \<open>fill buffer\<close>, and waits.\<close>

definition empty_tables :: "effect_tables" where
  "empty_tables = (replicate MAX_HANDLERS no_effect, replicate MAX_HANDLERS no_effect)"

theorem attic_disk_safe_witness:
  "\<exists>d m'. disk_rounds (handler_run 1) [\<lambda>m. m\<lparr>a_bytes := (a_bytes m)(unat RXCS := 1)\<rparr>, id]
     (new_disk None) \<lparr>a_dest = 0, a_src = 0, a_bytes = (\<lambda>_. 0), read_side_effects = fst empty_tables,
        write_side_effects = snd empty_tables, bus_shutdown = False\<rparr> = Inr (d, m') \<and>
     effects empty_tables m'"
proof -
  let ?m = "\<lparr>a_dest = 0, a_src = 0, a_bytes = (\<lambda>_. 0), read_side_effects = fst empty_tables,
    write_side_effects = snd empty_tables, bus_shutdown = False\<rparr>"
  let ?fs = "[\<lambda>m. m\<lparr>a_bytes := (a_bytes m)(unat RXCS := 1)\<rparr>, id]"
  have m: "effects empty_tables ?m"
    by (auto simp: effects_def tables_ok_def empty_tables_def no_effect_def)
  have "\<exists>d m'. disk_rounds (handler_run 1) ?fs (new_disk None) ?m = Inr (d, m') \<and>
      length (ad_buffer d) = 128 \<and> ad_index d \<le> 128 \<and> effects empty_tables m'"
    by (rule attic_disk_safe) (use m in auto)
  then show ?thesis by blast
qed

theorem disk_data_unobservable_witness:
  "\<forall>m. map_sum id snd (disk_rounds (handler_run 1) [\<lambda>m. m\<lparr>a_bytes := (a_bytes m)(unat RXCS := 3)\<rparr>, id, id]
     ((new_disk None)\<lparr>ad_buffer := replicate 128 0x55, disk_drive := Some []\<rparr>) m) =
   map_sum id snd (disk_rounds (handler_run 1) [\<lambda>m. m\<lparr>a_bytes := (a_bytes m)(unat RXCS := 3)\<rparr>, id, id]
     (new_disk None) m)"
  by (intro allI disk_data_unobservable) (simp_all add: new_disk_def adisk_wf_def)

end
