(* ===== verification/Obj_File.thy ===== *)
theory Obj_File
  imports Prelude
begin

text \<open>
  Object files as the readers of \<open>src/src/libobj/obj.c\<close> and \<open>src/attic/src/objreader.c\<close> see
  them: an open file with a position and an indicator for its end, and the blocks of the format.
\<close>

section \<open>Files\<close>

text \<open>An open file: its bytes, the position, and the indicator that \<open>feof\<close> returns.\<close>

record ofile =
  of_bytes :: "u8 list"
  of_pos :: nat
  of_eof :: bool

text \<open>\<open>fread\<close> of a byte and of a word of two bytes into a variable.\<close>

definition ofread :: "u8 \<Rightarrow> ofile \<Rightarrow> u8 \<times> ofile" where
  "ofread b f =
     (if of_pos f < length (of_bytes f)
      then (of_bytes f ! of_pos f, f\<lparr>of_pos := of_pos f + 1\<rparr>)
      else (b, f\<lparr>of_eof := True\<rparr>))"

definition ofread_word :: "u16 \<Rightarrow> ofile \<Rightarrow> u16 \<times> ofile" where
  "ofread_word w f =
     (let (lo, f) = ofread (lo_byte w) f; (hi, f) = ofread (hi_byte w) f in (le_word lo hi, f))"

text \<open>The loop that reads \<open>n\<close> bytes away.\<close>

primrec ofskip :: "nat \<Rightarrow> ofile \<Rightarrow> ofile" where
  "ofskip 0 f = f"
| "ofskip (Suc n) f = ofskip n (snd (ofread 0 f))"

text \<open>
  \<open>fseek (f, k, SEEK_CUR)\<close> clears the indicator and can go beyond the end; before the beginning
  it fails.
\<close>

definition ofseek :: "int \<Rightarrow> ofile \<Rightarrow> ofile" where
  "ofseek k f =
     (if int (of_pos f) + k < 0 then f
      else f\<lparr>of_pos := nat (int (of_pos f) + k), of_eof := False\<rparr>)"

section \<open>Progress\<close>

text \<open>\<open>reads_on f g\<close>: \<open>g\<close> comes after \<open>f\<close>, and unless it found the end it has less to read.\<close>

definition reads_on :: "ofile \<Rightarrow> ofile \<Rightarrow> bool" where
  "reads_on f g \<longleftrightarrow> (\<not> of_eof g \<longrightarrow> \<not> of_eof f \<and>
     length (of_bytes g) - of_pos g < length (of_bytes f) - of_pos f)"

lemma reads_on_trans: "reads_on f g \<Longrightarrow> reads_on g h \<Longrightarrow> reads_on f h"
  by (auto simp: reads_on_def)

lemma reads_on_byte: "reads_on f (snd (ofread b f))"
  by (auto simp: reads_on_def ofread_def)

lemma reads_on_word: "reads_on f (snd (ofread_word w f))"
  using reads_on_trans [OF reads_on_byte reads_on_byte]
  by (simp add: ofread_word_def Let_def case_prod_beta)

lemma reads_on_skip: "reads_on f (ofskip (Suc n) f)"
proof (induction n arbitrary: f)
  case 0
  show ?case by (simp add: reads_on_byte)
next
  case (Suc n)
  show ?case using reads_on_trans [OF reads_on_byte Suc.IH] by simp
qed

section \<open>Reading ahead\<close>

lemma unat_of_nat_u16: "i < 65536 \<Longrightarrow> unat (of_nat i :: u16) = i"
  by (simp add: unsigned_of_nat take_bit_nat_eq_self)

text \<open>What is left to read; reading where enough is left.\<close>

definition of_rest :: "ofile \<Rightarrow> u8 list" where
  "of_rest f = drop (of_pos f) (of_bytes f)"

definition advance :: "nat \<Rightarrow> ofile \<Rightarrow> ofile" where
  "advance n f = f\<lparr>of_pos := of_pos f + n\<rparr>"

lemma advance_simps [simp]:
  "of_eof (advance n f) = of_eof f" "of_pos (advance n f) = of_pos f + n"
  "of_bytes (advance n f) = of_bytes f" "advance 0 f = f"
  "advance n (advance k f) = advance (k + n) f"
  by (simp_all add: advance_def add.assoc)

lemma of_rest_advance [simp]: "of_rest (advance n f) = drop n (of_rest f)"
  by (simp add: of_rest_def add.commute)

lemma ofread_rest: "of_rest f = c # cs \<Longrightarrow> ofread b f = (c, advance 1 f)"
proof -
  assume "of_rest f = c # cs"
  then have "of_pos f < length (of_bytes f)" "of_bytes f ! of_pos f = c"
    unfolding of_rest_def by (metis drop_eq_Nil2 list.distinct(1) not_le, metis hd_drop_conv_nth
        drop_eq_Nil2 list.distinct(1) list.sel(1) not_le)
  then show ?thesis by (simp add: ofread_def advance_def)
qed

lemma ofskip_rest: "n \<le> length (of_rest f) \<Longrightarrow> ofskip n f = advance n f"
proof (induction n arbitrary: f)
  case (Suc n)
  then obtain c cs where "of_rest f = c # cs" by (cases "of_rest f") auto
  then show ?case using Suc by (simp add: ofread_rest)
qed simp

lemma ofseek_back [simp]: "ofseek (- 5) (advance 5 f) = f\<lparr>of_eof := False\<rparr>"
  by (simp add: ofseek_def advance_def)

section \<open>Blocks\<close>

text \<open>
  A block: 1, 0, its length, its kind, its data, the checksum. The code takes the length to count
  all bytes but the checksum; \<open>src/notes/obj.md\<close> says that it counts the checksum, too.
\<close>

definition obj_block :: "u8 \<Rightarrow> u8 list \<Rightarrow> u8 \<Rightarrow> u8 list" where
  "obj_block tag data chk = [1, 0] @ word_bytes (of_nat (5 + length data)) @ [tag] @ data @ [chk]"

lemma obj_block_length [simp]: "length (obj_block tag data chk) = length data + 6"
  by (simp add: obj_block_def word_bytes_def)

definition documented_block :: "u8 \<Rightarrow> u8 list \<Rightarrow> u8 \<Rightarrow> u8 list" where
  "documented_block tag data chk = [1, 0] @ word_bytes (of_nat (6 + length data)) @ [tag] @ data @ [chk]"

lemma documented_block_reads: "documented_block tag data chk @ [b] = obj_block tag (data @ [chk]) b"
  by (simp add: documented_block_def obj_block_def)

end
