(* ===== verification/Attic_Load.thy ===== *)
theory Attic_Load
  imports Attic_Mem Obj_File
begin

text \<open>
  How programs get into the former machine: the assembler of octal words
  (\<open>src/attic/src/asm.c\<close>), the loader of its output (\<open>machine.c\<close>), and the loader of object
  files (\<open>objreader.c\<close>). Files are lists of bytes.
\<close>

section \<open>Programs\<close>

text \<open>
  \<open>fread\<close> of a byte: at the end of the file the variable keeps its value. The loop of
  \<open>load_program_from_mcode\<close>, whose counter is an \<open>int\<close>, with \<open>k\<close> bytes left.
\<close>

definition fread_byte :: "u8 \<Rightarrow> u8 list \<Rightarrow> u8 \<times> u8 list" where
  "fread_byte b f = (case f of [] \<Rightarrow> (b, []) | c # cs \<Rightarrow> (c, cs))"

definition fread_word :: "u16 \<Rightarrow> u8 list \<Rightarrow> u16 \<times> u8 list" where
  "fread_word w f =
     (case f of
        [] \<Rightarrow> (w, [])
      | [lo] \<Rightarrow> (le_word lo (hi_byte w), [])
      | lo # hi # cs \<Rightarrow> (le_word lo hi, cs))"

fun mcode_loop :: "effect_run \<Rightarrow> nat \<Rightarrow> nat \<Rightarrow> u8 \<Rightarrow> u8 list \<Rightarrow> amem \<Rightarrow> amem res" where
  "mcode_loop run 0 i b f m = Inr m"
| "mcode_loop run (Suc k) i b f m =
     (let (b, f) = fread_byte b f
      in rbind (direct_write_byte run (of_nat i) b m) (mcode_loop run k (i + 1) b f))"

definition load_program_from_mcode :: "effect_run \<Rightarrow> u8 list \<Rightarrow> amem \<Rightarrow> amem res" where
  "load_program_from_mcode run f m =
     (let (len, f) = fread_word 0 f;
          (load_offset, f) = fread_word 0 f;
          program_length = load_offset + len * 2
      in rbind (mcode_loop run (unat program_length - unat load_offset) (unat load_offset) 0 f m)
           (\<lambda>m. Inr (set_r R_PC load_offset m)))"

text \<open>
  The words of a text block of an object file; \<open>load_text_block\<close> with the file behind the
  position. \<open>k\<close> is the number of rounds left; the bytes keep their values at the end of the file.
\<close>

fun text_block_loop ::
  "effect_run \<Rightarrow> nat \<Rightarrow> u16 \<Rightarrow> u8 \<Rightarrow> u8 \<Rightarrow> u8 list \<Rightarrow> amem \<Rightarrow> (amem \<times> u8 list) res" where
  "text_block_loop run 0 l b1 b2 f m = Inr (m, f)"
| "text_block_loop run (Suc k) l b1 b2 f m =
     (let (b1, f) = fread_byte b1 f; (b2, f) = fread_byte b2 f
      in rbind (direct_write_word run l (push_bit 8 (ucast b2) OR ucast b1) m)
           (text_block_loop run k (l + 2) b1 b2 f))"

text \<open>
  \<open>junk\<close> are the uninitialised local variables: two bytes, the length, the tag, the offset, the
  pad byte. The loop runs while \<open>i < len\<close> in steps of two.
\<close>

definition load_text_block ::
  "effect_run \<Rightarrow> u8 \<times> u8 \<times> u16 \<times> u8 \<times> u16 \<times> u8 \<Rightarrow> u8 list \<Rightarrow> amem \<Rightarrow> (amem \<times> u8 list) res" where
  "load_text_block run junk f m =
     (case junk of (b1, b2, len, tag, load_offset, pad) \<Rightarrow>
        (let (b1, f) = fread_byte b1 f;
             (b2, f) = fread_byte b2 f;
             (len, f) = fread_word len f;
             (tag, f) = fread_byte tag f;
             (load_offset, f) = fread_word load_offset f;
             (pad, f) = fread_byte pad f;
             len = len - 8;
             m = set_r R_PC load_offset m
         in text_block_loop run ((unat len + 1) div 2) load_offset b1 b2 f m))"

section \<open>Object files\<close>

text \<open>
  The header of a block; the variables keep what they held when the file ends. A block of text
  is left where it begins: \<open>fseek\<close> by -5 clears the indicator, but fails before the fifth byte.
\<close>

definition is_text_block :: "u8 \<times> u8 \<times> u16 \<Rightarrow> ofile \<Rightarrow> bool \<times> ofile" where
  "is_text_block junk f =
     (case junk of (b1, b2, len) \<Rightarrow>
        (let (b1, f) = ofread b1 f;
             (b2, f) = ofread b2 f;
             (len, f) = ofread_word len f;
             (b1, f) = ofread b1 f
         in if b1 \<noteq> 3 then (False, ofskip ((unat len - 5) + 1) f)
            else (True, ofseek (- 5) f)))"

text \<open>The loop over the blocks; \<open>junk n\<close> is what call \<open>n\<close> finds in its variables.\<close>

function skip_blocks :: "(nat \<Rightarrow> u8 \<times> u8 \<times> u16) \<Rightarrow> nat \<Rightarrow> ofile \<Rightarrow> ofile" where
  "skip_blocks junk n f =
     (let (t, f') = is_text_block (junk n) f
      in if t \<or> of_eof f' then f' else skip_blocks junk (n + 1) f')"
  by pat_completeness auto

lemma is_text_block_reads_on:
  assumes "is_text_block j f = (False, f')"
  shows "reads_on f f'"
proof -
  obtain b1 b2 len where j: "j = (b1, b2, len)" by (cases j)
  show ?thesis
    using assms reads_on_trans [OF reads_on_byte reads_on_trans [OF reads_on_byte
        reads_on_trans [OF reads_on_word reads_on_trans [OF reads_on_byte reads_on_skip]]]]
    unfolding is_text_block_def j
    by (simp add: Let_def case_prod_beta del: ofskip.simps split: if_splits) blast
qed

termination skip_blocks
  by (relation "measure (\<lambda>(_, _, f). length (of_bytes f) - of_pos f)")
    (auto simp: reads_on_def dest!: is_text_block_reads_on [OF sym])

definition load_program_from_obj ::
  "effect_run \<Rightarrow> (nat \<Rightarrow> u8 \<times> u8 \<times> u16) \<Rightarrow> u8 \<times> u8 \<times> u16 \<times> u8 \<times> u16 \<times> u8 \<Rightarrow> u8 list option \<Rightarrow>
    amem \<Rightarrow> amem res" where
  "load_program_from_obj run junk junk' obj m =
     (case obj of
        None \<Rightarrow> Inl Null_Deref
      | Some bytes \<Rightarrow>
          (let f = skip_blocks junk 0 \<lparr>of_bytes = bytes, of_pos = 0, of_eof = False\<rparr>
           in if of_eof f then Inr m
              else rbind (load_text_block run junk' (drop (of_pos f) bytes) m) (\<lambda>(m, _). Inr m)))"

section \<open>The assembler\<close>

text \<open>
  \<open>fgetc\<close> into a \<open>char\<close>: the end of the file is -1, as is the byte 255 of a file.
\<close>

definition asm_getc :: "u8 list \<Rightarrow> u8 \<times> u8 list" where
  "asm_getc s = (case s of [] \<Rightarrow> (0xFF, []) | c # cs \<Rightarrow> (c, cs))"

text \<open>The characters of the line behind the first one, and whether the end was found among them.\<close>

primrec asm_line :: "nat \<Rightarrow> u8 list \<Rightarrow> u8 list \<times> bool \<times> u8 list" where
  "asm_line 0 s = ([], False, s)"
| "asm_line (Suc n) s =
     (let (c, s) = asm_getc s
      in if c = 10 \<or> c = 0xFF then ([], True, s)
         else (let (l, t, s) = asm_line n s in (c # l, t, s)))"

text \<open>
  \<open>sscanf (line, "%ho", &instruction)\<close>: white space, a sign, octal digits. A line of eight
  characters without an end is not a string; reading it leaves the array.
\<close>

definition is_space :: "u8 \<Rightarrow> bool" where "is_space c \<longleftrightarrow> c = 32 \<or> (9 \<le> c \<and> c \<le> 13)"
definition is_octal :: "u8 \<Rightarrow> bool" where "is_octal c \<longleftrightarrow> 48 \<le> c \<and> c \<le> 55"

definition octal_value :: "u8 list \<Rightarrow> u16" where
  "octal_value ds = foldl (\<lambda>v d. 8 * v + ucast (d - 48)) 0 ds"

definition scan_octal :: "u8 list \<Rightarrow> u16 option" where
  "scan_octal l =
     (let l = dropWhile is_space l;
          negative = (l \<noteq> [] \<and> hd l = 45);
          l = (if l \<noteq> [] \<and> (hd l = 43 \<or> hd l = 45) then tl l else l);
          ds = takeWhile is_octal l
      in if ds = [] then None
         else Some (if negative then - octal_value ds else octal_value ds))"

definition sscanf_octal :: "u8 list \<Rightarrow> bool \<Rightarrow> u16 \<Rightarrow> u16 res" where
  "sscanf_octal l ended w =
     (if \<not> ended \<and> 0 \<notin> set l then Inl (Out_Of_Bounds 8)
      else Inr (case scan_octal l of None \<Rightarrow> w | Some v \<Rightarrow> v))"

lemma asm_line_shorter: "asm_line n s = (l, t, s') \<Longrightarrow> length s' \<le> length s"
proof (induction n arbitrary: s l t s')
  case (Suc n)
  show ?case
  proof (cases s)
    case Nil
    with Suc.prems show ?thesis by (simp add: asm_getc_def)
  next
    case (Cons c cs)
    with Suc show ?thesis
      by (auto simp: asm_getc_def Let_def le_SucI split: if_splits prod.splits)
  qed
qed simp

lemma comment_shorter: "10 \<in> set s \<Longrightarrow> length (tl (dropWhile (\<lambda>x. x \<noteq> 10) s)) < length s"
  by (induction s) (auto simp: less_Suc_eq_le)

text \<open>
  The loop, with the count written back only for the directive \<open>.end\<close>; \<open>None\<close> when a comment never
  ends, because then its loop does not either.
\<close>

function asm_loop :: "u16 \<Rightarrow> u16 \<Rightarrow> u8 list \<Rightarrow> u8 list \<Rightarrow> ((u16 \<times> u8 list) res) option" where
  "asm_loop instr count out src =
     (let (c, s) = asm_getc src
      in if c = 59
         then (if 10 \<in> set s then asm_loop instr count out (tl (dropWhile (\<lambda>x. x \<noteq> 10) s)) else None)
         else if c = 0xFF then Some (Inr (0, out))
         else
           (let (l, ended, s) = asm_line 7 s; line = c # l
            in if take 4 line = [46, 101, 110, 100] then Some (Inr (count, out))
               else
                 (case sscanf_octal line ended instr of
                    Inl e \<Rightarrow> Some (Inl e)
                  | Inr w \<Rightarrow> asm_loop w (count + 1) (out @ [lo_byte w, hi_byte w]) s)))"
  by pat_completeness auto

termination asm_loop
proof (relation "measure (\<lambda>(_, _, _, src). length src)", goal_cases)
  case (2 instr count out src p c s)
  then show ?case
    using comment_shorter [of s] by (auto simp: asm_getc_def split: list.splits)
next
  case (3 instr count out src p c s q l q' ended s' line w)
  then show ?case
    using asm_line_shorter [of 7 s l ended s'] by (auto simp: asm_getc_def split: list.splits)
qed simp

definition asm_main :: "u16 \<Rightarrow> u8 list \<Rightarrow> ((u8 list) res) option" where
  "asm_main load_offset src =
     map_option (map_sum id (\<lambda>(count, out). word_bytes count @ word_bytes load_offset @ out))
       (asm_loop 0 0 [] src)"

section \<open>Assembling and loading\<close>

declare asm_loop.simps [simp del] skip_blocks.simps [simp del]

text \<open>The line of a source file for a word: six octal digits and the end of the line.\<close>

definition octal6 :: "u16 \<Rightarrow> u8 list" where
  "octal6 w = map (\<lambda>k. 48 + of_nat (unat w div 8 ^ k mod 8)) [5, 4, 3, 2, 1, 0]"

definition source_text :: "u16 list \<Rightarrow> u8 list" where
  "source_text ws = concat (map (\<lambda>w. octal6 w @ [10]) ws) @ [46, 101, 110, 100]"

lemma octal_digit_range: "d < 8 \<Longrightarrow> is_octal (48 + of_nat d) \<and> (48 + of_nat d :: u8) - 48 = of_nat d"
proof -
  assume "d < 8"
  then have "d \<in> {0, 1, 2, 3, 4, 5, 6, 7}" by auto
  then show ?thesis by (auto simp: is_octal_def)
qed

lemma octal_digits: "\<forall>c \<in> set (octal6 w). is_octal c"
  using octal_digit_range by (simp add: octal6_def)

lemma octal_not: "is_octal c \<Longrightarrow> \<not> is_space c \<and> c \<noteq> 43 \<and> c \<noteq> 45 \<and> c \<noteq> 10 \<and> c \<noteq> 0xFF \<and> c \<noteq> 59 \<and> c \<noteq> 46 \<and> c \<noteq> 0"
  unfolding is_octal_def is_space_def by unat_arith

lemma small_ucast: "d < 8 \<Longrightarrow> (ucast (of_nat d :: u8) :: u16) = of_nat d"
proof -
  assume "d < 8"
  then have "d \<in> {0, 1, 2, 3, 4, 5, 6, 7}" by auto
  then show ?thesis by auto
qed

lemma octal_shift: "8 * (n div (k * 8)) + n div k mod 8 = n div (k :: nat)"
  by (simp add: div_mult2_eq)

lemma octal_digits_sum:
  fixes n :: nat
  assumes "n < 65536"
  shows "8 * (8 * (8 * (8 * (8 * (n div 32768 mod 8) + n div 4096 mod 8) + n div 512 mod 8) +
    n div 64 mod 8) + n div 8 mod 8) + n mod 8 = n"
proof -
  have "n div 32768 mod 8 = n div (4096 * 8)" using assms by simp
  then show ?thesis
    using octal_shift [of n 4096] octal_shift [of n 512] octal_shift [of n 64] octal_shift [of n 8]
      octal_shift [of n 1]
    by simp
qed

lemma octal_fold_step:
  "d < 8 \<Longrightarrow> foldl (\<lambda>v d. 8 * v + ucast (d - 48)) (of_nat n :: u16) ((48 + of_nat d :: u8) # ds) =
     foldl (\<lambda>v d. 8 * v + ucast (d - 48)) (of_nat (8 * n + d)) ds"
  using octal_digit_range [of d] small_ucast [of d] by simp

lemma octal_value_octal6: "octal_value (octal6 w) = w"
proof -
  let ?d = "\<lambda>k. unat w div 8 ^ k mod 8"
  have "octal_value (octal6 w) =
      foldl (\<lambda>v d. 8 * v + ucast (d - 48)) (of_nat 0 :: u16)
        [48 + of_nat (?d 5) :: u8, 48 + of_nat (?d 4), 48 + of_nat (?d 3), 48 + of_nat (?d 2),
         48 + of_nat (?d 1), 48 + of_nat (?d 0)]"
    unfolding octal_value_def octal6_def by simp
  also have "\<dots> = of_nat (8 * (8 * (8 * (8 * (8 * (8 * 0 + ?d 5) + ?d 4) + ?d 3) + ?d 2) + ?d 1) + ?d 0)"
    by (simp only: octal_fold_step mod_less_divisor zero_less_numeral foldl_Nil)
  also have "\<dots> = (of_nat (unat w) :: u16)"
    using octal_digits_sum [of "unat w"] unat_u16_less [of w]
    by (intro arg_cong [where f = of_nat]) simp
  finally show ?thesis by simp
qed

lemma scan_octal_digits:
  assumes "\<forall>c \<in> set ds. is_octal c" and "ds \<noteq> []"
  shows "scan_octal ds = Some (octal_value ds)"
proof -
  have "dropWhile is_space ds = ds" "hd ds \<noteq> 43" "hd ds \<noteq> 45"
    using assms octal_not by (cases ds; auto)+
  moreover have "takeWhile is_octal ds = ds" using assms(1) by simp
  ultimately show ?thesis
    using assms(2) by (simp add: scan_octal_def Let_def del: takeWhile_eq_all_conv dropWhile_eq_self_iff)
qed

lemma asm_line_digits:
  assumes "\<forall>c \<in> set l. is_octal c" and "length l < n"
  shows "asm_line n (l @ 10 # s) = (l, True, s)"
  using assms
proof (induction l arbitrary: n)
  case Nil
  then show ?case by (cases n) (simp_all add: asm_getc_def)
next
  case (Cons c l)
  then show ?case using octal_not [of c] by (cases n) (simp_all add: asm_getc_def)
qed

lemma asm_loop_word:
  "asm_loop instr count out (octal6 w @ 10 # s) = asm_loop w (count + 1) (out @ word_bytes w) s"
proof -
  obtain c l where cl: "octal6 w = c # l" "length l < 7" by (simp add: octal6_def)
  with octal_digits [of w] have o: "is_octal c" "\<forall>c \<in> set l. is_octal c" by auto
  have "sscanf_octal (c # l) True instr = Inr w"
    using scan_octal_digits [of "octal6 w"] octal_digits [of w] octal_value_octal6 [of w] cl
    by (simp add: sscanf_octal_def)
  then show ?thesis
    using octal_not [OF o(1)] asm_line_digits [OF o(2) cl(2), of s] cl(1)
    by (subst asm_loop.simps) (simp add: asm_getc_def word_bytes_def)
qed

lemma asm_line_numeral:
  "asm_line (numeral k) s =
     (let (c, s) = asm_getc s
      in if c = 10 \<or> c = 0xFF then ([], True, s)
         else (let (l, t, s) = asm_line (pred_numeral k) s in (c # l, t, s)))"
  by (simp add: numeral_eq_Suc)

lemma asm_loop_end: "asm_loop instr count out [46, 101, 110, 100] = Some (Inr (count, out))"
  by (subst asm_loop.simps) (simp add: asm_getc_def asm_line_numeral)

lemma asm_loop_source:
  "asm_loop instr count out (source_text ws) =
     Some (Inr (count + of_nat (length ws), out @ concat (map word_bytes ws)))"
  by (induction ws arbitrary: instr count out)
    (simp_all add: source_text_def asm_loop_end asm_loop_word)

text \<open>Bytes placed in the memory from a location on.\<close>

definition placed_bytes :: "nat \<Rightarrow> u8 list \<Rightarrow> (nat \<Rightarrow> u8) \<Rightarrow> nat \<Rightarrow> u8" where
  "placed_bytes i bs f = (\<lambda>j. if i \<le> j \<and> j < i + length bs then bs ! (j - i) else f j)"

definition placed :: "nat \<Rightarrow> u8 list \<Rightarrow> amem \<Rightarrow> amem" where
  "placed i bs m = m\<lparr>a_bytes := placed_bytes i bs (a_bytes m)\<rparr>"

lemma placed_bytes_Nil: "placed_bytes i [] f = f"
  by (rule ext) (auto simp: placed_bytes_def)

lemma placed_bytes_Cons: "placed_bytes (Suc i) bs (f(i := b)) = placed_bytes i (b # bs) f"
  by (rule ext) (auto simp: placed_bytes_def nth_Cons' not_le Suc_le_eq)

lemma placed_Nil [simp]: "placed i [] m = m"
  by (simp add: placed_def placed_bytes_Nil)

lemma placed_Cons: "placed (Suc i) bs (m\<lparr>a_bytes := (a_bytes m)(i := b)\<rparr>) = placed i (b # bs) m"
  by (simp add: placed_def placed_bytes_Cons)

lemma placed_effects [simp]: "effects T (placed i bs m) = effects T m"
  by (simp add: placed_def)

lemma byte_write_quiet:
  assumes "effects T m" and "i < 0xFE78"
  shows "direct_write_byte run (of_nat i) b m = Inr (m\<lparr>a_bytes := (a_bytes m)(i := b)\<rparr>)"
proof -
  have u: "unat (of_nat i :: u16) = i" using assms(2) by (simp add: unat_of_nat_u16)
  then have "(of_nat i :: u16) \<notin> {INACTIVE_HANDLER_LOC, RXDB}" using assms(2) by auto
  moreover have "effects T (m\<lparr>a_bytes := (a_bytes m)(i := b)\<rparr>)" using assms(1) by simp
  ultimately show ?thesis
    using u assms(2) by (simp add: direct_write_byte_def poke_def write_quiet [where T = T])
qed

lemma mcode_loop_places:
  assumes "effects T m" and "i + length bs \<le> 0xFE78"
  shows "mcode_loop run (length bs) i b (bs @ rest) m = Inr (placed i bs m)"
  using assms
proof (induction bs arbitrary: i b m)
  case (Cons c bs)
  then show ?case
    using byte_write_quiet [OF Cons.prems(1), of i run c]
    by (simp add: fread_byte_def Let_def placed_Cons)
qed simp

definition words_bytes :: "u16 list \<Rightarrow> u8 list" where
  "words_bytes ws = concat (map word_bytes ws)"

lemma words_bytes_length [simp]: "length (words_bytes ws) = 2 * length ws"
  by (induction ws) (simp_all add: words_bytes_def word_bytes_def)

lemma words_bytes_nth:
  "i < length ws \<Longrightarrow> words_bytes ws ! (2 * i) = lo_byte (ws ! i) \<and>
     words_bytes ws ! (2 * i + 1) = hi_byte (ws ! i)"
proof (induction ws arbitrary: i)
  case (Cons w ws)
  then show ?case
    by (cases i) (simp_all add: words_bytes_def word_bytes_def)
qed simp

text \<open>Where a program of \<open>n\<close> words at \<open>p\<close> lies clear of the registers and of the disk.\<close>

definition clear_of :: "u16 \<Rightarrow> nat \<Rightarrow> bool" where
  "clear_of p n \<longleftrightarrow> unat p + 2 * n \<le> 0x1F00 \<or> 0x1F12 \<le> unat p \<and> unat p + 2 * n \<le> 0xFE78"

definition holds_program :: "u16 \<Rightarrow> u16 list \<Rightarrow> amem \<Rightarrow> bool" where
  "holds_program p ws m \<longleftrightarrow> get_r R_PC m = p \<and>
     (\<forall>i < length ws. peek_word (p + of_nat (2 * i)) m = Inr (ws ! i))"

lemma placed_words:
  assumes "clear_of p (length ws)" and "i < length ws"
  shows "peek_word (p + of_nat (2 * i)) (set_r R_PC v (placed (unat p) (words_bytes ws) m)) = Inr (ws ! i)"
    and "peek_word (p + of_nat (2 * i)) (placed (unat p) (words_bytes ws) (set_r R_PC v m)) = Inr (ws ! i)"
proof -
  have "unat p + 2 * i < 65536" using assms by (auto simp: clear_of_def)
  then have u: "unat (p + of_nat (2 * i)) = unat p + 2 * i"
    by (simp add: unat_word_ariths unat_of_nat_u16)
  have r: "unat p + 2 * i \<noteq> 0x1F0E" "unat p + 2 * i \<noteq> 0x1F0F" "unat p + 2 * i \<noteq> 0x1F0D"
    "unat p + 2 * i + 1 < 65535"
    using assms by (auto simp: clear_of_def)
  show "peek_word (p + of_nat (2 * i)) (set_r R_PC v (placed (unat p) (words_bytes ws) m)) = Inr (ws ! i)"
    "peek_word (p + of_nat (2 * i)) (placed (unat p) (words_bytes ws) (set_r R_PC v m)) = Inr (ws ! i)"
    using r assms(2) words_bytes_nth [OF assms(2)]
    unfolding peek_word_def u by (simp_all add: peek_def placed_def placed_bytes_def set_r_def
        translate_register_def)
qed

lemma pc_of_placed:
  assumes "clear_of p (length ws)"
  shows "get_r R_PC (placed (unat p) (words_bytes ws) (set_r R_PC v m)) = v"
  using assms by (auto simp: get_r_def set_r_def translate_register_def placed_def placed_bytes_def
      clear_of_def)

text \<open>
  Property C24. From the source to the memory: assembling the octal words \<open>ws\<close> and loading the
  result at \<open>p\<close> puts the words at \<open>p\<close>, \<open>p + 2\<close>, ... and \<open>p\<close> into the program counter, for every
  list of words that lies clear of the registers and of the disk's locations.
\<close>

theorem assemble_and_load:
  assumes "effects T m" and "clear_of p (length ws)"
  shows "\<exists>bin m'. asm_main p (source_text ws) = Some (Inr bin) \<and>
    load_program_from_mcode run bin m = Inr m' \<and> holds_program p ws m'"
proof -
  let ?n = "of_nat (length ws) :: u16"
  let ?bin = "word_bytes ?n @ word_bytes p @ words_bytes ws"
  have a: "asm_main p (source_text ws) = Some (Inr ?bin)"
    by (simp add: asm_main_def asm_loop_source words_bytes_def)
  have b: "unat p + 2 * length ws \<le> 0xFE78" using assms(2) by (auto simp: clear_of_def)
  then have "unat (p + ?n * 2) = unat p + 2 * length ws"
    by (simp add: unat_word_ariths unat_of_nat_u16)
  then have "unat (p + ?n * 2) - unat p = length (words_bytes ws)" by simp
  then have "load_program_from_mcode run ?bin m = Inr (set_r R_PC p (placed (unat p) (words_bytes ws) m))"
    using mcode_loop_places [OF assms(1), of "unat p" "words_bytes ws" run 0 "[]"] b
    by (simp add: load_program_from_mcode_def fread_word_def word_bytes_def)
  moreover have "holds_program p ws (set_r R_PC p (placed (unat p) (words_bytes ws) m))"
    using placed_words(1) [OF assms(2)] by (simp add: holds_program_def get_set_r)
  ultimately show ?thesis using a by blast
qed

section \<open>Loading object files\<close>

lemma is_text_block_block:
  assumes "of_rest f = obj_block tag data chk @ rest" and "length data < 65531"
  shows "is_text_block j f =
    (if tag = 3 then (True, f\<lparr>of_eof := False\<rparr>) else (False, advance (length data + 6) f))"
proof -
  obtain j1 j2 j3 where j: "j = (j1, j2, j3)" by (cases j)
  have u: "unat (of_nat (5 + length data) :: u16) = 5 + length data"
    using assms(2) by (intro unat_of_nat_u16) simp
  have reads: "ofread x f = (1, advance (Suc 0) f)" "ofread x (advance (Suc 0) f) = (0, advance 2 f)"
    "ofread x (advance 2 f) = (lo_byte (of_nat (5 + length data)), advance 3 f)"
    "ofread x (advance 3 f) = (hi_byte (of_nat (5 + length data)), advance 4 f)"
    "ofread x (advance 4 f) = (tag, advance 5 f)" for x
    using assms(1)
    by (simp_all add: ofread_rest obj_block_def word_bytes_def eval_nat_numeral)
  have "ofread_word w (advance 2 f) = (of_nat (5 + length data), advance 4 f)" for w
    by (simp add: ofread_word_def reads Let_def)
  moreover have "ofskip (unat (of_nat (5 + length data) :: u16) - 5 + 1) (advance 5 f) = advance (length data + 6) f"
    unfolding u using assms(1)
    by (subst ofskip_rest) (simp_all add: obj_block_def word_bytes_def add.commute)
  ultimately show ?thesis
    by (simp add: is_text_block_def j reads Let_def del: ofskip.simps of_nat_add)
qed

text \<open>A block whose length is that of the notes is skipped with the first byte of the next one.\<close>

lemma documented_length_misaligns:
  assumes "of_rest f = documented_block tag data chk @ b # rest" and "length data < 65530" and "tag \<noteq> 3"
  shows "is_text_block j f = (False, advance (length data + 7) f)" and "of_rest (advance (length data + 7) f) = rest"
proof -
  have r: "of_rest f = obj_block tag (data @ [chk]) b @ rest"
    using assms(1) documented_block_reads [of tag data chk b] by (metis append.assoc append_Cons append_Nil)
  from is_text_block_block [OF this] assms(2,3)
  show "is_text_block j f = (False, advance (length data + 7) f)" by simp
  show "of_rest (advance (length data + 7) f) = rest" using r by simp
qed

lemma skip_blocks_to_text:
  assumes "\<forall>(tag, data, chk) \<in> set blocks. tag \<noteq> 3 \<and> length data < 65531" and "length tx < 65531"
    and "of_rest f = concat (map (\<lambda>(tag, data, chk). obj_block tag data chk) blocks) @
      obj_block 3 tx chk @ rest" and "\<not> of_eof f"
  shows "of_rest (skip_blocks junk n f) = obj_block 3 tx chk @ rest \<and> \<not> of_eof (skip_blocks junk n f) \<and>
    of_bytes (skip_blocks junk n f) = of_bytes f"
  using assms
proof (induction blocks arbitrary: n f)
  case Nil
  then have "is_text_block (junk n) f = (True, f\<lparr>of_eof := False\<rparr>)"
    using is_text_block_block [of f 3 tx chk rest "junk n"] by simp
  then show ?case using Nil by (subst (1 2 3) skip_blocks.simps) (simp add: of_rest_def)
next
  case (Cons b blocks)
  obtain tag data c where b: "b = (tag, data, c)" by (cases b)
  let ?rest = "concat (map (\<lambda>(tag, data, chk). obj_block tag data chk) blocks) @ obj_block 3 tx chk @ rest"
  have r: "of_rest f = obj_block tag data c @ ?rest" using Cons.prems(3) b by simp
  have t: "is_text_block (junk n) f = (False, advance (length data + 6) f)"
    using is_text_block_block [OF r] Cons.prems(1) b by simp
  then have s: "skip_blocks junk n f = skip_blocks junk (n + 1) (advance (length data + 6) f)"
    using Cons.prems(4) by (subst skip_blocks.simps) simp
  have "of_rest (advance (length data + 6) f) = ?rest"
    using r by simp
  with Cons.IH [of "advance (length data + 6) f" "n + 1"] Cons.prems s show ?case by simp
qed

lemma word_write_quiet:
  assumes "effects T m" and "unat l + 2 \<le> 0xFE78"
  shows "direct_write_word run l w m = Inr (placed (unat l) (word_bytes w) m)"
proof -
  have "l \<notin> {INACTIVE_HANDLER_LOC, RXDB}" using assms(2) by auto
  moreover have "(a_bytes m)(unat l := lo_byte w, unat l + 1 := hi_byte w) =
      placed_bytes (unat l) (word_bytes w) (a_bytes m)"
    by (rule ext) (auto simp: placed_bytes_def word_bytes_def nth_Cons')
  ultimately show ?thesis
    using assms by (simp add: direct_write_quiet poke_word_def poke_def placed_def)
qed

lemma placed_append: "placed (i + length bs) cs (placed i bs m) = placed i (bs @ cs) m"
proof -
  have "placed_bytes (i + length bs) cs (placed_bytes i bs f) = placed_bytes i (bs @ cs) f" for f
    by (rule ext) (auto simp: placed_bytes_def nth_append)
  then show ?thesis by (simp add: placed_def)
qed

lemma text_block_places:
  assumes "effects T m" and "unat l + 2 * length ws \<le> 0xFE78"
  shows "text_block_loop run (length ws) l b1 b2 (words_bytes ws @ rest) m =
    Inr (placed (unat l) (words_bytes ws) m, rest)"
  using assms
proof (induction ws arbitrary: l b1 b2 m)
  case (Cons w ws)
  let ?m = "placed (unat l) (word_bytes w) m"
  have w: "push_bit 8 (ucast (hi_byte w)) OR ucast (lo_byte w) = w"
    using le_word_bytes [of w] by (simp add: le_word_def or.commute)
  have u: "unat (l + 2) = unat l + 2" using Cons.prems(2) by (simp add: unat_word_ariths)
  have "text_block_loop run (length (w # ws)) l b1 b2 (words_bytes (w # ws) @ rest) m =
      text_block_loop run (length ws) (l + 2) (lo_byte w) (hi_byte w) (words_bytes ws @ rest) ?m"
    using word_write_quiet [OF Cons.prems(1), of l run w] Cons.prems(2)
    by (simp add: words_bytes_def word_bytes_def fread_byte_def w)
  also have "\<dots> = Inr (placed (unat l + 2) (words_bytes ws) ?m, rest)"
    using Cons.IH [of ?m "l + 2" "lo_byte w" "hi_byte w"] Cons.prems by (simp add: u)
  also have "placed (unat l + 2) (words_bytes ws) ?m = placed (unat l) (words_bytes (w # ws)) m"
    using placed_append [of "unat l" "word_bytes w" "words_bytes ws" m]
    by (simp add: words_bytes_def word_bytes_def)
  finally show ?case .
qed (simp add: words_bytes_def)

text \<open>
  Property C25. Loading an object file whose blocks give their length without the checksum, as
  the code reads it (the notes count it in): the blocks before the first block of text, each
  of less than 65531 bytes of data, are skipped whatever they hold, and the words of the
  block of text are put at its load address, which becomes the program counter, for every text
  that lies clear of the registers and of the disk's locations.
\<close>

theorem object_file_loaded:
  assumes "effects T m" and "clear_of p (length ws)"
    and "\<forall>(tag, data, chk) \<in> set blocks. tag \<noteq> 3 \<and> length data < 65531"
    and "obj = concat (map (\<lambda>(tag, data, chk). obj_block tag data chk) blocks) @
      obj_block 3 (word_bytes p @ [pad] @ words_bytes ws) chk @ rest"
  shows "\<exists>m'. load_program_from_obj run junk junk' (Some obj) m = Inr m' \<and> holds_program p ws m'"
proof -
  let ?f = "\<lparr>of_bytes = obj, of_pos = 0, of_eof = False\<rparr>" and ?text = "word_bytes p @ [pad] @ words_bytes ws"
  have b: "unat p + 2 * length ws \<le> 0xFE78" using assms(2) by (auto simp: clear_of_def)
  have l: "length ?text = 2 * length ws + 3" by (simp add: word_bytes_def)
  let ?g = "skip_blocks junk 0 ?f"
  have len: "length ?text < 65531" using b l by simp
  have r: "of_rest ?f = concat (map (\<lambda>(tag, data, chk). obj_block tag data chk) blocks) @
      obj_block 3 ?text chk @ rest"
    by (simp add: of_rest_def assms(4))
  have "of_rest ?g = obj_block 3 ?text chk @ rest \<and> \<not> of_eof ?g \<and> of_bytes ?g = obj"
    using skip_blocks_to_text [OF assms(3) len r, of junk 0] by simp
  then have g: "drop (of_pos ?g) obj = obj_block 3 ?text chk @ rest" "\<not> of_eof ?g"
    by (auto simp: of_rest_def)
  obtain j1 j2 j3 j4 j5 j6 where j: "junk' = (j1, j2, j3, j4, j5, j6)" by (cases junk')
  have "(of_nat (5 + length ?text) - 8 :: u16) = of_nat (2 * length ws)"
    by (simp add: word_bytes_def)
  then have u: "unat (of_nat (5 + length ?text) - 8 :: u16) = 2 * length ws"
    using b by (simp only: unat_of_nat_u16) 
  let ?m = "set_r R_PC p m"
  have "load_text_block run junk' (drop (of_pos ?g) obj) m =
      text_block_loop run (length ws) p 1 0 (words_bytes ws @ chk # rest) ?m"
    using u unfolding g(1) j
    by (simp add: load_text_block_def obj_block_def word_bytes_def fread_byte_def fread_word_def Let_def)
  also have "\<dots> = Inr (placed (unat p) (words_bytes ws) ?m, chk # rest)"
    using text_block_places [of T ?m p ws run 1 0 "chk # rest"] assms(1) b by simp
  finally have "load_program_from_obj run junk junk' (Some obj) m = Inr (placed (unat p) (words_bytes ws) ?m)"
    using g(2) by (simp add: load_program_from_obj_def Let_def)
  moreover have "holds_program p ws (placed (unat p) (words_bytes ws) ?m)"
    using placed_words(2) [OF assms(2)] pc_of_placed [OF assms(2)] by (simp add: holds_program_def)
  ultimately show ?thesis by blast
qed

section \<open>Witnesses\<close>

definition bare_memory :: amem where
  "bare_memory = \<lparr>a_dest = 0, a_src = 0, a_bytes = (\<lambda>_. 0), read_side_effects = [],
     write_side_effects = [], bus_shutdown = False\<rparr>"

lemma bare_effects: "effects ([], []) bare_memory"
  by (simp add: effects_def tables_ok_def bare_memory_def)

theorem assemble_and_load_witness:
  "\<exists>bin m'. asm_main 0x200 (source_text [0x15C0, 7, 0]) = Some (Inr bin) \<and>
     load_program_from_mcode (handler_run 1) bin bare_memory = Inr m' \<and>
     holds_program 0x200 [0x15C0, 7, 0] m'"
  by (rule assemble_and_load [OF bare_effects]) (simp add: clear_of_def)

theorem object_file_loaded_witness:
  "\<exists>m'. load_program_from_obj (handler_run 1) (\<lambda>_. (0, 0, 0)) (0, 0, 0, 0, 0, 0)
     (Some (obj_block 1 [7, 7] 0 @ obj_block 3 (word_bytes 0x200 @ [0] @ words_bytes [0x15C0, 7, 0]) 0))
     bare_memory = Inr m' \<and> holds_program 0x200 [0x15C0, 7, 0] m'"
  by (rule object_file_loaded [OF bare_effects, where blocks = "[(1, [7, 7], 0)]" and pad = 0
        and chk = 0 and rest = "[]"])
    (simp_all add: clear_of_def)

end
