(* ===== verification/Attic_Start.thy ===== *)
theory Attic_Start
  imports Attic_Safety Attic_Load Attic_Disk
begin

text \<open>
  The command line and \<open>main\<close> of the former machine (\<open>src/attic/src/machine.c\<close>): it starts the
  disk thread, loads an object file, runs it or only lists the memory, and joins the disk
  thread. The two threads and the interrupt from the terminal are a step relation. Steps of the
  main thread are the loading, a pass of its loop, the dump and the join; steps of the disk
  thread its two registrations, the test of its loop and a pass of it.
\<close>

section \<open>The command line\<close>

text \<open>
  \<open>strncmp (p, a, 2) = 0\<close> for a literal of two characters. The loop over the arguments after the
  program's name: whether only a listing is asked for, single steps, the name of the disk
  image. The test at the top of the loop looks at the length of the first argument each time.
\<close>

definition has_prefix :: "string \<Rightarrow> string \<Rightarrow> bool" where
  "has_prefix p a \<longleftrightarrow> take 2 a = p"

fun attic_options ::
  "string \<Rightarrow> string list \<Rightarrow> bool \<times> bool \<times> string option \<Rightarrow> bool \<times> bool \<times> string option" where
  "attic_options first [] r = r"
| "attic_options first (a # as) (list_only, step, disk) =
     (if length first < 2 \<and> take 1 a \<noteq> ''-'' then attic_options first as (list_only, step, disk)
      else if has_prefix ''-l'' a then (True, step, disk)
      else if has_prefix ''-s'' a then attic_options first as (list_only, True, disk)
      else if has_prefix ''-d'' a then attic_options first as (list_only, step, Some (drop 2 a))
      else attic_options first as (list_only, step, disk))"

text \<open>That test decides nothing: an argument without a dash is no option.\<close>

lemma attic_options_first:
  "attic_options first as r = attic_options first' as r"
proof (induction as arbitrary: r)
  case (Cons a as)
  have "has_prefix p a \<Longrightarrow> p \<in> {''-l'', ''-s'', ''-d''} \<Longrightarrow> take 1 a = ''-''" for p
    by (cases a) (auto simp: has_prefix_def)
  then show ?case using Cons by (cases r) auto
qed simp

section \<open>The two threads\<close>

text \<open>How the program ends: with a status, or in a failure.\<close>

datatype attic_end = Attic_Exit int | Attic_Fault fault

datatype main_loc = At_Load | At_Run | At_Dump | At_Join | At_End attic_end

datatype disk_thread_loc = Reg_Read | Reg_Write | Disk_Enter | Disk_Loop | Disk_Left

record attic_sys =
  main_at :: main_loc
  sys_world :: aworld
  only_list :: bool
  object_file :: string
  disk_at :: disk_thread_loc
  sys_disk :: adisk

text \<open>
  The environment: whether the calls of \<open>malloc\<close> for the memory and for the disk succeed and what
  the memory holds, the files that can be opened, the uninitialised variables of the
  loader, and the standard input. The thread is taken to be created; the code does not check it.
\<close>

record attic_env =
  a_malloc_ok :: bool
  a_malloc_junk :: amem
  disk_malloc_ok :: bool
  a_files :: "string \<Rightarrow> u8 list option"
  block_junk :: "nat \<Rightarrow> u8 \<times> u8 \<times> u16"
  text_junk :: "u8 \<times> u8 \<times> u16 \<times> u8 \<times> u16 \<times> u8"
  a_stdin :: "u8 list"

text \<open>\<open>main\<close> up to the creation of the disk thread at the end of \<open>init_machine\<close>.\<close>

definition attic_start :: "effect_run \<Rightarrow> attic_env \<Rightarrow> string list \<Rightarrow> attic_end + attic_sys" where
  "attic_start run A args =
     (if args = [] then Inl (Attic_Exit 1)
      else
        (let (list_only, step, disk) = attic_options (hd args) args (False, False, None)
         in case init_machine run (a_malloc_ok A) (a_malloc_junk A) step of
              Inl e \<Rightarrow> Inl (Attic_Fault e)
            | Inr M \<Rightarrow>
                if \<not> disk_malloc_ok A then Inl (Attic_Fault Null_Deref)
                else Inr \<lparr>main_at = At_Load,
                  sys_world = \<lparr>a_machine = M, stdin_left = a_stdin A, stdout_done = []\<rparr>,
                  only_list = list_only, object_file = last args, disk_at = Reg_Read,
                  sys_disk = new_disk (case disk of None \<Rightarrow> None | Some img \<Rightarrow> a_files A img)\<rparr>))"

definition sys_memory :: "attic_sys \<Rightarrow> amem" where
  "sys_memory s = a_memory (a_machine (sys_world s))"

definition put_memory :: "amem \<Rightarrow> attic_sys \<Rightarrow> attic_sys" where
  "put_memory m s =
     s\<lparr>sys_world := (sys_world s)\<lparr>a_machine := with_memory (a_machine (sys_world s)) m\<rparr>\<rparr>"

text \<open>\<open>shutdown_machine\<close>: it waits for the end of the disk thread; what follows only frees.\<close>

definition shutdown_machine :: "attic_sys \<Rightarrow> attic_sys option" where
  "shutdown_machine s = (if disk_at s = Disk_Left then Some (s\<lparr>main_at := At_End (Attic_Exit 0)\<rparr>) else None)"

definition attic_main_step :: "effect_run \<Rightarrow> attic_env \<Rightarrow> attic_sys \<Rightarrow> attic_sys option" where
  "attic_main_step run A s =
     (case main_at s of
        At_Load \<Rightarrow>
          Some (case load_program_from_obj run (block_junk A) (text_junk A) (a_files A (object_file s)) (sys_memory s) of
                  Inl e \<Rightarrow> s\<lparr>main_at := At_End (Attic_Fault e)\<rparr>
                | Inr m \<Rightarrow> (put_memory m s)\<lparr>main_at := (if only_list s then At_Dump else At_Run)\<rparr>)
      | At_Run \<Rightarrow>
          Some (if a_halted (a_machine (sys_world s))
                then (put_memory ((sys_memory s)\<lparr>bus_shutdown := a_halted (a_machine (sys_world s))\<rparr>) s)
                       \<lparr>main_at := At_Dump\<rparr>
                else (case a_cycle run (sys_world s) of
                        Inl e \<Rightarrow> s\<lparr>main_at := At_End (Attic_Fault e)\<rparr>
                      | Inr w \<Rightarrow> s\<lparr>sys_world := w\<rparr>))
      | At_Dump \<Rightarrow>
          Some (case a_dump_state run (sys_memory s) of
                  Inl e \<Rightarrow> s\<lparr>main_at := At_End (Attic_Fault e)\<rparr>
                | Inr m \<Rightarrow> (put_memory m s)\<lparr>main_at := At_Join\<rparr>)
      | At_Join \<Rightarrow> shutdown_machine s
      | At_End r \<Rightarrow> None)"

text \<open>
  \<open>start_disk_subsystem\<close>, the function of the disk thread, with \<open>exec_disk\<close>: the flag is read
  before the loop and at the end of each pass. A registration is one step, although the code
  sets the location and the function of the entry one after the other and without the mutex.
\<close>

definition disk_thread_step :: "effect_run \<Rightarrow> attic_sys \<Rightarrow> attic_sys option" where
  "disk_thread_step run s =
     (case disk_at s of
        Reg_Read \<Rightarrow>
          Some ((put_memory (snd (register_read_side_effect RXDB Clear_RXDB (sys_memory s))) s)\<lparr>disk_at := Reg_Write\<rparr>)
      | Reg_Write \<Rightarrow>
          Some ((put_memory (snd (register_write_side_effect RXDB Clear_RXCS (sys_memory s))) s)\<lparr>disk_at := Disk_Enter\<rparr>)
      | Disk_Enter \<Rightarrow> Some (s\<lparr>disk_at := (if bus_shutdown (sys_memory s) then Disk_Left else Disk_Loop)\<rparr>)
      | Disk_Loop \<Rightarrow>
          Some (case exec_disk_round run (sys_disk s) (sys_memory s) of
                  Inl e \<Rightarrow> s\<lparr>main_at := At_End (Attic_Fault e)\<rparr>
                | Inr (d, m) \<Rightarrow>
                    (put_memory m s)\<lparr>sys_disk := d, disk_at := (if bus_shutdown m then Disk_Left else Disk_Loop)\<rparr>)
      | Disk_Left \<Rightarrow> None)"

text \<open>\<open>handle_user_interrupt\<close>, which calls \<open>HALT\<close>.\<close>

definition handle_user_interrupt :: "attic_sys \<Rightarrow> attic_sys" where
  "handle_user_interrupt s = s\<lparr>sys_world := (sys_world s)\<lparr>a_machine := A_HALT (a_machine (sys_world s))\<rparr>\<rparr>"

datatype attic_tid = Main_Thread | Disk_Thread | User_Interrupt

text \<open>When the main thread has ended, the process has.\<close>

definition attic_step :: "effect_run \<Rightarrow> attic_env \<Rightarrow> attic_tid \<Rightarrow> attic_sys \<Rightarrow> attic_sys option" where
  "attic_step run A t s =
     (case main_at s of
        At_End r \<Rightarrow> None
      | _ \<Rightarrow>
         (case t of
            Main_Thread \<Rightarrow> attic_main_step run A s
          | Disk_Thread \<Rightarrow> disk_thread_step run s
          | User_Interrupt \<Rightarrow> Some (handle_user_interrupt s)))"

inductive attic_steps :: "effect_run \<Rightarrow> attic_env \<Rightarrow> attic_sys \<Rightarrow> attic_sys \<Rightarrow> bool" for run A where
  attic_refl: "attic_steps run A s s"
| attic_next: "attic_steps run A s s' \<Longrightarrow> attic_step run A t s' = Some s'' \<Longrightarrow> attic_steps run A s s''"

section \<open>The shutdown flag\<close>

text \<open>No access to the memory, and no side effect, changes \<open>bus_shutdown\<close>.\<close>

definition keeps_flag :: "bool \<Rightarrow> amem res \<Rightarrow> bool" where
  "keeps_flag b r \<longleftrightarrow> res_all (\<lambda>_. True) (\<lambda>m. bus_shutdown m = b) r"

definition keeps_flag2 :: "bool \<Rightarrow> ('a \<times> amem) res \<Rightarrow> bool" where
  "keeps_flag2 b r \<longleftrightarrow> res_all (\<lambda>_. True) (\<lambda>(_, m). bus_shutdown m = b) r"

lemma keeps_simps [simp]:
  "keeps_flag b (Inr m) \<longleftrightarrow> bus_shutdown m = b" "keeps_flag b (Inl e)"
  "keeps_flag2 b (Inr (x, m)) \<longleftrightarrow> bus_shutdown m = b" "keeps_flag2 b (Inl e)"
  by (simp_all add: keeps_flag_def keeps_flag2_def)

lemma keeps_rbind:
  "keeps_flag b r \<Longrightarrow> (\<And>m. bus_shutdown m = b \<Longrightarrow> keeps_flag b (f m)) \<Longrightarrow> keeps_flag b (rbind r f)"
  "keeps_flag b r \<Longrightarrow> (\<And>m. bus_shutdown m = b \<Longrightarrow> keeps_flag2 b (g m)) \<Longrightarrow> keeps_flag2 b (rbind r g)"
  "keeps_flag2 b s \<Longrightarrow> (\<And>x m. bus_shutdown m = b \<Longrightarrow> keeps_flag b (h (x, m))) \<Longrightarrow> keeps_flag b (rbind s h)"
  "keeps_flag2 b s \<Longrightarrow> (\<And>x m. bus_shutdown m = b \<Longrightarrow> keeps_flag2 b (k (x, m))) \<Longrightarrow> keeps_flag2 b (rbind s k)"
  by (cases r; auto simp: rbind_def; fail)+ (cases s; auto simp: rbind_def; fail)+

lemma keeps_value:
  "(\<And>x. keeps_flag b (f x)) \<Longrightarrow> keeps_flag b (rbind (peek_word l m) f)"
  "(\<And>x. keeps_flag2 b (g x)) \<Longrightarrow> keeps_flag2 b (rbind (peek_word l m) g)"
  by (cases "peek_word l m"; simp)+

lemma poke_keeps: "bus_shutdown m = b \<Longrightarrow> keeps_flag b (poke_word l v m)"
  by (auto simp: poke_word_def poke_def)

lemma poke_byte_keeps: "bus_shutdown m = b \<Longrightarrow> keeps_flag b (poke i v m)"
  by (auto simp: poke_def)

lemma effects_keep:
  assumes "\<And>h m. bus_shutdown m = b \<Longrightarrow> keeps_flag b (run h m)" and "bus_shutdown m = b"
  shows "keeps_flag b (process_read_side_effects run l m)" "keeps_flag b (process_write_side_effects run l m)"
    "keeps_flag b (direct_write_word run l v m)" "keeps_flag2 b (direct_read_word run l m)"
  using assms
  by (auto simp: process_read_side_effects_def process_write_side_effects_def process_side_effects_def
      direct_write_word_def direct_read_word_def split: option.split intro!: keeps_rbind keeps_value poke_keeps)

lemma handler_keeps_flag: "bus_shutdown m = b \<Longrightarrow> keeps_flag b (handler_run n h m)"
proof (induction n arbitrary: h m b)
  case (Suc n)
  note k = effects_keep [OF Suc.IH]
  from Suc.prems show ?case
    by (cases h)
      (auto simp: read_TKB_def clear_TKB_def clear_flags_TKS_def clear_TPB_def clear_RXDB_def clear_RXCS_def
        direct_write_word_n_def Let_def intro!: keeps_rbind k poke_keeps)
qed simp

lemma flag_kept:
  assumes "bus_shutdown m = b"
  shows "keeps_flag b (direct_write_word (handler_run n) l v m)" "keeps_flag2 b (direct_read_word (handler_run n) l m)"
  using assms by (auto intro: effects_keep handler_keeps_flag)

lemma dump_reads_keeps: "bus_shutdown m = b \<Longrightarrow> keeps_flag b (dump_reads (handler_run n) ls m)"
  by (induction ls arbitrary: m) (auto intro!: keeps_rbind flag_kept)

text \<open>What every write keeps, the loader keeps.\<close>

lemma text_block_all:
  assumes "\<And>l v m. P m \<Longrightarrow> res_all E P (direct_write_word run l v m)"
  shows "P m \<Longrightarrow> res_all E (\<lambda>r. P (fst r)) (text_block_loop run k l b1 b2 f m)"
proof (induction k arbitrary: l b1 b2 f m)
  case (Suc k)
  then show ?case
    by (simp add: Let_def split: prod.split) (blast intro: res_all_rbind [OF assms])
qed simp

lemma load_all:
  assumes "\<And>l v m. P m \<Longrightarrow> res_all E P (direct_write_word run l v m)"
    and "\<And>r v m. P m \<Longrightarrow> P (set_r r v m)" and "P m" and "obj \<noteq> None"
  shows "res_all E P (load_program_from_obj run junk junk' obj m)"
proof -
  have "res_all E (\<lambda>r. P (fst r)) (load_text_block run junk' f m)" for f
    using assms(2,3) text_block_all [of P E run, OF assms(1)]
    by (simp add: load_text_block_def Let_def split: prod.split)
  then show ?thesis
    using assms(3,4)
    by (auto simp: load_program_from_obj_def Let_def case_prod_unfold intro!: res_all_rbind [where P = "\<lambda>r. P (fst r)"])
qed

text \<open>The disk thread keeps the flag as well.\<close>

lemma or_keeps: "bus_shutdown m = b \<Longrightarrow> keeps_flag b (direct_write_word_OR l v m)"
  by (auto simp: direct_write_word_OR_def peek_def poke_def)

lemma byte_n_keeps: "bus_shutdown m = b \<Longrightarrow> keeps_flag b (direct_write_byte_n l v m)"
  by (simp add: direct_write_byte_n_def poke_byte_keeps)

lemma keeps_any:
  "(\<And>x. keeps_flag2 b (g x)) \<Longrightarrow> keeps_flag2 b (rbind (direct_read_byte_n l m) g)"
  "(\<And>x. keeps_flag2 b (g' x)) \<Longrightarrow> keeps_flag2 b (rbind (ad_put v d) g')"
  by (cases "direct_read_byte_n l m"; simp) (cases "ad_put v d"; simp)

lemmas round_keep_intros = keeps_rbind keeps_any or_keeps byte_n_keeps flag_kept

lemma transfers_keep:
  assumes "bus_shutdown m = b"
  shows "keeps_flag2 b (a_fill_buffer (handler_run n) d m)" "keeps_flag2 b (a_empty_buffer (handler_run n) d m)"
    "keeps_flag2 b (a_write_sector (handler_run n) d m)" "keeps_flag2 b (a_read_sector (handler_run n) d m)"
    "keeps_flag2 b (a_disk_command (handler_run n) r d m)"
  using assms
  unfolding a_fill_buffer_def a_empty_buffer_def a_write_sector_def a_read_sector_def a_disk_command_def Let_def
  by (auto intro!: round_keep_intros split: option.split)

lemma round_keeps:
  assumes "bus_shutdown m = b"
  shows "keeps_flag2 b (exec_disk_round (handler_run n) d m)"
  using assms unfolding exec_disk_round_def by (auto intro!: round_keep_intros transfers_keep)

section \<open>How the program ends\<close>

text \<open>The tables of side effects, by how far the disk thread has come.\<close>

definition half_tables :: effect_tables where
  "half_tables = (fst disk_tables, snd boot_tables)"

definition tables_at :: "disk_thread_loc \<Rightarrow> effect_tables" where
  "tables_at l = (case l of Reg_Read \<Rightarrow> boot_tables | Reg_Write \<Rightarrow> half_tables | _ \<Rightarrow> disk_tables)"

lemma half_installed: "tables_ok half_tables"
  using tables_installed by (simp add: half_tables_def tables_ok_def)

lemma registered:
  "effects boot_tables m \<Longrightarrow> effects half_tables (snd (register_read_side_effect RXDB Clear_RXDB m))"
  "effects half_tables m \<Longrightarrow> effects disk_tables (snd (register_write_side_effect RXDB Clear_RXCS m))"
  using tables_installed half_installed
  by (simp_all add: effects_def register_read_side_effect_def register_write_side_effect_def half_tables_def
      boot_tables_def disk_tables_def free_entry replicate_free)

lemma registered_flag [simp]:
  "bus_shutdown (snd (register_read_side_effect l h m)) = bus_shutdown m"
  "bus_shutdown (snd (register_write_side_effect l h m)) = bus_shutdown m"
  by (simp_all add: register_read_side_effect_def register_write_side_effect_def split: prod.split)

lemma put_memory_fields [simp]:
  "sys_memory (put_memory m s) = m" "main_at (put_memory m s) = main_at s" "disk_at (put_memory m s) = disk_at s"
  "only_list (put_memory m s) = only_list s" "object_file (put_memory m s) = object_file s"
  "sys_disk (put_memory m s) = sys_disk s"
  "a_halted (a_machine (sys_world (put_memory m s))) = a_halted (a_machine (sys_world s))"
  by (simp_all add: put_memory_def sys_memory_def with_memory_def)

lemma sys_memory_frame [simp]:
  "sys_memory (s\<lparr>main_at := l\<rparr>) = sys_memory s" "sys_memory (s\<lparr>disk_at := k\<rparr>) = sys_memory s"
  "sys_memory (s\<lparr>sys_disk := d\<rparr>) = sys_memory s" "sys_memory (handle_user_interrupt s) = sys_memory s"
  "sys_memory (s\<lparr>sys_world := w\<rparr>) = a_memory (a_machine w)"
  by (simp_all add: sys_memory_def handle_user_interrupt_def A_HALT_def)

text \<open>
  The invariant: the memory has the tables of that stage, the disk is well formed, and the flag
  is never set for a listing and always after the loop.
\<close>

definition attic_inv :: "attic_env \<Rightarrow> bool \<Rightarrow> string \<Rightarrow> attic_sys \<Rightarrow> bool" where
  "attic_inv A lst file s \<longleftrightarrow>
     only_list s = lst \<and> object_file s = file \<and>
     effects (tables_at (disk_at s)) (sys_memory s) \<and> adisk_wf (sys_disk s) \<and>
     (lst \<longrightarrow> \<not> bus_shutdown (sys_memory s) \<and> disk_at s \<noteq> Disk_Left) \<and>
     (case main_at s of
        At_Load \<Rightarrow> True
      | At_Run \<Rightarrow> a_files A file \<noteq> None \<and> \<not> lst
      | At_End (Attic_Fault e) \<Rightarrow> if a_files A file = None then e = Null_Deref else e = Out_Of_Bounds 65535
      | At_End (Attic_Exit k) \<Rightarrow>
          a_files A file \<noteq> None \<and> k = 0 \<and> \<not> lst \<and> a_halted (a_machine (sys_world s)) \<and> disk_at s = Disk_Left
      | _ \<Rightarrow> a_files A file \<noteq> None \<and>
          (\<not> lst \<longrightarrow> bus_shutdown (sys_memory s) \<and> a_halted (a_machine (sys_world s))))"

lemma load_ends:
  assumes "effects T m" and "obj \<noteq> None" and "bus_shutdown m = b"
  shows "res_all is_oob (\<lambda>m'. effects T m' \<and> bus_shutdown m' = b)
    (load_program_from_obj (handler_run (Suc n)) junk junk' obj m)"
proof -
  let ?l = "load_program_from_obj (handler_run (Suc n)) junk junk' obj m"
  have 1: "res_all is_oob (effects T) ?l"
    by (rule load_all [OF devices.write_word_all]) (use assms in auto)
  have w: "res_all (\<lambda>_. True) (\<lambda>m. bus_shutdown m = b) (direct_write_word (handler_run (Suc n)) l v m)"
    if "bus_shutdown m = b" for l v m
    using flag_kept(1) [OF that, of "Suc n" l v] by (simp only: keeps_flag_def)
  have 2: "res_all (\<lambda>_. True) (\<lambda>m. bus_shutdown m = b) ?l"
    by (rule load_all [OF w]) (use assms in simp_all)
  with 1 show ?thesis by (cases ?l) auto
qed

text \<open>The dump reads the lower half of the memory, and a side effect that it runs does not fail.\<close>

lemma device_words:
  assumes "effects T m" and "l \<in> {TKS_LOC, TKB_LOC, TPS_LOC, TPB_LOC, RXCS}"
  shows "res_all never (effects T) (direct_write_word run l v m)"
    and "l \<notin> {TKB_LOC, TPB_LOC} \<Longrightarrow> res_all never (\<lambda>(w, m'). effects T m') (direct_read_word run l m)"
  using assms
  by (auto simp: direct_write_quiet direct_read_quiet poke_word_def peek_word_def peek_def poke_def)

lemma handler_never:
  assumes "effects T m"
  shows "res_all never (effects T) (handler_run (Suc n) h m)"
proof (cases h)
  case Read_TKB
  then show ?thesis
    using assms by (auto simp: read_TKB_def clear_TKB_def clear_flags_TKS_def
        intro!: res_all_rbind [where P = "effects T"] device_words)
next
  case Clear_TPB
  then show ?thesis
    using assms by (auto simp: clear_TPB_def
        intro!: res_all_rbind2 [where P = "\<lambda>_. effects T"] res_all_rbind [where P = "effects T"] device_words)
next
  case Clear_RXDB
  then show ?thesis
    using assms by (auto simp: clear_RXDB_def direct_write_word_n_def Let_def poke_word_def poke_def
        intro!: res_all_rbind2 [where P = "\<lambda>_. effects T"] device_words)
next
  case Clear_RXCS
  then show ?thesis
    using assms by (auto simp: clear_RXCS_def direct_write_word_n_def Let_def poke_word_def poke_def
        intro!: res_all_rbind2 [where P = "\<lambda>_. effects T"] device_words)
qed

lemma low_read_never:
  assumes "effects T m" and "l < 32768"
  shows "res_all never (\<lambda>(w, m'). effects T m') (direct_read_word (handler_run (Suc n)) (of_nat l) m)"
proof -
  have u: "unat (of_nat l :: u16) = l" using assms(2) by (simp add: unsigned_of_nat take_bit_nat_eq_self)
  then have "(of_nat l :: u16) \<noteq> INACTIVE_HANDLER_LOC" using assms(2) by auto
  from read_effect_cases [OF assms(1) this, of "handler_run (Suc n)"]
  have "res_all never (effects T) (process_read_side_effects (handler_run (Suc n)) (of_nat l) m)"
    using handler_never [OF assms(1), of n] assms(1) by (auto simp del: handler_run.simps)
  then show ?thesis
    using assms(2) u
    by (auto simp: direct_read_word_def peek_word_def peek_def simp del: handler_run.simps
        intro!: res_all_rbind [where P = "effects T"])
qed

lemma dump_never:
  "effects T m \<Longrightarrow> \<forall>l \<in> set ls. l < 32768 \<Longrightarrow> res_all never (effects T) (dump_reads (handler_run (Suc n)) ls m)"
proof (induction ls arbitrary: m)
  case (Cons l ls)
  then show ?case
    by (auto simp del: handler_run.simps intro!: res_all_rbind2 [where P = "\<lambda>_. effects T"] low_read_never)
qed simp

lemma dump_locs_low: "\<forall>l \<in> set dump_locs. l < 32768"
  by (auto simp: dump_locs_def simp del: upt_rec_numeral)

lemma dump_ends:
  assumes "effects T m" and "bus_shutdown m = b"
  shows "\<exists>m'. a_dump_state (handler_run (Suc n)) m = Inr m' \<and> effects T m' \<and> bus_shutdown m' = b"
proof -
  have "res_all never (effects T) (a_dump_state (handler_run (Suc n)) m)"
    unfolding a_dump_state_def by (rule dump_never [OF assms(1) dump_locs_low])
  moreover have "keeps_flag b (a_dump_state (handler_run (Suc n)) m)"
    unfolding a_dump_state_def by (rule dump_reads_keeps [OF assms(2)])
  ultimately show ?thesis
    by (cases "a_dump_state (handler_run (Suc n)) m") auto
qed

lemma round_ends:
  assumes "effects T m" and "adisk_wf d" and "bus_shutdown m = b"
  shows "\<exists>d' m'. exec_disk_round (handler_run n) d m = Inr (d', m') \<and> adisk_wf d' \<and> effects T m' \<and> bus_shutdown m' = b"
  using round_all [OF assms(2,1), of "handler_run n"] round_keeps [OF assms(3), of n d]
  by (cases "exec_disk_round (handler_run n) d m") (auto simp: disk_ok_def)

lemma attic_start_inv:
  assumes "attic_start (handler_run (Suc n)) A args = Inr s"
    and "attic_options (hd args) args (False, False, None) = (lst, step, disk)"
  shows "attic_inv A lst (last args) s"
proof -
  obtain M where M: "init_machine (handler_run (Suc n)) (a_malloc_ok A) (a_malloc_junk A) step = Inr M"
    and s: "s = \<lparr>main_at = At_Load, sys_world = \<lparr>a_machine = M, stdin_left = a_stdin A, stdout_done = []\<rparr>,
      only_list = lst, object_file = last args, disk_at = Reg_Read,
      sys_disk = new_disk (case disk of None \<Rightarrow> None | Some img \<Rightarrow> a_files A img)\<rparr>"
    using assms by (auto simp: attic_start_def split: if_splits sum.splits simp del: handler_run.simps)
  have ok: "a_malloc_ok A"
    using M by (auto simp: init_machine_def initialize_memory_def split: if_splits)
  with M have M: "init_machine (handler_run (Suc n)) True (a_malloc_junk A) step = Inr M" by simp
  have "\<not> bus_shutdown (a_memory M)" using M by (auto simp: init_machine_effects simp del: handler_run.simps)
  then show ?thesis
    using init_effects(1) [OF M] by (simp add: s attic_inv_def tables_at_def sys_memory_def new_disk_def adisk_wf_def)
qed

lemma main_step_inv:
  assumes "attic_inv A lst file s" and "attic_main_step (handler_run (Suc n)) A s = Some s'"
  shows "attic_inv A lst file s'"
proof (cases "main_at s")
  case At_Load
  let ?T = "tables_at (disk_at s)" and ?b = "bus_shutdown (sys_memory s)"
  have e: "effects ?T (sys_memory s)" and f: "object_file s = file" using assms(1) by (simp_all add: attic_inv_def)
  show ?thesis
  proof (cases "a_files A file")
    case None
    with assms At_Load show ?thesis
      by (auto simp: attic_main_step_def f load_program_from_obj_def attic_inv_def)
  next
    case (Some obj)
    then have "a_files A file \<noteq> None" by simp
    from load_ends [OF e this refl, of n "block_junk A" "text_junk A"] Some assms At_Load show ?thesis
      by (cases "load_program_from_obj (handler_run (Suc n)) (block_junk A) (text_junk A) (Some obj) (sys_memory s)")
        (auto simp: attic_main_step_def f attic_inv_def is_oob_def simp del: handler_run.simps)
  qed
next
  case At_Run
  have e: "effects (tables_at (disk_at s)) (a_memory (a_machine (sys_world s)))"
    using assms(1) by (simp add: attic_inv_def sys_memory_def)
  from devices.cycle_all [OF e, of n] assms At_Run show ?thesis
    by (cases "a_cycle (handler_run (Suc n)) (sys_world s)")
      (auto simp: attic_main_step_def attic_inv_def is_oob_def split: if_splits simp del: handler_run.simps)
next
  case At_Dump
  have e: "effects (tables_at (disk_at s)) (sys_memory s)" using assms(1) by (simp add: attic_inv_def)
  from dump_ends [OF e refl, of n] assms At_Dump show ?thesis
    by (cases "a_dump_state (handler_run (Suc n)) (sys_memory s)")
      (auto simp: attic_main_step_def attic_inv_def is_oob_def simp del: handler_run.simps)
next
  case At_Join
  with assms show ?thesis
    by (auto simp: attic_main_step_def shutdown_machine_def attic_inv_def split: if_splits)
qed (use assms in \<open>simp add: attic_main_step_def\<close>)

lemma disk_step_inv:
  assumes "attic_inv A lst file s" and "\<And>r. main_at s \<noteq> At_End r" and "disk_thread_step (handler_run (Suc n)) s = Some s'"
  shows "attic_inv A lst file s'"
proof (cases "disk_at s")
  case Disk_Loop
  have e: "effects disk_tables (sys_memory s)" and d: "adisk_wf (sys_disk s)"
    using assms(1) Disk_Loop by (simp_all add: attic_inv_def tables_at_def)
  from round_ends [OF e d refl, of "Suc n"] assms Disk_Loop show ?thesis
    by (cases "main_at s")
      (auto simp: disk_thread_step_def attic_inv_def tables_at_def simp del: handler_run.simps split: if_splits)
qed (use assms registered in \<open>cases "main_at s"; auto simp: disk_thread_step_def attic_inv_def tables_at_def split: if_splits\<close>)+

lemma interrupt_inv: "attic_inv A lst file s \<Longrightarrow> (\<And>r. main_at s \<noteq> At_End r) \<Longrightarrow> attic_inv A lst file (handle_user_interrupt s)"
  by (cases "main_at s") (auto simp: attic_inv_def handle_user_interrupt_def A_HALT_def sys_memory_def)

lemma attic_step_alive:
  assumes "attic_step run A t s = Some s'"
  shows "main_at s \<noteq> At_End r"
    and "(case t of Main_Thread \<Rightarrow> attic_main_step run A s | Disk_Thread \<Rightarrow> disk_thread_step run s
      | User_Interrupt \<Rightarrow> Some (handle_user_interrupt s)) = Some s'"
  using assms by (simp_all add: attic_step_def split: main_loc.splits)

lemma attic_step_inv:
  assumes "attic_inv A lst file s" and "attic_step (handler_run (Suc n)) A t s = Some s'"
  shows "attic_inv A lst file s'"
proof (cases t)
  case Main_Thread
  then show ?thesis using main_step_inv [OF assms(1)] attic_step_alive(2) [OF assms(2)] by (simp del: handler_run.simps)
next
  case Disk_Thread
  then show ?thesis
    using disk_step_inv [OF assms(1) attic_step_alive(1) [OF assms(2)]] attic_step_alive(2) [OF assms(2)]
    by (simp del: handler_run.simps)
next
  case User_Interrupt
  then show ?thesis
    using interrupt_inv [OF assms(1) attic_step_alive(1) [OF assms(2)]] attic_step_alive(2) [OF assms(2)] by simp
qed

lemma attic_steps_inv:
  "attic_steps (handler_run (Suc n)) A s s' \<Longrightarrow> attic_inv A lst file s \<Longrightarrow> attic_inv A lst file s'"
  by (induction rule: attic_steps.induct) (auto intro: attic_step_inv simp del: handler_run.simps)

lemma start_fails:
  "attic_start (handler_run (Suc n)) A args = Inl r \<longleftrightarrow>
     args = [] \<and> r = Attic_Exit 1 \<or>
     args \<noteq> [] \<and> \<not> (a_malloc_ok A \<and> disk_malloc_ok A) \<and> r = Attic_Fault Null_Deref"
proof (cases "a_malloc_ok A")
  case True
  then show ?thesis
    by (auto simp: attic_start_def init_machine_effects simp del: handler_run.simps split: prod.splits)
next
  case False
  then have "init_machine (handler_run (Suc n)) False junk step = Inl Null_Deref" for junk step
    by (simp add: init_machine_def initialize_memory_def)
  with False show ?thesis by (auto simp: attic_start_def simp del: handler_run.simps split: prod.splits)
qed


section \<open>The join\<close>

fun attic_run :: "effect_run \<Rightarrow> attic_env \<Rightarrow> attic_tid list \<Rightarrow> attic_sys \<Rightarrow> attic_sys option" where
  "attic_run run A [] s = Some s"
| "attic_run run A (t # ts) s =
     (case attic_step run A t s of None \<Rightarrow> None | Some s' \<Rightarrow> attic_run run A ts s')"

definition joining :: "attic_sys \<Rightarrow> bool" where
  "joining s \<longleftrightarrow> main_at s = At_Join \<or> main_at s = At_End (Attic_Exit 0)"

lemma joining_step:
  assumes "attic_inv A lst file s" and "joining s" and "attic_step (handler_run (Suc n)) A t s = Some s'"
  shows "joining s'"
proof -
  have j: "main_at s = At_Join"
    using assms(2) attic_step_alive(1) [OF assms(3)] by (auto simp: joining_def)
  have e: "effects (tables_at (disk_at s)) (sys_memory s)" "adisk_wf (sys_disk s)"
    using assms(1) by (simp_all add: attic_inv_def)
  show ?thesis
  proof (cases t)
    case Disk_Thread
    with attic_step_alive(2) [OF assms(3)] round_ends [OF e refl, of "Suc n"] j show ?thesis
      by (cases "disk_at s") (auto simp: disk_thread_step_def joining_def simp del: handler_run.simps)
  qed (use attic_step_alive(2) [OF assms(3)] j in
    \<open>auto simp: attic_main_step_def shutdown_machine_def joining_def handle_user_interrupt_def split: if_splits\<close>)
qed

fun disk_rank :: "disk_thread_loc \<Rightarrow> nat" where
  "disk_rank Reg_Read = 4" | "disk_rank Reg_Write = 3" | "disk_rank Disk_Enter = 2" | "disk_rank Disk_Loop = 1"
| "disk_rank Disk_Left = 0"

definition join_rank :: "attic_sys \<Rightarrow> nat" where
  "join_rank s = (if main_at s = At_Join then 1 else 0) + disk_rank (disk_at s)"

lemma join_rank_step:
  assumes "attic_inv A False file s" and "joining s" and "attic_step (handler_run (Suc n)) A t s = Some s'"
  shows "join_rank s' + (if t = User_Interrupt then 0 else 1) \<le> join_rank s"
proof -
  have j: "main_at s = At_Join"
    using assms(2) attic_step_alive(1) [OF assms(3)] by (auto simp: joining_def)
  then have e: "effects (tables_at (disk_at s)) (sys_memory s)" "adisk_wf (sys_disk s)" "bus_shutdown (sys_memory s)"
    using assms(1) by (simp_all add: attic_inv_def)
  show ?thesis
  proof (cases t)
    case Disk_Thread
    with attic_step_alive(2) [OF assms(3)] round_ends [OF e(1,2) refl, of "Suc n"] e(3) j show ?thesis
      by (cases "disk_at s") (auto simp: disk_thread_step_def join_rank_def simp del: handler_run.simps)
  qed (use attic_step_alive(2) [OF assms(3)] j in
    \<open>auto simp: attic_main_step_def shutdown_machine_def join_rank_def handle_user_interrupt_def split: if_splits\<close>)
qed

lemma joining_run:
  assumes "attic_run (handler_run (Suc n)) A ts s = Some s'" and "attic_inv A lst file s" and "joining s"
  shows "attic_inv A lst file s' \<and> joining s' \<and>
    (\<not> lst \<longrightarrow> join_rank s' + length (filter (\<lambda>t. t \<noteq> User_Interrupt) ts) \<le> join_rank s)"
  using assms
proof (induction ts arbitrary: s)
  case (Cons t ts)
  from Cons.prems(1) obtain s1 where 1: "attic_step (handler_run (Suc n)) A t s = Some s1"
    "attic_run (handler_run (Suc n)) A ts s1 = Some s'" by (auto split: option.splits simp del: handler_run.simps)
  from Cons.IH [OF 1(2) attic_step_inv [OF Cons.prems(2) 1(1)] joining_step [OF Cons.prems(2,3) 1(1)]]
    join_rank_step [of A "file" s, OF _ Cons.prems(3) 1(1)] Cons.prems(2)
  show ?case by (cases lst) (auto split: if_splits)
qed simp

lemma listing_goes_on:
  assumes "attic_inv A True file s" and "joining s"
  shows "main_at s = At_Join \<and> (\<exists>s'. attic_step (handler_run (Suc n)) A Disk_Thread s = Some s')"
proof -
  have j: "main_at s = At_Join" using assms by (auto simp: joining_def attic_inv_def)
  moreover have "disk_at s \<noteq> Disk_Left" using assms(1) by (simp add: attic_inv_def)
  ultimately show ?thesis
    by (cases "disk_at s") (simp_all add: attic_step_def disk_thread_step_def del: handler_run.simps)
qed

lemma join_stuck:
  assumes "joining s" and "attic_step run A Main_Thread s = None" and "attic_step run A Disk_Thread s = None"
  shows "main_at s = At_End (Attic_Exit 0)"
  using assms
  by (cases "disk_at s")
    (auto simp: joining_def attic_step_def attic_main_step_def shutdown_machine_def disk_thread_step_def
      split: if_splits)

text \<open>
  Property C23. The end of the former machine hangs after a listing. When the main thread has
  come to the join of the disk thread, whatever the schedule and the interrupts: after a program
  has run at most 5 further steps of the two threads are possible, and when none is possible
  the process has exited with status 0; but with the option \<open>-l\<close> nothing has set the flag for the
  disk thread, which goes round for ever, and the main thread never leaves the join.
\<close>

theorem disk_thread_joined:
  assumes "attic_options (hd args) args (False, False, None) = (list_only, step, disk)"
    and "attic_start (handler_run (Suc n)) A args = Inr s0" and "attic_steps (handler_run (Suc n)) A s0 s"
    and "main_at s = At_Join" and "attic_run (handler_run (Suc n)) A ts s = Some s'"
  shows "if list_only
    then main_at s' = At_Join \<and> (\<exists>s''. attic_step (handler_run (Suc n)) A Disk_Thread s' = Some s'')
    else length (filter (\<lambda>t. t \<noteq> User_Interrupt) ts) \<le> 5 \<and>
      (attic_step (handler_run (Suc n)) A Main_Thread s' = None \<and>
       attic_step (handler_run (Suc n)) A Disk_Thread s' = None \<longrightarrow> main_at s' = At_End (Attic_Exit 0))"
proof -
  have j: "joining s" using assms(4) by (simp add: joining_def)
  have "join_rank s \<le> 5" by (cases "disk_at s") (simp_all add: join_rank_def)
  with joining_run [OF assms(5) attic_steps_inv [OF assms(3) attic_start_inv [OF assms(2,1)]] j]
    listing_goes_on [of A _ s' n] join_stuck [of s' "handler_run (Suc n)" A]
  show ?thesis by (cases list_only) auto
qed

text \<open>
  An environment whose files are all empty. A run that is interrupted before its first
  instruction, and a listing.
\<close>

definition attic_sample :: attic_env where
  "attic_sample = \<lparr>a_malloc_ok = True, a_malloc_junk = bare_memory, disk_malloc_ok = True, a_files = (\<lambda>_. Some []),
     block_junk = (\<lambda>_. (0, 0, 0)), text_junk = (0, 0, 0, 0, 0, 0), a_stdin = []\<rparr>"

lemma empty_object: "load_program_from_obj run (\<lambda>_. (0, 0, 0)) junk' (Some []) m = Inr m"
  by (simp add: load_program_from_obj_def skip_blocks.simps is_text_block_def ofread_def ofread_word_def Let_def)

lemma attic_run_steps: "attic_run run A ts s = Some s' \<Longrightarrow> attic_steps run A s0 s \<Longrightarrow> attic_steps run A s0 s'"
proof (induction ts arbitrary: s)
  case (Cons t ts)
  then show ?case by (auto split: option.splits intro: attic_next)
qed simp

lemma attic_run_append: "attic_run run A (ts @ ts') s = (case attic_run run A ts s of None \<Rightarrow> None | Some s' \<Rightarrow> attic_run run A ts' s')"
  by (induction ts arbitrary: s) (auto split: option.splits)

lemma sample_started:
  assumes "attic_options (hd args) args (False, False, None) = (lst, False, None)" and "args \<noteq> []"
  shows "\<exists>s0. attic_start (handler_run 1) attic_sample args = Inr s0 \<and> main_at s0 = At_Load \<and> disk_at s0 = Reg_Read \<and>
    only_list s0 = lst"
  using assms by (simp add: attic_start_def attic_sample_def init_machine_effects del: handler_run.simps)

lemma sample_loads:
  "main_at s = At_Load \<Longrightarrow> attic_step (handler_run 1) attic_sample Main_Thread s =
     Some ((put_memory (sys_memory s) s)\<lparr>main_at := (if only_list s then At_Dump else At_Run)\<rparr>)"
  by (simp add: attic_step_def attic_main_step_def attic_sample_def empty_object del: handler_run.simps)

lemma sample_dumps:
  assumes "main_at s = At_Dump" and "attic_inv attic_sample lst file s"
  shows "\<exists>m. attic_step (handler_run 1) attic_sample Main_Thread s = Some ((put_memory m s)\<lparr>main_at := At_Join\<rparr>) \<and>
    bus_shutdown m = bus_shutdown (sys_memory s)"
proof -
  have "effects (tables_at (disk_at s)) (sys_memory s)" using assms(2) by (simp add: attic_inv_def)
  from dump_ends [OF this refl, of 0] assms(1) show ?thesis
    by (auto simp: attic_step_def attic_main_step_def simp del: handler_run.simps)
qed


theorem disk_thread_joined_witness:
  "\<exists>s0 s. attic_start (handler_run 1) attic_sample [''-l'', ''prog''] = Inr s0 \<and>
     attic_run (handler_run 1) attic_sample [Main_Thread, Main_Thread] s0 = Some s \<and> main_at s = At_Join \<and>
     (\<exists>s'. attic_step (handler_run 1) attic_sample Disk_Thread s = Some s')"
proof -
  let ?run = "handler_run (Suc 0)"
  have o: "attic_options (hd [''-l'', ''prog'']) [''-l'', ''prog''] (False, False, None) = (True, False, None)"
    by (simp add: has_prefix_def)
  obtain s0 where s0: "attic_start ?run attic_sample [''-l'', ''prog''] = Inr s0" "main_at s0 = At_Load" "only_list s0"
    using sample_started [OF o] by auto
  let ?s1 = "(put_memory (sys_memory s0) s0)\<lparr>main_at := At_Dump\<rparr>"
  have s1: "attic_step ?run attic_sample Main_Thread s0 = Some ?s1" using sample_loads [OF s0(2)] s0(3) by simp
  have inv: "attic_inv attic_sample True (last [''-l'', ''prog'']) ?s1"
    by (rule attic_step_inv [OF attic_start_inv [OF s0(1) o] s1])
  obtain m where m: "attic_step ?run attic_sample Main_Thread ?s1 = Some ((put_memory m ?s1)\<lparr>main_at := At_Join\<rparr>)"
    using sample_dumps [OF _ inv] by auto
  let ?s = "(put_memory m ?s1)\<lparr>main_at := At_Join\<rparr>"
  have r: "attic_run ?run attic_sample [Main_Thread, Main_Thread] s0 = Some ?s" using s1 m by simp
  have "\<exists>s'. attic_step ?run attic_sample Disk_Thread ?s = Some s'"
    using disk_thread_joined [OF o s0(1) attic_run_steps [OF r attic_refl], of "[]" ?s] by simp
  with s0(1) r show ?thesis by auto
qed

end
