(* ===== verification/Obj_Tools.thy ===== *)
theory Obj_Tools
  imports Load Obj_File
begin

text \<open>
  Two small tools: the reader of object files \<open>src/src/libobj/obj.c\<close>, which walks through a file
  and discards what it reads, and \<open>src/src/utilities/loader.c\<close>, which prints an a.out file.
\<close>

section \<open>The reader of object files\<close>

text \<open>
  Here the data of a block is skipped with \<open>fseek\<close>, whose distance is negative for a length
  below 5. \<open>junk\<close> is what a call finds in its variables.
\<close>

definition obj_is_text_block :: "u8 \<times> u8 \<times> u16 \<Rightarrow> ofile \<Rightarrow> bool \<times> ofile" where
  "obj_is_text_block junk f =
     (case junk of (b1, b2, len) \<Rightarrow>
        (let (b1, f) = ofread b1 f;
             (b2, f) = ofread b2 f;
             (len, f) = ofread_word len f;
             (b1, f) = ofread b1 f
         in if b1 \<noteq> 3 then (False, snd (ofread 0 (ofseek (int (unat len) - 5) f)))
            else (True, ofseek (- 5) f)))"

definition obj_load_text_block :: "u16 \<Rightarrow> ofile \<Rightarrow> ofile" where
  "obj_load_text_block len f =
     (let f = ofskip 2 f;
          (len, f) = ofread_word len f;
          f = ofskip 4 f;
          len = len - 8;
          f = ofskip (2 * ((unat len + 1) div 2)) f
      in snd (ofread 0 f))"

text \<open>The loop of \<open>read\<close>; \<open>junk n\<close> is what round \<open>n\<close> finds in the variables of its calls.\<close>

partial_function (option) obj_loop :: "(nat \<Rightarrow> (u8 \<times> u8 \<times> u16) \<times> u16) \<Rightarrow> nat \<Rightarrow> ofile \<Rightarrow> ofile option" where
  "obj_loop junk n f =
     (if of_eof f then Some f
      else
        (let r = obj_is_text_block (fst (junk n)) f;
             f = (if fst r then obj_load_text_block (snd (junk n)) (snd r) else snd r)
         in obj_loop junk (n + 1) f))"

definition obj_read :: "(nat \<Rightarrow> (u8 \<times> u8 \<times> u16) \<times> u16) \<Rightarrow> u8 list option \<Rightarrow> (ofile res) option" where
  "obj_read junk f =
     (case f of
        None \<Rightarrow> Some (Inl Null_Deref)
      | Some bytes \<Rightarrow>
          map_option Inr (obj_loop junk 0 \<lparr>of_bytes = bytes, of_pos = 0, of_eof = False\<rparr>))"

section \<open>The loader\<close>

text \<open>The loop over the words of the text.\<close>

fun print_words :: "nat \<Rightarrow> nat \<Rightarrow> u16 list option \<Rightarrow> u16 list res" where
  "print_words 0 i ws = Inr []"
| "print_words (Suc k) i ws =
     (case ws of
        None \<Rightarrow> Inl Null_Deref
      | Some ws \<Rightarrow>
          (if i < length ws then rbind (print_words k (i + 1) (Some ws)) (\<lambda>out. Inr (ws ! i # out))
           else Inl (Out_Of_Bounds (int i))))"

text \<open>The numbers that the program prints; \<open>None\<close> when it exits with a failure.\<close>

definition loader_main :: "os \<Rightarrow> string list \<Rightarrow> (u16 list res) option" where
  "loader_main E args =
     (case args of
        [] \<Rightarrow> None
      | obj_file # _ \<Rightarrow>
          (case aout_read E obj_file of
             None \<Rightarrow> None
           | Some aout \<Rightarrow>
               Some (rbind (print_words (unat (drop_bit 1 (a_text (header aout)))) 0 (text_ptr aout))
                       (\<lambda>out. Inr (header_refs (header aout) @ out)))))"

lemma print_words_ok:
  "i + k \<le> length ws \<Longrightarrow> print_words k i (Some ws) = Inr (take k (drop i ws))"
  by (induction k arbitrary: i) (simp_all add: Cons_nth_drop_Suc [symmetric])

lemma read_words_length: "read_words olds f = (Some ws, f') \<Longrightarrow> length ws = length olds"
  by (induction olds f arbitrary: ws f' rule: read_words.induct) (auto split: prod.splits option.splits)

lemma aout_read_text_length:
  "aout_read E p = Some aout \<Longrightarrow>
     \<exists>ws. text_ptr aout = Some ws \<and> length ws = unat (drop_bit 1 (a_text (header aout)))"
  by (auto simp: aout_read_def aout_read_text_def Let_def split: option.splits prod.splits if_splits
      dest!: read_words_length)

text \<open>
  The loader prints every file that \<open>aout_read\<close> accepts: the eight fields of the
  header and then exactly the words of the text; it never reads beyond the text, even where the
  file is truncated.
\<close>

theorem loader_prints:
  "loader_main E (p # args) =
     (case aout_read E p of
        None \<Rightarrow> None
      | Some aout \<Rightarrow> Some (Inr (header_refs (header aout) @ the (text_ptr aout))))"
  using aout_read_text_length [of E p]
  by (auto simp: loader_main_def print_words_ok split: option.split)

section \<open>Files of zeros\<close>

definition at :: "u8 list \<Rightarrow> nat \<Rightarrow> ofile" where
  "at bs i = \<lparr>of_bytes = bs, of_pos = i, of_eof = False\<rparr>"

lemma zeros_step:
  assumes "i + 5 \<le> n"
  shows "obj_is_text_block j (at (replicate n 0) i) = (False, at (replicate n 0) (i + 1))"
  using assms
  by (cases j) (simp add: obj_is_text_block_def ofread_word_def ofread_def at_def ofseek_def Let_def
      le_word_def)

text \<open>Four bytes before the end the round comes back to where it began.\<close>

lemma zeros_stuck:
  assumes "5 \<le> n"
  shows "obj_is_text_block j (at (replicate n 0) (n - 4)) = (False, at (replicate n 0) (n - 4))"
proof -
  from assms obtain k where "n = k + 5" by (metis add.commute le_Suc_ex)
  then show ?thesis
    by (cases j) (simp add: obj_is_text_block_def ofread_word_def ofread_def at_def ofseek_def Let_def
        le_word_def nth_append)
qed

lemma obj_loop_stuck:
  assumes "obj_loop junk n f = Some r" and "5 \<le> k"
  shows "f \<noteq> at (replicate k 0) (k - 4)"
proof (rule obj_loop.raw_induct [where P = "\<lambda>junk n f r. f \<noteq> at (replicate k 0) (k - 4)", OF _ assms(1)])
  fix g :: "(nat \<Rightarrow> (u8 \<times> u8 \<times> u16) \<times> u16) \<Rightarrow> nat \<Rightarrow> ofile \<Rightarrow> ofile option" and junk n f r
  assume IH: "\<And>junk n f r. g junk n f = Some r \<Longrightarrow> f \<noteq> at (replicate k 0) (k - 4)"
    and step: "(if of_eof f then Some f
      else let r = obj_is_text_block (fst (junk n)) f;
               f = if fst r then obj_load_text_block (snd (junk n)) (snd r) else snd r
           in g junk (n + 1) f) = Some r"
  show "f \<noteq> at (replicate k 0) (k - 4)"
  proof
    assume f: "f = at (replicate k 0) (k - 4)"
    then have "g junk (n + 1) f = Some r"
      using step zeros_stuck [OF assms(2), of "fst (junk n)"] by (simp add: at_def)
    with IH f show False by blast
  qed
qed

lemma obj_loop_advances:
  "i + 5 \<le> n \<Longrightarrow> obj_loop junk k (at (replicate n 0) i) = obj_loop junk (k + 1) (at (replicate n 0) (i + 1))"
  using zeros_step [of i n "fst (junk k)"] by (subst obj_loop.simps) (simp add: at_def)

lemma obj_loop_zeros: "i + 4 \<le> n \<Longrightarrow> 5 \<le> n \<Longrightarrow> obj_loop junk k (at (replicate n 0) i) = None"
proof (induction "n - i" arbitrary: i k)
  case (Suc d)
  show ?case
  proof (cases "i + 4 = n")
    case True
    then have "i = n - 4" by simp
    with obj_loop_stuck [OF _ Suc.prems(2)] show ?thesis by (metis not_None_eq)
  next
    case False
    with Suc.prems(1) have i: "i + 5 \<le> n" by simp
    with Suc.hyps(1) [of "i + 1" "k + 1"] Suc.hyps(2) Suc.prems show ?thesis
      by (simp add: obj_loop_advances)
  qed
qed simp

text \<open>
  Property C30. The reader of object files does not return from a file of five or more zero
  bytes, such as the padding of a block device: four bytes before the end, where the length word
  is zero, \<open>fseek\<close> goes back by five and clears the indicator of the end of the file.
\<close>

theorem obj_read_hangs:
  assumes "5 \<le> n"
  shows "obj_read junk (Some (replicate n 0)) = None"
  using obj_loop_zeros [of 0 n junk 0] assms by (simp add: obj_read_def at_def)

theorem obj_read_hangs_witness: "obj_read (\<lambda>_. ((0, 0, 0), 0)) (Some (replicate 512 0)) = None"
  by (rule obj_read_hangs) simp

end
