(* ===== verification/Spec2Isabelle.thy ===== *)
theory Spec2Isabelle
  imports Cpu_Properties Cpu_Operands Unibus_Properties Disk_Bus Priority_System Mastership Topology
    Attic_Tty Attic_Semantics Attic_Disk Attic_Load Attic_Start Obj_Tools
begin

text \<open>
  A PDP-11-like machine whose processor, memory and devices are processes that talk over
  datagram sockets (\<open>src/src\<close>). This development models the C code of its parts and
  proves what they do, together and alone.

  \<^bold>\<open>The program.\<close> The CPU process (\<open>cpu/cpu.c\<close>) fetches, decodes and executes
  instructions; every access to memory is a transfer on the data bus. The memory process
  (\<open>mem/mem.c\<close>) loads an a.out file (\<open>libload\<close>) and serves transfers. The bus library
  (\<open>libunibus\<close>) runs two threads in each process: the data bus (\<open>data_bus.c\<close>) moves
  transfers between a process and its neighbours; the priority bus (\<open>priority_bus.c\<close>, and in
  the CPU process the arbiter \<open>bus_arb.c\<close>) passes requests and grants for bus mastership.
  \<open>device_bus_mgr.c\<close> holds the state that the threads share with their device, and the calls
  through which a device uses the bus. The floppy disk (\<open>disk/disk.c\<close>) is a further device.

  \<^bold>\<open>The theories\<close>, in the order in which they build on one another:
  \<^item> \<open>Prelude\<close>: machine words, failures, the result type and its rules.
  \<^item> \<open>Load\<close>: \<open>libload/load.c\<close>. The file system is a parameter (the content of a file, how
    many reads succeed, whether allocation and close do). Reading inverts the file format; all
    error branches; truncated files.
  \<^item> \<open>Bus_Iface\<close>: the interface \<open>bus_ops\<close> of a bus as its master sees it, and the locale
    \<open>bus_memory\<close> with the laws of a memory behind it.
  \<^item> \<open>Bus_State\<close>: \<open>bus_state.h\<close> and the operations of \<open>device_bus_mgr.c\<close> on the shared state.
    A call that waits is split into the part before and the part after the wait.
  \<^item> \<open>Mem\<close>: \<open>mem/mem.c\<close>, with every array access checked; it meets \<open>bus_memory\<close>.
  \<^item> \<open>Cpu_State\<close>, \<open>Cpu_Addr\<close>, \<open>Cpu_Instr\<close>: the state, the addressing modes, all
    instructions and the loop of \<open>cpu/cpu.c\<close>, over an arbitrary bus. \<open>Cpu_Safety\<close> states in the
    locale \<open>cpu_bus\<close> what the CPU needs of a bus and proves that it never dereferences a null
    register pointer; \<open>Cpu_Decode\<close> proves the decoder unambiguous; \<open>Cpu_Semantics\<close> compares the
    instructions with a reference arithmetic; \<open>Cpu_Run\<close> relates the loop to finite runs of
    cycles; \<open>Cpu_Properties\<close> holds the properties of the CPU. \<open>Cpu_Modes\<close> compares the addressing
    modes with those of the PDP-11, \<open>Cpu_Operands\<close> lifts the reference arithmetic to operands in
    registers and in memory, \<open>Programs\<close> runs a program with a loop.
  \<^item> \<open>Sockets\<close>, \<open>Data_Bus\<close>: the sockets and \<open>data_bus.c\<close>. \<open>Unibus\<close> composes the CPU process and
    the memory process, two threads each, as a step function per thread; a schedule is any list
    of threads. \<open>Unibus_Inv\<close> proves an invariant over all interleavings; \<open>Unibus_Bus\<close> builds the
    bus that a master sees from it and interprets \<open>bus_memory\<close> and \<open>cpu_bus\<close> there; \<open>Bus_Refine\<close>
    relates the runs of the CPU over two buses; \<open>Unibus_Properties\<close> holds the properties.
  \<^item> \<open>Signals\<close>: the messages of the priority bus, and the table of open files, because
    \<open>priority_bus.c\<close> writes to descriptors that it took from its state before opening them.
    \<open>Bus_Arb\<close> and \<open>Priority_Bus\<close> model the two threads round by round, \<open>Priority_System\<close> their
    composition with any number of devices as a step relation. \<open>Mastership\<close> adds the main thread
    of a device, which waits in \<open>req_bus_master\<close> and \<open>release_bus_master\<close>.
  \<^item> \<open>Disk\<close>: \<open>disk/disk.c\<close>; the locale \<open>block_media\<close> states what it relies on of a file.
    \<open>Disk_Bus\<close> runs its loop beside its data bus thread.
  \<^item> \<open>Connect\<close>: \<open>connect_cpu_bus\<close> and \<open>connect_device_bus\<close>, the main thread and the two threads it
    creates as a step relation, and the function \<open>connect_bus\<close> of their outcomes. \<open>Process\<close>: the
    command lines (\<open>getopt\<close>, \<open>strtoul\<close>), \<open>main\<close> and the signal handlers of the CPU, the memory and
    the disk. \<open>Shutdown\<close>: the two threads and \<open>cleanup_bus\<close>, which joins them; the locale
    \<open>bus_thread\<close> states what it needs of a thread's rounds. \<open>Boot\<close> joins the memory and the CPU
    process as their \<open>main\<close> functions leave them, \<open>Topology\<close> all three on the data bus.
  \<^item> \<open>Obj_Tools\<close>: the reader of object files \<open>libobj/obj.c\<close>, over the files of \<open>Obj_File\<close>, and
    \<open>utilities/loader.c\<close>.
  \<^item> \<open>Attic_Mem\<close>, \<open>Attic_Addr\<close>, \<open>Attic_Cpu\<close>, \<open>Attic_Machine\<close>: the former machine in one process
    (\<open>src/attic/src\<close>), whose registers and devices lie in the memory and whose reads and writes
    can call functions of the devices: \<open>memory.c\<close>, the addressing modes and the instructions of
    \<open>handlers.c\<close>, \<open>tty.c\<close> and \<open>machine.c\<close>. \<open>Attic_Load\<close> holds its assembler and its loaders
    (\<open>asm.c\<close>, \<open>machine.c\<close>, \<open>objreader.c\<close>, over the files of \<open>Obj_File\<close>), \<open>Attic_Disk\<close> its disk
    (\<open>disk.c\<close>). The locale \<open>effect_calls\<close> states what the machine needs of the functions in the
    tables of side effects; \<open>Attic_Safety\<close> uses it, \<open>Attic_Start\<close> models \<open>main\<close> with its options
    and the end of the program, \<open>Attic_Tty\<close> follows the keys and the printed bytes, and
    \<open>Attic_Semantics\<close> compares the instructions with those of \<open>cpu/cpu.c\<close>.

  \<^bold>\<open>What is proved.\<close> Of the CPU: its safety on the memory device, the equivalence of its loop
  with finite runs, the decoder, which addressing modes are those of the PDP-11 and which are
  not, the word instructions on operands in registers and in memory, branches and subroutine
  calls. Of the bus: that the CPU over the two processes behaves as over a flat memory; that a
  transfer that returns was performed exactly, in every interleaving, and that a schedule
  completes it; that the arbiter implements a machine on signals; that a device takes and
  releases the bus as it asks. Of the processes: exactly how connecting to the bus can end, and
  when leaving it does; that the memory and the CPU, from their command lines, run a program
  with a loop to its end; what a signal does to the CPU. Of the disk: its transfers as round
  trips, and that on the bus it does not see what it is asked. Of the former machine: that a run
  stops only by halting or at the one byte that its memory lacks, how the program ends, that its
  instructions on registers agree with those of the new processor, that a source of octal words
  and an object file end up in the memory as they should, that a printed byte passes the
  terminal once. Other properties pin down where the code fails to do what it means to, each
  with an input on which it happens.

  \<^bold>\<open>Termination and fuel.\<close> \<open>execute\<close> is a \<open>partial_function\<close>: a run that does not halt is the
  value \<open>None\<close>, and a bus cycle that nobody answers is the failure \<open>Bus_Hang\<close>. Runs of threads
  are lists of steps, so no fuel is needed; the schedule that \<open>Unibus_Bus\<close> uses for one transfer
  (\<open>round_trip\<close>) is proved to complete it. Loops of the other threads are modelled as one round
  and the run over a list of inputs. Calls of side effects in the former machine nest as deep as
  the argument of \<open>handler_run\<close> allows; depth 1 is proved to be enough. \<open>run_machine\<close> is a
  \<open>partial_function\<close> like \<open>execute\<close>, and so is \<open>obj_loop\<close>, which need not end. The assembler's
  loop and the search for a block of text end because they consume the file; a comment without
  an end, which the assembler reads for ever, is the value \<open>None\<close>. \<open>getopt_scan\<close> consumes the
  command line. The step relation of \<open>Connect\<close> ends in every interleaving, by a measure on the
  places of the three threads, as does that of \<open>Shutdown\<close>.

  \<^bold>\<open>Not modelled.\<close> Printing (\<open>usage\<close>, \<open>dump_cpu\<close>, \<open>debug.c\<close>); spurious wake-ups and limits of
  socket buffers; names too long for a socket path. Command lines are read as POSIX has it, up
  to the first operand. A signal is delivered to the main thread, between two cycles of the CPU
  and outside the critical sections. The terminal (\<open>tty/tty.c\<close>) is commented out in the source.
  Of \<open>src/attic\<close>, the terminal modes and the interleaving of the disk thread with the processor
  within a round: the actions of the processor come between rounds.
\<close>

section \<open>From the file to the processor\<close>

lemma loaded_word:
  assumes "load_aout obj 0 m = Inr b" and "text_ptr obj = Some ws"
    and "k = unat (a_text (header obj)) div 2" and "k \<le> length ws" and "i < k"
  shows "mem_word b (2 * i) = ws ! i"
proof -
  have k: "unat (drop_bit 1 (a_text (header obj))) = k" using assms(3) by (simp only: unat_half)
  have "k \<le> 32767" using assms(3) unat_u16_less [of "a_text (header obj)"] by simp
  then have "load_loop k 0 (int 0) obj m = Inr (overlay 0 (2 * k) (\<lambda>j. text_byte ws (2 * 0 + j)) m)"
    using assms(2,4) by (intro load_loop_ok) auto
  with assms(1) k have "b = overlay 0 (2 * k) (text_byte ws) m" by (simp add: load_aout_def)
  with assms(5) show ?thesis by (simp add: mem_word_def overlay_def text_byte_def)
qed

text \<open>
  From the file to the fetch: after an a.out file is read and loaded at offset
  0, the CPU on the memory device fetches word \<open>i\<close> of the file's text at address \<open>2 * i\<close>, for
  every word of the text below the memory window of 512 bytes.
\<close>

theorem loaded_text_is_fetched:
  assumes "files E p = Some f" and "reads_left f = None"
    and "malloc_ok E" and "calloc_ok E" and "close_ok E"
    and "fbytes f = aout_image h ws @ rest" and "unat (a_text h) div 2 = length ws"
    and "i < length ws" and "2 * i < 512"
  shows "\<exists>obj b. aout_read E p = Some obj \<and> load_aout obj 0 m = Inr b \<and>
    fetch_data mem_bus (word_of_nat (2 * i)) (init_cpu b) = Inr (ws ! i, init_cpu b)"
proof -
  let ?obj = "\<lparr>header = h, text_ptr = Some ws\<rparr>"
  have "h = header_of_refs (words_of (header_refs (junk_header E)) (fbytes f))"
    using assms(6) by (simp add: header_of_image)
  from aout_read_ok [OF assms(1-5) this] have r: "aout_read E p = Some ?obj"
    using assms(6,7) by (simp add: drop_header words_of_image unat_half [simplified] del: drop_append)
  have "length ws \<le> 32767" using assms(7) unat_u16_less [of "a_text h"] by linarith
  then obtain b where b: "load_aout ?obj 0 m = Inr b"
    using load_loop_ok [of ?obj ws 0 "length ws" 0 m] unat_half [of "a_text h"] assms(7)
    by (auto simp: load_aout_def)
  have "mem_word b (2 * i) = ws ! i"
    using loaded_word [OF b] assms(7,8) by simp
  moreover have "unat (word_of_nat (2 * i) :: u32) = 2 * i"
    using assms(9) by (simp only: unsigned_of_nat) (simp add: take_bit_nat_eq_self)
  ultimately have "fetch_data mem_bus (word_of_nat (2 * i)) (init_cpu b) = Inr (ws ! i, init_cpu b)"
    using assms(9) by (simp only: fetch_low) (simp add: init_cpu_def)
  with r b show ?thesis by blast
qed

theorem loaded_text_is_fetched_witness:
  "\<exists>obj b. aout_read (file_os (aout_image (text_header 4) [0x15C0, 7])) ''a.out'' = Some obj \<and>
    load_aout obj 0 (program_mem []) = Inr b \<and>
    fetch_data mem_bus 2 (init_cpu b) = Inr (7, init_cpu b)"
  using loaded_text_is_fetched [OF file_os_ok(1), of "aout_image (text_header 4) [0x15C0, 7]"
    "text_header 4" "[0x15C0, 7]" "[]" 1 "''a.out''" "program_mem []"]
  by simp

text \<open>
  A program runs to its end and computes what it should: the a.out file of
  \<open>MOV #x, R0; MOV #y, R1; ADD R0, R1; HALT\<close>, read, loaded at 0 and executed from reset,
  makes the loop \<open>execute\<close> return in a halted state with \<open>x + y\<close> (modulo 65536) in R1 and the
  flags Z and N of that sum, for all words \<open>x\<close> and \<open>y\<close> and whatever the memory held before.
\<close>

theorem add_program_end_to_end:
  "\<exists>obj b m'. aout_read (file_os (aout_image (text_header 12) [0x15C0, x, 0x15C1, y, 0x6001, 0])) p = Some obj \<and>
    load_aout obj 0 m = Inr b \<and> execute mem_bus (init_cpu b) = Some (Inr m') \<and>
    halted m' = 1 \<and> r0 m' = x \<and> r1 m' = x + y \<and> BUS_REF m' = b \<and>
    Z_flag m' = (x + y = 0) \<and> N_flag m' = bit (x + y) 15"
proof -
  let ?ws = "[0x15C0, x, 0x15C1, y, 0x6001, 0]"
  let ?obj = "\<lparr>header = text_header 12, text_ptr = Some ?ws\<rparr>"
  have r: "aout_read (file_os (aout_image (text_header 12) ?ws)) p = Some ?obj"
    using aout_read_ok [OF file_os_ok(1) _ _ _ _ refl, of "aout_image (text_header 12) ?ws" p]
      header_of_image [of _ "text_header 12" ?ws "[]"] drop_header [of "text_header 12" ?ws "[]"]
      words_of_image [of "replicate 6 0" ?ws "[]"]
    by simp
  obtain b where b: "load_aout ?obj 0 m = Inr b"
    using load_loop_ok [of ?obj ?ws 0 6 0 m] by (auto simp: load_aout_def)
  have "mem_word b (2 * i) = ?ws ! i" if "i < 6" for i
    using loaded_word [OF b, of ?ws 6 i] that by simp
  from this [of 0] this [of 1] this [of 2] this [of 3] this [of 4] this [of 5]
  obtain m' where "run mem_bus (init_cpu b) [Some MOV_op, Some MOV_op, Some ADD_op, None] m'"
    and m': "halted m' = 1" "r0 m' = x" "r1 m' = x + y" "BUS_REF m' = b"
      "Z_flag m' = (x + y = 0)" "N_flag m' = bit (x + y) 15"
    using add_program [of b x y] by auto
  then have "execute mem_bus (init_cpu b) = Some (Inr m')"
    using execute_run execute_final [of mem_bus m' "Inr m'"] by (metis final_def zero_neq_one)
  with r b m' show ?thesis by blast
qed

end
